(* ===== verification/Prelude.thy ===== *)
theory Prelude
  imports Main
    "HOL-Library.Multiset" "HOL-Library.Char_ord" "HOL-Library.List_Lexorder"
    "HOL-Library.AList" "HOL-Library.Sublist"
begin

text \<open>
  Shared vocabulary of the development: Go values and errors, the parts of the Go standard
  library the sources use (sorting, decimal printing, a format string printed with no
  arguments), and the generic facts on lists and association lists that the component
  theories rely on.

  Conventions used everywhere:
  \<^item> a Go pointer that may be nil is an \<open>option\<close>;
  \<^item> a Go \<open>map\<close> is an association list with distinct keys. Its order stands for the order
    in which a \<open>range\<close> loop happens to visit the map; the theorems quantify over it;
  \<^item> a call that returns \<open>(value, error)\<close> returns a sum, \<open>Inl\<close> the error;
  \<^item> instants (\<open>metav1.Time\<close>, \<open>time.Time\<close>) are integers counting nanoseconds from
    Go's zero instant, so \<open>IsZero\<close> is equality with 0, and \<open>*metav1.Time\<close> is an option
    whose comparisons are nil-safe.
\<close>

named_theorems go_simps \<open>unfolding rules of the small helpers of the model\<close>

subsection \<open>Errors\<close>

datatype error =
    NotFound string
  | AlreadyExists string
  | ErrClusterLocked
  | ErrControlPlaneMinNodes
  | ErrDependentCertificateNotFound
  | RemoteClusterConnectionError string error
  | Panic string
  | Err string
  | Wrap string error
  | Aggregate "error list"

text \<open>
  \<open>apierrors.IsNotFound\<close> looks through wrapped errors; an aggregate is not looked into.
  \<open>errors.Is\<close> against a sentinel does look into aggregates.
\<close>

fun IsNotFound :: "error \<Rightarrow> bool" where
  "IsNotFound (NotFound _) = True"
| "IsNotFound (Wrap _ e) = IsNotFound e"
| "IsNotFound (RemoteClusterConnectionError _ e) = IsNotFound e"
| "IsNotFound _ = False"

fun IsAlreadyExists :: "error \<Rightarrow> bool" where
  "IsAlreadyExists (AlreadyExists _) = True"
| "IsAlreadyExists (Wrap _ e) = IsAlreadyExists e"
| "IsAlreadyExists (RemoteClusterConnectionError _ e) = IsAlreadyExists e"
| "IsAlreadyExists _ = False"

fun errors_Is :: "error \<Rightarrow> error \<Rightarrow> bool" where
  "errors_Is (Wrap s e) t = (Wrap s e = t \<or> errors_Is e t)"
| "errors_Is (RemoteClusterConnectionError s e) t =
     (RemoteClusterConnectionError s e = t \<or> errors_Is e t)"
| "errors_Is (Aggregate es) t = (Aggregate es = t \<or> (\<exists>e\<in>set es. errors_Is e t))"
| "errors_Is e t = (e = t)"

text \<open>\<open>kerrors.NewAggregate\<close>: nil for a list without errors.\<close>

definition NewAggregate :: "error list \<Rightarrow> error option" where
  "NewAggregate es = (if es = [] then None else Some (Aggregate es))"

lemma NewAggregate_simps [simp]:
  "NewAggregate [] = None"
  "NewAggregate (e # es) = Some (Aggregate (e # es))"
  "NewAggregate es = None \<longleftrightarrow> es = []"
  by (simp_all add: NewAggregate_def)

text \<open>A run that ends in a panic.\<close>

definition panics :: "error option \<Rightarrow> bool" where
  "panics err = (case err of Some (Panic _) \<Rightarrow> True | _ \<Rightarrow> False)"

subsection \<open>Results and requeueing\<close>

text \<open>\<open>ctrl.Result\<close>; durations are nanoseconds.\<close>

record Result =
  Requeue :: bool
  RequeueAfter :: int

definition no_result :: Result where
  "no_result = \<lparr>Requeue = False, RequeueAfter = 0\<rparr>"

definition requeue_now :: Result where
  "requeue_now = \<lparr>Requeue = True, RequeueAfter = 0\<rparr>"

definition requeue_after :: "int \<Rightarrow> Result" where
  "requeue_after d = \<lparr>Requeue = False, RequeueAfter = d\<rparr>"

definition Result_IsZero :: "Result \<Rightarrow> bool" where
  "Result_IsZero r \<longleftrightarrow> r = no_result"

lemma Result_IsZero_simps [simp]:
  "Result_IsZero no_result"
  "\<not> Result_IsZero requeue_now"
  "Result_IsZero (requeue_after d) \<longleftrightarrow> d = 0"
  by (simp_all add: Result_IsZero_def no_result_def requeue_now_def requeue_after_def)

definition second :: int where
  "second = 1000000000"

definition hour :: int where
  "hour = 3600 * second"

subsection \<open>Instants\<close>

type_synonym time = int

definition Time_Before :: "time option \<Rightarrow> time option \<Rightarrow> bool" where
  "Time_Before t u = (case (t, u) of (Some a, Some b) \<Rightarrow> a < b | _ \<Rightarrow> False)"

definition Time_IsZero :: "time option \<Rightarrow> bool" where
  "Time_IsZero t = (case t of None \<Rightarrow> True | Some a \<Rightarrow> a = 0)"

definition Truncate_second :: "time \<Rightarrow> time" where
  "Truncate_second t = t - t mod second"

lemma Time_simps [simp]:
  "Time_Before (Some a) (Some b) \<longleftrightarrow> a < b"
  "\<not> Time_Before None u"
  "\<not> Time_Before t None"
  "Time_IsZero None"
  "Time_IsZero (Some a) \<longleftrightarrow> a = 0"
  by (simp_all add: Time_Before_def Time_IsZero_def split: option.split)

subsection \<open>Fixed-width integers\<close>

text \<open>Go's \<open>int32\<close> and \<open>int64\<close> conversions keep the low bits as a signed value.\<close>

definition to_int32 :: "int \<Rightarrow> int" where
  "to_int32 n = (n + 2 ^ 31) mod 2 ^ 32 - 2 ^ 31"

definition to_int64 :: "int \<Rightarrow> int" where
  "to_int64 n = (n + 2 ^ 63) mod 2 ^ 64 - 2 ^ 63"

lemma to_int32_id: "- (2 ^ 31) \<le> n \<Longrightarrow> n < 2 ^ 31 \<Longrightarrow> to_int32 n = n"
  by (simp add: to_int32_def)

lemma to_int64_id: "- (2 ^ 63) \<le> n \<Longrightarrow> n < 2 ^ 63 \<Longrightarrow> to_int64 n = n"
  by (simp add: to_int64_def)

lemma to_int32_range: "- (2 ^ 31) \<le> to_int32 n \<and> to_int32 n < 2 ^ 31"
  using pos_mod_bound [of "2 ^ 32" "n + 2 ^ 31"] pos_mod_sign [of "2 ^ 32" "n + 2 ^ 31"]
  by (simp add: to_int32_def)

subsection \<open>Printing\<close>

text \<open>\<open>fmt\<close>'s \<open>%d\<close>.\<close>

fun show_nat :: "nat \<Rightarrow> string" where
  "show_nat n =
     (if n < 10 then [char_of (48 + n)] else show_nat (n div 10) @ [char_of (48 + n mod 10)])"

declare show_nat.simps [simp del]

definition show_int :: "int \<Rightarrow> string" where
  "show_int i = (if i < 0 then CHR ''-'' # show_nat (nat (- i)) else show_nat (nat i))"

text \<open>\<open>strings.Join\<close>.\<close>

fun strings_Join :: "string \<Rightarrow> string list \<Rightarrow> string" where
  "strings_Join sep [] = []"
| "strings_Join sep [x] = x"
| "strings_Join sep (x # y # ys) = x @ sep @ strings_Join sep (y # ys)"

text \<open>
  \<open>fmt.Sprintf\<close> applied to a format and no arguments, following \<open>doPrintf\<close>: a percent
  sign starts a verb; flags, an argument index in brackets, a width, a precision and a second
  index may come before the verb letter; a star stands for an argument that is not there.
  \<open>%%\<close> prints a percent sign, every other verb reports the missing argument, an unusable
  index takes precedence over it, and a format that ends inside a verb reports that.
\<close>

definition is_flag :: "char \<Rightarrow> bool" where
  "is_flag c \<longleftrightarrow> c \<in> set ''#0+- ''"

definition is_digit :: "char \<Rightarrow> bool" where
  "is_digit c \<longleftrightarrow> 48 \<le> (of_char c :: nat) \<and> (of_char c :: nat) \<le> 57"

definition skip_index :: "string \<Rightarrow> bool \<times> bool \<times> string" where
  \<comment> \<open>(an index was parsed, the index is unusable, rest); no argument makes any index usable\<close>
  "skip_index s =
     (case s of
        [] \<Rightarrow> (False, False, s)
      | c # r \<Rightarrow>
          (if c \<noteq> CHR ''['' then (False, False, s)
           else if CHR '']'' \<in> set r \<and> 3 \<le> length s
           then (let d = takeWhile (\<lambda>c. c \<noteq> CHR '']'') r
                 in (d \<noteq> [] \<and> list_all is_digit d, True, tl (dropWhile (\<lambda>c. c \<noteq> CHR '']'') r)))
           else (False, True, r)))"

definition skip_star :: "string \<Rightarrow> string option" where
  "skip_star s = (case s of [] \<Rightarrow> None | c # r \<Rightarrow> (if c = CHR ''*'' then Some r else None))"

definition printf_width :: "bool \<Rightarrow> string \<Rightarrow> string \<times> bool \<times> bool \<times> string" where
  \<comment> \<open>(text, unusable index, still after an index, rest)\<close>
  "printf_width aft s =
     (case skip_star s of
        Some r \<Rightarrow> (''%!(BADWIDTH)'', False, False, r)
      | None \<Rightarrow> ([], aft \<and> takeWhile is_digit s \<noteq> [], aft, dropWhile is_digit s))"

definition printf_prec :: "bool \<Rightarrow> string \<Rightarrow> string \<times> bool \<times> bool \<times> string" where
  "printf_prec aft s =
     (if s \<noteq> [] \<and> hd s = CHR ''.''
      then (let (a, b, r) = skip_index (tl s)
            in (case skip_star r of
                  Some r' \<Rightarrow> (''%!(BADPREC)'', aft \<or> b, False, r')
                | None \<Rightarrow> ([], aft \<or> b, a, dropWhile is_digit r)))
      else ([], False, aft, s))"

definition printf_verb :: "string \<Rightarrow> string \<times> string" where
  \<comment> \<open>the text printed for the directive after a percent sign, and the rest of the format\<close>
  "printf_verb s0 =
     (let (aft1, bad1, s1) = skip_index (dropWhile is_flag s0);
          (out2, bad2, aft2, s2) = printf_width aft1 s1;
          (out3, bad3, aft3, s3) = printf_prec aft2 s2;
          (bad4, s4) = (if aft3 then (False, s3) else (fst (snd (skip_index s3)), snd (snd (skip_index s3))))
      in (case s4 of
            [] \<Rightarrow> (out2 @ out3 @ ''%!(NOVERB)'', [])
          | v # r \<Rightarrow>
              (out2 @ out3 @
               (if v = CHR ''%'' then [v]
                else if bad1 \<or> bad2 \<or> bad3 \<or> bad4 then ''%!'' @ [v] @ ''(BADINDEX)''
                else ''%!'' @ [v] @ ''(MISSING)''), r)))"

lemma length_skip_index: "length (snd (snd (skip_index s))) \<le> length s"
  by (auto simp: skip_index_def Let_def split: list.split
      intro: le_trans [OF diff_le_self] le_SucI length_dropWhile_le)

lemma length_skip_star: "skip_star s = Some r \<Longrightarrow> length r \<le> length s"
  by (auto simp: skip_star_def split: list.splits if_splits)

lemma length_printf_width: "length (snd (snd (snd (printf_width a s)))) \<le> length s"
  by (auto simp: printf_width_def length_dropWhile_le dest: length_skip_star split: option.split)

lemma length_printf_prec: "length (snd (snd (snd (printf_prec a s)))) \<le> length s"
proof (cases "s \<noteq> [] \<and> hd s = CHR ''.''")
  case True
  obtain b c r where r: "skip_index (tl s) = (b, c, r)"
    by (metis surj_pair)
  have "length r \<le> length s"
    using length_skip_index [of "tl s"] by (simp add: r)
  then show ?thesis
    using True
    by (auto simp: printf_prec_def r split: option.split
        dest: length_skip_star intro: le_trans [OF length_dropWhile_le])
qed (auto simp: printf_prec_def)

lemma length_printf_verb: "length (snd (printf_verb s)) \<le> length s"
proof -
  obtain a1 b1 s1 where 1: "skip_index (dropWhile is_flag s) = (a1, b1, s1)"
    by (metis surj_pair)
  obtain o2 b2 a2 s2 where 2: "printf_width a1 s1 = (o2, b2, a2, s2)"
    by (metis surj_pair)
  obtain o3 b3 a3 s3 where 3: "printf_prec a2 s2 = (o3, b3, a3, s3)"
    by (metis surj_pair)
  have "length s1 \<le> length s"
    using length_skip_index [of "dropWhile is_flag s"] length_dropWhile_le [of is_flag s] 1
    by simp
  moreover have "length s2 \<le> length s1"
    using length_printf_width [of a1 s1] 2 by simp
  moreover have "length s3 \<le> length s2"
    using length_printf_prec [of a2 s2] 3 by simp
  moreover obtain a4 b4 s4 where 4: "skip_index s3 = (a4, b4, s4)"
    by (metis surj_pair)
  moreover have "length s4 \<le> length s3"
    using length_skip_index [of s3] 4 by simp
  ultimately show ?thesis
    by (auto simp: printf_verb_def 1 2 3 4 split: list.split)
qed

function Sprintf0 :: "string \<Rightarrow> string" where
  "Sprintf0 [] = []"
| "Sprintf0 (c # s) =
     (if c = CHR ''%'' then fst (printf_verb s) @ Sprintf0 (snd (printf_verb s)) else c # Sprintf0 s)"
  by pat_completeness auto
termination
  by (relation "measure length") (auto simp: le_imp_less_Suc length_printf_verb)

lemma Sprintf0_plain: "CHR ''%'' \<notin> set s \<Longrightarrow> Sprintf0 s = s"
  by (induction s) auto

subsection \<open>Sorting\<close>

text \<open>
  \<open>sort.Sort\<close> and \<open>sort.Slice\<close>. Go sorts a slice of at most twelve elements by insertion
  (\<open>insertionSort\<close>): the next element moves left past every element it is less than.
  \<open>bubble\<close> works on the reversed prefix.
\<close>

fun bubble :: "('a \<Rightarrow> 'a \<Rightarrow> bool) \<Rightarrow> 'a \<Rightarrow> 'a list \<Rightarrow> 'a list" where
  "bubble lt x [] = [x]"
| "bubble lt x (y # ys) = (if lt x y then y # bubble lt x ys else x # y # ys)"

definition go_sort :: "('a \<Rightarrow> 'a \<Rightarrow> bool) \<Rightarrow> 'a list \<Rightarrow> 'a list" where
  "go_sort lt xs = rev (foldl (\<lambda>acc x. bubble lt x acc) [] xs)"

text \<open>
  What the sources rely on is only what the documentation of \<open>sort\<close> promises: the result is a
  permutation, ordered by \<open>Less\<close> when that is a strict weak ordering of the elements.
\<close>

definition strict_weak_on :: "'a set \<Rightarrow> ('a \<Rightarrow> 'a \<Rightarrow> bool) \<Rightarrow> bool" where
  "strict_weak_on A lt \<longleftrightarrow>
     (\<forall>x\<in>A. \<not> lt x x) \<and>
     (\<forall>x\<in>A. \<forall>y\<in>A. \<forall>z\<in>A. lt x y \<longrightarrow> lt y z \<longrightarrow> lt x z) \<and>
     (\<forall>x\<in>A. \<forall>y\<in>A. \<forall>z\<in>A. \<not> lt x y \<longrightarrow> \<not> lt y z \<longrightarrow> \<not> lt x z)"

lemma strict_weak_onD:
  assumes "strict_weak_on A lt"
  shows "x \<in> A \<Longrightarrow> \<not> lt x x"
    and "x \<in> A \<Longrightarrow> y \<in> A \<Longrightarrow> z \<in> A \<Longrightarrow> lt x y \<Longrightarrow> lt y z \<Longrightarrow> lt x z"
    and "x \<in> A \<Longrightarrow> y \<in> A \<Longrightarrow> z \<in> A \<Longrightarrow> \<not> lt x y \<Longrightarrow> \<not> lt y z \<Longrightarrow> \<not> lt x z"
  using assms unfolding strict_weak_on_def by blast+

lemma strict_weak_on_asym:
  "strict_weak_on A lt \<Longrightarrow> x \<in> A \<Longrightarrow> y \<in> A \<Longrightarrow> lt x y \<Longrightarrow> \<not> lt y x"
  using strict_weak_onD(1) strict_weak_onD(2) by metis

lemma strict_weak_on_subset: "strict_weak_on A lt \<Longrightarrow> B \<subseteq> A \<Longrightarrow> strict_weak_on B lt"
  unfolding strict_weak_on_def by blast

lemma sorted_wrt_mset_eq:
  assumes "sorted_wrt R xs" and "sorted_wrt R ys" and "mset xs = mset ys"
    and "\<And>x y. x \<in> set xs \<Longrightarrow> y \<in> set xs \<Longrightarrow> R x y \<Longrightarrow> R y x \<Longrightarrow> x = y"
  shows "xs = ys"
  using assms
proof (induction xs arbitrary: ys)
  case Nil
  then show ?case by simp
next
  case (Cons x xs)
  then obtain y ys' where ys: "ys = y # ys'"
    by (cases ys) auto
  have sets: "insert x (set xs) = insert y (set ys')"
    using Cons.prems(3) ys by (metis list.simps(15) set_mset_mset)
  have "x = y"
  proof (rule ccontr)
    assume "x \<noteq> y"
    then have "y \<in> set xs" and "x \<in> set ys'"
      using sets by auto
    then have "R x y" and "R y x"
      using Cons.prems(1,2) ys by auto
    then show False
      using Cons.prems(4) [of x y] \<open>y \<in> set xs\<close> \<open>x \<noteq> y\<close> by simp
  qed
  then show ?case
    using Cons.IH [of ys'] Cons.prems ys by simp
qed

locale sorting =
  fixes srt :: "('a \<Rightarrow> 'a \<Rightarrow> bool) \<Rightarrow> 'a list \<Rightarrow> 'a list"
  assumes mset_srt: "mset (srt lt xs) = mset xs"
    and sorted_srt:
      "strict_weak_on (set xs) lt \<Longrightarrow> sorted_wrt (\<lambda>a b. \<not> lt b a) (srt lt xs)"
begin

lemma set_srt: "set (srt lt xs) = set xs"
  by (metis mset_srt set_mset_mset)

lemma length_srt: "length (srt lt xs) = length xs"
  by (metis mset_srt size_mset)

lemma srt_Nil_iff: "srt lt xs = [] \<longleftrightarrow> xs = []"
  by (metis length_0_conv length_srt)

lemma hd_srt_in: "xs \<noteq> [] \<Longrightarrow> hd (srt lt xs) \<in> set xs"
  by (metis hd_in_set set_srt srt_Nil_iff)

lemma last_srt_in: "xs \<noteq> [] \<Longrightarrow> last (srt lt xs) \<in> set xs"
  by (metis last_in_set set_srt srt_Nil_iff)

lemma hd_srt_least:
  assumes "strict_weak_on (set xs) lt" and "x \<in> set xs"
  shows "\<not> lt x (hd (srt lt xs))"
proof (cases "srt lt xs")
  case Nil
  with assms show ?thesis by (simp add: srt_Nil_iff)
next
  case (Cons y ys)
  have "x = y \<or> x \<in> set ys"
    using assms(2) Cons set_srt [of lt xs] by auto
  then show ?thesis
    using sorted_srt [OF assms(1)] assms Cons by (auto simp: strict_weak_on_def)
qed

lemma last_srt_greatest:
  assumes "strict_weak_on (set xs) lt" and "x \<in> set xs"
  shows "\<not> lt (last (srt lt xs)) x"
proof (cases "srt lt xs" rule: rev_cases)
  case Nil
  with assms show ?thesis by (simp add: srt_Nil_iff)
next
  case (snoc ys y)
  have "x = y \<or> x \<in> set ys"
    using assms(2) snoc set_srt [of lt xs] by auto
  then show ?thesis
    using sorted_srt [OF assms(1)] assms snoc
    by (auto simp: strict_weak_on_def sorted_wrt_append)
qed

text \<open>A total order leaves the result no freedom: only the elements matter, not their order.\<close>

lemma srt_unique:
  assumes sw: "strict_weak_on (set xs) lt"
    and total: "\<And>x y. x \<in> set xs \<Longrightarrow> y \<in> set xs \<Longrightarrow> \<not> lt x y \<Longrightarrow> \<not> lt y x \<Longrightarrow> x = y"
    and same: "mset xs = mset ys"
  shows "srt lt xs = srt lt ys"
proof (rule sorted_wrt_mset_eq [where R = "\<lambda>a b. \<not> lt b a"])
  have "set xs = set ys"
    using same by (metis set_mset_mset)
  then show "sorted_wrt (\<lambda>a b. \<not> lt b a) (srt lt xs)"
    and "sorted_wrt (\<lambda>a b. \<not> lt b a) (srt lt ys)"
    using sw sorted_srt by metis+
  show "mset (srt lt xs) = mset (srt lt ys)"
    by (simp add: mset_srt same)
next
  fix x y
  assume "x \<in> set (srt lt xs)" and "y \<in> set (srt lt xs)" and "\<not> lt y x" and "\<not> lt x y"
  then show "x = y"
    using total by (simp add: set_srt)
qed

end

lemma mset_bubble: "mset (bubble lt x ys) = add_mset x (mset ys)"
  by (induction ys) auto

lemma set_bubble: "set (bubble lt x ys) = insert x (set ys)"
  by (induction ys) auto

lemma sorted_bubble:
  assumes "strict_weak_on (insert x (set ys)) lt" and "sorted_wrt (\<lambda>a b. \<not> lt a b) ys"
  shows "sorted_wrt (\<lambda>a b. \<not> lt a b) (bubble lt x ys)"
  using assms
proof (induction ys)
  case Nil
  then show ?case by simp
next
  case (Cons y ys)
  have sw: "strict_weak_on (insert x (set ys)) lt"
    by (rule strict_weak_on_subset [OF Cons.prems(1)]) auto
  have asym: "lt x y \<Longrightarrow> \<not> lt y x"
    by (rule strict_weak_on_asym [OF Cons.prems(1)]) simp_all
  have far: "\<not> lt x z" if "\<not> lt x y" and "z \<in> set ys" for z
  proof (rule strict_weak_onD(3) [OF Cons.prems(1) _ _ _ that(1)])
    show "\<not> lt y z" using Cons.prems(2) that(2) by simp
  qed (use that in simp_all)
  show ?case
    using Cons.IH [OF sw] Cons.prems(2) asym far by (auto simp: set_bubble)
qed

lemma foldl_bubble:
  "mset (foldl (\<lambda>acc x. bubble lt x acc) acc xs) = mset xs + mset acc"
  by (induction xs arbitrary: acc) (auto simp: mset_bubble)

lemma sorted_foldl_bubble:
  assumes "strict_weak_on (set xs \<union> set acc) lt" and "sorted_wrt (\<lambda>a b. \<not> lt a b) acc"
  shows "sorted_wrt (\<lambda>a b. \<not> lt a b) (foldl (\<lambda>acc x. bubble lt x acc) acc xs)"
  using assms
proof (induction xs arbitrary: acc)
  case Nil
  then show ?case by simp
next
  case (Cons x xs)
  have "strict_weak_on (insert x (set acc)) lt"
    by (rule strict_weak_on_subset [OF Cons.prems(1)]) auto
  then have "sorted_wrt (\<lambda>a b. \<not> lt a b) (bubble lt x acc)"
    using Cons.prems(2) by (rule sorted_bubble)
  moreover have "strict_weak_on (set xs \<union> set (bubble lt x acc)) lt"
    using Cons.prems(1) by (simp add: set_bubble)
  ultimately show ?case
    using Cons.IH by simp
qed

interpretation gs: sorting go_sort
proof unfold_locales
  fix lt :: "'a \<Rightarrow> 'a \<Rightarrow> bool" and xs :: "'a list"
  show "mset (go_sort lt xs) = mset xs"
    by (simp add: go_sort_def foldl_bubble)
  assume "strict_weak_on (set xs) lt"
  then show "sorted_wrt (\<lambda>a b. \<not> lt b a) (go_sort lt xs)"
    by (simp add: go_sort_def sorted_wrt_rev sorted_foldl_bubble)
qed

text \<open>Orders given by a key into a linear order are strict weak orders.\<close>

lemma strict_weak_on_key:
  fixes f :: "'a \<Rightarrow> 'b::linorder"
  assumes "\<And>x y. x \<in> A \<Longrightarrow> y \<in> A \<Longrightarrow> lt x y \<longleftrightarrow> f x < f y"
  shows "strict_weak_on A lt"
  using assms by (auto simp: strict_weak_on_def)

lemma strict_weak_on_lex:
  fixes f :: "'a \<Rightarrow> 'b::linorder" and g :: "'a \<Rightarrow> 'c::linorder"
  shows "strict_weak_on A (\<lambda>x y. if f x = f y then g x < g y else f x < f y)"
  unfolding strict_weak_on_def by (auto split: if_splits)

subsection \<open>Association lists as Go maps\<close>

type_synonym ('k, 'v) go_map = "('k \<times> 'v) list"

text \<open>\<open>m[k] = v\<close>, \<open>m[k]\<close> and \<open>delete(m, k)\<close> are the library's \<open>AList.update\<close>,
  \<open>map_of\<close> and \<open>AList.delete\<close>.\<close>

definition wf_map :: "('k, 'v) go_map \<Rightarrow> bool" where
  "wf_map m \<longleftrightarrow> distinct (map fst m)"

lemma wf_map_simps [simp]:
  "wf_map []"
  "wf_map m \<Longrightarrow> wf_map (AList.update k v m)"
  "wf_map m \<Longrightarrow> wf_map (filter P m)"
  by (auto simp: wf_map_def distinct_update intro: distinct_map_filter)

lemma wf_map_lookup: "wf_map m \<Longrightarrow> map_of m k = Some v \<longleftrightarrow> (k, v) \<in> set m"
  by (simp add: wf_map_def map_of_eq_Some_iff)

lemma map_of_filter_in:
  assumes "wf_map m"
  shows "map_of (filter P m) k = (case map_of m k of None \<Rightarrow> None | Some v \<Rightarrow> if P (k, v) then Some v else None)"
proof (cases "map_of m k")
  case None
  then have "k \<notin> fst ` set m" by (simp add: map_of_eq_None_iff)
  then have "map_of (filter P m) k = None"
    by (auto simp: map_of_eq_None_iff)
  with None show ?thesis by simp
next
  case (Some v)
  show ?thesis
  proof (cases "P (k, v)")
    case True
    then have "(k, v) \<in> set (filter P m)"
      using Some by (simp add: map_of_SomeD)
    then have "map_of (filter P m) k = Some v"
      using assms by (simp add: wf_map_lookup)
    then show ?thesis
      using Some True by simp
  next
    case False
    have "map_of (filter P m) k = None"
    proof (rule ccontr)
      assume "map_of (filter P m) k \<noteq> None"
      then obtain u where "(k, u) \<in> set (filter P m)"
        by (meson map_of_SomeD not_None_eq)
      then have "(k, u) \<in> set m" and "P (k, u)"
        by simp_all
      moreover have "(k, v) \<in> set m" using Some by (rule map_of_SomeD)
      ultimately show False
        using False assms wf_map_lookup [OF assms, of k] by (metis option.inject)
    qed
    with Some False show ?thesis by simp
  qed
qed

end
