(* ===== verification/Version.thy ===== *)
theory Version
  imports Prelude "HOL-Library.Word"
begin

text \<open>
  Kubernetes versions: \<open>util/version/version.go\<close> (parsing of \<open>vMAJOR.MINOR.PATCH\<close>, the
  comparison that also looks at build tags), \<open>IsSupportedVersionSkew\<close> of \<open>util/util.go\<close> and
  the choice of the kubeadm API version in \<open>bootstrap/ocne/types/utils.go\<close>.

  \<open>semver.Version\<close>, its parser and its comparison are code of \<open>blang/semver\<close>: the type is a
  record, the two functions are the fields of \<open>semver_lib\<close>, and \<open>semver_laws\<close> states what
  that package documents about the comparison.
\<close>

subsection \<open>The semver package\<close>

record semver =
  Major :: "64 word"
  Minor :: "64 word"
  Patch :: "64 word"
  Pre :: "string list"
  Build :: "string list"

record semver_lib =
  ParseTolerant :: "string \<Rightarrow> error + semver"
  semver_Compare :: "semver \<Rightarrow> semver \<Rightarrow> int"

definition release :: "64 word \<Rightarrow> 64 word \<Rightarrow> 64 word \<Rightarrow> semver" where
  "release a b c = \<lparr>Major = a, Minor = b, Patch = c, Pre = [], Build = []\<rparr>"

definition cmp :: "'a::linorder \<Rightarrow> 'a \<Rightarrow> int" where
  "cmp a b = (if a < b then -1 else if a = b then 0 else 1)"

definition core_cmp :: "semver \<Rightarrow> semver \<Rightarrow> int" where
  "core_cmp a b =
     (if Major a \<noteq> Major b then cmp (Major a) (Major b)
      else if Minor a \<noteq> Minor b then cmp (Minor a) (Minor b)
      else cmp (Patch a) (Patch b))"

text \<open>
  What \<open>blang/semver\<close> documents: \<open>Compare\<close> returns -1, 0 or 1, is a comparison (swapping the
  arguments negates it, and it is transitive), orders by major, minor and patch number first,
  and two versions without pre-release identifiers compare by these numbers only.
\<close>

definition semver_laws :: "'x semver_lib_scheme \<Rightarrow> bool" where
  "semver_laws lib \<longleftrightarrow>
     (\<forall>a b. semver_Compare lib a b \<in> {-1, 0, 1}) \<and>
     (\<forall>a b. semver_Compare lib b a = - semver_Compare lib a b) \<and>
     (\<forall>a b c. semver_Compare lib a b \<le> 0 \<longrightarrow> semver_Compare lib b c \<le> 0 \<longrightarrow>
        semver_Compare lib a c \<le> 0) \<and>
     (\<forall>a b. core_cmp a b \<noteq> 0 \<longrightarrow> semver_Compare lib a b = core_cmp a b) \<and>
     (\<forall>a b. Pre a = [] \<longrightarrow> Pre b = [] \<longrightarrow> semver_Compare lib a b = core_cmp a b)"

subsection \<open>Parsing of major.minor.patch\<close>

definition is_nonzero_digit :: "char \<Rightarrow> bool" where
  "is_nonzero_digit c \<longleftrightarrow> 49 \<le> (of_char c :: nat) \<and> (of_char c :: nat) \<le> 57"

definition digit_val :: "char \<Rightarrow> nat" where
  "digit_val c = of_char c - 48"

definition digits_val :: "string \<Rightarrow> nat" where
  "digits_val s = foldl (\<lambda>n c. 10 * n + digit_val c) 0 s"

text \<open>\<open>strconv.ParseUint(s, 10, 64)\<close>, with the value it returns beside an error.\<close>

definition ParseUint :: "string \<Rightarrow> 64 word \<times> error option" where
  "ParseUint s =
     (if s = [] \<or> \<not> list_all is_digit s then (0, Some (Err ''invalid syntax''))
      else if 2 ^ 64 \<le> digits_val s then (- 1, Some (Err ''value out of range''))
      else (of_nat (digits_val s), None))"

text \<open>
  The two regular expressions \<open>KubeSemver\<close> and \<open>KubeSemverTolerant\<close>. A number is a lone zero
  or a digit string that does not start with zero; after the third number any mix of the
  characters of the last group may follow, so a patch number such as \<open>01\<close> reads as 0.
\<close>

definition match_num :: "string \<Rightarrow> (string \<times> string) option" where
  "match_num s =
     (case s of
        [] \<Rightarrow> None
      | c # r \<Rightarrow>
          (if c = CHR ''0'' then Some ([c], r)
           else if is_nonzero_digit c then Some (takeWhile is_digit s, dropWhile is_digit s)
           else None))"

definition match_char :: "char \<Rightarrow> string \<Rightarrow> string option" where
  "match_char c s = (case s of [] \<Rightarrow> None | d # r \<Rightarrow> if d = c then Some r else None)"

definition is_tail_char :: "char \<Rightarrow> bool" where
  "is_tail_char c \<longleftrightarrow>
     is_digit c \<or> (CHR ''a'' \<le> c \<and> c \<le> CHR ''z'') \<or> (CHR ''A'' \<le> c \<and> c \<le> CHR ''Z'') \<or>
     c \<in> set ''-_.+''"

definition FindStringSubmatch :: "bool \<Rightarrow> string \<Rightarrow> (string \<times> string \<times> string \<times> string) option" where
  "FindStringSubmatch tolerant s =
     (case (case match_char (CHR ''v'') s of Some r \<Rightarrow> Some r | None \<Rightarrow> if tolerant then Some s else None) of
        None \<Rightarrow> None
      | Some s0 \<Rightarrow>
     (case match_num s0 of None \<Rightarrow> None | Some (g1, s1) \<Rightarrow>
     (case match_char (CHR ''.'') s1 of None \<Rightarrow> None | Some s2 \<Rightarrow>
     (case match_num s2 of None \<Rightarrow> None | Some (g2, s3) \<Rightarrow>
     (case match_char (CHR ''.'') s3 of None \<Rightarrow> None | Some s4 \<Rightarrow>
     (case match_num s4 of None \<Rightarrow> None | Some (g3, s5) \<Rightarrow>
        if list_all is_tail_char s5 then Some (g1, g2, g3, s5) else None))))))"

definition parseMajorMinorPatch :: "string \<Rightarrow> bool \<Rightarrow> error + semver" where
  "parseMajorMinorPatch version tolerant =
     (case FindStringSubmatch tolerant version of
        None \<Rightarrow> Inl (Err ''failed to parse major.minor.patch'')
      | Some (g1, g2, g3, _) \<Rightarrow>
     (case ParseUint g1 of (_, Some e) \<Rightarrow> Inl (Wrap ''failed to parse major version'' e)
      | (major, None) \<Rightarrow>
     (case ParseUint g2 of (_, Some e) \<Rightarrow> Inl (Wrap ''failed to parse minor version'' e)
      | (minor, None) \<Rightarrow>
     (case ParseUint g3 of (_, Some e) \<Rightarrow> Inl (Wrap ''failed to parse patch version'' e)
      | (patch, None) \<Rightarrow> Inr (release major minor patch)))))"

definition ParseMajorMinorPatch :: "string \<Rightarrow> error + semver" where
  "ParseMajorMinorPatch version = parseMajorMinorPatch version False"

definition ParseMajorMinorPatchTolerant :: "string \<Rightarrow> error + semver" where
  "ParseMajorMinorPatchTolerant version = parseMajorMinorPatch version True"

subsection \<open>Comparison with build tags\<close>

definition containsOnly :: "string \<Rightarrow> string \<Rightarrow> bool" where
  "containsOnly s chars \<longleftrightarrow> list_all (\<lambda>r. r \<in> set chars) s"

record buildIdentifier =
  IdentifierInt :: "64 word"
  IdentifierStr :: string
  IsNum :: bool

definition newBuildIdentifier :: "string \<Rightarrow> buildIdentifier" where
  "newBuildIdentifier s =
     (if containsOnly s ''01234567890''
      then \<lparr>IdentifierInt = fst (ParseUint s), IdentifierStr = [], IsNum = True\<rparr>
      else \<lparr>IdentifierInt = 0, IdentifierStr = s, IsNum = False\<rparr>)"

definition newBuildIdentifiers :: "string list \<Rightarrow> buildIdentifier list" where
  "newBuildIdentifiers ids = map newBuildIdentifier ids"

definition buildIdentifier_compare :: "buildIdentifier \<Rightarrow> buildIdentifier \<Rightarrow> int" where
  "buildIdentifier_compare v w =
     (if IsNum v \<and> \<not> IsNum w then -1
      else if \<not> IsNum v \<and> IsNum w then 1
      else if IsNum v \<and> IsNum w
      then (if IdentifierInt v < IdentifierInt w then -1
            else if IdentifierInt v = IdentifierInt w then 0 else 1)
      else if IdentifierStr v = IdentifierStr w then 0 else 2)"

fun buildIdentifiers_compare :: "buildIdentifier list \<Rightarrow> buildIdentifier list \<Rightarrow> int" where
  "buildIdentifiers_compare (v # vs) (w # ws) =
     (let comp = buildIdentifier_compare v w
      in if comp \<noteq> 0 then comp else buildIdentifiers_compare vs ws)"
| "buildIdentifiers_compare [] [] = 0"
| "buildIdentifiers_compare [] (w # ws) = -1"
| "buildIdentifiers_compare (v # vs) [] = 1"

record comparer =
  buildTags :: bool
  withoutPreReleases :: bool

datatype CompareOption = WithBuildTags | WithoutPreReleases

fun apply_CompareOption :: "CompareOption \<Rightarrow> comparer \<Rightarrow> comparer" where
  "apply_CompareOption WithBuildTags c = c\<lparr>buildTags := True\<rparr>"
| "apply_CompareOption WithoutPreReleases c = c\<lparr>withoutPreReleases := True\<rparr>"

definition Compare ::
  "'x semver_lib_scheme \<Rightarrow> semver \<Rightarrow> semver \<Rightarrow> CompareOption list \<Rightarrow> int" where
  "Compare lib a b options =
     (let c = fold apply_CompareOption options \<lparr>buildTags = False, withoutPreReleases = False\<rparr>;
          a' = (if withoutPreReleases c then a\<lparr>Pre := []\<rparr> else a);
          b' = (if withoutPreReleases c then b\<lparr>Pre := []\<rparr> else b)
      in if buildTags c
         then (let comp = semver_Compare lib a' b'
               in if comp \<noteq> 0 then comp
                  else buildIdentifiers_compare (newBuildIdentifiers (Build a'))
                         (newBuildIdentifiers (Build b')))
         else semver_Compare lib a' b')"

subsection \<open>Version skew and kubeadm API versions\<close>

definition IsSupportedVersionSkew :: "semver \<Rightarrow> semver \<Rightarrow> bool" where
  "IsSupportedVersionSkew a b =
     (if Major a \<noteq> Major b then False
      else if Minor a > Minor b then Minor a - Minor b = 1
      else Minor b - Minor a \<le> 1)"

definition v1beta1KubeadmVersion :: semver where
  "v1beta1KubeadmVersion = release 1 13 0"

definition v1beta2KubeadmVersion :: semver where
  "v1beta2KubeadmVersion = release 1 15 0"

definition v1beta3KubeadmVersion :: semver where
  "v1beta3KubeadmVersion = release 1 22 0"

definition kubeadm_gv :: "string \<Rightarrow> string \<times> string" where
  "kubeadm_gv v = (''kubeadm.k8s.io'', v)"

definition KubeVersionToKubeadmAPIGroupVersion ::
  "'x semver_lib_scheme \<Rightarrow> semver \<Rightarrow> error + (string \<times> string)" where
  "KubeVersionToKubeadmAPIGroupVersion lib v =
     (if Compare lib v v1beta1KubeadmVersion [WithoutPreReleases] < 0
      then Inl (Err ''the bootstrap provider for kubeadm doesn't support Kubernetes version lower than v1.13.0'')
      else if Compare lib v v1beta2KubeadmVersion [WithoutPreReleases] < 0 then Inr (kubeadm_gv ''v1beta1'')
      else if Compare lib v v1beta3KubeadmVersion [WithoutPreReleases] < 0 then Inr (kubeadm_gv ''v1beta2'')
      else Inr (kubeadm_gv ''v1beta3''))"

subsection \<open>Facts about printed numbers\<close>

lemma is_digit_char_of: "n < 10 \<Longrightarrow> is_digit (char_of (48 + n :: nat))"
  by (simp add: is_digit_def)

lemma digit_val_char_of: "n < 10 \<Longrightarrow> digit_val (char_of (48 + n :: nat)) = n"
  by (simp add: digit_val_def)

lemma show_nat_neq_Nil [simp]: "show_nat n \<noteq> []"
  by (subst show_nat.simps) simp

lemma show_nat_0: "show_nat 0 = ''0''"
  by code_simp

lemma show_nat_digits: "list_all is_digit (show_nat n)"
proof (induction n rule: show_nat.induct)
  case (1 n)
  then show ?case
    by (subst show_nat.simps) (simp add: is_digit_char_of)
qed

lemma digits_val_snoc: "digits_val (s @ [c]) = 10 * digits_val s + digit_val c"
  by (simp add: digits_val_def)

lemma digits_val_show_nat [simp]: "digits_val (show_nat n) = n"
proof (induction n rule: show_nat.induct)
  case (1 n)
  show ?case
  proof (cases "n < 10")
    case True
    then show ?thesis
      by (subst show_nat.simps) (simp add: digits_val_def digit_val_char_of)
  next
    case False
    then show ?thesis
      using 1 by (subst show_nat.simps) (simp add: digits_val_snoc digit_val_char_of)
  qed
qed

lemma show_nat_head:
  assumes "0 < n"
  shows "is_nonzero_digit (hd (show_nat n))"
  using assms
proof (induction n rule: show_nat.induct)
  case (1 n)
  show ?case
  proof (cases "n < 10")
    case True
    then show ?thesis
      using "1.prems" by (subst show_nat.simps) (simp add: is_nonzero_digit_def)
  next
    case False
    then have "is_nonzero_digit (hd (show_nat (n div 10)))"
      using "1.IH" by simp
    then show ?thesis
      using False by (subst show_nat.simps) (simp add: hd_append)
  qed
qed

lemma takeWhile_digits:
  assumes "list_all is_digit d" and "r = [] \<or> \<not> is_digit (hd r)"
  shows "takeWhile is_digit (d @ r) = d" and "dropWhile is_digit (d @ r) = r"
  using assms by (auto simp: list_all_iff takeWhile_append dropWhile_append takeWhile_eq_Nil_iff dropWhile_eq_self_iff)

lemma match_num_show:
  assumes "r = [] \<or> \<not> is_digit (hd r)"
  shows "match_num (show_nat n @ r) = Some (show_nat n, r)"
proof (cases "n = 0")
  case True
  then show ?thesis
    by (simp add: match_num_def show_nat_0)
next
  case False
  obtain c d where cd: "show_nat n = c # d"
    by (cases "show_nat n") auto
  have nz: "is_nonzero_digit c"
    using show_nat_head [of n] False cd by simp
  then have "c \<noteq> CHR ''0''"
    by (auto simp: is_nonzero_digit_def)
  then show ?thesis
    using nz takeWhile_digits [OF show_nat_digits [of n] assms] cd
    by (simp add: match_num_def)
qed

lemma ParseUint_show: "ParseUint (show_nat (unat w)) = (w, None)"
proof -
  have "unat w < 2 ^ 64"
    using unsigned_less [of w, where ?'a = nat] by simp
  then show ?thesis
    by (simp add: ParseUint_def show_nat_digits)
qed

subsection \<open>Parsing and comparing\<close>

text \<open>
  Parsing what was printed gives the same three numbers, for every 64-bit value and every
  suffix the last group of the expression accepts.
\<close>

lemma parse_printed:
  assumes "list_all is_tail_char t" and "t = [] \<or> \<not> is_digit (hd t)"
  shows "parseMajorMinorPatch
           (''v'' @ show_nat (unat a) @ ''.'' @ show_nat (unat b) @ ''.'' @ show_nat (unat c) @ t) tol =
         Inr (release a b c)"
proof -
  have dot: "\<not> is_digit (CHR ''.'')"
    by (simp add: is_digit_def)
  show ?thesis
    using assms dot
    by (simp add: parseMajorMinorPatch_def FindStringSubmatch_def match_char_def match_num_show
        ParseUint_show)
qed

lemma strict_parse_tolerant:
  "FindStringSubmatch False s = Some g \<Longrightarrow> FindStringSubmatch True s = Some g"
  by (cases "match_char (CHR ''v'') s") (simp_all add: FindStringSubmatch_def)

lemma ParseMajorMinorPatch_tolerant:
  "ParseMajorMinorPatch s = Inr v \<Longrightarrow> ParseMajorMinorPatchTolerant s = Inr v"
  by (auto simp: ParseMajorMinorPatch_def ParseMajorMinorPatchTolerant_def parseMajorMinorPatch_def
      dest!: strict_parse_tolerant split: option.splits)

lemma buildIdentifier_compare_sym:
  "buildIdentifier_compare w v =
     (if buildIdentifier_compare v w = 2 then 2 else - buildIdentifier_compare v w)"
  by (auto simp: buildIdentifier_compare_def)

lemma buildIdentifier_compare_range: "buildIdentifier_compare v w \<in> {-1, 0, 1, 2}"
  by (simp add: buildIdentifier_compare_def)

lemma buildIdentifiers_compare_sym:
  "buildIdentifiers_compare ws vs =
     (if buildIdentifiers_compare vs ws = 2 then 2 else - buildIdentifiers_compare vs ws)"
proof (induction vs ws rule: buildIdentifiers_compare.induct)
  case (1 v vs w ws)
  then show ?case
    using buildIdentifier_compare_sym [of w v] by (auto simp: Let_def)
qed auto

lemma buildIdentifiers_compare_range: "buildIdentifiers_compare vs ws \<in> {-1, 0, 1, 2}"
proof (induction vs ws rule: buildIdentifiers_compare.induct)
  case (1 v vs w ws)
  then show ?case
    using buildIdentifier_compare_range [of v w] by (auto simp: Let_def)
qed auto

lemma semver_lawsD:
  assumes "semver_laws lib"
  shows "semver_Compare lib a b \<in> {-1, 0, 1}"
    and "semver_Compare lib b a = - semver_Compare lib a b"
    and "semver_Compare lib a b \<le> 0 \<Longrightarrow> semver_Compare lib b c \<le> 0 \<Longrightarrow> semver_Compare lib a c \<le> 0"
    and "core_cmp a b \<noteq> 0 \<Longrightarrow> semver_Compare lib a b = core_cmp a b"
    and "Pre a = [] \<Longrightarrow> Pre b = [] \<Longrightarrow> semver_Compare lib a b = core_cmp a b"
  using assms unfolding semver_laws_def by blast+

lemma core_cmp_release:
  "core_cmp (v\<lparr>Pre := p\<rparr>) (release a b c) =
     (if Major v \<noteq> a then cmp (Major v) a
      else if Minor v \<noteq> b then cmp (Minor v) b else cmp (Patch v) c)"
  by (simp add: core_cmp_def release_def)

lemma Compare_release:
  assumes "semver_laws lib"
  shows "Compare lib v (release a b c) [WithoutPreReleases] = core_cmp v (release a b c)"
proof -
  have "semver_Compare lib (v\<lparr>Pre := []\<rparr>) (release a b c) = core_cmp (v\<lparr>Pre := []\<rparr>) (release a b c)"
    by (rule semver_lawsD(5) [OF assms]) (simp_all add: release_def)
  moreover have "(release a b c)\<lparr>Pre := []\<rparr> = release a b c"
    by (simp add: release_def)
  moreover have "core_cmp (v\<lparr>Pre := []\<rparr>) (release a b c) = core_cmp v (release a b c)"
    by (simp add: core_cmp_def)
  ultimately show ?thesis
    by (simp add: Compare_def Let_def)
qed

lemma cmp_simps:
  "cmp a b \<in> {-1, 0, 1}" "cmp b a = - cmp a b" "cmp a b = 0 \<longleftrightarrow> a = b" "cmp a b < 0 \<longleftrightarrow> a < b"
  by (auto simp: cmp_def)

text \<open>A comparison that satisfies the laws: the numbers alone.\<close>

definition numeric_lib :: semver_lib where
  "numeric_lib = \<lparr>ParseTolerant = ParseMajorMinorPatchTolerant, semver_Compare = core_cmp\<rparr>"

lemma numeric_lib_laws: "semver_laws numeric_lib"
proof -
  have trans: "core_cmp a c \<le> 0" if "core_cmp a b \<le> 0" "core_cmp b c \<le> 0" for a b c
    using that by (auto simp: core_cmp_def cmp_def split: if_splits)
  have range: "core_cmp a b \<in> {-1, 0, 1}" for a b
    by (simp add: core_cmp_def cmp_def)
  have neg: "core_cmp b a = - core_cmp a b" for a b
    by (auto simp: core_cmp_def cmp_def)
  have cmp: "semver_Compare numeric_lib = core_cmp"
    by (simp add: numeric_lib_def)
  show ?thesis
    unfolding semver_laws_def cmp
    by (intro conjI allI impI) (assumption | rule range | rule refl | rule neg | erule (1) trans)+
qed

subsection \<open>Properties\<close>

text \<open>
  Printing three 64-bit numbers as \<open>vMAJOR.MINOR.PATCH\<close>, with any pre-release or build
  suffix that does not start with a digit, and parsing the text gives the numbers back, with
  the strict and with the tolerant expression, which also accepts it without the leading v.
\<close>

lemma ParseMajorMinorPatch_roundtrip:
  assumes "list_all is_tail_char t" and "t = [] \<or> \<not> is_digit (hd t)"
  shows "ParseMajorMinorPatch
           (''v'' @ show_nat (unat a) @ ''.'' @ show_nat (unat b) @ ''.'' @ show_nat (unat c) @ t) =
           Inr (release a b c) \<and>
         ParseMajorMinorPatchTolerant
           (''v'' @ show_nat (unat a) @ ''.'' @ show_nat (unat b) @ ''.'' @ show_nat (unat c) @ t) =
           Inr (release a b c) \<and>
         ParseMajorMinorPatchTolerant
           (show_nat (unat a) @ ''.'' @ show_nat (unat b) @ ''.'' @ show_nat (unat c) @ t) =
           Inr (release a b c)"
proof -
  let ?s = "show_nat (unat a) @ ''.'' @ show_nat (unat b) @ ''.'' @ show_nat (unat c) @ t"
  have v: "match_char (CHR ''v'') ?s = None"
    using show_nat_digits [of "unat a"]
    by (cases "show_nat (unat a)") (auto simp: match_char_def is_digit_def)
  have "FindStringSubmatch True ?s = FindStringSubmatch True (CHR ''v'' # ?s)"
    unfolding FindStringSubmatch_def v by (simp add: match_char_def)
  then show ?thesis
    using parse_printed [OF assms, of a b c]
    by (simp add: ParseMajorMinorPatch_def ParseMajorMinorPatchTolerant_def parseMajorMinorPatch_def)
qed

lemma ParseMajorMinorPatch_roundtrip_witness:
  "ParseMajorMinorPatch (''v'' @ show_nat (unat (1 :: 64 word)) @ ''.'' @ show_nat (unat (24 :: 64 word)) @
     ''.'' @ show_nat (unat (8 :: 64 word)) @ ''+build.1'') = Inr (release 1 24 8)"
proof -
  have "list_all is_tail_char ''+build.1''" and "\<not> is_digit (hd ''+build.1'')"
    by (code_simp, code_simp)
  then show ?thesis
    using ParseMajorMinorPatch_roundtrip [of "''+build.1''" 1 24 8] by blast
qed

text \<open>
  Two versions are within the supported skew exactly when they have the same major number
  and minor numbers that differ by at most one; the unsigned subtractions never wrap.
\<close>

lemma IsSupportedVersionSkew_iff:
  "IsSupportedVersionSkew a b \<longleftrightarrow>
     Major a = Major b \<and> \<bar>uint (Minor a) - uint (Minor b)\<bar> \<le> 1"
proof -
  have gt: "x - y = 1 \<longleftrightarrow> uint x - uint y = 1" if "x > y" for x y :: "64 word"
  proof -
    have "uint (x - y) = uint x - uint y"
      using that by (intro uint_sub_if' [THEN trans]) (simp add: word_less_def)
    then show ?thesis
      by (simp add: word_uint_eq_iff)
  qed
  have le: "y - x \<le> 1 \<longleftrightarrow> uint y - uint x \<le> 1" if "\<not> x > y" for x y :: "64 word"
  proof -
    have "uint (y - x) = uint y - uint x"
      using that by (intro uint_sub_if' [THEN trans]) (simp add: word_less_def)
    then show ?thesis
      by (simp add: word_le_def)
  qed
  have pos: "uint x > uint y" if "x > y" for x y :: "64 word"
    using that by (simp add: word_less_def)
  show ?thesis
  proof (cases "Minor a > Minor b")
    case True
    then show ?thesis
      using gt [OF True] pos [OF True] by (auto simp: IsSupportedVersionSkew_def)
  next
    case False
    then show ?thesis
      using le [OF False] by (auto simp: IsSupportedVersionSkew_def word_less_def)
  qed
qed

text \<open>
  The kubeadm API version chosen for a Kubernetes version depends on its major and minor
  numbers only, pre-release and build tags do not matter: below 1.13 an error, v1beta1 up to
  1.14, v1beta2 up to 1.21, v1beta3 from 1.22 on.
\<close>

lemma KubeVersionToKubeadmAPIGroupVersion_cases:
  assumes "semver_laws lib"
  shows "KubeVersionToKubeadmAPIGroupVersion lib v =
    (if Major v = 0 \<or> Major v = 1 \<and> Minor v < 13
     then Inl (Err ''the bootstrap provider for kubeadm doesn't support Kubernetes version lower than v1.13.0'')
     else if Major v = 1 \<and> Minor v < 15 then Inr (''kubeadm.k8s.io'', ''v1beta1'')
     else if Major v = 1 \<and> Minor v < 22 then Inr (''kubeadm.k8s.io'', ''v1beta2'')
     else Inr (''kubeadm.k8s.io'', ''v1beta3''))"
proof -
  have lt1: "w < 1 \<longleftrightarrow> w = 0" for w :: "64 word"
    by (auto simp: word_less_nat_alt unat_eq_0)
  have "Compare lib v (release 1 m 0) [WithoutPreReleases] < 0 \<longleftrightarrow>
      Major v = 0 \<or> Major v = 1 \<and> Minor v < m" for m
    unfolding Compare_release [OF assms] by (auto simp: core_cmp_def release_def cmp_simps(4) lt1)
  then show ?thesis
    by (simp add: KubeVersionToKubeadmAPIGroupVersion_def v1beta1KubeadmVersion_def
        v1beta2KubeadmVersion_def v1beta3KubeadmVersion_def kubeadm_gv_def)
qed

lemma KubeVersionToKubeadmAPIGroupVersion_cases_witness:
  "KubeVersionToKubeadmAPIGroupVersion numeric_lib (release 1 24 8) = Inr (''kubeadm.k8s.io'', ''v1beta3'')"
  using KubeVersionToKubeadmAPIGroupVersion_cases [OF numeric_lib_laws, of "release 1 24 8"]
  by (simp add: release_def)

end
