(* ===== verification/Conditions.thy ===== *)
theory Conditions
  imports Prelude
begin

text \<open>
  The conditions library \<open>util/conditions\<close>: reading (\<open>getter.go\<close>), setting
  (\<open>setter.go\<close>), merging several conditions into one (\<open>merge.go\<close>,
  \<open>merge_strategies.go\<close>) and the three-way merge of condition changes (\<open>patch.go\<close>).

  An object that carries conditions is seen through the interfaces \<open>Getter\<close> and \<open>Setter\<close>.
  The operations read and write its list of conditions, so here they take that list and
  return the new one; only merging also looks at the kind and the name of the object, which
  \<open>Getter\<close> records. Wherever the code reads the clock the model takes the instant \<open>now\<close>.
\<close>

subsection \<open>Data\<close>

type_synonym ConditionType = string

datatype ConditionStatus = ConditionTrue | ConditionFalse | ConditionUnknown | OtherStatus string

datatype ConditionSeverity =
  SeverityError | SeverityWarning | SeverityInfo | SeverityNone | OtherSeverity string

record Condition =
  Type :: ConditionType
  Status :: ConditionStatus
  Severity :: ConditionSeverity
  LastTransitionTime :: time
  Reason :: string
  Message :: string

type_synonym Conditions = "Condition list"

record Getter =
  GetKind :: string
  GetName :: string
  GetConditions :: Conditions

definition ReadyCondition :: ConditionType where
  "ReadyCondition = ''Ready''"

subsection \<open>Getters\<close>

fun Get :: "Conditions \<Rightarrow> ConditionType \<Rightarrow> Condition option" where
  "Get [] t = None"
| "Get (condition # conditions) t = (if Type condition = t then Some condition else Get conditions t)"

definition Has :: "Conditions \<Rightarrow> ConditionType \<Rightarrow> bool" where
  "Has from t \<longleftrightarrow> Get from t \<noteq> None"

definition IsTrue :: "Conditions \<Rightarrow> ConditionType \<Rightarrow> bool" where
  "IsTrue from t = (case Get from t of Some c \<Rightarrow> Status c = ConditionTrue | None \<Rightarrow> False)"

definition IsFalse :: "Conditions \<Rightarrow> ConditionType \<Rightarrow> bool" where
  "IsFalse from t = (case Get from t of Some c \<Rightarrow> Status c = ConditionFalse | None \<Rightarrow> False)"

definition IsUnknown :: "Conditions \<Rightarrow> ConditionType \<Rightarrow> bool" where
  "IsUnknown from t = (case Get from t of Some c \<Rightarrow> Status c = ConditionUnknown | None \<Rightarrow> True)"

definition GetReason :: "Conditions \<Rightarrow> ConditionType \<Rightarrow> string" where
  "GetReason from t = (case Get from t of Some c \<Rightarrow> Reason c | None \<Rightarrow> [])"

definition GetMessage :: "Conditions \<Rightarrow> ConditionType \<Rightarrow> string" where
  "GetMessage from t = (case Get from t of Some c \<Rightarrow> Message c | None \<Rightarrow> [])"

definition GetSeverity :: "Conditions \<Rightarrow> ConditionType \<Rightarrow> ConditionSeverity option" where
  "GetSeverity from t = map_option Severity (Get from t)"

definition GetLastTransitionTime :: "Conditions \<Rightarrow> ConditionType \<Rightarrow> time option" where
  "GetLastTransitionTime from t = map_option LastTransitionTime (Get from t)"

subsection \<open>Setters\<close>

definition lexicographicLess :: "Condition \<Rightarrow> Condition \<Rightarrow> bool" where
  "lexicographicLess i j \<longleftrightarrow>
     (Type i = ReadyCondition \<or> Type i < Type j) \<and> Type j \<noteq> ReadyCondition"

definition hasSameState :: "Condition \<Rightarrow> Condition \<Rightarrow> bool" where
  "hasSameState i j \<longleftrightarrow>
     Type i = Type j \<and> Status i = Status j \<and> Reason i = Reason j \<and> Severity i = Severity j \<and>
     Message i = Message j"

text \<open>The loop of \<open>Set\<close>: whether the type was found, and the updated list.\<close>

fun set_existing :: "time \<Rightarrow> Condition \<Rightarrow> Conditions \<Rightarrow> bool \<times> Conditions" where
  "set_existing now condition [] = (False, [])"
| "set_existing now condition (existing # rest) =
     (if Type existing = Type condition
      then (True,
            (if \<not> hasSameState existing condition
             then condition\<lparr>LastTransitionTime := Truncate_second now\<rparr> else existing) # rest)
      else (let (exists, rest') = set_existing now condition rest in (exists, existing # rest')))"

definition Set :: "time \<Rightarrow> Conditions \<Rightarrow> Condition option \<Rightarrow> Conditions" where
  "Set now to condition =
     (case condition of
        None \<Rightarrow> to
      | Some c \<Rightarrow>
          (let (exists, conditions) = set_existing now c to;
               conditions' =
                 (if exists then conditions
                  else conditions @
                    [if LastTransitionTime c = 0
                     then c\<lparr>LastTransitionTime := Truncate_second now\<rparr> else c])
           in go_sort lexicographicLess conditions'))"

definition TrueCondition :: "ConditionType \<Rightarrow> Condition" where
  "TrueCondition t =
     \<lparr>Type = t, Status = ConditionTrue, Severity = SeverityNone, LastTransitionTime = 0,
      Reason = [], Message = []\<rparr>"

text \<open>
  \<open>FalseCondition\<close> and \<open>UnknownCondition\<close> pass their last arguments to \<open>fmt.Sprintf\<close>. Here
  \<open>message\<close> is the formatted text; callers that give a format without arguments write
  \<open>Sprintf0\<close> around it.
\<close>

definition FalseCondition :: "ConditionType \<Rightarrow> string \<Rightarrow> ConditionSeverity \<Rightarrow> string \<Rightarrow> Condition" where
  "FalseCondition t reason severity message =
     \<lparr>Type = t, Status = ConditionFalse, Severity = severity, LastTransitionTime = 0,
      Reason = reason, Message = message\<rparr>"

definition UnknownCondition :: "ConditionType \<Rightarrow> string \<Rightarrow> string \<Rightarrow> Condition" where
  "UnknownCondition t reason message =
     \<lparr>Type = t, Status = ConditionUnknown, Severity = SeverityNone, LastTransitionTime = 0,
      Reason = reason, Message = message\<rparr>"

definition MarkTrue :: "time \<Rightarrow> Conditions \<Rightarrow> ConditionType \<Rightarrow> Conditions" where
  "MarkTrue now to t = Set now to (Some (TrueCondition t))"

definition MarkUnknown :: "time \<Rightarrow> Conditions \<Rightarrow> ConditionType \<Rightarrow> string \<Rightarrow> string \<Rightarrow> Conditions" where
  "MarkUnknown now to t reason message = Set now to (Some (UnknownCondition t reason message))"

definition MarkFalse ::
  "time \<Rightarrow> Conditions \<Rightarrow> ConditionType \<Rightarrow> string \<Rightarrow> ConditionSeverity \<Rightarrow> string \<Rightarrow> Conditions" where
  "MarkFalse now to t reason severity message =
     Set now to (Some (FalseCondition t reason severity message))"

definition Delete :: "Conditions \<Rightarrow> ConditionType \<Rightarrow> Conditions" where
  "Delete to t = filter (\<lambda>condition. Type condition \<noteq> t) to"

subsection \<open>Merging\<close>

type_synonym localizedCondition = "Condition option \<times> Getter"

record conditionGroup =
  grp_status :: ConditionStatus
  grp_severity :: ConditionSeverity
  grp_conditions :: "(Condition \<times> Getter) list"

definition mergePriority :: "conditionGroup \<Rightarrow> int" where
  "mergePriority g =
     (case grp_status g of
        ConditionFalse \<Rightarrow>
          (case grp_severity g of SeverityError \<Rightarrow> 0 | SeverityWarning \<Rightarrow> 1 | SeverityInfo \<Rightarrow> 2 | _ \<Rightarrow> 99)
      | ConditionTrue \<Rightarrow> 3
      | ConditionUnknown \<Rightarrow> 4
      | OtherStatus _ \<Rightarrow> 99)"

fun add_to_group :: "Condition \<times> Getter \<Rightarrow> conditionGroup list \<Rightarrow> conditionGroup list" where
  "add_to_group c [] =
     [\<lparr>grp_status = Status (fst c), grp_severity = Severity (fst c), grp_conditions = [c]\<rparr>]"
| "add_to_group c (g # groups) =
     (if grp_status g = Status (fst c) \<and> grp_severity g = Severity (fst c)
      then g\<lparr>grp_conditions := grp_conditions g @ [c]\<rparr> # groups
      else g # add_to_group c groups)"

fun group_conditions :: "conditionGroup list \<Rightarrow> localizedCondition list \<Rightarrow> conditionGroup list" where
  "group_conditions groups [] = groups"
| "group_conditions groups ((None, _) # rest) = group_conditions groups rest"
| "group_conditions groups ((Some c, from) # rest) =
     group_conditions (add_to_group (c, from) groups) rest"

definition localizedLess :: "Condition \<times> Getter \<Rightarrow> Condition \<times> Getter \<Rightarrow> bool" where
  "localizedLess a b =
     (if Type (fst a) \<noteq> Type (fst b) then lexicographicLess (fst a) (fst b)
      else GetName (snd a) < GetName (snd b))"

definition getConditionGroups :: "localizedCondition list \<Rightarrow> conditionGroup list" where
  "getConditionGroups cs =
     (case go_sort (\<lambda>g h. mergePriority g < mergePriority h) (group_conditions [] cs) of
        [] \<Rightarrow> []
      | g # rest \<Rightarrow> g\<lparr>grp_conditions := go_sort localizedLess (grp_conditions g)\<rparr> # rest)"

definition TopGroup :: "conditionGroup list \<Rightarrow> conditionGroup option" where
  "TopGroup g = (case g of [] \<Rightarrow> None | t # _ \<Rightarrow> Some t)"

fun getByStatusAndSeverity ::
  "conditionGroup list \<Rightarrow> ConditionStatus \<Rightarrow> ConditionSeverity \<Rightarrow> conditionGroup option" where
  "getByStatusAndSeverity [] st sev = None"
| "getByStatusAndSeverity (g # gs) st sev =
     (if grp_status g = st \<and> grp_severity g = sev then Some g else getByStatusAndSeverity gs st sev)"

definition TrueGroup :: "conditionGroup list \<Rightarrow> conditionGroup option" where
  "TrueGroup g = getByStatusAndSeverity g ConditionTrue SeverityNone"

definition ErrorGroup :: "conditionGroup list \<Rightarrow> conditionGroup option" where
  "ErrorGroup g = getByStatusAndSeverity g ConditionFalse SeverityError"

definition WarningGroup :: "conditionGroup list \<Rightarrow> conditionGroup option" where
  "WarningGroup g = getByStatusAndSeverity g ConditionFalse SeverityWarning"

text \<open>The two lists of types are slices that may be nil.\<close>

record mergeOptions =
  conditionTypes :: "ConditionType list option"
  addSourceRef :: bool
  addStepCounter :: bool
  addStepCounterIfOnlyConditionTypes :: "ConditionType list option"
  stepCounter :: int

datatype MergeOption =
    WithConditions "ConditionType list"
  | WithStepCounter
  | WithStepCounterIf bool
  | WithStepCounterIfOnly "ConditionType list"
  | AddSourceRef

definition types_of :: "ConditionType list option \<Rightarrow> ConditionType list" where
  "types_of ts = (case ts of None \<Rightarrow> [] | Some l \<Rightarrow> l)"

text \<open>A variadic call without arguments passes a nil slice.\<close>

fun apply_MergeOption :: "MergeOption \<Rightarrow> mergeOptions \<Rightarrow> mergeOptions" where
  "apply_MergeOption (WithConditions t) c = c\<lparr>conditionTypes := (if t = [] then None else Some t)\<rparr>"
| "apply_MergeOption WithStepCounter c = c\<lparr>addStepCounter := True\<rparr>"
| "apply_MergeOption (WithStepCounterIf value) c = c\<lparr>addStepCounter := value\<rparr>"
| "apply_MergeOption (WithStepCounterIfOnly t) c =
     c\<lparr>addStepCounterIfOnlyConditionTypes := (if t = [] then None else Some t)\<rparr>"
| "apply_MergeOption AddSourceRef c = c\<lparr>addSourceRef := True\<rparr>"

definition getFirstCondition ::
  "conditionGroup list \<Rightarrow> ConditionType list \<Rightarrow> (Condition \<times> Getter) option" where
  "getFirstCondition g priority =
     (case TopGroup g of
        None \<Rightarrow> None
      | Some topGroup \<Rightarrow>
          (case grp_conditions topGroup of
             [] \<Rightarrow> None
           | [c] \<Rightarrow> Some c
           | c # cs \<Rightarrow>
               (case find (\<lambda>p. \<exists>d\<in>set (c # cs). Type (fst d) = p) priority of
                  Some p \<Rightarrow> find (\<lambda>d. Type (fst d) = p) (c # cs)
                | None \<Rightarrow> Some c)))"

definition localizeReason :: "string \<Rightarrow> Getter \<Rightarrow> string" where
  "localizeReason reason from =
     (if CHR ''@'' \<in> set reason then reason
      else reason @ '' @ '' @ GetKind from @ ''/'' @ GetName from)"

definition getFirstReason :: "conditionGroup list \<Rightarrow> ConditionType list \<Rightarrow> bool \<Rightarrow> string" where
  "getFirstReason g order withRef =
     (case getFirstCondition g order of
        Some (condition, from) \<Rightarrow>
          (if withRef then localizeReason (Reason condition) from else Reason condition)
      | None \<Rightarrow> [])"

definition getReason :: "conditionGroup list \<Rightarrow> mergeOptions \<Rightarrow> string" where
  "getReason groups options = getFirstReason groups (types_of (conditionTypes options)) (addSourceRef options)"

definition getStepCounterMessage :: "conditionGroup list \<Rightarrow> int \<Rightarrow> string" where
  "getStepCounterMessage groups to =
     (let ct = (case TrueGroup groups of Some g \<Rightarrow> length (grp_conditions g) | None \<Rightarrow> 0)
      in show_int (int ct) @ '' of '' @ show_int to @ '' completed'')"

definition getFirstMessage :: "conditionGroup list \<Rightarrow> ConditionType list \<Rightarrow> string" where
  "getFirstMessage groups order =
     (case getFirstCondition groups order of Some (condition, _) \<Rightarrow> Message condition | None \<Rightarrow> [])"

definition getMessage :: "conditionGroup list \<Rightarrow> mergeOptions \<Rightarrow> string" where
  "getMessage groups options =
     (if addStepCounter options then getStepCounterMessage groups (stepCounter options)
      else getFirstMessage groups (types_of (conditionTypes options)))"

definition merge :: "localizedCondition list \<Rightarrow> ConditionType \<Rightarrow> mergeOptions \<Rightarrow> Condition option" where
  "merge cs targetCondition options =
     (let g = getConditionGroups cs
      in case TopGroup g of
           None \<Rightarrow> None
         | Some t \<Rightarrow>
             (if grp_status t = ConditionTrue then Some (TrueCondition targetCondition)
              else (let targetReason = getReason g options;
                        targetMessage = getMessage g options
                    in if grp_status t = ConditionFalse
                       then Some (FalseCondition targetCondition targetReason (grp_severity t) (Sprintf0 targetMessage))
                       else Some (UnknownCondition targetCondition targetReason (Sprintf0 targetMessage)))))"

definition summary :: "Getter \<Rightarrow> MergeOption list \<Rightarrow> Condition option" where
  "summary from options =
     (let mergeOpt = fold apply_MergeOption options
            \<lparr>conditionTypes = None, addSourceRef = False, addStepCounter = False,
             addStepCounterIfOnlyConditionTypes = None, stepCounter = 0\<rparr>;
          inScope = filter (\<lambda>c. Type c \<noteq> ReadyCondition \<and>
            (case conditionTypes mergeOpt of None \<Rightarrow> True | Some ts \<Rightarrow> Type c \<in> set ts)) (GetConditions from);
          counter = addStepCounter mergeOpt \<and>
            (case addStepCounterIfOnlyConditionTypes mergeOpt of
               None \<Rightarrow> True | Some ts \<Rightarrow> list_all (\<lambda>c. Type c \<in> set ts) inScope);
          steps =
            (case addStepCounterIfOnlyConditionTypes mergeOpt of
               Some ts \<Rightarrow> length ts
             | None \<Rightarrow> (case conditionTypes mergeOpt of Some ts \<Rightarrow> length ts | None \<Rightarrow> length inScope));
          mergeOpt' = mergeOpt\<lparr>addStepCounter := counter,
            stepCounter := (if counter then int steps else stepCounter mergeOpt)\<rparr>
      in merge (map (\<lambda>c. (Some c, from)) inScope) ReadyCondition mergeOpt')"

definition SetSummary :: "time \<Rightarrow> Getter \<Rightarrow> MergeOption list \<Rightarrow> Conditions" where
  "SetSummary now to options = Set now (GetConditions to) (summary to options)"

record mirrorOptions =
  fallbackTo :: "bool option"
  fallbackReason :: string
  fallbackSeverity :: ConditionSeverity
  fallbackMessage :: string

text \<open>A list of \<open>WithFallbackValue\<close> options; the last one wins.\<close>

definition mirror :: "Conditions \<Rightarrow> ConditionType \<Rightarrow> mirrorOptions list \<Rightarrow> Condition option" where
  "mirror from targetCondition options =
     (let opt = (if options = [] then \<lparr>fallbackTo = None, fallbackReason = [],
                    fallbackSeverity = SeverityNone, fallbackMessage = []\<rparr> else last options);
          condition =
            (case (fallbackTo opt, Get from ReadyCondition) of
               (Some True, None) \<Rightarrow> Some (TrueCondition targetCondition)
             | (Some False, None) \<Rightarrow>
                 Some (FalseCondition targetCondition (fallbackReason opt) (fallbackSeverity opt)
                         (Sprintf0 (fallbackMessage opt)))
             | (_, c) \<Rightarrow> c)
      in map_option (\<lambda>c. c\<lparr>Type := targetCondition\<rparr>) condition)"

definition SetMirror ::
  "time \<Rightarrow> Conditions \<Rightarrow> ConditionType \<Rightarrow> Conditions \<Rightarrow> mirrorOptions list \<Rightarrow> Conditions" where
  "SetMirror now to targetCondition from options = Set now to (mirror from targetCondition options)"

definition aggregate :: "Getter list \<Rightarrow> ConditionType \<Rightarrow> MergeOption list \<Rightarrow> Condition option" where
  "aggregate from targetCondition options =
     (let conditionsInScope = map (\<lambda>g. (Get (GetConditions g) ReadyCondition, g)) from;
          mergeOpt = fold apply_MergeOption options
            \<lparr>conditionTypes = None, addSourceRef = False, addStepCounter = True,
             addStepCounterIfOnlyConditionTypes = None, stepCounter = int (length from)\<rparr>
      in merge conditionsInScope targetCondition mergeOpt)"

definition SetAggregate ::
  "time \<Rightarrow> Conditions \<Rightarrow> ConditionType \<Rightarrow> Getter list \<Rightarrow> MergeOption list \<Rightarrow> Conditions" where
  "SetAggregate now to targetCondition from options = Set now to (aggregate from targetCondition options)"

subsection \<open>Three-way merge\<close>

datatype PatchOperation =
    AddConditionPatch Condition
  | ChangeConditionPatch Condition Condition \<comment> \<open>before, after\<close>
  | RemoveConditionPatch Condition

type_synonym Patch = "PatchOperation list"

definition NewPatch :: "Conditions option \<Rightarrow> Conditions option \<Rightarrow> error + Patch" where
  "NewPatch before after =
     (case before of None \<Rightarrow> Inl (Err ''error creating patch: before object is nil'')
      | Some b \<Rightarrow>
     (case after of None \<Rightarrow> Inl (Err ''error creating patch: after object is nil'')
      | Some a \<Rightarrow>
          Inr (concat (map (\<lambda>target.
                 (case Get b (Type target) of
                    None \<Rightarrow> [AddConditionPatch target]
                  | Some current \<Rightarrow>
                      (if target \<noteq> current then [ChangeConditionPatch current target] else []))) a) @
               concat (map (\<lambda>base.
                 (case Get a (Type base) of None \<Rightarrow> [RemoveConditionPatch base] | Some _ \<Rightarrow> [])) b))))"

record applyOptions =
  ownedConditions :: "ConditionType list"
  forceOverwrite :: bool

definition isOwnedCondition :: "applyOptions \<Rightarrow> ConditionType \<Rightarrow> bool" where
  "isOwnedCondition opts t \<longleftrightarrow> t \<in> set (ownedConditions opts)"

definition conflict :: "string \<Rightarrow> ConditionType \<Rightarrow> error" where
  "conflict kind t = Err (''error patching conditions: '' @ kind @ '': '' @ t)"

text \<open>One round of the loop of \<open>Apply\<close> on the latest conditions.\<close>

fun apply_op :: "time \<Rightarrow> applyOptions \<Rightarrow> Conditions \<Rightarrow> PatchOperation \<Rightarrow> error + Conditions" where
  "apply_op now opts latest (AddConditionPatch after) =
     (if forceOverwrite opts \<or> isOwnedCondition opts (Type after) then Inr (Set now latest (Some after))
      else case Get latest (Type after) of
             Some latestCondition \<Rightarrow>
               (if \<not> hasSameState latestCondition after then Inl (conflict ''AddCondition'' (Type after))
                else Inr latest)
           | None \<Rightarrow> Inr (Set now latest (Some after)))"
| "apply_op now opts latest (ChangeConditionPatch before after) =
     (if forceOverwrite opts \<or> isOwnedCondition opts (Type after) then Inr (Set now latest (Some after))
      else case Get latest (Type after) of
             None \<Rightarrow> Inl (conflict ''ChangeCondition'' (Type after))
           | Some latestCondition \<Rightarrow>
               (if latestCondition \<noteq> before
                then (if \<not> hasSameState latestCondition after
                      then Inl (conflict ''ChangeCondition'' (Type after)) else Inr latest)
                else Inr (Set now latest (Some after))))"
| "apply_op now opts latest (RemoveConditionPatch before) =
     (if forceOverwrite opts \<or> isOwnedCondition opts (Type before) then Inr (Delete latest (Type before))
      else case Get latest (Type before) of
             Some latestCondition \<Rightarrow>
               (if \<not> hasSameState latestCondition before
                then Inl (conflict ''RemoveCondition'' (Type before))
                else Inr (Delete latest (Type before)))
           | None \<Rightarrow> Inr (Delete latest (Type before)))"

text \<open>\<open>Apply\<close> stops at the first conflict; what was applied before it stays on the object.\<close>

fun apply_ops :: "time \<Rightarrow> applyOptions \<Rightarrow> Patch \<Rightarrow> Conditions \<Rightarrow> error option \<times> Conditions" where
  "apply_ops now opts [] latest = (None, latest)"
| "apply_ops now opts (op # ops) latest =
     (case apply_op now opts latest op of
        Inl e \<Rightarrow> (Some e, latest)
      | Inr latest' \<Rightarrow> apply_ops now opts ops latest')"

definition Apply ::
  "time \<Rightarrow> Patch \<Rightarrow> Conditions option \<Rightarrow> applyOptions \<Rightarrow> error option \<times> Conditions option" where
  "Apply now p latest opts =
     (if p = [] then (None, latest)
      else case latest of
             None \<Rightarrow> (Some (Err ''error patching conditions: latest object was nil''), None)
           | Some l \<Rightarrow> (let (e, l') = apply_ops now opts p l in (e, Some l')))"

subsection \<open>The order of conditions\<close>

text \<open>\<open>lexicographicLess\<close> is the order of the pairs (is not Ready, type).\<close>

definition condition_key :: "ConditionType \<Rightarrow> bool \<times> string" where
  "condition_key t = (t \<noteq> ReadyCondition, t)"

definition key_less :: "bool \<times> string \<Rightarrow> bool \<times> string \<Rightarrow> bool" where
  "key_less a b \<longleftrightarrow> fst a < fst b \<or> fst a = fst b \<and> snd a < snd b"

lemma lexicographicLess_key:
  "lexicographicLess i j \<longleftrightarrow> key_less (condition_key (Type i)) (condition_key (Type j))"
  by (auto simp: lexicographicLess_def condition_key_def key_less_def)

lemma strict_weak_lexicographicLess: "strict_weak_on A lexicographicLess"
  unfolding strict_weak_on_def lexicographicLess_key key_less_def
  by (auto simp: not_less)

lemma lexicographicLess_total:
  "\<not> lexicographicLess i j \<Longrightarrow> \<not> lexicographicLess j i \<Longrightarrow> Type i = Type j"
  by (auto simp: lexicographicLess_def)

subsection \<open>Well-formed lists of conditions\<close>

text \<open>At most one condition of each type, Ready first, the others by type.\<close>

definition wf_conditions :: "Conditions \<Rightarrow> bool" where
  "wf_conditions cs \<longleftrightarrow> distinct (map Type cs) \<and> sorted_wrt lexicographicLess cs"

definition distinct_types :: "Conditions \<Rightarrow> bool" where
  "distinct_types cs \<longleftrightarrow> distinct (map Type cs)"

lemma Get_Some_iff:
  "distinct_types cs \<Longrightarrow> Get cs t = Some c \<longleftrightarrow> c \<in> set cs \<and> Type c = t"
  by (induction cs) (auto simp: distinct_types_def)

lemma Get_SomeD: "Get cs t = Some c \<Longrightarrow> c \<in> set cs \<and> Type c = t"
  by (induction cs) (auto split: if_splits)

lemma Get_None_iff: "Get cs t = None \<longleftrightarrow> t \<notin> Type ` set cs"
  by (induction cs) auto

lemma distinct_types_mset: "mset cs = mset ds \<Longrightarrow> distinct_types cs \<longleftrightarrow> distinct_types ds"
  unfolding distinct_types_def by (metis mset_eq_imp_distinct_iff mset_map)

lemma Get_mset: "distinct_types cs \<Longrightarrow> mset cs = mset ds \<Longrightarrow> Get cs t = Get ds t"
  by (metis Get_None_iff Get_Some_iff distinct_types_mset mset_eq_setD not_None_eq)

lemma set_existing_fst: "fst (set_existing now c cs) \<longleftrightarrow> Type c \<in> Type ` set cs"
  by (induction cs) (auto split: prod.splits)

lemma set_existing_types: "map Type (snd (set_existing now c cs)) = map Type cs"
  by (induction cs) (auto simp: split_beta)

text \<open>The condition that ends up stored when \<open>c\<close> is set over an existing list.\<close>

definition stored :: "time \<Rightarrow> Conditions \<Rightarrow> Condition \<Rightarrow> Condition" where
  "stored now cs c =
     (case Get cs (Type c) of
        Some e \<Rightarrow> (if hasSameState e c then e else c\<lparr>LastTransitionTime := Truncate_second now\<rparr>)
      | None \<Rightarrow> (if LastTransitionTime c = 0 then c\<lparr>LastTransitionTime := Truncate_second now\<rparr> else c))"

lemma Type_stored [simp]: "Type (stored now cs c) = Type c"
  by (auto simp: stored_def hasSameState_def split: option.split)

lemma hasSameState_refl [simp]: "hasSameState c c"
  by (simp add: hasSameState_def)

lemma hasSameState_stored: "hasSameState (stored now cs c) c"
  by (auto simp: stored_def hasSameState_def split: option.split)

lemma Get_set_existing:
  "Get (snd (set_existing now c cs)) t =
     (if t = Type c \<and> t \<in> Type ` set cs then Some (stored now cs c) else Get cs t)"
  by (induction cs) (auto simp: split_beta stored_def hasSameState_def split: option.splits)

lemma Get_append: "Get (cs @ ds) t = (case Get cs t of None \<Rightarrow> Get ds t | Some c \<Rightarrow> Some c)"
  by (induction cs) auto

definition unsorted_set :: "time \<Rightarrow> Conditions \<Rightarrow> Condition \<Rightarrow> Conditions" where
  "unsorted_set now cs c =
     (let (exists, ds) = set_existing now c cs
      in if exists then ds else ds @ [if LastTransitionTime c = 0
           then c\<lparr>LastTransitionTime := Truncate_second now\<rparr> else c])"

lemma Set_unsorted: "Set now cs (Some c) = go_sort lexicographicLess (unsorted_set now cs c)"
  by (simp add: Set_def unsorted_set_def split_beta Let_def)

lemma distinct_unsorted_set: "distinct_types cs \<Longrightarrow> distinct_types (unsorted_set now cs c)"
  using set_existing_types [of now c cs] set_existing_fst [of now c cs]
  by (auto simp: distinct_types_def unsorted_set_def split_beta Let_def image_iff
      simp flip: set_map)

lemma Get_unsorted_set:
  "Get (unsorted_set now cs c) t = (if t = Type c then Some (stored now cs c) else Get cs t)"
proof (cases "Type c \<in> Type ` set cs")
  case True
  then show ?thesis
    by (auto simp: unsorted_set_def split_beta Let_def set_existing_fst Get_set_existing)
next
  case False
  then have "Get cs (Type c) = None"
    by (simp add: Get_None_iff)
  then show ?thesis
    using False
    by (auto simp: unsorted_set_def split_beta Let_def set_existing_fst Get_set_existing Get_append
        stored_def split: option.split)
qed

subsection \<open>The interface of a store of conditions\<close>

text \<open>
  What the controllers rely on when they read and write conditions: a written condition is
  read back up to its transition time, other types are not touched, a deleted type is gone,
  and at most one condition of a type is kept.
\<close>

locale condition_store =
  fixes inv :: "'s \<Rightarrow> bool"
    and get :: "'s \<Rightarrow> ConditionType \<Rightarrow> Condition option"
    and put :: "time \<Rightarrow> 's \<Rightarrow> Condition option \<Rightarrow> 's"
    and del :: "'s \<Rightarrow> ConditionType \<Rightarrow> 's"
  assumes put_None: "put now s None = s"
    and inv_put: "inv s \<Longrightarrow> inv (put now s co)"
    and inv_del: "inv s \<Longrightarrow> inv (del s t)"
    and get_put_same: "inv s \<Longrightarrow> \<exists>c'. get (put now s (Some c)) (Type c) = Some c' \<and> hasSameState c' c"
    and get_put_other: "inv s \<Longrightarrow> t \<noteq> Type c \<Longrightarrow> get (put now s (Some c)) t = get s t"
    and get_del_same: "inv s \<Longrightarrow> get (del s t) t = None"
    and get_del_other: "inv s \<Longrightarrow> t \<noteq> u \<Longrightarrow> get (del s u) t = get s t"
begin

lemma get_put_status:
  "inv s \<Longrightarrow> \<exists>c'. get (put now s (Some c)) (Type c) = Some c' \<and> Status c' = Status c"
  using get_put_same [of s now c] by (auto simp: hasSameState_def)

lemma put_put_other:
  assumes "inv s" and "Type c \<noteq> Type d"
  shows "\<exists>c'. get (put now (put now s (Some c)) (Some d)) (Type c) = Some c' \<and> hasSameState c' c"
  using assms get_put_same [of s now c] get_put_other [OF inv_put [of s now "Some c"], of "Type c" d now]
  by auto

lemma put_del: "inv s \<Longrightarrow> t \<noteq> Type c \<Longrightarrow> get (put now (del s t) (Some c)) t = None"
  by (simp add: get_del_same get_put_other inv_del)

lemma put_keeps_none:
  "inv s \<Longrightarrow> get s t = None \<Longrightarrow> c = None \<or> Type (the c) \<noteq> t \<Longrightarrow> get (put now s c) t = None"
  by (cases c) (auto simp: put_None get_put_other)

end

lemma distinct_Set: "distinct_types cs \<Longrightarrow> distinct_types (Set now cs c)"
proof (cases c)
  case None
  then show "distinct_types cs \<Longrightarrow> ?thesis" by (simp add: Set_def)
next
  case (Some d)
  moreover assume "distinct_types cs"
  ultimately show ?thesis
    using distinct_types_mset [OF gs.mset_srt [of lexicographicLess "unsorted_set now cs d"]]
    by (simp add: Set_unsorted distinct_unsorted_set)
qed

lemma Get_Set:
  assumes "distinct_types cs"
  shows "Get (Set now cs (Some c)) t = (if t = Type c then Some (stored now cs c) else Get cs t)"
proof -
  have "Get (Set now cs (Some c)) t = Get (unsorted_set now cs c) t"
    unfolding Set_unsorted
    by (rule Get_mset [symmetric]) (simp_all add: distinct_unsorted_set assms gs.mset_srt)
  then show ?thesis
    by (simp add: Get_unsorted_set)
qed

lemma Get_Delete: "Get (Delete cs u) t = (if t = u then None else Get cs t)"
  by (induction cs) (auto simp: Delete_def)

lemma distinct_Delete: "distinct_types cs \<Longrightarrow> distinct_types (Delete cs t)"
  by (auto simp: distinct_types_def Delete_def intro: distinct_map_filter)

interpretation cs: condition_store distinct_types Get Set Delete
proof unfold_locales
  fix s :: Conditions and now t u c
  show "Set now s None = s" by (simp add: Set_def)
  assume inv: "distinct_types s"
  show "distinct_types (Set now s c)" by (rule distinct_Set [OF inv])
  show "distinct_types (Delete s t)" by (rule distinct_Delete [OF inv])
  show "\<exists>c'. Get (Set now s (Some d)) (Type d) = Some c' \<and> hasSameState c' d" for d
    by (simp add: Get_Set inv hasSameState_stored)
  show "t \<noteq> Type d \<Longrightarrow> Get (Set now s (Some d)) t = Get s t" for d
    by (simp add: Get_Set inv)
  show "Get (Delete s t) t = None" by (simp add: Get_Delete)
  show "t \<noteq> u \<Longrightarrow> Get (Delete s u) t = Get s t" by (simp add: Get_Delete)
qed

lemma sorted_Set:
  assumes "distinct_types cs"
  shows "wf_conditions (Set now cs (Some c))"
proof -
  let ?l = "Set now cs (Some c)"
  have d: "distinct_types ?l" by (rule distinct_Set [OF assms])
  have s: "sorted_wrt (\<lambda>a b. \<not> lexicographicLess b a) ?l"
    unfolding Set_unsorted by (rule gs.sorted_srt) (rule strict_weak_lexicographicLess)
  have "sorted_wrt lexicographicLess ?l"
    unfolding sorted_wrt_iff_nth_less
  proof (intro allI impI)
    fix i j
    assume ij: "i < j" "j < length ?l"
    then have "Type (?l ! i) \<noteq> Type (?l ! j)"
      using d nth_eq_iff_index_eq [of "map Type ?l" i j] by (simp add: distinct_types_def)
    moreover have "\<not> lexicographicLess (?l ! j) (?l ! i)"
      using s ij unfolding sorted_wrt_iff_nth_less by blast
    ultimately show "lexicographicLess (?l ! i) (?l ! j)"
      using lexicographicLess_total by blast
  qed
  then show ?thesis
    using d by (simp add: wf_conditions_def distinct_types_def)
qed

lemma wf_distinct: "wf_conditions cs \<Longrightarrow> distinct_types cs"
  by (simp add: wf_conditions_def distinct_types_def)

lemma IsTrue_Set:
  "distinct_types cs \<Longrightarrow> IsTrue (Set now cs (Some c)) t =
     (if t = Type c then Status c = ConditionTrue else IsTrue cs t)"
  using hasSameState_stored [of now cs c] by (simp add: IsTrue_def Get_Set hasSameState_def)

lemma IsFalse_Set:
  "distinct_types cs \<Longrightarrow> IsFalse (Set now cs (Some c)) t =
     (if t = Type c then Status c = ConditionFalse else IsFalse cs t)"
  using hasSameState_stored [of now cs c] by (simp add: IsFalse_def Get_Set hasSameState_def)

lemmas condition_constructors = TrueCondition_def FalseCondition_def UnknownCondition_def

lemma Mark_status:
  assumes "distinct_types cs"
  shows "IsTrue (MarkTrue now cs t) u = (u = t \<or> IsTrue cs u)"
    and "IsTrue (MarkFalse now cs t r sev m) u = (u \<noteq> t \<and> IsTrue cs u)"
    and "IsFalse (MarkTrue now cs t) u = (u \<noteq> t \<and> IsFalse cs u)"
    and "IsFalse (MarkFalse now cs t r sev m) u = (u = t \<or> IsFalse cs u)"
  by (auto simp: MarkTrue_def MarkFalse_def IsTrue_Set IsFalse_Set assms condition_constructors)

lemma distinct_Mark:
  assumes "distinct_types cs"
  shows "distinct_types (MarkTrue now cs t)" and "distinct_types (MarkFalse now cs t r sev m)"
    and "distinct_types (MarkUnknown now cs t r m)"
  by (simp_all add: MarkTrue_def MarkFalse_def MarkUnknown_def distinct_Set assms)

lemma IsTrue_not_IsFalse: "IsTrue cs t \<Longrightarrow> \<not> IsFalse cs t"
  by (auto simp: IsTrue_def IsFalse_def split: option.splits)

subsection \<open>Merging picks the most important group\<close>

lemma add_to_group_members:
  "(\<exists>g\<in>set (add_to_group c gs). grp_status g = st \<and> grp_severity g = sev) \<longleftrightarrow>
     (st = Status (fst c) \<and> sev = Severity (fst c)) \<or>
     (\<exists>g\<in>set gs. grp_status g = st \<and> grp_severity g = sev)"
  by (induction gs) auto

text \<open>The conditions that are really there: \<open>aggregate\<close> passes on objects without one.\<close>

fun present :: "localizedCondition list \<Rightarrow> Condition list" where
  "present [] = []"
| "present ((None, _) # rest) = present rest"
| "present ((Some c, _) # rest) = c # present rest"

lemma group_conditions_members:
  "(\<exists>g\<in>set (group_conditions gs cs). grp_status g = st \<and> grp_severity g = sev) \<longleftrightarrow>
     (\<exists>d\<in>set (present cs). Status d = st \<and> Severity d = sev) \<or>
     (\<exists>g\<in>set gs. grp_status g = st \<and> grp_severity g = sev)"
  by (induction gs cs rule: group_conditions.induct) (auto simp: add_to_group_members)

text \<open>The priority of the group a condition belongs to.\<close>

definition condition_priority :: "Condition \<Rightarrow> int" where
  "condition_priority c =
     mergePriority \<lparr>grp_status = Status c, grp_severity = Severity c, grp_conditions = []\<rparr>"

lemma mergePriority_cong:
  "grp_status g = Status c \<Longrightarrow> grp_severity g = Severity c \<Longrightarrow> mergePriority g = condition_priority c"
  by (simp add: mergePriority_def condition_priority_def split: ConditionStatus.split)

lemma TopGroup_cases:
  obtains (empty) "group_conditions [] cs = []" and "TopGroup (getConditionGroups cs) = None"
  | (group) g t where "TopGroup (getConditionGroups cs) = Some t"
      and "g \<in> set (group_conditions [] cs)"
      and "grp_status t = grp_status g" and "grp_severity t = grp_severity g"
      and "\<forall>h\<in>set (group_conditions [] cs). mergePriority g \<le> mergePriority h"
proof (cases "go_sort (\<lambda>g h. mergePriority g < mergePriority h) (group_conditions [] cs)")
  case Nil
  then have "group_conditions [] cs = []"
    by (simp add: gs.srt_Nil_iff)
  with Nil show ?thesis
    using that(1) by (simp add: TopGroup_def getConditionGroups_def)
next
  case (Cons g rest)
  have sw: "strict_weak_on (set (group_conditions [] cs)) (\<lambda>g h. mergePriority g < mergePriority h)"
    by (rule strict_weak_on_key [of _ _ mergePriority]) simp
  have "g \<in> set (group_conditions [] cs)"
    using gs.set_srt [of "\<lambda>g h. mergePriority g < mergePriority h" "group_conditions [] cs"] Cons
    by auto
  moreover have "\<forall>h\<in>set (group_conditions [] cs). mergePriority g \<le> mergePriority h"
    using gs.hd_srt_least [OF sw] Cons by (simp add: not_less)
  ultimately show ?thesis
    using that(2) [of "g\<lparr>grp_conditions := go_sort localizedLess (grp_conditions g)\<rparr>" g] Cons
    by (simp add: TopGroup_def getConditionGroups_def)
qed

lemma merge_outcome:
  assumes "present cs \<noteq> []"
  obtains c m where "merge cs t options = Some m" and "c \<in> set (present cs)"
    and "\<forall>d\<in>set (present cs). condition_priority c \<le> condition_priority d"
    and "Type m = t"
    and "Status m = (if Status c \<in> {ConditionTrue, ConditionFalse} then Status c else ConditionUnknown)"
    and "Status c = ConditionFalse \<longrightarrow> Severity m = Severity c"
proof -
  have iff: "(\<exists>g\<in>set (group_conditions [] cs). grp_status g = st \<and> grp_severity g = sev) \<longleftrightarrow>
      (\<exists>d\<in>set (present cs). Status d = st \<and> Severity d = sev)" for st sev
    using group_conditions_members [of "[]" cs st sev] by simp
  show ?thesis
  proof (rule TopGroup_cases [of cs])
    assume empty: "group_conditions [] cs = []"
    from assms obtain d where "d \<in> set (present cs)"
      by (cases "present cs") auto
    then show ?thesis
      using iff [of "Status d" "Severity d"] empty by auto
  next
    fix g tg
    assume tg: "TopGroup (getConditionGroups cs) = Some tg"
      and g: "g \<in> set (group_conditions [] cs)"
      and st: "grp_status tg = grp_status g" and sev: "grp_severity tg = grp_severity g"
      and least: "\<forall>h\<in>set (group_conditions [] cs). mergePriority g \<le> mergePriority h"
    from g iff [of "grp_status g" "grp_severity g"] obtain c where
      c: "c \<in> set (present cs)" "Status c = grp_status g" "Severity c = grp_severity g"
      by auto
    have "\<forall>d\<in>set (present cs). condition_priority c \<le> condition_priority d"
    proof
      fix d
      assume "d \<in> set (present cs)"
      then obtain h where "h \<in> set (group_conditions [] cs)"
        "grp_status h = Status d" "grp_severity h = Severity d"
        using iff [of "Status d" "Severity d"] by auto
      then show "condition_priority c \<le> condition_priority d"
        using least c mergePriority_cong by metis
    qed
    then show ?thesis
      using that [OF _ c(1)] c st sev tg
      by (cases "grp_status g") (auto simp: merge_def Let_def condition_constructors)
  qed
qed

subsection \<open>The three-way merge\<close>

fun op_type :: "PatchOperation \<Rightarrow> ConditionType" where
  "op_type (AddConditionPatch a) = Type a"
| "op_type (ChangeConditionPatch b a) = Type a"
| "op_type (RemoveConditionPatch b) = Type b"

fun op_result :: "PatchOperation \<Rightarrow> Condition option" where
  "op_result (AddConditionPatch a) = Some a"
| "op_result (ChangeConditionPatch b a) = Some a"
| "op_result (RemoveConditionPatch b) = None"

text \<open>What the operation expects to find, or the effect already there.\<close>

fun op_expects :: "PatchOperation \<Rightarrow> Condition option" where
  "op_expects (AddConditionPatch a) = None"
| "op_expects (ChangeConditionPatch b a) = Some b"
| "op_expects (RemoveConditionPatch b) = Some b"

lemma apply_op_distinct:
  assumes "distinct_types l" and "apply_op now opts l op = Inr l'"
  shows "distinct_types l'"
  using assms by (cases op) (auto simp: distinct_Set distinct_Delete split: if_splits option.splits)

lemma apply_op_other:
  assumes "distinct_types l" and "apply_op now opts l op = Inr l'" and "t \<noteq> op_type op"
  shows "Get l' t = Get l t"
  using assms by (cases op) (auto simp: Get_Set Get_Delete split: if_splits option.splits)

lemma apply_op_same:
  assumes "distinct_types l" and "apply_op now opts l op = Inr l'"
  shows "rel_option hasSameState (Get l' (op_type op)) (op_result op)"
  using assms
  by (cases op) (auto simp: Get_Set Get_Delete hasSameState_stored split: if_splits option.splits)

lemma apply_op_total:
  "forceOverwrite opts \<or> isOwnedCondition opts (op_type op) \<or> Get l (op_type op) = op_expects op \<Longrightarrow>
   \<exists>l'. apply_op now opts l op = Inr l'"
  by (cases op) auto

lemma apply_ops_effect:
  assumes "distinct_types l" and "distinct (map op_type ops)" and "apply_ops now opts ops l = (None, l')"
  shows "distinct_types l' \<and>
    (\<forall>op\<in>set ops. rel_option hasSameState (Get l' (op_type op)) (op_result op)) \<and>
    (\<forall>t. t \<notin> op_type ` set ops \<longrightarrow> Get l' t = Get l t)"
  using assms
proof (induction ops arbitrary: l)
  case Nil
  then show ?case by simp
next
  case (Cons op ops)
  then obtain m where m: "apply_op now opts l op = Inr m" and rest: "apply_ops now opts ops m = (None, l')"
    by (auto split: sum.splits)
  have "distinct_types m"
    by (rule apply_op_distinct [OF Cons.prems(1) m])
  then have ih: "distinct_types l'"
    "\<forall>op\<in>set ops. rel_option hasSameState (Get l' (op_type op)) (op_result op)"
    "\<forall>t. t \<notin> op_type ` set ops \<longrightarrow> Get l' t = Get m t"
    using Cons.IH [OF _ _ rest] Cons.prems(2) by auto
  moreover have "Get l' (op_type op) = Get m (op_type op)"
    using ih(3) Cons.prems(2) by auto
  moreover have "Get m t = Get l t" if "t \<noteq> op_type op" for t
    by (rule apply_op_other [OF Cons.prems(1) m that])
  ultimately show ?case
    using apply_op_same [OF Cons.prems(1) m] by auto
qed

lemma apply_ops_total:
  assumes "distinct_types l" and "distinct (map op_type ops)"
    and "\<forall>op\<in>set ops. forceOverwrite opts \<or> isOwnedCondition opts (op_type op) \<or>
           Get l (op_type op) = op_expects op"
  shows "\<exists>l'. apply_ops now opts ops l = (None, l')"
  using assms
proof (induction ops arbitrary: l)
  case Nil
  then show ?case by simp
next
  case (Cons op ops)
  obtain m where m: "apply_op now opts l op = Inr m"
    using apply_op_total [of opts op l now] Cons.prems(3) by auto
  have keep: "Get m (op_type o') = Get l (op_type o')" if "o' \<in> set ops" for o'
  proof (rule apply_op_other [OF Cons.prems(1) m])
    show "op_type o' \<noteq> op_type op"
      using Cons.prems(2) imageI [OF that, of op_type] by auto
  qed
  have "\<exists>l'. apply_ops now opts ops m = (None, l')"
    using Cons.IH [OF apply_op_distinct [OF Cons.prems(1) m]] Cons.prems(2,3) keep by auto
  then show ?case
    by (simp add: m)
qed

text \<open>A patch holds one operation for each type on which the two versions differ.\<close>

lemma distinct_concat_map_types:
  assumes "distinct (map Type cs)"
    and "\<And>c. c \<in> set cs \<Longrightarrow> f c = [] \<or> (\<exists>op. f c = [op] \<and> op_type op = Type c)"
  shows "distinct (map op_type (concat (map f cs))) \<and> op_type ` set (concat (map f cs)) \<subseteq> Type ` set cs"
  using assms
proof (induction cs)
  case (Cons c cs)
  then have "distinct (map op_type (concat (map f cs)))"
    "op_type ` set (concat (map f cs)) \<subseteq> Type ` set cs" by auto
  moreover have "f c = [] \<or> (\<exists>op. f c = [op] \<and> op_type op = Type c)"
    using Cons.prems(2) by simp
  moreover have "Type c \<notin> op_type ` set (concat (map f cs))"
    using Cons.prems(1) calculation(2) by auto
  ultimately show ?case
    by (auto simp del: set_concat)
qed simp

lemma NewPatch_members:
  assumes "NewPatch (Some b) (Some a) = Inr p"
  shows "AddConditionPatch x \<in> set p \<longleftrightarrow> x \<in> set a \<and> Get b (Type x) = None"
    and "ChangeConditionPatch y x \<in> set p \<longleftrightarrow> x \<in> set a \<and> Get b (Type x) = Some y \<and> x \<noteq> y"
    and "RemoveConditionPatch y \<in> set p \<longleftrightarrow> y \<in> set b \<and> Get a (Type y) = None"
  using assms by (auto simp: NewPatch_def split: option.splits if_splits intro!: bexI [of _ x])

lemma NewPatch_ops:
  assumes "NewPatch (Some b) (Some a) = Inr p" and "distinct_types b" and "distinct_types a"
  shows "op \<in> set p \<longleftrightarrow>
    op_expects op = Get b (op_type op) \<and> op_result op = Get a (op_type op) \<and>
    Get b (op_type op) \<noteq> Get a (op_type op)"
proof -
  have self: "x \<in> set a \<longleftrightarrow> Get a (Type x) = Some x" "x \<in> set b \<longleftrightarrow> Get b (Type x) = Some x" for x
    using assms(2,3) by (simp_all add: Get_Some_iff)
  show ?thesis
    using NewPatch_members [OF assms(1)] by (cases op) (auto simp: self dest: Get_SomeD)
qed

lemma NewPatch_distinct:
  assumes "NewPatch (Some b) (Some a) = Inr p" and "distinct_types b" and "distinct_types a"
  shows "distinct (map op_type p)"
proof -
  let ?f = "\<lambda>target. (case Get b (Type target) of None \<Rightarrow> [AddConditionPatch target]
      | Some current \<Rightarrow> if target \<noteq> current then [ChangeConditionPatch current target] else [])"
  let ?g = "\<lambda>base. (case Get a (Type base) of None \<Rightarrow> [RemoveConditionPatch base] | Some _ \<Rightarrow> [])"
  have p: "p = concat (map ?f a) @ concat (map ?g b)"
    using assms(1) by (simp add: NewPatch_def)
  have f: "distinct (map op_type (concat (map ?f a))) \<and> op_type ` set (concat (map ?f a)) \<subseteq> Type ` set a"
    by (rule distinct_concat_map_types) (use assms(3) in \<open>auto simp: distinct_types_def split: option.split\<close>)
  have g: "distinct (map op_type (concat (map ?g b))) \<and> op_type ` set (concat (map ?g b)) \<subseteq> Type ` set b"
    by (rule distinct_concat_map_types) (use assms(2) in \<open>auto simp: distinct_types_def split: option.split\<close>)
  have "t \<notin> Type ` set a" if "t \<in> op_type ` set (concat (map ?g b))" for t
    using that Get_None_iff [of a t] by (auto split: option.splits)
  then have "op_type ` set (concat (map ?f a)) \<inter> op_type ` set (concat (map ?g b)) = {}"
    using f by blast
  then show ?thesis
    using f g unfolding p by (simp only: map_append distinct_append set_map)
qed

lemma NewPatch_types:
  assumes "NewPatch (Some b) (Some a) = Inr p" and "distinct_types b" and "distinct_types a"
  shows "t \<in> op_type ` set p \<longleftrightarrow> Get b t \<noteq> Get a t"
proof
  assume "t \<in> op_type ` set p"
  then show "Get b t \<noteq> Get a t"
    using NewPatch_ops [OF assms] by auto
next
  assume ne: "Get b t \<noteq> Get a t"
  show "t \<in> op_type ` set p"
  proof (cases "Get a t")
    case None
    then obtain c where "Get b t = Some c" using ne by auto
    then have "RemoveConditionPatch c \<in> set p" and "Type c = t"
      using NewPatch_ops [OF assms, of "RemoveConditionPatch c"] None Get_SomeD by auto
    then show ?thesis by force
  next
    case (Some d)
    then have d: "Type d = t" using Get_SomeD by blast
    then have "AddConditionPatch d \<in> set p \<or> (\<exists>c. ChangeConditionPatch c d \<in> set p)"
      using NewPatch_ops [OF assms, of "AddConditionPatch d"]
        NewPatch_ops [OF assms, of "ChangeConditionPatch (the (Get b t)) d"] Some ne
      by (cases "Get b t") auto
    then show ?thesis
      using d by force
  qed
qed

subsection \<open>Properties\<close>

text \<open>
  C27. \<open>Set\<close> on a list without duplicate types gives a list in the documented order without
  duplicates, leaves the conditions of other types alone, and stores the condition with the
  transition time of the rule in \<open>setter.go\<close>: an existing condition with the same state is
  kept as it is, a changed one gets the current second, a new one gets the current second
  unless it comes with a time.
\<close>

theorem Set_Get:
  assumes "distinct_types cs"
  shows "wf_conditions (Set now cs (Some c)) \<and>
    (\<forall>t. t \<noteq> Type c \<longrightarrow> Get (Set now cs (Some c)) t = Get cs t) \<and>
    (\<exists>d. Get (Set now cs (Some c)) (Type c) = Some d \<and> hasSameState d c \<and>
       LastTransitionTime d =
         (case Get cs (Type c) of
            Some e \<Rightarrow> (if hasSameState e c then LastTransitionTime e else Truncate_second now)
          | None \<Rightarrow> (if LastTransitionTime c = 0 then Truncate_second now else LastTransitionTime c)))"
  using assms sorted_Set [OF assms] hasSameState_stored [of now cs c]
  by (auto simp: Get_Set stored_def split: option.split)

theorem Set_Get_witness:
  "let cs = [TrueCondition ''B'', TrueCondition ''A'']; c = FalseCondition ''Ready'' ''R'' SeverityInfo ''m''
   in distinct_types cs \<and> wf_conditions (Set 5 cs (Some c)) \<and>
      map Type (Set 5 cs (Some c)) = [''Ready'', ''A'', ''B'']"
proof -
  have h: "distinct_types [TrueCondition ''B'', TrueCondition ''A'']"
    by code_simp
  have "map Type (Set 5 [TrueCondition ''B'', TrueCondition ''A'']
      (Some (FalseCondition ''Ready'' ''R'' SeverityInfo ''m''))) = [''Ready'', ''A'', ''B'']"
    by code_simp
  then show ?thesis
    using h Set_Get [OF h, of 5 "FalseCondition ''Ready'' ''R'' SeverityInfo ''m''"] by (simp add: Let_def)
qed

text \<open>
  C28. Merging conditions takes its status from a condition of the lowest priority number among
  those that are there (False with severity Error, Warning, Info, then True, then Unknown), and
  a False result carries the severity of that condition. Without any condition there is no result.
\<close>

theorem merge_priority:
  "(merge cs t options = None \<longleftrightarrow> present cs = []) \<and>
   (\<forall>m. merge cs t options = Some m \<longrightarrow>
      Type m = t \<and>
      (\<exists>c\<in>set (present cs).
         (\<forall>d\<in>set (present cs). condition_priority c \<le> condition_priority d) \<and>
         Status m = (if Status c \<in> {ConditionTrue, ConditionFalse} then Status c else ConditionUnknown) \<and>
         (Status c = ConditionFalse \<longrightarrow> Severity m = Severity c)))"
proof (cases "present cs = []")
  case True
  then have "group_conditions [] cs = []"
    using group_conditions_members [of "[]" cs] by (cases "group_conditions [] cs") auto
  then show ?thesis
    using True gs.srt_Nil_iff
    by (simp add: merge_def getConditionGroups_def TopGroup_def go_sort_def)
next
  case False
  obtain c m where m: "merge cs t options = Some m"
    and c: "c \<in> set (present cs)"
      "\<forall>d\<in>set (present cs). condition_priority c \<le> condition_priority d" "Type m = t"
      "Status m = (if Status c \<in> {ConditionTrue, ConditionFalse} then Status c else ConditionUnknown)"
      "Status c = ConditionFalse \<longrightarrow> Severity m = Severity c"
    by (rule merge_outcome [OF False])
  then show ?thesis
    unfolding m option.inject using False by blast
qed

theorem merge_priority_witness:
  "let g = \<lparr>GetKind = ''Machine'', GetName = ''m'', GetConditions = []\<rparr>;
       opts = \<lparr>conditionTypes = None, addSourceRef = False, addStepCounter = False,
              addStepCounterIfOnlyConditionTypes = None, stepCounter = 0\<rparr>
   in \<exists>m. merge [(Some (TrueCondition ''A''), g),
                 (Some (FalseCondition ''B'' ''R'' SeverityWarning ''m''), g)] ''Ready'' opts = Some m \<and>
          Status m = ConditionFalse \<and> Severity m = SeverityWarning"
proof -
  define g where "g = \<lparr>GetKind = ''Machine'', GetName = ''m'', GetConditions = []\<rparr>"
  define opts where "opts = \<lparr>conditionTypes = None, addSourceRef = False, addStepCounter = False,
    addStepCounterIfOnlyConditionTypes = None, stepCounter = 0\<rparr>"
  let ?cs = "[(Some (TrueCondition ''A''), g), (Some (FalseCondition ''B'' ''R'' SeverityWarning ''m''), g)]"
  obtain m where m: "merge ?cs ''Ready'' opts = Some m"
    using merge_priority [of ?cs "''Ready''" opts] by (cases "merge ?cs ''Ready'' opts") auto
  have "condition_priority (TrueCondition ''A'') = 3"
    "condition_priority (FalseCondition ''B'' ''R'' SeverityWarning ''m'') = 1"
    by (simp_all add: condition_priority_def mergePriority_def condition_constructors)
  then have "Status m = ConditionFalse \<and> Severity m = SeverityWarning"
    using merge_priority [of ?cs "''Ready''" opts] m by (auto simp: condition_constructors)
  then show ?thesis
    using m by (simp add: g_def opts_def)
qed

text \<open>
  C9. The three-way merge of conditions: when the patch from \<open>before\<close> to \<open>after\<close> applies to the
  latest object without a conflict, every type on which the two agree is exactly as in the
  latest object, and every type that was changed has the state of \<open>after\<close> (is gone when \<open>after\<close>
  does not have it).
\<close>

theorem Apply_three_way:
  assumes "distinct_types before" and "distinct_types after" and "distinct_types latest"
    and "NewPatch (Some before) (Some after) = Inr p"
    and "Apply now p (Some latest) opts = (None, Some result)"
  shows "distinct_types result \<and>
    (\<forall>t. if Get before t = Get after t then Get result t = Get latest t
         else rel_option hasSameState (Get result t) (Get after t))"
proof -
  have run: "apply_ops now opts p latest = (None, result)"
    using assms(5) by (cases "p = []") (auto simp: Apply_def split: prod.splits)
  note eff = apply_ops_effect [OF assms(3) NewPatch_distinct [OF assms(4,1,2)] run]
  show ?thesis
  proof (intro conjI allI)
    show "distinct_types result" using eff by simp
    fix t
    show "if Get before t = Get after t then Get result t = Get latest t
          else rel_option hasSameState (Get result t) (Get after t)"
      using eff NewPatch_types [OF assms(4,1,2), of t] NewPatch_ops [OF assms(4,1,2)] by auto
  qed
qed

theorem Apply_three_way_witness:
  "let before = [TrueCondition ''A'', TrueCondition ''B'']; after = [TrueCondition ''A''];
       latest = [FalseCondition ''A'' ''R'' SeverityInfo [], TrueCondition ''B''];
       opts = \<lparr>ownedConditions = [], forceOverwrite = False\<rparr>
   in \<exists>result. Apply 0 [RemoveConditionPatch (TrueCondition ''B'')] (Some latest) opts = (None, Some result) \<and>
        Get result ''A'' = Get latest ''A'' \<and> Get result ''B'' = None"
proof -
  define opts where "opts = \<lparr>ownedConditions = [], forceOverwrite = False\<rparr>"
  let ?b = "[TrueCondition ''A'', TrueCondition ''B'']" and ?a = "[TrueCondition ''A'']"
  let ?l = "[FalseCondition ''A'' ''R'' SeverityInfo [], TrueCondition ''B'']"
  let ?r = "[FalseCondition ''A'' ''R'' SeverityInfo []]"
  have 1: "distinct_types ?b" "distinct_types ?a" "distinct_types ?l"
    by (code_simp, code_simp, code_simp)
  have 2: "NewPatch (Some ?b) (Some ?a) = Inr [RemoveConditionPatch (TrueCondition ''B'')]"
    by code_simp
  have 3: "Apply 0 [RemoveConditionPatch (TrueCondition ''B'')] (Some ?l) opts = (None, Some ?r)"
    unfolding opts_def by code_simp
  note merged = Apply_three_way [OF 1 2 3, THEN conjunct2, rule_format]
  have "Get ?r ''A'' = Get ?l ''A''" and "Get ?r ''B'' = None"
    using merged [of "''A''"] merged [of "''B''"] by (simp_all add: condition_constructors)
  with 3 show ?thesis
    unfolding Let_def opts_def by blast
qed

text \<open>
  A patch applies without a conflict to the object it was computed from, and, whatever the
  latest object is, when every changed type is owned by the caller or the caller forces its
  changes.
\<close>

lemma Apply_no_conflict:
  assumes "distinct_types before" and "distinct_types after" and "distinct_types latest"
    and "NewPatch (Some before) (Some after) = Inr p"
    and "latest = before \<or> forceOverwrite opts \<or>
         (\<forall>t. Get before t \<noteq> Get after t \<longrightarrow> isOwnedCondition opts t)"
  shows "\<exists>result. Apply now p (Some latest) opts = (None, Some result)"
proof -
  have "\<forall>op\<in>set p. forceOverwrite opts \<or> isOwnedCondition opts (op_type op) \<or>
      Get latest (op_type op) = op_expects op"
    using assms(5) NewPatch_ops [OF assms(4,1,2)] by auto
  then obtain result where "apply_ops now opts p latest = (None, result)"
    using apply_ops_total [OF assms(3) NewPatch_distinct [OF assms(4,1,2)]] by blast
  then show ?thesis
    by (cases "p = []") (auto simp: Apply_def)
qed

lemma Apply_no_conflict_witness:
  "\<exists>result. Apply 0 [RemoveConditionPatch (TrueCondition ''B'')]
     (Some [FalseCondition ''B'' ''R'' SeverityInfo []])
     \<lparr>ownedConditions = [''B''], forceOverwrite = False\<rparr> = (None, Some result)"
proof -
  let ?b = "[TrueCondition ''B'']" and ?l = "[FalseCondition ''B'' ''R'' SeverityInfo []]"
  let ?o = "\<lparr>ownedConditions = [''B''], forceOverwrite = False\<rparr>"
  have 1: "distinct_types ?b" "distinct_types []" "distinct_types ?l"
    by (code_simp, code_simp, code_simp)
  have 2: "NewPatch (Some ?b) (Some []) = Inr [RemoveConditionPatch (TrueCondition ''B'')]"
    by code_simp
  have 3: "\<forall>t. Get ?b t \<noteq> Get [] t \<longrightarrow> isOwnedCondition ?o t"
    by (simp add: isOwnedCondition_def condition_constructors)
  show ?thesis
    using Apply_no_conflict [OF 1 2, of ?o 0] 3 by blast
qed

end
