(* ===== verification/BootstrapApi.thy ===== *)
theory BootstrapApi
  imports Conditions "HOL-Library.Finite_Map"
begin

text \<open>
  The API types of the bootstrap provider, \<open>bootstrap/ocne/api/v1alpha1/ocne_types.go\<close> and
  \<open>ocneconfig_types.go\<close>, with the defaulting and the validation of
  \<open>ocneconfig_webhook.go\<close>.

  A field \<open>F\<close> of a struct \<open>T\<close> is the record field \<open>T_F\<close>. These structs are compared with
  \<open>reflect.DeepEqual\<close>, so equality of the records has to be that comparison: a slice is an
  option of a list, because a nil slice differs from an empty one, and a map is a finite map,
  because the order of its entries does not count. Durations are nanoseconds.
\<close>

type_synonym 'a slice = "'a list option"
type_synonym 'v string_map = "(string, 'v) fmap option"

definition items :: "'a slice \<Rightarrow> 'a list" where
  "items s = (case s of None \<Rightarrow> [] | Some l \<Rightarrow> l)"

lemma items_simps [simp]: "items None = []" "items (Some l) = l"
  by (simp_all add: items_def)

subsection \<open>Metadata shared by all objects\<close>

text \<open>The parts of \<open>metav1\<close> and \<open>corev1\<close> the sources use.\<close>

record TypeMeta =
  TypeMeta_Kind :: string
  TypeMeta_APIVersion :: string

record OwnerReference =
  APIVersion :: string
  Kind :: string
  OwnerReference_Name :: string
  OwnerReference_UID :: string
  Controller :: "bool option"
  BlockOwnerDeletion :: "bool option"

record ObjectReference =
  ObjectReference_Kind :: string
  ObjectReference_Namespace :: string
  ObjectReference_Name :: string
  ObjectReference_UID :: string
  ObjectReference_APIVersion :: string

record ObjectMeta =
  Name :: string
  Namespace :: string
  UID :: string
  Generation :: int
  CreationTimestamp :: time
  DeletionTimestamp :: "time option"
  Labels :: "(string, string) go_map"
  Annotations :: "(string, string) go_map"
  OwnerReferences :: "OwnerReference list"
  Finalizers :: "string list"

definition empty_meta :: ObjectMeta where
  "empty_meta =
     \<lparr>Name = [], Namespace = [], UID = [], Generation = 0, CreationTimestamp = 0, DeletionTimestamp = None,
      Labels = [], Annotations = [], OwnerReferences = [], Finalizers = []\<rparr>"

record Taint =
  Taint_Key :: string
  Taint_Value :: string
  Taint_Effect :: string
  Taint_TimeAdded :: "time option"

subsection \<open>Kubeadm configuration\<close>

record APIEndpoint =
  APIEndpoint_AdvertiseAddress :: string
  APIEndpoint_BindPort :: int

record NodeRegistrationOptions =
  NodeRegistrationOptions_Name :: string
  NodeRegistrationOptions_CRISocket :: string
  NodeRegistrationOptions_Taints :: "Taint slice"
  NodeRegistrationOptions_KubeletExtraArgs :: "string string_map"
  NodeRegistrationOptions_IgnorePreflightErrors :: "string slice"

record BootstrapTokenString =
  BootstrapTokenString_ID :: string
  BootstrapTokenString_Secret :: string

record BootstrapToken =
  BootstrapToken_Token :: "BootstrapTokenString option"
  BootstrapToken_Description :: string
  BootstrapToken_TTL :: "int option"
  BootstrapToken_Expires :: "time option"
  BootstrapToken_Usages :: "string slice"
  BootstrapToken_Groups :: "string slice"

record Patches =
  Patches_Directory :: string

record InitConfiguration =
  InitConfiguration_TypeMeta :: TypeMeta
  InitConfiguration_BootstrapTokens :: "BootstrapToken slice"
  InitConfiguration_NodeRegistration :: NodeRegistrationOptions
  InitConfiguration_LocalAPIEndpoint :: APIEndpoint
  InitConfiguration_SkipPhases :: "string slice"
  InitConfiguration_Patches :: "Patches option"

record ImageMeta =
  ImageMeta_ImageRepository :: string
  ImageMeta_ImageTag :: string

record LocalEtcd =
  LocalEtcd_ImageMeta :: ImageMeta
  LocalEtcd_DataDir :: string
  LocalEtcd_ExtraArgs :: "string string_map"
  LocalEtcd_ServerCertSANs :: "string slice"
  LocalEtcd_PeerCertSANs :: "string slice"

record ExternalEtcd =
  ExternalEtcd_Endpoints :: "string slice"
  ExternalEtcd_CAFile :: string
  ExternalEtcd_CertFile :: string
  ExternalEtcd_KeyFile :: string

record Etcd =
  Etcd_Local :: "LocalEtcd option"
  Etcd_External :: "ExternalEtcd option"

record Networking =
  Networking_ServiceSubnet :: string
  Networking_PodSubnet :: string
  Networking_DNSDomain :: string

record HostPathMount =
  HostPathMount_Name :: string
  HostPathMount_HostPath :: string
  HostPathMount_MountPath :: string
  HostPathMount_ReadOnly :: bool
  HostPathMount_PathType :: string

record ControlPlaneComponent =
  ControlPlaneComponent_ExtraArgs :: "string string_map"
  ControlPlaneComponent_ExtraVolumes :: "HostPathMount slice"

record APIServer =
  APIServer_ControlPlaneComponent :: ControlPlaneComponent
  APIServer_CertSANs :: "string slice"
  APIServer_TimeoutForControlPlane :: "int option"

record DNS =
  DNS_ImageMeta :: ImageMeta

record ClusterConfiguration =
  ClusterConfiguration_TypeMeta :: TypeMeta
  ClusterConfiguration_Etcd :: Etcd
  ClusterConfiguration_Networking :: Networking
  ClusterConfiguration_KubernetesVersion :: string
  ClusterConfiguration_ControlPlaneEndpoint :: string
  ClusterConfiguration_APIServer :: APIServer
  ClusterConfiguration_ControllerManager :: ControlPlaneComponent
  ClusterConfiguration_Scheduler :: ControlPlaneComponent
  ClusterConfiguration_DNS :: DNS
  ClusterConfiguration_CertificatesDir :: string
  ClusterConfiguration_ImageRepository :: string
  ClusterConfiguration_FeatureGates :: "bool string_map"
  ClusterConfiguration_ClusterName :: string

record ClusterStatus =
  ClusterStatus_TypeMeta :: TypeMeta
  ClusterStatus_APIEndpoints :: "APIEndpoint string_map"

record BootstrapTokenDiscovery =
  BootstrapTokenDiscovery_Token :: string
  BootstrapTokenDiscovery_APIServerEndpoint :: string
  BootstrapTokenDiscovery_CACertHashes :: "string slice"
  BootstrapTokenDiscovery_UnsafeSkipCAVerification :: bool

record FileDiscovery =
  FileDiscovery_KubeConfigPath :: string

record Discovery =
  Discovery_BootstrapToken :: "BootstrapTokenDiscovery option"
  Discovery_File :: "FileDiscovery option"
  Discovery_TLSBootstrapToken :: string
  Discovery_Timeout :: "int option"

record JoinControlPlane =
  JoinControlPlane_LocalAPIEndpoint :: APIEndpoint

record JoinConfiguration =
  JoinConfiguration_TypeMeta :: TypeMeta
  JoinConfiguration_NodeRegistration :: NodeRegistrationOptions
  JoinConfiguration_CACertPath :: string
  JoinConfiguration_Discovery :: Discovery
  JoinConfiguration_ControlPlane :: "JoinControlPlane option"
  JoinConfiguration_SkipPhases :: "string slice"
  JoinConfiguration_Patches :: "Patches option"

subsection \<open>Zero values\<close>

definition zero_TypeMeta :: TypeMeta where
  "zero_TypeMeta = \<lparr>TypeMeta_Kind = [], TypeMeta_APIVersion = []\<rparr>"

definition zero_Discovery :: Discovery where
  "zero_Discovery =
     \<lparr>Discovery_BootstrapToken = None, Discovery_File = None, Discovery_TLSBootstrapToken = [],
      Discovery_Timeout = None\<rparr>"

definition zero_NodeRegistrationOptions :: NodeRegistrationOptions where
  "zero_NodeRegistrationOptions =
     \<lparr>NodeRegistrationOptions_Name = [], NodeRegistrationOptions_CRISocket = [],
      NodeRegistrationOptions_Taints = None, NodeRegistrationOptions_KubeletExtraArgs = None,
      NodeRegistrationOptions_IgnorePreflightErrors = None\<rparr>"

definition zero_APIEndpoint :: APIEndpoint where
  "zero_APIEndpoint = \<lparr>APIEndpoint_AdvertiseAddress = [], APIEndpoint_BindPort = 0\<rparr>"

definition zero_ControlPlaneComponent :: ControlPlaneComponent where
  "zero_ControlPlaneComponent =
     \<lparr>ControlPlaneComponent_ExtraArgs = None, ControlPlaneComponent_ExtraVolumes = None\<rparr>"

definition zero_ClusterConfiguration :: ClusterConfiguration where
  "zero_ClusterConfiguration =
     \<lparr>ClusterConfiguration_TypeMeta = zero_TypeMeta,
      ClusterConfiguration_Etcd = \<lparr>Etcd_Local = None, Etcd_External = None\<rparr>,
      ClusterConfiguration_Networking =
        \<lparr>Networking_ServiceSubnet = [], Networking_PodSubnet = [], Networking_DNSDomain = []\<rparr>,
      ClusterConfiguration_KubernetesVersion = [],
      ClusterConfiguration_ControlPlaneEndpoint = [],
      ClusterConfiguration_APIServer =
        \<lparr>APIServer_ControlPlaneComponent = zero_ControlPlaneComponent, APIServer_CertSANs = None,
         APIServer_TimeoutForControlPlane = None\<rparr>,
      ClusterConfiguration_ControllerManager = zero_ControlPlaneComponent,
      ClusterConfiguration_Scheduler = zero_ControlPlaneComponent,
      ClusterConfiguration_DNS = \<lparr>DNS_ImageMeta = \<lparr>ImageMeta_ImageRepository = [], ImageMeta_ImageTag = []\<rparr>\<rparr>,
      ClusterConfiguration_CertificatesDir = [],
      ClusterConfiguration_ImageRepository = [],
      ClusterConfiguration_FeatureGates = None,
      ClusterConfiguration_ClusterName = []\<rparr>"

subsection \<open>OCNEConfig\<close>

definition CloudConfig :: string where "CloudConfig = ''cloud-config''"
definition Ignition :: string where "Ignition = ''ignition''"

definition Gzip :: string where "Gzip = ''gzip''"
definition GzipBase64 :: string where "GzipBase64 = ''gzip+base64''"

record SecretFileSource =
  SecretFileSource_Name :: string
  SecretFileSource_Key :: string

record FileSource =
  FileSource_Secret :: SecretFileSource

record File =
  File_Path :: string
  File_Owner :: string
  File_Permissions :: string
  File_Encoding :: string
  File_Append :: bool
  File_Content :: string
  File_ContentFrom :: "FileSource option"

record SecretPasswdSource =
  SecretPasswdSource_Name :: string
  SecretPasswdSource_Key :: string

record PasswdSource =
  PasswdSource_Secret :: SecretPasswdSource

record User =
  User_Name :: string
  User_Gecos :: "string option"
  User_Groups :: "string option"
  User_HomeDir :: "string option"
  User_Inactive :: "bool option"
  User_Shell :: "string option"
  User_Passwd :: "string option"
  User_PasswdFrom :: "PasswdSource option"
  User_PrimaryGroup :: "string option"
  User_LockPassword :: "bool option"
  User_Sudo :: "string option"
  User_SSHAuthorizedKeys :: "string slice"

record NTP =
  NTP_Servers :: "string slice"
  NTP_Enabled :: "bool option"

record Partition =
  Partition_Device :: string
  Partition_Layout :: bool
  Partition_Overwrite :: "bool option"
  Partition_TableType :: "string option"

record Filesystem =
  Filesystem_Device :: string
  Filesystem_Filesystem :: string
  Filesystem_Label :: string
  Filesystem_Partition :: "string option"
  Filesystem_Overwrite :: "bool option"
  Filesystem_ReplaceFS :: "string option"
  Filesystem_ExtraOpts :: "string slice"

record DiskSetup =
  DiskSetup_Partitions :: "Partition slice"
  DiskSetup_Filesystems :: "Filesystem slice"

record ContainerLinuxConfig =
  ContainerLinuxConfig_AdditionalConfig :: string
  ContainerLinuxConfig_Strict :: bool

record IgnitionSpec =
  IgnitionSpec_ContainerLinuxConfig :: "ContainerLinuxConfig option"

record ProxySpec =
  ProxySpec_HttpProxy :: string
  ProxySpec_HttpsProxy :: string
  ProxySpec_NoProxy :: string

record DependencySpec =
  DependencySpec_SkipInstall :: bool

record ImageConfigurationSpec =
  ImageConfigurationSpec_Proxy :: "ProxySpec option"
  ImageConfigurationSpec_Dependencies :: "DependencySpec option"

record OCNEConfigSpec =
  OCNEConfigSpec_ClusterConfiguration :: "ClusterConfiguration option"
  OCNEConfigSpec_InitConfiguration :: "InitConfiguration option"
  OCNEConfigSpec_JoinConfiguration :: "JoinConfiguration option"
  OCNEConfigSpec_Files :: "File slice"
  OCNEConfigSpec_DiskSetup :: "DiskSetup option"
  OCNEConfigSpec_Mounts :: "string slice slice"
  OCNEConfigSpec_PreOCNECommands :: "string slice"
  OCNEConfigSpec_PostOCNECommands :: "string slice"
  OCNEConfigSpec_Users :: "User slice"
  OCNEConfigSpec_NTP :: "NTP option"
  OCNEConfigSpec_Format :: string
  OCNEConfigSpec_Verbosity :: "int option"
  OCNEConfigSpec_UseExperimentalRetryJoin :: bool
  OCNEConfigSpec_Ignition :: "IgnitionSpec option"
  OCNEConfigSpec_ImageConfiguration :: "ImageConfigurationSpec option"

record OCNEConfigStatus =
  OCNEConfigStatus_Ready :: bool
  OCNEConfigStatus_DataSecretName :: "string option"
  OCNEConfigStatus_FailureReason :: string
  OCNEConfigStatus_FailureMessage :: string
  OCNEConfigStatus_ObservedGeneration :: int
  OCNEConfigStatus_Conditions :: Conditions

record OCNEConfig =
  OCNEConfig_TypeMeta :: TypeMeta
  OCNEConfig_ObjectMeta :: ObjectMeta
  OCNEConfig_Spec :: OCNEConfigSpec
  OCNEConfig_Status :: OCNEConfigStatus

definition zero_OCNEConfigSpec :: OCNEConfigSpec where
  "zero_OCNEConfigSpec =
     \<lparr>OCNEConfigSpec_ClusterConfiguration = None, OCNEConfigSpec_InitConfiguration = None,
      OCNEConfigSpec_JoinConfiguration = None, OCNEConfigSpec_Files = None, OCNEConfigSpec_DiskSetup = None,
      OCNEConfigSpec_Mounts = None, OCNEConfigSpec_PreOCNECommands = None,
      OCNEConfigSpec_PostOCNECommands = None, OCNEConfigSpec_Users = None, OCNEConfigSpec_NTP = None,
      OCNEConfigSpec_Format = [], OCNEConfigSpec_Verbosity = None,
      OCNEConfigSpec_UseExperimentalRetryJoin = False, OCNEConfigSpec_Ignition = None,
      OCNEConfigSpec_ImageConfiguration = None\<rparr>"

subsection \<open>Defaulting and validation\<close>

text \<open>\<open>field.Error\<close> of apimachinery: its kind, the path of the field, the bad value, the detail.\<close>

datatype PathElem = Child string | Index nat

datatype BadValue = BadFile File | BadUser User | BadString string | BadInt int | BadBool bool | BadObject

datatype FieldError =
    Invalid "PathElem list" BadValue string
  | Required "PathElem list" string
  | Forbidden "PathElem list" string
  | InternalError "PathElem list" error

definition DefaultOCNEConfigSpec :: "OCNEConfigSpec \<Rightarrow> OCNEConfigSpec" where
  "DefaultOCNEConfigSpec r =
     (if OCNEConfigSpec_Format r = [] then r\<lparr>OCNEConfigSpec_Format := CloudConfig\<rparr> else r)"

definition cannotUseWithIgnition :: string where
  \<open>cannotUseWithIgnition = ''not supported when spec.format is set to "ignition"''\<close>

definition conflictingFileSourceMsg :: string where
  "conflictingFileSourceMsg = ''only one of content or contentFrom may be specified for a single file''"

definition conflictingUserSourceMsg :: string where
  "conflictingUserSourceMsg = ''only one of passwd or passwdFrom may be specified for a single user''"

definition kubeadmBootstrapFormatIgnitionFeatureDisabledMsg :: string where
  "kubeadmBootstrapFormatIgnitionFeatureDisabledMsg =
     ''can be set only if the KubeadmBootstrapFormatIgnition feature gate is enabled''"

definition missingSecretNameMsg :: string where
  "missingSecretNameMsg = ''secret file source must specify non-empty secret name''"

definition missingSecretKeyMsg :: string where
  "missingSecretKeyMsg = ''secret file source must specify non-empty secret key''"

definition pathConflictMsg :: string where
  "pathConflictMsg = ''path property must be unique among all files''"

text \<open>One round of the loop over the files; \<open>knownPaths\<close> holds the paths seen so far.\<close>

definition validateFile :: "PathElem list \<Rightarrow> string list \<Rightarrow> nat \<Rightarrow> File \<Rightarrow> FieldError list" where
  "validateFile pathPrefix knownPaths i file =
     (let p = pathPrefix @ [Child ''files'', Index i]
      in (if File_Content file \<noteq> [] \<and> File_ContentFrom file \<noteq> None
          then [Invalid p (BadFile file) conflictingFileSourceMsg] else []) @
         (case File_ContentFrom file of
            None \<Rightarrow> []
          | Some src \<Rightarrow>
              (if SecretFileSource_Name (FileSource_Secret src) = []
               then [Required (p @ [Child ''contentFrom'', Child ''secret'', Child ''name'']) missingSecretNameMsg]
               else []) @
              (if SecretFileSource_Key (FileSource_Secret src) = []
               then [Required (p @ [Child ''contentFrom'', Child ''secret'', Child ''key'']) missingSecretKeyMsg]
               else [])) @
         (if File_Path file \<in> set knownPaths
          then [Invalid (p @ [Child ''path'']) (BadFile file) pathConflictMsg] else []))"

fun validateFiles_loop :: "PathElem list \<Rightarrow> string list \<Rightarrow> nat \<Rightarrow> File list \<Rightarrow> FieldError list" where
  "validateFiles_loop pathPrefix knownPaths i [] = []"
| "validateFiles_loop pathPrefix knownPaths i (file # files) =
     validateFile pathPrefix knownPaths i file @
     validateFiles_loop pathPrefix (File_Path file # knownPaths) (Suc i) files"

definition validateFiles :: "OCNEConfigSpec \<Rightarrow> PathElem list \<Rightarrow> FieldError list" where
  "validateFiles c pathPrefix = validateFiles_loop pathPrefix [] 0 (items (OCNEConfigSpec_Files c))"

definition validateUser :: "PathElem list \<Rightarrow> nat \<Rightarrow> User \<Rightarrow> FieldError list" where
  "validateUser pathPrefix i user =
     (let p = pathPrefix @ [Child ''users'', Index i]
      in (if User_Passwd user \<noteq> None \<and> User_PasswdFrom user \<noteq> None
          then [Invalid p (BadUser user) conflictingUserSourceMsg] else []) @
         (case User_PasswdFrom user of
            None \<Rightarrow> []
          | Some src \<Rightarrow>
              (if SecretPasswdSource_Name (PasswdSource_Secret src) = []
               then [Required (p @ [Child ''passwdFrom'', Child ''secret'', Child ''name'']) missingSecretNameMsg]
               else []) @
              (if SecretPasswdSource_Key (PasswdSource_Secret src) = []
               then [Required (p @ [Child ''passwdFrom'', Child ''secret'', Child ''key'']) missingSecretKeyMsg]
               else [])))"

definition validateUsers :: "OCNEConfigSpec \<Rightarrow> PathElem list \<Rightarrow> FieldError list" where
  "validateUsers c pathPrefix =
     concat (map (\<lambda>(i, user). validateUser pathPrefix i user) (enumerate 0 (items (OCNEConfigSpec_Users c))))"

text \<open>The checks made when the format is Ignition and its feature gate is on.\<close>

definition validateIgnition_disk :: "PathElem list \<Rightarrow> DiskSetup \<Rightarrow> FieldError list" where
  "validateIgnition_disk pathPrefix disk =
     concat (map (\<lambda>(i, partition).
       (case Partition_TableType partition of
          Some t \<Rightarrow>
            (if t \<noteq> ''gpt''
             then [Invalid (pathPrefix @ [Child ''diskSetup'', Child ''partitions'', Index i, Child ''tableType''])
                     (BadString t)
                     (''only partition type '' @ [CHR 34] @ ''gpt'' @ [CHR 34] @
                      '' is supported when spec.format is set to '' @ [CHR 34] @ Ignition @ [CHR 34])]
             else [])
        | None \<Rightarrow> [])) (enumerate 0 (items (DiskSetup_Partitions disk)))) @
     concat (map (\<lambda>(i, fs).
       (if Filesystem_ReplaceFS fs \<noteq> None
        then [Forbidden (pathPrefix @ [Child ''diskSetup'', Child ''filesystems'', Index i, Child ''replaceFS''])
                cannotUseWithIgnition] else []) @
       (if Filesystem_Partition fs \<noteq> None
        then [Forbidden (pathPrefix @ [Child ''diskSetup'', Child ''filesystems'', Index i, Child ''partition''])
                cannotUseWithIgnition] else [])) (enumerate 0 (items (DiskSetup_Filesystems disk))))"

definition validateIgnition :: "bool \<Rightarrow> OCNEConfigSpec \<Rightarrow> PathElem list \<Rightarrow> FieldError list" where
  "validateIgnition gate c pathPrefix =
     (if \<not> gate
      then (if OCNEConfigSpec_Format c = Ignition
            then [Forbidden (pathPrefix @ [Child ''format'']) kubeadmBootstrapFormatIgnitionFeatureDisabledMsg]
            else []) @
           (if OCNEConfigSpec_Ignition c \<noteq> None
            then [Forbidden (pathPrefix @ [Child ''ignition'']) kubeadmBootstrapFormatIgnitionFeatureDisabledMsg]
            else [])
      else if OCNEConfigSpec_Format c \<noteq> Ignition
      then (if OCNEConfigSpec_Ignition c \<noteq> None
            then [Invalid (pathPrefix @ [Child ''format'']) (BadString (OCNEConfigSpec_Format c))
                    (''must be set to '' @ [CHR 34] @ Ignition @ [CHR 34] @ '' if spec.ignition is set'')]
            else [])
      else concat (map (\<lambda>(i, user).
             (if User_Inactive user = Some True
              then [Forbidden (pathPrefix @ [Child ''users'', Index i, Child ''inactive'']) cannotUseWithIgnition]
              else [])) (enumerate 0 (items (OCNEConfigSpec_Users c)))) @
           (if OCNEConfigSpec_UseExperimentalRetryJoin c
            then [Forbidden (pathPrefix @ [Child ''useExperimentalRetryJoin'']) cannotUseWithIgnition] else []) @
           concat (map (\<lambda>(i, file).
             (if File_Encoding file = Gzip \<or> File_Encoding file = GzipBase64
              then [Forbidden (pathPrefix @ [Child ''files'', Index i, Child ''encoding'']) cannotUseWithIgnition]
              else [])) (enumerate 0 (items (OCNEConfigSpec_Files c)))) @
           (case OCNEConfigSpec_DiskSetup c of None \<Rightarrow> [] | Some d \<Rightarrow> validateIgnition_disk pathPrefix d))"

definition Validate :: "bool \<Rightarrow> OCNEConfigSpec \<Rightarrow> PathElem list \<Rightarrow> FieldError list" where
  "Validate gate c pathPrefix =
     validateFiles c pathPrefix @ validateUsers c pathPrefix @ validateIgnition gate c pathPrefix"

definition validate_spec :: "bool \<Rightarrow> OCNEConfigSpec \<Rightarrow> FieldError list option" where
  "validate_spec gate c =
     (let allErrs = Validate gate c [Child ''spec''] in if allErrs = [] then None else Some allErrs)"

subsection \<open>What validation accepts\<close>

lemma concat_enumerate_Nil:
  assumes "\<And>i x. f (i, x) = [] \<longleftrightarrow> P x"
  shows "concat (map f (enumerate n xs)) = [] \<longleftrightarrow> (\<forall>x\<in>set xs. P x)"
proof (induction xs arbitrary: n)
  case (Cons x xs)
  then show ?case by (simp add: assms)
qed simp

definition file_ok :: "File \<Rightarrow> bool" where
  "file_ok f \<longleftrightarrow>
     (case File_ContentFrom f of
        None \<Rightarrow> True
      | Some src \<Rightarrow> File_Content f = [] \<and> SecretFileSource_Name (FileSource_Secret src) \<noteq> [] \<and>
          SecretFileSource_Key (FileSource_Secret src) \<noteq> [])"

definition user_ok :: "User \<Rightarrow> bool" where
  "user_ok u \<longleftrightarrow>
     (case User_PasswdFrom u of
        None \<Rightarrow> True
      | Some src \<Rightarrow> User_Passwd u = None \<and> SecretPasswdSource_Name (PasswdSource_Secret src) \<noteq> [] \<and>
          SecretPasswdSource_Key (PasswdSource_Secret src) \<noteq> [])"

definition disk_ok :: "DiskSetup \<Rightarrow> bool" where
  "disk_ok d \<longleftrightarrow>
     (\<forall>p\<in>set (items (DiskSetup_Partitions d)). Partition_TableType p \<in> {None, Some ''gpt''}) \<and>
     (\<forall>f\<in>set (items (DiskSetup_Filesystems d)). Filesystem_ReplaceFS f = None \<and> Filesystem_Partition f = None)"

definition ignition_ok :: "bool \<Rightarrow> OCNEConfigSpec \<Rightarrow> bool" where
  "ignition_ok gate c \<longleftrightarrow>
     (if OCNEConfigSpec_Format c \<noteq> Ignition then OCNEConfigSpec_Ignition c = None
      else gate \<and> \<not> OCNEConfigSpec_UseExperimentalRetryJoin c \<and>
        (\<forall>u\<in>set (items (OCNEConfigSpec_Users c)). User_Inactive u \<noteq> Some True) \<and>
        (\<forall>f\<in>set (items (OCNEConfigSpec_Files c)). File_Encoding f \<notin> {Gzip, GzipBase64}) \<and>
        (\<forall>d. OCNEConfigSpec_DiskSetup c = Some d \<longrightarrow> disk_ok d))"

lemma validateFile_Nil:
  "validateFile p known i f = [] \<longleftrightarrow> file_ok f \<and> File_Path f \<notin> set known"
  by (auto simp: validateFile_def file_ok_def Let_def split: option.split)

lemma validateFiles_loop_Nil:
  "validateFiles_loop p known i fs = [] \<longleftrightarrow>
     (\<forall>f\<in>set fs. file_ok f \<and> File_Path f \<notin> set known) \<and> distinct (map File_Path fs)"
  by (induction p known i fs rule: validateFiles_loop.induct) (auto simp: validateFile_Nil image_iff)

lemma validateUsers_Nil: "validateUsers c p = [] \<longleftrightarrow> (\<forall>u\<in>set (items (OCNEConfigSpec_Users c)). user_ok u)"
  unfolding validateUsers_def
  by (rule concat_enumerate_Nil) (auto simp: validateUser_def user_ok_def Let_def split: option.split)

lemma validateIgnition_disk_Nil: "validateIgnition_disk p d = [] \<longleftrightarrow> disk_ok d"
  unfolding validateIgnition_disk_def disk_ok_def append_is_Nil_conv
  by (intro arg_cong2 [of _ _ _ _ "(\<and>)"] concat_enumerate_Nil) (auto split: option.split)

lemma validateIgnition_Nil: "validateIgnition gate c p = [] \<longleftrightarrow> ignition_ok gate c"
proof (cases "gate \<and> OCNEConfigSpec_Format c = Ignition")
  case False
  then show ?thesis
    by (auto simp: validateIgnition_def ignition_ok_def)
next
  case True
  have users: "concat (map (\<lambda>(i, user). if User_Inactive user = Some True
       then [Forbidden (p @ [Child ''users'', Index i, Child ''inactive'']) cannotUseWithIgnition]
       else []) (enumerate 0 us)) = [] \<longleftrightarrow> (\<forall>u\<in>set us. User_Inactive u \<noteq> Some True)" for us
    by (rule concat_enumerate_Nil) auto
  have files: "concat (map (\<lambda>(i, file). if File_Encoding file = Gzip \<or> File_Encoding file = GzipBase64
       then [Forbidden (p @ [Child ''files'', Index i, Child ''encoding'']) cannotUseWithIgnition]
       else []) (enumerate 0 fs)) = [] \<longleftrightarrow> (\<forall>f\<in>set fs. File_Encoding f \<notin> {Gzip, GzipBase64})" for fs
    by (rule concat_enumerate_Nil) auto
  have disk: "(case OCNEConfigSpec_DiskSetup c of None \<Rightarrow> [] | Some d \<Rightarrow> validateIgnition_disk p d) = [] \<longleftrightarrow>
      (\<forall>d. OCNEConfigSpec_DiskSetup c = Some d \<longrightarrow> disk_ok d)"
    by (simp add: validateIgnition_disk_Nil split: option.split)
  show ?thesis
    using True
    by (simp only: validateIgnition_def ignition_ok_def append_is_Nil_conv users files disk
        not_True_eq_False if_False simp_thms) auto
qed

text \<open>
  Validation accepts an OCNEConfig exactly when the file paths are distinct, every file and
  every user takes its content or password from one source and names secret and key, and the
  rules for the Ignition format hold: the ignition section needs that format, that format needs
  its feature gate, and then inactive users, the retrying join, compressed files, partition
  tables other than gpt and the replaceFS and partition settings of file systems are refused.
  What \<open>Default\<close> does never turns an accepted spec into a refused one.
\<close>

lemma Validate_iff:
  "(Validate gate c p = [] \<longleftrightarrow>
      distinct (map File_Path (items (OCNEConfigSpec_Files c))) \<and>
      (\<forall>f\<in>set (items (OCNEConfigSpec_Files c)). file_ok f) \<and>
      (\<forall>u\<in>set (items (OCNEConfigSpec_Users c)). user_ok u) \<and>
      ignition_ok gate c) \<and>
   (Validate gate c p = [] \<longrightarrow> Validate gate (DefaultOCNEConfigSpec c) p = [])"
proof -
  have iff: "Validate gate d p = [] \<longleftrightarrow>
      distinct (map File_Path (items (OCNEConfigSpec_Files d))) \<and>
      (\<forall>f\<in>set (items (OCNEConfigSpec_Files d)). file_ok f) \<and>
      (\<forall>u\<in>set (items (OCNEConfigSpec_Users d)). user_ok u) \<and> ignition_ok gate d" for d
    by (auto simp: Validate_def validateFiles_def validateFiles_loop_Nil validateUsers_Nil validateIgnition_Nil)
  have "[] \<noteq> Ignition" "CloudConfig \<noteq> Ignition"
    by (code_simp, code_simp)
  then have "ignition_ok gate (DefaultOCNEConfigSpec c) \<longleftrightarrow> ignition_ok gate c"
    by (auto simp: DefaultOCNEConfigSpec_def ignition_ok_def)
  moreover have "OCNEConfigSpec_Files (DefaultOCNEConfigSpec c) = OCNEConfigSpec_Files c"
    "OCNEConfigSpec_Users (DefaultOCNEConfigSpec c) = OCNEConfigSpec_Users c"
    by (simp_all add: DefaultOCNEConfigSpec_def)
  ultimately show ?thesis
    by (simp add: iff)
qed

lemma Validate_iff_witness:
  "Validate False zero_OCNEConfigSpec [Child ''spec''] = [] \<and>
   Validate False (DefaultOCNEConfigSpec zero_OCNEConfigSpec) [Child ''spec''] = []"
proof -
  have "ignition_ok False zero_OCNEConfigSpec"
    by (simp add: ignition_ok_def zero_OCNEConfigSpec_def Ignition_def)
  then have "Validate False zero_OCNEConfigSpec [Child ''spec''] = []"
    using Validate_iff [of False zero_OCNEConfigSpec "[Child ''spec'']"]
    by (simp add: zero_OCNEConfigSpec_def)
  then show ?thesis
    using Validate_iff [of False zero_OCNEConfigSpec "[Child ''spec'']"] by blast
qed

end
