(* ===== verification/Util.thy ===== *)
theory Util
  imports Version BootstrapApi
begin

text \<open>
  The helpers of \<open>util/util.go\<close> on owner references and reconcile results, the annotation
  helpers of \<open>util/annotations/helpers.go\<close>, the label helpers of \<open>util/labels/helpers.go\<close> and
  \<open>internal/labels/helpers.go\<close>, and the record of the third-party functions the sources call.
\<close>

subsection \<open>Functions of other packages\<close>

text \<open>
  The cluster-api type of failure domains, and the functions of apimachinery and cluster-api the
  code relies on. They are not part of this repository: the model takes them as the fields of
  \<open>ext\<close>, and \<open>ext_laws\<close> states what their packages document.
\<close>

record FailureDomainSpec =
  FailureDomainSpec_ControlPlane :: bool
  FailureDomainSpec_Attributes :: "(string, string) go_map"

type_synonym FailureDomains = "(string, FailureDomainSpec) go_map"

datatype Requirement = Equals string string | Exists string

record ext = semver_lib +
  ParseGroupVersion :: "string \<Rightarrow> error + (string \<times> string)"
  GetControllerOf :: "OwnerReference list \<Rightarrow> OwnerReference option"
  NewRequirement :: "Requirement \<Rightarrow> error + Requirement"
  Matches :: "Requirement list \<Rightarrow> (string, string) go_map \<Rightarrow> bool"
  IsValidLabelValue :: "string \<Rightarrow> string list"
  FilterControlPlane :: "FailureDomains \<Rightarrow> FailureDomains"
  GetIDs :: "FailureDomains \<Rightarrow> string option list"
  GroupKindString :: "ObjectReference \<Rightarrow> string"
  NewControllerRef :: "ObjectMeta \<Rightarrow> string \<Rightarrow> string \<Rightarrow> OwnerReference"

fun requirement_holds :: "(string, string) go_map \<Rightarrow> Requirement \<Rightarrow> bool" where
  "requirement_holds ls (Equals k v) \<longleftrightarrow> map_of ls k = Some v"
| "requirement_holds ls (Exists k) \<longleftrightarrow> map_of ls k \<noteq> None"

definition is_alnum :: "char \<Rightarrow> bool" where
  "is_alnum c \<longleftrightarrow>
     is_digit c \<or> (CHR ''a'' \<le> c \<and> c \<le> CHR ''z'') \<or> (CHR ''A'' \<le> c \<and> c \<le> CHR ''Z'')"

definition label_value_ok :: "string \<Rightarrow> bool" where
  "label_value_ok s \<longleftrightarrow>
     s = [] \<or> length s \<le> 63 \<and> is_alnum (hd s) \<and> is_alnum (last s) \<and>
     (\<forall>c\<in>set s. is_alnum c \<or> c \<in> set ''-_.'')"

text \<open>
  \<^item> \<open>GetControllerOf\<close> returns a reference of the list whose controller flag is set, if there is one;
  \<^item> \<open>Matches\<close> holds when all requirements of the selector hold;
  \<^item> \<open>IsValidLabelValue\<close> reports no problem exactly for label values as Kubernetes documents them;
  \<^item> \<open>FilterControlPlane\<close> keeps the failure domains usable for control planes, \<open>GetIDs\<close> lists the names;
  \<^item> \<open>GroupKindString\<close> renders the group and kind of a reference, \<open>NewControllerRef\<close> makes the
    reference to a controlling owner.
\<close>

definition ext_laws :: "'x ext_scheme \<Rightarrow> bool" where
  "ext_laws e \<longleftrightarrow>
     semver_laws e \<and>
     (\<forall>refs. case GetControllerOf e refs of
        None \<Rightarrow> \<forall>r\<in>set refs. Controller r \<noteq> Some True
      | Some r \<Rightarrow> r \<in> set refs \<and> Controller r = Some True) \<and>
     (\<forall>r s. NewRequirement e r = Inr s \<longrightarrow> s = r) \<and>
     (\<forall>rs ls. Matches e rs ls \<longleftrightarrow> (\<forall>r\<in>set rs. requirement_holds ls r)) \<and>
     (\<forall>s. IsValidLabelValue e s = [] \<longleftrightarrow> label_value_ok s) \<and>
     (\<forall>fds. wf_map fds \<longrightarrow> wf_map (FilterControlPlane e fds) \<and>
        set (FilterControlPlane e fds) = {p \<in> set fds. FailureDomainSpec_ControlPlane (snd p)}) \<and>
     (\<forall>fds. set (GetIDs e fds) = Some ` fst ` set fds) \<and>
     (\<forall>owner gv kind. NewControllerRef e owner gv kind =
        \<lparr>APIVersion = gv, Kind = kind, OwnerReference_Name = Name owner, OwnerReference_UID = UID owner,
         Controller = Some True, BlockOwnerDeletion = Some True\<rparr>)"

text \<open>An instance that satisfies the laws.\<close>

definition std_ext :: ext where
  "std_ext = \<lparr>ParseTolerant = ParseMajorMinorPatchTolerant, semver_Compare = core_cmp,
     ParseGroupVersion =
       (\<lambda>s. let g = takeWhile (\<lambda>c. c \<noteq> CHR ''/'') s; v = dropWhile (\<lambda>c. c \<noteq> CHR ''/'') s
            in if v = [] then Inr ([], g)
               else if CHR ''/'' \<in> set (tl v) then Inl (Err ''unexpected GroupVersion string'')
               else Inr (g, tl v)),
     GetControllerOf = find (\<lambda>r. Controller r = Some True),
     NewRequirement = Inr,
     Matches = (\<lambda>rs ls. list_all (requirement_holds ls) rs),
     IsValidLabelValue = (\<lambda>s. if label_value_ok s then [] else [''invalid'']),
     FilterControlPlane = filter (\<lambda>(_, s). FailureDomainSpec_ControlPlane s),
     GetIDs = map (\<lambda>(k, _). Some k),
     GroupKindString = (\<lambda>r. ObjectReference_Kind r @ ''.'' @ takeWhile (\<lambda>c. c \<noteq> CHR ''/'') (ObjectReference_APIVersion r)),
     NewControllerRef = (\<lambda>owner gv kind.
       \<lparr>APIVersion = gv, Kind = kind, OwnerReference_Name = Name owner, OwnerReference_UID = UID owner,
        Controller = Some True, BlockOwnerDeletion = Some True\<rparr>)\<rparr>"

lemma std_ext_laws: "ext_laws std_ext"
proof -
  have cmp: "semver_Compare std_ext = semver_Compare numeric_lib"
    by (simp add: std_ext_def numeric_lib_def)
  have "semver_laws std_ext"
    using numeric_lib_laws unfolding semver_laws_def cmp .
  moreover have "\<forall>refs. case find (\<lambda>r. Controller r = Some True) refs of
      None \<Rightarrow> \<forall>r\<in>set refs. Controller r \<noteq> Some True
    | Some r \<Rightarrow> r \<in> set refs \<and> Controller r = Some True"
    by (auto simp: find_Some_iff find_None_iff split: option.split)
  ultimately show ?thesis
    by (simp add: ext_laws_def std_ext_def list_all_iff image_image split_beta)
qed

lemma ext_lawsD:
  assumes "ext_laws e"
  shows "semver_laws e"
    and "GetControllerOf e refs = None \<Longrightarrow> r \<in> set refs \<Longrightarrow> Controller r \<noteq> Some True"
    and "GetControllerOf e refs = Some r \<Longrightarrow> r \<in> set refs \<and> Controller r = Some True"
    and "NewRequirement e q = Inr q' \<Longrightarrow> q' = q"
    and "Matches e rs ls \<longleftrightarrow> (\<forall>r\<in>set rs. requirement_holds ls r)"
    and "IsValidLabelValue e s = [] \<longleftrightarrow> label_value_ok s"
    and "wf_map fds \<Longrightarrow> wf_map (FilterControlPlane e fds)"
    and "wf_map fds \<Longrightarrow> set (FilterControlPlane e fds) = {p \<in> set fds. FailureDomainSpec_ControlPlane (snd p)}"
    and "set (GetIDs e fds) = Some ` fst ` set fds"
    and "NewControllerRef e owner gv kind =
      \<lparr>APIVersion = gv, Kind = kind, OwnerReference_Name = Name owner, OwnerReference_UID = UID owner,
       Controller = Some True, BlockOwnerDeletion = Some True\<rparr>"
proof -
  have c: "case GetControllerOf e refs of None \<Rightarrow> \<forall>r\<in>set refs. Controller r \<noteq> Some True
      | Some r \<Rightarrow> r \<in> set refs \<and> Controller r = Some True"
    using assms by (simp add: ext_laws_def)
  show "GetControllerOf e refs = None \<Longrightarrow> r \<in> set refs \<Longrightarrow> Controller r \<noteq> Some True"
    and "GetControllerOf e refs = Some r \<Longrightarrow> r \<in> set refs \<and> Controller r = Some True"
    using c by simp_all
qed (use assms in \<open>auto simp: ext_laws_def\<close>)

subsection \<open>Owner references\<close>

definition referSameObject :: "'x ext_scheme \<Rightarrow> OwnerReference \<Rightarrow> OwnerReference \<Rightarrow> bool" where
  "referSameObject e a b =
     (case ParseGroupVersion e (APIVersion a) of
        Inl _ \<Rightarrow> False
      | Inr aGV \<Rightarrow>
     (case ParseGroupVersion e (APIVersion b) of
        Inl _ \<Rightarrow> False
      | Inr bGV \<Rightarrow>
          fst aGV = fst bGV \<and> Kind a = Kind b \<and> OwnerReference_Name a = OwnerReference_Name b))"

text \<open>The index, or \<open>None\<close> for -1.\<close>

fun indexOwnerRef :: "'x ext_scheme \<Rightarrow> OwnerReference list \<Rightarrow> OwnerReference \<Rightarrow> nat option" where
  "indexOwnerRef e [] ref = None"
| "indexOwnerRef e (r # ownerReferences) ref =
     (if referSameObject e r ref then Some 0 else map_option Suc (indexOwnerRef e ownerReferences ref))"

definition HasOwnerRef :: "'x ext_scheme \<Rightarrow> OwnerReference list \<Rightarrow> OwnerReference \<Rightarrow> bool" where
  "HasOwnerRef e ownerReferences ref \<longleftrightarrow> indexOwnerRef e ownerReferences ref \<noteq> None"

definition EnsureOwnerRef ::
  "'x ext_scheme \<Rightarrow> OwnerReference list \<Rightarrow> OwnerReference \<Rightarrow> OwnerReference list" where
  "EnsureOwnerRef e ownerReferences ref =
     (case indexOwnerRef e ownerReferences ref of
        None \<Rightarrow> ownerReferences @ [ref]
      | Some idx \<Rightarrow> ownerReferences[idx := ref])"

fun ReplaceOwnerRef :: "OwnerReference list \<Rightarrow> string \<Rightarrow> OwnerReference \<Rightarrow> OwnerReference list" where
  \<comment> \<open>the second argument is the UID of the source\<close>
  "ReplaceOwnerRef [] source target = [target]"
| "ReplaceOwnerRef (r # ownerReferences) source target =
     (if OwnerReference_UID r = source then target # ownerReferences
      else r # ReplaceOwnerRef ownerReferences source target)"

definition RemoveOwnerRef ::
  "'x ext_scheme \<Rightarrow> OwnerReference list \<Rightarrow> OwnerReference \<Rightarrow> OwnerReference list" where
  "RemoveOwnerRef e ownerReferences inputRef =
     (case indexOwnerRef e ownerReferences inputRef of
        Some index \<Rightarrow> take index ownerReferences @ drop (Suc index) ownerReferences
      | None \<Rightarrow> ownerReferences)"

text \<open>The target of \<open>refersTo\<close> is given by its group, kind and name.\<close>

definition refersTo :: "'x ext_scheme \<Rightarrow> OwnerReference \<Rightarrow> string \<times> string \<times> string \<Rightarrow> bool" where
  "refersTo e ref obj =
     (case obj of (grp, kind, name) \<Rightarrow>
        (case ParseGroupVersion e (APIVersion ref) of
           Inl _ \<Rightarrow> False
         | Inr refGv \<Rightarrow> fst refGv = grp \<and> Kind ref = kind \<and> OwnerReference_Name ref = name))"

definition IsOwnedByObject ::
  "'x ext_scheme \<Rightarrow> OwnerReference list \<Rightarrow> string \<times> string \<times> string \<Rightarrow> bool" where
  "IsOwnedByObject e refs target \<longleftrightarrow> (\<exists>ref\<in>set refs. refersTo e ref target)"

definition IsControlledBy ::
  "'x ext_scheme \<Rightarrow> OwnerReference list \<Rightarrow> string \<times> string \<times> string \<Rightarrow> bool" where
  "IsControlledBy e refs owner =
     (case GetControllerOf e refs of None \<Rightarrow> False | Some controllerRef \<Rightarrow> refersTo e controllerRef owner)"

fun HasOwner_loop :: "'x ext_scheme \<Rightarrow> OwnerReference list \<Rightarrow> string \<Rightarrow> string list \<Rightarrow> bool" where
  "HasOwner_loop e [] grp kinds = False"
| "HasOwner_loop e (mr # refList) grp kinds =
     (case ParseGroupVersion e (APIVersion mr) of
        Inl _ \<Rightarrow> False
      | Inr mrGroupVersion \<Rightarrow>
          (if fst mrGroupVersion = grp \<and> Kind mr \<in> set kinds then True
           else HasOwner_loop e refList grp kinds))"

definition HasOwner :: "'x ext_scheme \<Rightarrow> OwnerReference list \<Rightarrow> string \<Rightarrow> string list \<Rightarrow> bool" where
  "HasOwner e refList apiVersion kinds =
     (case ParseGroupVersion e apiVersion of
        Inl _ \<Rightarrow> False
      | Inr gv \<Rightarrow> HasOwner_loop e refList (fst gv) kinds)"

subsection \<open>Results\<close>

definition LowestNonZeroResult :: "Result \<Rightarrow> Result \<Rightarrow> Result" where
  "LowestNonZeroResult i j =
     (if Result_IsZero i then j
      else if Result_IsZero j then i
      else if Requeue i then i
      else if Requeue j then j
      else if RequeueAfter i < RequeueAfter j then i
      else j)"

subsection \<open>Annotations and labels\<close>

text \<open>Names that cluster-api documents.\<close>

definition PausedAnnotation :: string where "PausedAnnotation = ''cluster.x-k8s.io/paused''"
definition ManagedByAnnotation :: string where "ManagedByAnnotation = ''cluster.x-k8s.io/managed-by''"
definition MachineSkipRemediationAnnotation :: string where
  "MachineSkipRemediationAnnotation = ''cluster.x-k8s.io/skip-remediation''"
definition ReplicasManagedByAnnotation :: string where
  "ReplicasManagedByAnnotation = ''cluster.x-k8s.io/replicas-managed-by''"
definition DeleteMachineAnnotation :: string where
  "DeleteMachineAnnotation = ''cluster.x-k8s.io/delete-machine''"
definition ClusterLabelName :: string where "ClusterLabelName = ''cluster.x-k8s.io/cluster-name''"
definition MachineControlPlaneLabelName :: string where
  "MachineControlPlaneLabelName = ''cluster.x-k8s.io/control-plane''"
definition MachineControlPlaneNameLabel :: string where
  "MachineControlPlaneNameLabel = ''cluster.x-k8s.io/control-plane-name''"
definition ClusterTopologyOwnedLabel :: string where
  "ClusterTopologyOwnedLabel = ''topology.cluster.x-k8s.io/owned''"
definition WatchLabel :: string where "WatchLabel = ''cluster.x-k8s.io/watch-filter''"

definition hasAnnotation :: "ObjectMeta \<Rightarrow> string \<Rightarrow> bool" where
  "hasAnnotation obj annotation \<longleftrightarrow> map_of (Annotations obj) annotation \<noteq> None"

definition hasTruthyAnnotationValue :: "ObjectMeta \<Rightarrow> string \<Rightarrow> bool" where
  "hasTruthyAnnotationValue obj annotation =
     (case map_of (Annotations obj) annotation of Some val \<Rightarrow> val \<noteq> ''false'' | None \<Rightarrow> False)"

definition HasPaused :: "ObjectMeta \<Rightarrow> bool" where
  "HasPaused obj = hasAnnotation obj PausedAnnotation"

definition IsPaused :: "bool \<Rightarrow> ObjectMeta \<Rightarrow> bool" where
  \<comment> \<open>the first argument is \<open>cluster.Spec.Paused\<close>\<close>
  "IsPaused paused obj = (if paused then True else HasPaused obj)"

definition IsExternallyManaged :: "ObjectMeta \<Rightarrow> bool" where
  "IsExternallyManaged obj = hasAnnotation obj ManagedByAnnotation"

definition HasSkipRemediation :: "ObjectMeta \<Rightarrow> bool" where
  "HasSkipRemediation obj = hasAnnotation obj MachineSkipRemediationAnnotation"

definition ReplicasManagedByExternalAutoscaler :: "ObjectMeta \<Rightarrow> bool" where
  "ReplicasManagedByExternalAutoscaler obj = hasTruthyAnnotationValue obj ReplicasManagedByAnnotation"

definition HasWithPrefix :: "string \<Rightarrow> (string, string) go_map \<Rightarrow> bool" where
  "HasWithPrefix p annotations \<longleftrightarrow> (\<exists>(key, _)\<in>set annotations. prefix p key)"

fun add_annotations ::
  "(string, string) go_map \<Rightarrow> (string, string) go_map \<Rightarrow> bool \<times> (string, string) go_map" where
  "add_annotations annotations [] = (False, annotations)"
| "add_annotations annotations ((k, v) # desired) =
     (if map_of annotations k \<noteq> Some v
      then (True, snd (add_annotations (AList.update k v annotations) desired))
      else add_annotations annotations desired)"

definition AddAnnotations :: "ObjectMeta \<Rightarrow> (string, string) go_map \<Rightarrow> bool \<times> ObjectMeta" where
  "AddAnnotations obj desired =
     (if desired = [] then (False, obj)
      else (let (hasChanged, annotations) = add_annotations (Annotations obj) desired
            in (hasChanged, obj\<lparr>Annotations := annotations\<rparr>)))"

definition IsTopologyOwned :: "ObjectMeta \<Rightarrow> bool" where
  "IsTopologyOwned obj \<longleftrightarrow> map_of (Labels obj) ClusterTopologyOwnedLabel \<noteq> None"

definition HasWatchLabel :: "ObjectMeta \<Rightarrow> string \<Rightarrow> bool" where
  "HasWatchLabel obj labelValue =
     (case map_of (Labels obj) WatchLabel of None \<Rightarrow> False | Some val \<Rightarrow> val = labelValue)"

subsection \<open>Label values\<close>

text \<open>\<open>hash/fnv\<close>'s 32-bit FNV-1a sum, big endian, and \<open>encoding/base64\<close>'s unpadded URL encoding.\<close>

definition fnv32a :: "string \<Rightarrow> 32 word" where
  "fnv32a s = foldl (\<lambda>h c. Bit_Operations.xor h (of_nat (of_char c)) * 16777619) 2166136261 s"

definition sum_bytes :: "32 word \<Rightarrow> nat list" where
  "sum_bytes h = map (\<lambda>i. unat h div 2 ^ (8 * i) mod 256) [3, 2, 1, 0]"

definition url_alphabet :: string where
  "url_alphabet = ''ABCDEFGHIJKLMNOPQRSTUVWXYZabcdefghijklmnopqrstuvwxyz0123456789-_''"

definition url_char :: "nat \<Rightarrow> char" where
  "url_char n = url_alphabet ! (n mod 64)"

fun EncodeToString :: "nat list \<Rightarrow> string" where
  "EncodeToString [] = []"
| "EncodeToString [a] = [url_char (a div 4), url_char (a mod 4 * 16)]"
| "EncodeToString [a, b] =
     [url_char (a div 4), url_char (a mod 4 * 16 + b div 16), url_char (b mod 16 * 4)]"
| "EncodeToString (a # b # c # r) =
     [url_char (a div 4), url_char (a mod 4 * 16 + b div 16), url_char (b mod 16 * 4 + c div 64),
      url_char c] @ EncodeToString r"

definition MustFormatValue :: "'x ext_scheme \<Rightarrow> string \<Rightarrow> string" where
  "MustFormatValue e str =
     (if length (IsValidLabelValue e str) = 0 then str
      else ''hash_'' @ EncodeToString (sum_bytes (fnv32a str)) @ ''_z'')"

definition MustEqualValue :: "'x ext_scheme \<Rightarrow> string \<Rightarrow> string \<Rightarrow> bool" where
  "MustEqualValue e str labelValue \<longleftrightarrow> labelValue = MustFormatValue e str"

lemma url_alphabet_ok: "list_all (\<lambda>c. is_alnum c \<or> c \<in> set ''-_.'') url_alphabet \<and> length url_alphabet = 64"
  by code_simp

lemma url_char_ok: "is_alnum (url_char n) \<or> url_char n \<in> set ''-_.''"
  using url_alphabet_ok by (auto simp: url_char_def list_all_length)

lemma EncodeToString_ok:
  "(\<forall>c\<in>set (EncodeToString bs). is_alnum c \<or> c \<in> set ''-_.'') \<and>
   3 * length (EncodeToString bs) \<le> 4 * length bs + 2"
proof (induction bs rule: EncodeToString.induct)
  case 1
  then show ?case by simp
qed (use url_char_ok in \<open>auto\<close>)

subsection \<open>Owner reference lemmas\<close>

lemma indexOwnerRef_None: "indexOwnerRef e refs ref = None \<longleftrightarrow> (\<forall>r\<in>set refs. \<not> referSameObject e r ref)"
  by (induction refs) auto

lemma indexOwnerRef_Some:
  "indexOwnerRef e refs ref = Some i \<Longrightarrow>
     i < length refs \<and> referSameObject e (refs ! i) ref \<and> (\<forall>j<i. \<not> referSameObject e (refs ! j) ref)"
proof (induction refs arbitrary: i)
  case (Cons r refs)
  then show ?case
    by (auto simp: nth_Cons less_Suc_eq_0_disj split: if_splits nat.split)
qed simp

lemma indexOwnerRef_update:
  "indexOwnerRef e refs ref = Some i \<Longrightarrow> referSameObject e ref ref \<Longrightarrow>
   indexOwnerRef e (refs[i := ref]) ref = Some i"
proof (induction refs arbitrary: i)
  case (Cons r refs)
  then show ?case by (auto split: if_splits nat.splits)
qed simp

lemma indexOwnerRef_append:
  "indexOwnerRef e refs ref = None \<Longrightarrow> referSameObject e ref ref \<Longrightarrow>
   indexOwnerRef e (refs @ [ref]) ref = Some (length refs)"
  by (induction refs) (auto split: if_splits)

lemma filter_update_same:
  "indexOwnerRef e refs ref = Some i \<Longrightarrow> referSameObject e ref ref \<Longrightarrow>
   filter (\<lambda>r. \<not> referSameObject e r ref) (refs[i := ref]) = filter (\<lambda>r. \<not> referSameObject e r ref) refs"
proof (induction refs arbitrary: i)
  case (Cons r refs)
  then show ?case by (auto split: if_splits nat.splits)
qed simp

lemma filter_remove_same:
  "indexOwnerRef e refs ref = Some i \<Longrightarrow>
   filter (\<lambda>r. \<not> referSameObject e r ref) (take i refs @ drop (Suc i) refs) =
   filter (\<lambda>r. \<not> referSameObject e r ref) refs"
proof (induction refs arbitrary: i)
  case (Cons r refs)
  then show ?case by (auto split: if_splits nat.splits)
qed simp

lemma referSameObject_refl:
  "referSameObject e r r \<longleftrightarrow> (\<exists>gv. ParseGroupVersion e (APIVersion r) = Inr gv)"
  by (auto simp: referSameObject_def split: sum.split)

subsection \<open>Properties\<close>

text \<open>
  For an owner reference with a well-formed API version, \<open>EnsureOwnerRef\<close> makes it a member
  of the list, is idempotent and keeps the references to other objects in their order;
  \<open>RemoveOwnerRef\<close> also keeps them, and takes away the reference \<open>EnsureOwnerRef\<close> added to a list
  without one.
\<close>

lemma EnsureOwnerRef_effect:
  assumes "ParseGroupVersion e (APIVersion ref) = Inr gv"
  shows "ref \<in> set (EnsureOwnerRef e refs ref) \<and> HasOwnerRef e (EnsureOwnerRef e refs ref) ref \<and>
    EnsureOwnerRef e (EnsureOwnerRef e refs ref) ref = EnsureOwnerRef e refs ref \<and>
    filter (\<lambda>r. \<not> referSameObject e r ref) (EnsureOwnerRef e refs ref) =
      filter (\<lambda>r. \<not> referSameObject e r ref) refs \<and>
    filter (\<lambda>r. \<not> referSameObject e r ref) (RemoveOwnerRef e refs ref) =
      filter (\<lambda>r. \<not> referSameObject e r ref) refs \<and>
    (\<not> HasOwnerRef e refs ref \<longrightarrow> RemoveOwnerRef e (EnsureOwnerRef e refs ref) ref = refs)"
proof -
  have refl: "referSameObject e ref ref"
    using assms by (auto simp: referSameObject_refl)
  show ?thesis
  proof (cases "indexOwnerRef e refs ref")
    case None
    then show ?thesis
      using refl indexOwnerRef_append [OF None refl]
      by (simp add: EnsureOwnerRef_def RemoveOwnerRef_def HasOwnerRef_def)
  next
    case (Some i)
    then show ?thesis
      using refl indexOwnerRef_update [OF Some refl] filter_update_same [OF Some refl]
        filter_remove_same [OF Some] indexOwnerRef_Some [OF Some]
      by (simp add: EnsureOwnerRef_def RemoveOwnerRef_def HasOwnerRef_def set_update_memI)
  qed
qed

lemma EnsureOwnerRef_effect_witness:
  "let r = \<lparr>APIVersion = ''cluster.x-k8s.io/v1beta1'', Kind = ''Cluster'', OwnerReference_Name = ''c'',
            OwnerReference_UID = ''1'', Controller = None, BlockOwnerDeletion = None\<rparr>
   in HasOwnerRef std_ext (EnsureOwnerRef std_ext [] r) r"
proof -
  define r where "r = \<lparr>APIVersion = ''cluster.x-k8s.io/v1beta1'', Kind = ''Cluster'', OwnerReference_Name = ''c'',
            OwnerReference_UID = ''1'', Controller = None, BlockOwnerDeletion = None\<rparr>"
  have "ParseGroupVersion std_ext (APIVersion r) = Inr (''cluster.x-k8s.io'', ''v1beta1'')"
    unfolding r_def by code_simp
  then show ?thesis
    using EnsureOwnerRef_effect [of std_ext r _ "[]"] unfolding r_def Let_def by blast
qed

text \<open>
  \<open>MustFormatValue\<close> always gives a valid label value: at most 63 characters, starting and
  ending with a letter or digit, and made of letters, digits, dashes, underscores and dots. A value
  that is already valid is kept; any other value becomes one of 13 characters.
\<close>

lemma MustFormatValue_valid:
  assumes "ext_laws e"
  shows "label_value_ok (MustFormatValue e str) \<and>
    (label_value_ok str \<longrightarrow> MustFormatValue e str = str) \<and>
    (\<not> label_value_ok str \<longrightarrow> length (MustFormatValue e str) = 13)"
proof (cases "label_value_ok str")
  case True
  then show ?thesis
    using ext_lawsD(6) [OF assms, of str] by (simp add: MustFormatValue_def)
next
  case False
  let ?b = "EncodeToString (sum_bytes (fnv32a str))"
  have v: "MustFormatValue e str = ''hash_'' @ ?b @ ''_z''"
    using False ext_lawsD(6) [OF assms, of str] by (simp add: MustFormatValue_def)
  have len: "length ?b = 6"
    by (simp add: sum_bytes_def)
  have "is_alnum (CHR ''h'')" "is_alnum (CHR ''a'')" "is_alnum (CHR ''s'')" "is_alnum (CHR ''z'')"
    by (code_simp, code_simp, code_simp, code_simp)
  then have "label_value_ok (''hash_'' @ ?b @ ''_z'')"
    using EncodeToString_ok [of "sum_bytes (fnv32a str)"] len
    by (auto simp: label_value_ok_def)
  then show ?thesis
    using False len by (simp add: v)
qed

lemma MustFormatValue_valid_witness:
  "ext_laws std_ext \<and> label_value_ok (MustFormatValue std_ext (replicate 64 CHR ''a'')) \<and>
   length (MustFormatValue std_ext (replicate 64 CHR ''a'')) = 13"
proof -
  have "\<not> label_value_ok (replicate 64 CHR ''a'')"
    by (simp add: label_value_ok_def)
  then show ?thesis
    using std_ext_laws MustFormatValue_valid [OF std_ext_laws, of "replicate 64 CHR ''a''"] by blast
qed

end
