(* ===== verification/ControlPlaneApi.thy ===== *)
theory ControlPlaneApi
  imports Util
begin

text \<open>
  The API types of the control plane provider
  (\<open>controlplane/ocne/api/v1alpha1/ocne_control_plane_types.go\<close>, \<open>condition_consts.go\<close>) and the
  parts of cluster-api's Machine and Cluster objects the controllers use.
\<close>

subsection \<open>Condition types and reasons\<close>

definition MachinesReadyCondition :: ConditionType where "MachinesReadyCondition = ''MachinesReady''"
definition CertificatesAvailableCondition :: ConditionType where
  "CertificatesAvailableCondition = ''CertificatesAvailable''"
definition CertificatesGenerationFailedReason :: string where
  "CertificatesGenerationFailedReason = ''CertificatesGenerationFailed''"
definition AvailableCondition :: ConditionType where "AvailableCondition = ''Available''"
definition WaitingForOCNEInitReason :: string where "WaitingForOCNEInitReason = ''WaitingForOCNEInit''"
definition MachinesSpecUpToDateCondition :: ConditionType where
  "MachinesSpecUpToDateCondition = ''MachinesSpecUpToDate''"
definition RollingUpdateInProgressReason :: string where
  "RollingUpdateInProgressReason = ''RollingUpdateInProgress''"
definition ResizedCondition :: ConditionType where "ResizedCondition = ''Resized''"
definition ScalingUpReason :: string where "ScalingUpReason = ''ScalingUp''"
definition ScalingDownReason :: string where "ScalingDownReason = ''ScalingDown''"
definition ModuleOperatorDeploy :: ConditionType where "ModuleOperatorDeploy = ''ModuleOperatorDeployed''"
definition VerrazzanoPlatformOperatorDeploy :: ConditionType where
  "VerrazzanoPlatformOperatorDeploy = ''VerrazzanoPlatformOperatorDeployed''"
definition ModuleOperatorUninstalled :: string where "ModuleOperatorUninstalled = ''ModuleOperatorUninstalled''"
definition VerrazzanoPlatformOperatorUninstalled :: string where
  "VerrazzanoPlatformOperatorUninstalled = ''VerrazzanoPlatformOperatorUninstalled''"
definition ControlPlaneComponentsHealthyCondition :: ConditionType where
  "ControlPlaneComponentsHealthyCondition = ''ControlPlaneComponentsHealthy''"
definition MachineAPIServerPodHealthyCondition :: ConditionType where
  "MachineAPIServerPodHealthyCondition = ''APIServerPodHealthy''"
definition MachineControllerManagerPodHealthyCondition :: ConditionType where
  "MachineControllerManagerPodHealthyCondition = ''ControllerManagerPodHealthy''"
definition MachineSchedulerPodHealthyCondition :: ConditionType where
  "MachineSchedulerPodHealthyCondition = ''SchedulerPodHealthy''"
definition MachineEtcdPodHealthyCondition :: ConditionType where
  "MachineEtcdPodHealthyCondition = ''EtcdPodHealthy''"
definition EtcdClusterHealthyCondition :: ConditionType where
  "EtcdClusterHealthyCondition = ''EtcdClusterHealthy''"
definition MachineEtcdMemberHealthyCondition :: ConditionType where
  "MachineEtcdMemberHealthyCondition = ''EtcdMemberHealthy''"
definition MachinesCreatedCondition :: ConditionType where "MachinesCreatedCondition = ''MachinesCreated''"
definition InfrastructureTemplateCloningFailedReason :: string where
  "InfrastructureTemplateCloningFailedReason = ''InfrastructureTemplateCloningFailed''"
definition BootstrapTemplateCloningFailedReason :: string where
  "BootstrapTemplateCloningFailedReason = ''BootstrapTemplateCloningFailed''"
definition MachineGenerationFailedReason :: string where
  "MachineGenerationFailedReason = ''MachineGenerationFailed''"

text \<open>Conditions of Machine objects that cluster-api documents.\<close>

definition MachineHealthCheckSucceededCondition :: ConditionType where
  "MachineHealthCheckSucceededCondition = ''HealthCheckSucceeded''"
definition MachineOwnerRemediatedCondition :: ConditionType where
  "MachineOwnerRemediatedCondition = ''OwnerRemediated''"

subsection \<open>Machines and clusters\<close>

record Machine =
  Machine_TypeMeta :: TypeMeta
  Machine_ObjectMeta :: ObjectMeta
  Machine_Spec_ClusterName :: string
  Machine_Spec_Bootstrap_ConfigRef :: "ObjectReference option"
  Machine_Spec_InfrastructureRef :: ObjectReference
  Machine_Spec_Version :: "string option"
  Machine_Spec_FailureDomain :: "string option"
  Machine_Spec_NodeDrainTimeout :: "int option"
  Machine_Spec_NodeDeletionTimeout :: "int option"
  Machine_Status_NodeRef :: "ObjectReference option"
  Machine_Status_CertificatesExpiryDate :: "time option"
  Machine_Status_Conditions :: Conditions

abbreviation mname :: "Machine \<Rightarrow> string" where
  "mname m \<equiv> Name (Machine_ObjectMeta m)"

record ClusterNetwork =
  ServiceDomain :: string
  Services_CIDRBlocks :: "string slice option"
  Pods_CIDRBlocks :: "string slice option"

record Cluster =
  Cluster_ObjectMeta :: ObjectMeta
  Cluster_Spec_Paused :: bool
  Cluster_Spec_ClusterNetwork :: "ClusterNetwork option"
  Cluster_Spec_ControlPlaneEndpoint_Host :: string
  Cluster_Spec_ControlPlaneEndpoint_Port :: int
  Cluster_Spec_ControlPlaneRef :: "ObjectReference option"
  Cluster_Status_InfrastructureReady :: bool
  Cluster_Status_FailureDomains :: FailureDomains
  Cluster_Status_Conditions :: Conditions

text \<open>Methods of the endpoint of a cluster.\<close>

definition endpoint_IsZero :: "Cluster \<Rightarrow> bool" where
  "endpoint_IsZero cluster \<longleftrightarrow>
     Cluster_Spec_ControlPlaneEndpoint_Host cluster = [] \<and> Cluster_Spec_ControlPlaneEndpoint_Port cluster = 0"

definition endpoint_IsValid :: "Cluster \<Rightarrow> bool" where
  "endpoint_IsValid cluster \<longleftrightarrow>
     Cluster_Spec_ControlPlaneEndpoint_Host cluster \<noteq> [] \<and> Cluster_Spec_ControlPlaneEndpoint_Port cluster \<noteq> 0"

subsection \<open>OCNEControlPlane\<close>

definition OCNEControlPlaneFinalizer :: string where
  "OCNEControlPlaneFinalizer = ''ocne.controlplane.cluster.x-k8s.io''"
definition SkipCoreDNSAnnotation :: string where
  "SkipCoreDNSAnnotation = ''controlplane.cluster.x-k8s.io/skip-coredns''"
definition SkipKubeProxyAnnotation :: string where
  "SkipKubeProxyAnnotation = ''controlplane.cluster.x-k8s.io/skip-kube-proxy''"
definition OCNEClusterConfigurationAnnotation :: string where
  "OCNEClusterConfigurationAnnotation = ''controlplane.cluster.x-k8s.io/ocne-cluster-configuration''"

definition RollingUpdateStrategyType :: string where "RollingUpdateStrategyType = ''RollingUpdate''"

record OCNEControlPlaneMachineTemplate =
  MachineTemplate_Labels :: "(string, string) go_map"
  MachineTemplate_Annotations :: "(string, string) go_map"
  MachineTemplate_InfrastructureRef :: ObjectReference
  MachineTemplate_NodeDrainTimeout :: "int option"
  MachineTemplate_NodeVolumeDetachTimeout :: "int option"
  MachineTemplate_NodeDeletionTimeout :: "int option"

record RolloutBefore =
  CertificatesExpiryDays :: "int option"

datatype IntOrString = FromInt int | FromString string

record RollingUpdate =
  MaxSurge :: "IntOrString option"

record RolloutStrategy =
  RolloutStrategy_Type :: string
  RolloutStrategy_RollingUpdate :: "RollingUpdate option"

record OperatorImageMeta =
  OperatorImageMeta_Repository :: string
  OperatorImageMeta_Tag :: string
  OperatorImageMeta_PullPolicy :: string

record ModuleOperator =
  ModuleOperator_Enabled :: bool
  ModuleOperator_Image :: "OperatorImageMeta option"
  ModuleOperator_ImagePullSecrets :: "string list"

record VerrazzanoPlatformOperator =
  VerrazzanoPlatformOperator_Enabled :: bool
  VerrazzanoPlatformOperator_Image :: "OperatorImageMeta option"
  VerrazzanoPlatformOperator_ImagePullSecrets :: "string list"
  VerrazzanoPlatformOperator_PrivateRegistry_Enabled :: bool

record OCNEControlPlaneSpec =
  Spec_Replicas :: "int option"
  Spec_Version :: string
  Spec_MachineTemplate :: OCNEControlPlaneMachineTemplate
  Spec_ControlPlaneConfig :: OCNEConfigSpec
  Spec_RolloutBefore :: "RolloutBefore option"
  Spec_RolloutAfter :: "time option"
  Spec_RolloutStrategy :: "RolloutStrategy option"
  Spec_ModuleOperator :: "ModuleOperator option"
  Spec_VerrazzanoPlatformOperator :: "VerrazzanoPlatformOperator option"

record OCNEControlPlaneStatus =
  Status_Selector :: string
  Status_Replicas :: int
  Status_Version :: "string option"
  Status_UpdatedReplicas :: int
  Status_ReadyReplicas :: int
  Status_UnavailableReplicas :: int
  Status_Initialized :: bool
  Status_Ready :: bool
  Status_FailureReason :: string
  Status_FailureMessage :: "string option"
  Status_ObservedGeneration :: int
  Status_Conditions :: Conditions

record OCNEControlPlane =
  KCP_ObjectMeta :: ObjectMeta
  KCP_Spec :: OCNEControlPlaneSpec
  KCP_Status :: OCNEControlPlaneStatus

abbreviation kcp_conditions :: "OCNEControlPlane \<Rightarrow> Conditions" where
  "kcp_conditions k \<equiv> Status_Conditions (KCP_Status k)"

definition with_conditions :: "(Conditions \<Rightarrow> Conditions) \<Rightarrow> OCNEControlPlane \<Rightarrow> OCNEControlPlane" where
  "with_conditions f k = k\<lparr>KCP_Status := (KCP_Status k)\<lparr>Status_Conditions := f (kcp_conditions k)\<rparr>\<rparr>"

lemma with_conditions_simps [simp]:
  "KCP_ObjectMeta (with_conditions f k) = KCP_ObjectMeta k"
  "KCP_Spec (with_conditions f k) = KCP_Spec k"
  "kcp_conditions (with_conditions f k) = f (kcp_conditions k)"
  by (simp_all add: with_conditions_def)

end
