(* ===== verification/Machines.thy ===== *)
theory Machines
  imports ControlPlaneApi
begin

text \<open>
  Collections of machines, \<open>util/collections\<close>: the collection type and its operations
  (\<open>machine_collection.go\<close>), the filters (\<open>machine_filters.go\<close>) and the listing of the machines of
  a cluster (\<open>helpers.go\<close>).

  A collection is a Go map from machine names to machines. A filter takes a pointer, which may
  be nil.
\<close>

type_synonym Machines = "(string, Machine) go_map"
type_synonym Func = "Machine option \<Rightarrow> bool"

subsection \<open>Filters\<close>

definition And :: "Func list \<Rightarrow> Func" where
  "And filters = (\<lambda>machine. list_all (\<lambda>f. f machine) filters)"

definition Or :: "Func list \<Rightarrow> Func" where
  "Or filters = (\<lambda>machine. list_ex (\<lambda>f. f machine) filters)"

definition Not :: "Func \<Rightarrow> Func" where
  "Not mf = (\<lambda>machine. \<not> mf machine)"

definition HasControllerRef :: "'x ext_scheme \<Rightarrow> Func" where
  "HasControllerRef e machine =
     (case machine of
        None \<Rightarrow> False
      | Some m \<Rightarrow> GetControllerOf e (OwnerReferences (Machine_ObjectMeta m)) \<noteq> None)"

definition InFailureDomains :: "string option list \<Rightarrow> Func" where
  "InFailureDomains failureDomains machine =
     (case machine of
        None \<Rightarrow> False
      | Some m \<Rightarrow>
          list_ex (\<lambda>fd. case fd of
              None \<Rightarrow> Machine_Spec_FailureDomain m = None
            | Some f \<Rightarrow> (case Machine_Spec_FailureDomain m of None \<Rightarrow> False | Some g \<Rightarrow> f = g)) failureDomains)"

definition OwnedMachines :: "'x ext_scheme \<Rightarrow> string \<times> string \<times> string \<Rightarrow> Func" where
  "OwnedMachines e owner machine =
     (case machine of
        None \<Rightarrow> False
      | Some m \<Rightarrow> IsOwnedByObject e (OwnerReferences (Machine_ObjectMeta m)) owner)"

text \<open>\<open>None\<close> when building a requirement of the selector panics.\<close>

definition ControlPlaneSelectorForCluster :: "'x ext_scheme \<Rightarrow> string \<Rightarrow> Requirement list option" where
  "ControlPlaneSelectorForCluster e clusterName =
     (case NewRequirement e (Equals ClusterLabelName clusterName) of
        Inl _ \<Rightarrow> None
      | Inr r1 \<Rightarrow>
     (case NewRequirement e (Exists MachineControlPlaneLabelName) of
        Inl _ \<Rightarrow> None
      | Inr r2 \<Rightarrow> Some [r1, r2]))"

definition ControlPlaneMachines :: "'x ext_scheme \<Rightarrow> string \<Rightarrow> Func option" where
  "ControlPlaneMachines e clusterName =
     map_option
       (\<lambda>selector machine.
          case machine of None \<Rightarrow> False | Some m \<Rightarrow> Matches e selector (Labels (Machine_ObjectMeta m)))
       (ControlPlaneSelectorForCluster e clusterName)"

definition AdoptableControlPlaneMachines :: "'x ext_scheme \<Rightarrow> string \<Rightarrow> Func option" where
  "AdoptableControlPlaneMachines e clusterName =
     map_option (\<lambda>f. And [f, Not (HasControllerRef e)]) (ControlPlaneMachines e clusterName)"

definition ActiveMachines :: Func where
  "ActiveMachines machine =
     (case machine of None \<Rightarrow> False | Some m \<Rightarrow> Time_IsZero (DeletionTimestamp (Machine_ObjectMeta m)))"

definition HasDeletionTimestamp :: Func where
  "HasDeletionTimestamp machine =
     (case machine of None \<Rightarrow> False | Some m \<Rightarrow> \<not> Time_IsZero (DeletionTimestamp (Machine_ObjectMeta m)))"

definition HasUnhealthyCondition :: Func where
  "HasUnhealthyCondition machine =
     (case machine of
        None \<Rightarrow> False
      | Some m \<Rightarrow>
          IsFalse (Machine_Status_Conditions m) MachineHealthCheckSucceededCondition \<and>
          IsFalse (Machine_Status_Conditions m) MachineOwnerRemediatedCondition)"

definition IsReady :: Func where
  "IsReady machine =
     (case machine of None \<Rightarrow> False | Some m \<Rightarrow> IsTrue (Machine_Status_Conditions m) ReadyCondition)"

definition ShouldRolloutAfter :: "time option \<Rightarrow> time option \<Rightarrow> Func" where
  "ShouldRolloutAfter reconciliationTime rolloutAfter machine =
     (case machine of
        None \<Rightarrow> False
      | Some m \<Rightarrow>
          Time_Before (Some (CreationTimestamp (Machine_ObjectMeta m))) rolloutAfter \<and>
          Time_Before rolloutAfter reconciliationTime)"

text \<open>The duration is computed in 64 bits.\<close>

definition ShouldRolloutBefore :: "time \<Rightarrow> RolloutBefore option \<Rightarrow> Func" where
  "ShouldRolloutBefore reconciliationTime rolloutBefore machine =
     (case rolloutBefore of
        None \<Rightarrow> False
      | Some rb \<Rightarrow>
     (case CertificatesExpiryDays rb of
        None \<Rightarrow> False
      | Some days \<Rightarrow>
     (case machine of
        None \<Rightarrow> False
      | Some m \<Rightarrow>
     (case Machine_Status_CertificatesExpiryDate m of
        None \<Rightarrow> False
      | Some certsExpiryTime \<Rightarrow>
          certsExpiryTime < reconciliationTime + to_int64 (to_int64 (days * 24) * hour)))))"

definition HasAnnotationKey :: "string \<Rightarrow> Func" where
  "HasAnnotationKey key machine =
     (case machine of None \<Rightarrow> False | Some m \<Rightarrow> map_of (Annotations (Machine_ObjectMeta m)) key \<noteq> None)"

definition MatchesKubernetesVersion :: "string \<Rightarrow> Func" where
  "MatchesKubernetesVersion kubernetesVersion machine =
     (case machine of
        None \<Rightarrow> False
      | Some m \<Rightarrow> (case Machine_Spec_Version m of None \<Rightarrow> False | Some v \<Rightarrow> v = kubernetesVersion))"

definition WithVersion :: "'x ext_scheme \<Rightarrow> Func" where
  "WithVersion e machine =
     (case machine of
        None \<Rightarrow> False
      | Some m \<Rightarrow>
     (case Machine_Spec_Version m of
        None \<Rightarrow> False
      | Some v \<Rightarrow> (case ParseTolerant e v of Inl _ \<Rightarrow> False | Inr _ \<Rightarrow> True)))"

definition HealthyAPIServer :: Func where
  "HealthyAPIServer machine =
     (case machine of
        None \<Rightarrow> False
      | Some m \<Rightarrow> IsTrue (Machine_Status_Conditions m) MachineAPIServerPodHealthyCondition)"

subsection \<open>The collection\<close>

text \<open>\<open>machinesByVersion.Less\<close>; the sort is only applied to machines that have a version.\<close>

definition parsed_version :: "'x ext_scheme \<Rightarrow> Machine \<Rightarrow> semver" where
  "parsed_version e m =
     (case Machine_Spec_Version m of
        None \<Rightarrow> release 0 0 0
      | Some v \<Rightarrow> (case ParseTolerant e v of Inl _ \<Rightarrow> release 0 0 0 | Inr s \<Rightarrow> s))"

definition machinesByVersion_Less :: "'x ext_scheme \<Rightarrow> Machine \<Rightarrow> Machine \<Rightarrow> bool" where
  "machinesByVersion_Less e i j =
     (let comp = Compare e (parsed_version e i) (parsed_version e j) [WithBuildTags]
      in if comp = 0 then mname i < mname j else comp = -1)"

definition machinesByCreationTimestamp_Less :: "Machine \<Rightarrow> Machine \<Rightarrow> bool" where
  "machinesByCreationTimestamp_Less i j =
     (if CreationTimestamp (Machine_ObjectMeta i) = CreationTimestamp (Machine_ObjectMeta j)
      then mname i < mname j
      else CreationTimestamp (Machine_ObjectMeta i) < CreationTimestamp (Machine_ObjectMeta j))"

definition New :: Machines where
  "New = []"

fun Insert :: "Machines \<Rightarrow> Machine option list \<Rightarrow> Machines" where
  "Insert s [] = s"
| "Insert s (None # machines) = Insert s machines"
| "Insert s (Some m # machines) = Insert (AList.update (mname m) m s) machines"

definition FromMachines :: "Machine option list \<Rightarrow> Machines" where
  "FromMachines machines = Insert New machines"

definition FromMachineList :: "Machine list \<Rightarrow> Machines" where
  "FromMachineList machineList = foldl (\<lambda>ss m. Insert ss [Some m]) New machineList"

definition ToMachineList :: "Machines \<Rightarrow> Machine list" where
  "ToMachineList machines = map snd machines"

definition UnsortedList :: "Machines \<Rightarrow> Machine option list" where
  "UnsortedList s = map (\<lambda>(_, m). Some m) s"

definition Len :: "Machines \<Rightarrow> nat" where
  "Len s = length s"

definition newFilteredMachineCollection :: "Func \<Rightarrow> Machine option list \<Rightarrow> Machines" where
  "newFilteredMachineCollection f machines =
     foldl (\<lambda>ss m. if f m then Insert ss [m] else ss) New machines"

definition Filter :: "Machines \<Rightarrow> Func list \<Rightarrow> Machines" where
  "Filter s filters = newFilteredMachineCollection (And filters) (UnsortedList s)"

definition AnyFilter :: "Machines \<Rightarrow> Func list \<Rightarrow> Machines" where
  "AnyFilter s filters = newFilteredMachineCollection (Or filters) (UnsortedList s)"

definition Difference :: "Machines \<Rightarrow> Machines \<Rightarrow> Machines" where
  "Difference s machines =
     Filter s [\<lambda>m. case m of Some x \<Rightarrow> map_of machines (mname x) = None | None \<Rightarrow> False]"

definition SortedByCreationTimestamp :: "Machines \<Rightarrow> Machine list" where
  "SortedByCreationTimestamp s = go_sort machinesByCreationTimestamp_Less (map snd s)"

definition Oldest :: "Machines \<Rightarrow> Machine option" where
  "Oldest s = (if length s = 0 then None else Some (SortedByCreationTimestamp s ! 0))"

definition Newest :: "Machines \<Rightarrow> Machine option" where
  "Newest s = (if length s = 0 then None else Some (SortedByCreationTimestamp s ! (length s - 1)))"

definition DeepCopy :: "Machines \<Rightarrow> Machines" where
  "DeepCopy s = foldl (\<lambda>result (_, m). Insert result [Some m]) New s"

definition ConditionGetters :: "Machines \<Rightarrow> Getter list" where
  "ConditionGetters s =
     map (\<lambda>(_, v). \<lparr>GetKind = TypeMeta_Kind (Machine_TypeMeta v), GetName = mname v,
       GetConditions = Machine_Status_Conditions v\<rparr>) s"

definition Names :: "Machines \<Rightarrow> string list" where
  "Names s = map (\<lambda>(_, m). mname m) s"

definition sortedByVersion :: "'x ext_scheme \<Rightarrow> Machines \<Rightarrow> Machine list" where
  "sortedByVersion e s = go_sort (machinesByVersion_Less e) (map snd s)"

definition LowestVersion :: "'x ext_scheme \<Rightarrow> Machines \<Rightarrow> string option" where
  "LowestVersion e s =
     (let machines = Filter s [WithVersion e]
      in if length machines = 0 then None else Machine_Spec_Version (sortedByVersion e machines ! 0))"

text \<open>\<open>List\<close> is the reply of the API server to the listing of the machines of the cluster.\<close>

definition GetFilteredMachinesForCluster :: "error + Machine list \<Rightarrow> Func list \<Rightarrow> error + Machines" where
  "GetFilteredMachinesForCluster List filters =
     (case List of
        Inl err \<Rightarrow> Inl (Wrap ''failed to list machines'' err)
      | Inr ml \<Rightarrow> Inr (Filter (FromMachineList ml) filters))"

subsection \<open>The interface of a collection of machines\<close>

text \<open>Every machine is stored under its name.\<close>

definition wf_machines :: "Machines \<Rightarrow> bool" where
  "wf_machines s \<longleftrightarrow> wf_map s \<and> (\<forall>(k, m)\<in>set s. k = mname m)"

definition elems :: "Machines \<Rightarrow> Machine set" where
  "elems s = snd ` set s"

text \<open>
  What the control plane relies on: filters select machines, a difference takes names away, the
  size counts machines, and the oldest machine is the first in the order by creation time and
  name.
\<close>

locale machine_collection =
  fixes inv :: "'s \<Rightarrow> bool"
    and els :: "'s \<Rightarrow> Machine set"
    and filt :: "'s \<Rightarrow> Func list \<Rightarrow> 's"
    and anyfilt :: "'s \<Rightarrow> Func list \<Rightarrow> 's"
    and diff :: "'s \<Rightarrow> 's \<Rightarrow> 's"
    and size :: "'s \<Rightarrow> nat"
    and oldest :: "'s \<Rightarrow> Machine option"
  assumes finite_els: "finite (els s)"
    and inv_filt: "inv (filt s fs)"
    and inv_anyfilt: "inv (anyfilt s fs)"
    and els_filt: "inv s \<Longrightarrow> els (filt s fs) = {m \<in> els s. \<forall>f\<in>set fs. f (Some m)}"
    and els_anyfilt: "inv s \<Longrightarrow> els (anyfilt s fs) = {m \<in> els s. \<exists>f\<in>set fs. f (Some m)}"
    and els_diff: "inv s \<Longrightarrow> inv t \<Longrightarrow> els (diff s t) = {m \<in> els s. mname m \<notin> mname ` els t}"
    and size_els: "inv s \<Longrightarrow> size s = card (els s)"
    and names_inj: "inv s \<Longrightarrow> inj_on mname (els s)"
    and oldest_None: "oldest s = None \<longleftrightarrow> els s = {}"
    and oldest_in: "oldest s = Some m \<Longrightarrow> m \<in> els s"
    and oldest_least: "oldest s = Some m \<Longrightarrow> x \<in> els s \<Longrightarrow> \<not> machinesByCreationTimestamp_Less x m"
begin

lemma size_pos: "inv s \<Longrightarrow> 0 < size s \<longleftrightarrow> els s \<noteq> {}"
  by (simp add: size_els card_gt_0_iff finite_els)

lemma els_filt_filt: "inv s \<Longrightarrow> els (filt (filt s fs) gs) = els (filt s (fs @ gs))"
  by (auto simp: els_filt inv_filt)

lemma filter_partition:
  assumes "inv s"
  shows "els (filt s [f]) \<union> els (filt s [Not f]) = els s"
    and "els (filt s [f]) \<inter> els (filt s [Not f]) = {}"
    and "size (filt s [f]) + size (filt s [Not f]) = size s"
proof -
  show u: "els (filt s [f]) \<union> els (filt s [Not f]) = els s"
    and i: "els (filt s [f]) \<inter> els (filt s [Not f]) = {}"
    by (auto simp: els_filt assms Not_def)
  have "card (els (filt s [f]) \<union> els (filt s [Not f])) = card (els (filt s [f])) + card (els (filt s [Not f]))"
    by (rule card_Un_disjoint) (simp_all add: finite_els i)
  then show "size (filt s [f]) + size (filt s [Not f]) = size s"
    by (simp add: size_els inv_filt assms u)
qed

lemma size_filt_le: "inv s \<Longrightarrow> size (filt s fs) \<le> size s"
  by (auto simp: size_els inv_filt els_filt intro!: card_mono finite_els)

lemma anyfilt_de_Morgan:
  "inv s \<Longrightarrow> els s - els (anyfilt s fs) = els (filt s (map Not fs))"
  by (auto simp: els_filt els_anyfilt Not_def)

lemma diff_filt: "inv s \<Longrightarrow> els (diff s (filt s [f])) = els (filt s [Not f])"
proof -
  assume s: "inv s"
  have "m \<in> els s \<Longrightarrow> mname m \<in> mname ` {x \<in> els s. f (Some x)} \<longleftrightarrow> f (Some m)" for m
    using names_inj [OF s] by (auto dest: inj_onD)
  then show ?thesis
    by (auto simp: els_diff els_filt inv_filt s Not_def)
qed

lemma oldest_some: "els s \<noteq> {} \<Longrightarrow> \<exists>m. oldest s = Some m \<and> m \<in> els s"
  using oldest_None oldest_in by (cases "oldest s") auto

end

lemma strict_weak_machinesByCreationTimestamp: "strict_weak_on A machinesByCreationTimestamp_Less"
  unfolding machinesByCreationTimestamp_Less_def by (rule strict_weak_on_lex)

lemma AList_update_fresh: "k \<notin> fst ` set s \<Longrightarrow> AList.update k v s = s @ [(k, v)]"
  by (induction s) auto

lemma wf_machines_Nil [simp]: "wf_machines []"
  by (simp add: wf_machines_def)

lemma wf_machines_update: "wf_machines s \<Longrightarrow> wf_machines (AList.update (mname m) m s)"
proof -
  assume s: "wf_machines s"
  have keep: "\<forall>(k, x)\<in>set (AList.update (mname m) m s). k = mname x"
    if "\<forall>(k, x)\<in>set s. k = mname x" for s
    using that by (induction s) auto
  show ?thesis
    using s keep [of s] wf_map_simps(2) [of s "mname m" m] unfolding wf_machines_def by blast
qed

lemma wf_Insert: "wf_machines s \<Longrightarrow> wf_machines (Insert s ms)"
  by (induction s ms rule: Insert.induct) (simp_all add: wf_machines_update)

lemma wf_newFiltered: "wf_machines (newFilteredMachineCollection f ms)"
proof -
  have "wf_machines ss \<Longrightarrow> wf_machines (foldl (\<lambda>ss m. if f m then Insert ss [m] else ss) ss ms)" for ss
    by (induction ms arbitrary: ss) (auto simp: wf_Insert)
  then show ?thesis
    by (simp add: newFilteredMachineCollection_def New_def)
qed

lemma wf_FromMachineList: "wf_machines (FromMachineList ml)"
proof -
  have "wf_machines ss \<Longrightarrow> wf_machines (foldl (\<lambda>ss m. Insert ss [Some m]) ss ml)" for ss
    by (induction ml arbitrary: ss) (auto simp: wf_machines_update)
  then show ?thesis
    by (simp add: FromMachineList_def New_def)
qed

lemma newFiltered_append:
  assumes "distinct (map fst acc @ map mname ms)"
  shows "foldl (\<lambda>ss m. if f m then Insert ss [m] else ss) acc (map Some ms) =
         acc @ map (\<lambda>m. (mname m, m)) (filter (\<lambda>m. f (Some m)) ms)"
  using assms
proof (induction ms arbitrary: acc)
  case (Cons m ms)
  then have fresh: "AList.update (mname m) m acc = acc @ [(mname m, m)]"
    by (intro AList_update_fresh) auto
  have "distinct (map fst acc @ map mname ms)" "distinct (map fst (acc @ [(mname m, m)]) @ map mname ms)"
    using Cons.prems by auto
  then show ?case
    using Cons.IH [of "acc @ [(mname m, m)]"] Cons.IH [of acc] by (simp add: fresh)
qed simp

lemma wf_machines_list:
  assumes "wf_machines s"
  shows "s = map (\<lambda>m. (mname m, m)) (map snd s)" and "distinct (map mname (map snd s))"
proof -
  have "map (\<lambda>m. (mname m, m)) (map snd s) = map id s"
    using assms unfolding map_map by (intro map_cong) (auto simp: wf_machines_def)
  then show s: "s = map (\<lambda>m. (mname m, m)) (map snd s)" by simp
  have "map fst s = map mname (map snd s)"
    using assms by (auto simp: wf_machines_def)
  then show "distinct (map mname (map snd s))"
    using assms by (simp only: wf_machines_def wf_map_def)
qed

lemma newFiltered_eq:
  assumes "wf_machines s"
  shows "newFilteredMachineCollection f (UnsortedList s) = filter (\<lambda>(_, m). f (Some m)) s"
proof -
  have u: "UnsortedList s = map Some (map snd s)"
    by (simp add: UnsortedList_def split_beta)
  have "newFilteredMachineCollection f (UnsortedList s) =
      map (\<lambda>m. (mname m, m)) (filter (\<lambda>m. f (Some m)) (map snd s))"
    unfolding newFilteredMachineCollection_def u New_def
    using newFiltered_append [of "[]" "map snd s" f] wf_machines_list(2) [OF assms] by simp
  also have "\<dots> = filter (\<lambda>(_, m). f (Some m)) (map (\<lambda>m. (mname m, m)) (map snd s))"
    by (simp add: filter_map comp_def)
  finally show ?thesis
    using wf_machines_list(1) [OF assms] by simp
qed

lemma Filter_eq: "wf_machines s \<Longrightarrow> Filter s fs = filter (\<lambda>(_, m). \<forall>f\<in>set fs. f (Some m)) s"
  by (simp add: Filter_def newFiltered_eq And_def list_all_iff)

lemma AnyFilter_eq: "wf_machines s \<Longrightarrow> AnyFilter s fs = filter (\<lambda>(_, m). \<exists>f\<in>set fs. f (Some m)) s"
  by (simp add: AnyFilter_def newFiltered_eq Or_def list_ex_iff)

lemma elems_filter: "elems (filter (\<lambda>(_, m). P m) s) = {m \<in> elems s. P m}"
  by (auto simp: elems_def image_iff)

lemma lookup_machine: "wf_machines s \<Longrightarrow> map_of s n = None \<longleftrightarrow> n \<notin> mname ` elems s"
  by (force simp: map_of_eq_None_iff wf_machines_def elems_def)

lemma inj_elems: "wf_machines s \<Longrightarrow> inj_on mname (elems s)"
  using wf_machines_list(2) [of s] by (simp only: elems_def distinct_map set_map)

lemma card_elems: "wf_machines s \<Longrightarrow> card (elems s) = length s"
  using wf_machines_list(2) [of s] distinct_card [of "map snd s"]
  by (simp only: elems_def distinct_map [of mname] set_map length_map)

lemma Oldest_hd: "Oldest s = (if s = [] then None else Some (hd (SortedByCreationTimestamp s)))"
  using gs.srt_Nil_iff [of machinesByCreationTimestamp_Less "map snd s"]
  by (simp add: Oldest_def SortedByCreationTimestamp_def hd_conv_nth)

lemma Newest_last: "Newest s = (if s = [] then None else Some (last (SortedByCreationTimestamp s)))"
  using gs.srt_Nil_iff [of machinesByCreationTimestamp_Less "map snd s"]
    gs.length_srt [of machinesByCreationTimestamp_Less "map snd s"]
  by (simp add: Newest_def SortedByCreationTimestamp_def last_conv_nth)

interpretation mc: machine_collection wf_machines elems Filter AnyFilter Difference Len Oldest
proof unfold_locales
  fix s t :: Machines and fs :: "Func list" and m x :: Machine
  show "finite (elems s)" by (simp add: elems_def)
  show "wf_machines (Filter s fs)" and "wf_machines (AnyFilter s fs)"
    by (simp_all add: Filter_def AnyFilter_def wf_newFiltered)
  show "wf_machines s \<Longrightarrow> elems (Filter s fs) = {m \<in> elems s. \<forall>f\<in>set fs. f (Some m)}"
    by (simp add: Filter_eq elems_filter)
  show "wf_machines s \<Longrightarrow> elems (AnyFilter s fs) = {m \<in> elems s. \<exists>f\<in>set fs. f (Some m)}"
    by (simp add: AnyFilter_eq elems_filter)
  show "wf_machines s \<Longrightarrow> wf_machines t \<Longrightarrow> elems (Difference s t) = {m \<in> elems s. mname m \<notin> mname ` elems t}"
    by (simp add: Difference_def Filter_eq elems_filter lookup_machine)
  show "wf_machines s \<Longrightarrow> Len s = card (elems s)"
    by (simp add: Len_def card_elems)
  show "wf_machines s \<Longrightarrow> inj_on mname (elems s)" by (rule inj_elems)
  show "Oldest s = None \<longleftrightarrow> elems s = {}" by (simp add: Oldest_hd elems_def)
  assume o: "Oldest s = Some m"
  show "m \<in> elems s"
    using o gs.hd_srt_in [of "map snd s" machinesByCreationTimestamp_Less]
    by (auto simp: Oldest_hd SortedByCreationTimestamp_def elems_def split: if_splits)
  show "x \<in> elems s \<Longrightarrow> \<not> machinesByCreationTimestamp_Less x m"
    using o gs.hd_srt_least [OF strict_weak_machinesByCreationTimestamp, of x "map snd s"]
    by (auto simp: Oldest_hd SortedByCreationTimestamp_def elems_def split: if_splits)
qed

subsection \<open>Listing and sorting\<close>

lemma elems_FromMachineList:
  assumes "distinct (map mname ml)"
  shows "elems (FromMachineList ml) = set ml"
proof -
  have "foldl (\<lambda>ss m. Insert ss [Some m]) acc ml = acc @ map (\<lambda>m. (mname m, m)) ml"
    if "distinct (map fst acc @ map mname ml)" for acc
    using newFiltered_append [OF that, of "\<lambda>_. True"] by (simp add: foldl_map)
  then show ?thesis
    using assms by (simp add: FromMachineList_def New_def elems_def image_image)
qed

lemma SortedByCreationTimestamp_mset:
  assumes "wf_machines s" and "mset s = mset t"
  shows "SortedByCreationTimestamp s = SortedByCreationTimestamp t"
  unfolding SortedByCreationTimestamp_def
proof (rule gs.srt_unique [OF strict_weak_machinesByCreationTimestamp])
  show "mset (map snd s) = mset (map snd t)"
    using assms(2) by simp
  fix x y
  assume "x \<in> set (map snd s)" and "y \<in> set (map snd s)"
    and "\<not> machinesByCreationTimestamp_Less x y" and "\<not> machinesByCreationTimestamp_Less y x"
  then have "mname x = mname y"
    by (auto simp: machinesByCreationTimestamp_Less_def split: if_splits)
  then show "x = y"
    using inj_elems [OF assms(1)] \<open>x \<in> _\<close> \<open>y \<in> _\<close> by (auto simp: elems_def dest: inj_onD)
qed

lemma Newest_in: "Newest s = Some m \<Longrightarrow> m \<in> elems s"
  using gs.last_srt_in [of "map snd s" machinesByCreationTimestamp_Less]
  by (auto simp: Newest_last SortedByCreationTimestamp_def elems_def split: if_splits)

lemma Newest_greatest: "Newest s = Some m \<Longrightarrow> x \<in> elems s \<Longrightarrow> \<not> machinesByCreationTimestamp_Less m x"
  using gs.last_srt_greatest [OF strict_weak_machinesByCreationTimestamp, of x "map snd s"]
  by (auto simp: Newest_last SortedByCreationTimestamp_def elems_def split: if_splits)

lemma not_Less_le:
  "\<not> machinesByCreationTimestamp_Less x m \<Longrightarrow>
   CreationTimestamp (Machine_ObjectMeta m) \<le> CreationTimestamp (Machine_ObjectMeta x)"
  by (auto simp: machinesByCreationTimestamp_Less_def split: if_splits)

definition zero_ObjectReference :: ObjectReference where
  "zero_ObjectReference =
     \<lparr>ObjectReference_Kind = [], ObjectReference_Namespace = [], ObjectReference_Name = [],
      ObjectReference_UID = [], ObjectReference_APIVersion = []\<rparr>"

text \<open>A machine with a name, a creation time and a failure domain, for examples.\<close>

definition machine_at :: "string \<Rightarrow> time \<Rightarrow> string option \<Rightarrow> Machine" where
  "machine_at n t fd =
     \<lparr>Machine_TypeMeta = zero_TypeMeta, Machine_ObjectMeta = empty_meta\<lparr>Name := n, CreationTimestamp := t\<rparr>,
      Machine_Spec_ClusterName = ''c'', Machine_Spec_Bootstrap_ConfigRef = None,
      Machine_Spec_InfrastructureRef = zero_ObjectReference, Machine_Spec_Version = Some ''v1.24.8'',
      Machine_Spec_FailureDomain = fd, Machine_Spec_NodeDrainTimeout = None,
      Machine_Spec_NodeDeletionTimeout = None, Machine_Status_NodeRef = None,
      Machine_Status_CertificatesExpiryDate = None, Machine_Status_Conditions = []\<rparr>"

subsection \<open>Properties\<close>

text \<open>
  The oldest and the newest machine of a collection do not depend on the order in which Go
  happens to walk the map, are machines of the collection, and no machine was created before the
  oldest or after the newest one.
\<close>

lemma Oldest_Newest:
  assumes "wf_machines s" and "mset s = mset t"
  shows "Oldest t = Oldest s \<and> Newest t = Newest s \<and>
    (Oldest s = None \<longleftrightarrow> elems s = {}) \<and> (Newest s = None \<longleftrightarrow> elems s = {}) \<and>
    (\<forall>m. Oldest s = Some m \<longrightarrow> m \<in> elems s \<and>
       (\<forall>x\<in>elems s. CreationTimestamp (Machine_ObjectMeta m) \<le> CreationTimestamp (Machine_ObjectMeta x))) \<and>
    (\<forall>m. Newest s = Some m \<longrightarrow> m \<in> elems s \<and>
       (\<forall>x\<in>elems s. CreationTimestamp (Machine_ObjectMeta x) \<le> CreationTimestamp (Machine_ObjectMeta m)))"
proof -
  have "s = [] \<longleftrightarrow> t = []"
    using assms(2) by auto
  then have "Oldest t = Oldest s" "Newest t = Newest s"
    using SortedByCreationTimestamp_mset [OF assms] by (simp_all add: Oldest_hd Newest_last)
  moreover have "Newest s = None \<longleftrightarrow> elems s = {}"
    by (simp add: Newest_last elems_def)
  ultimately show ?thesis
    using mc.oldest_None mc.oldest_in mc.oldest_least Newest_in Newest_greatest not_Less_le by blast
qed

lemma Oldest_Newest_witness:
  "let a = machine_at ''a'' 7 None; b = machine_at ''b'' 3 None
   in Oldest [(''a'', a), (''b'', b)] = Oldest [(''b'', b), (''a'', a)] \<and>
      Oldest [(''a'', a), (''b'', b)] \<noteq> None"
proof -
  define a b where "a = machine_at ''a'' 7 None" and "b = machine_at ''b'' 3 None"
  have wf: "wf_machines [(''b'', b), (''a'', a)]"
    by (simp add: wf_machines_def wf_map_def a_def b_def machine_at_def)
  have ms: "mset [(''b'', b), (''a'', a)] = mset [(''a'', a), (''b'', b)]"
    by simp
  show ?thesis
    using Oldest_Newest [OF wf ms] unfolding a_def [symmetric] b_def [symmetric] Let_def
    by (simp add: elems_def)
qed

text \<open>
  With at most 106751 days (about 292 years) the check of the certificate expiry is exact:
  a machine is due exactly when its certificates expire less than that many days after the
  reconciliation.
\<close>

lemma ShouldRolloutBefore_iff:
  assumes "0 \<le> days" and "days \<le> 106751"
  shows "ShouldRolloutBefore now (Some \<lparr>CertificatesExpiryDays = Some days\<rparr>) (Some m) \<longleftrightarrow>
    (\<exists>expiry. Machine_Status_CertificatesExpiryDate m = Some expiry \<and> expiry < now + days * 24 * hour)"
proof -
  have "to_int64 (days * 24) = days * 24"
    using assms by (intro to_int64_id) auto
  moreover have "to_int64 (days * 24 * hour) = days * 24 * hour"
    using assms by (intro to_int64_id) (auto simp: hour_def second_def)
  ultimately show ?thesis
    by (auto simp: ShouldRolloutBefore_def split: option.split)
qed

lemma ShouldRolloutBefore_iff_witness:
  "ShouldRolloutBefore 0 (Some \<lparr>CertificatesExpiryDays = Some 30\<rparr>)
     (Some ((machine_at ''a'' 0 None)\<lparr>Machine_Status_CertificatesExpiryDate := Some (29 * 24 * hour)\<rparr>))"
  using ShouldRolloutBefore_iff [of 30 0 "(machine_at ''a'' 0 None)\<lparr>Machine_Status_CertificatesExpiryDate := Some (29 * 24 * hour)\<rparr>"]
  by (simp add: hour_def second_def)

text \<open>Beyond that the 64-bit duration wraps around: a certificate that expires in a day is not due.\<close>

lemma ShouldRolloutBefore_overflow:
  "\<not> ShouldRolloutBefore 0 (Some \<lparr>CertificatesExpiryDays = Some 150000\<rparr>)
     (Some ((machine_at ''a'' 0 None)\<lparr>Machine_Status_CertificatesExpiryDate := Some (24 * hour)\<rparr>))"
  by (simp add: ShouldRolloutBefore_def to_int64_def hour_def second_def)

end
