(* ===== verification/FailureDomain.thy ===== *)
theory FailureDomain
  imports Machines
begin

text \<open>
  Choice of failure domains, \<open>util/failuredomains/failure_domains.go\<close>.

  \<open>pick\<close> walks two maps. The model walks the counters in the order of the failure domains; the
  result depends on that order only through ties of the sort, and the theorems hold for every
  order of the failure domains.
\<close>

record failureDomainAggregation =
  agg_id :: string
  agg_count :: int

definition failureDomainAggregations_Less ::
  "failureDomainAggregation \<Rightarrow> failureDomainAggregation \<Rightarrow> bool" where
  "failureDomainAggregations_Less i j \<longleftrightarrow> agg_count i < agg_count j"

text \<open>The loop that counts the machines of the known failure domains.\<close>

fun count_machines :: "FailureDomains \<Rightarrow> (string, int) go_map \<Rightarrow> Machine list \<Rightarrow> (string, int) go_map" where
  "count_machines failureDomains counters [] = counters"
| "count_machines failureDomains counters (m # machines) =
     (case Machine_Spec_FailureDomain m of
        None \<Rightarrow> count_machines failureDomains counters machines
      | Some i \<Rightarrow>
          (if map_of failureDomains i = None then count_machines failureDomains counters machines
           else count_machines failureDomains
                  (AList.update i ((case map_of counters i of None \<Rightarrow> 0 | Some n \<Rightarrow> n) + 1) counters) machines))"

definition pick :: "FailureDomains \<Rightarrow> Machines \<Rightarrow> failureDomainAggregation list" where
  "pick failureDomains machines =
     (if length failureDomains = 0 then []
      else (let counters = foldl (\<lambda>c (fd, _). AList.update fd 0 c) [] failureDomains;
                counters' = count_machines failureDomains counters (map snd machines)
            in map (\<lambda>(fd, count). \<lparr>agg_id = fd, agg_count = count\<rparr>) counters'))"

definition orderDescending :: "FailureDomains \<Rightarrow> Machines \<Rightarrow> failureDomainAggregation list" where
  "orderDescending failureDomains machines =
     (let aggregations = pick failureDomains machines
      in if length aggregations = 0 then []
         else go_sort (\<lambda>i j. failureDomainAggregations_Less j i) aggregations)"

definition PickMost :: "FailureDomains \<Rightarrow> Machines \<Rightarrow> Machines \<Rightarrow> string option" where
  "PickMost failureDomains groupMachines machines =
     map_option agg_id
       (find (\<lambda>fd. \<exists>(_, m)\<in>set machines. Machine_Spec_FailureDomain m = Some (agg_id fd))
         (orderDescending failureDomains groupMachines))"

definition PickFewest :: "FailureDomains \<Rightarrow> Machines \<Rightarrow> string option" where
  "PickFewest failureDomains machines =
     (let aggregations = pick failureDomains machines
      in if length aggregations = 0 then None
         else Some (agg_id (go_sort failureDomainAggregations_Less aggregations ! 0)))"

subsection \<open>Counting\<close>

text \<open>The number of machines in a failure domain.\<close>

definition machines_in :: "Machines \<Rightarrow> string \<Rightarrow> nat" where
  "machines_in ms fd = length (filter (\<lambda>(_, m). Machine_Spec_FailureDomain m = Some fd) ms)"

lemma machines_in_card:
  "wf_machines ms \<Longrightarrow> machines_in ms fd = card {m \<in> elems ms. Machine_Spec_FailureDomain m = Some fd}"
  using card_elems [of "filter (\<lambda>(_, m). Machine_Spec_FailureDomain m = Some fd) ms"]
    elems_filter [of "\<lambda>m. Machine_Spec_FailureDomain m = Some fd" ms]
  by (auto simp: machines_in_def wf_machines_def)

lemma init_counters:
  assumes "wf_map (acc @ map (\<lambda>(fd, _). (fd, 0 :: int)) fds)"
  shows "foldl (\<lambda>c (fd, _). AList.update fd 0 c) acc fds = acc @ map (\<lambda>(fd, _). (fd, 0)) fds"
  using assms
proof (induction fds arbitrary: acc)
  case (Cons p fds)
  obtain k v where p: "p = (k, v)" by (cases p)
  have fresh: "AList.update k 0 acc = acc @ [(k, 0)]"
    using Cons.prems by (intro AList_update_fresh) (auto simp: wf_map_def p)
  show ?case
    using Cons.IH [of "acc @ [(k, 0)]"] Cons.prems by (simp add: p fresh)
qed simp

lemma keys_count_machines:
  "fst ` set fds \<subseteq> fst ` set c \<Longrightarrow> map fst (count_machines fds c ms) = map fst c"
proof (induction ms arbitrary: c)
  case (Cons m ms)
  have "fst ` set fds \<subseteq> fst ` set (AList.update i n c)" for i n
    using Cons.prems by (auto simp: dom_update)
  moreover have "map fst (AList.update i n c) = map fst c" if "map_of fds i \<noteq> None" for i n
    using that Cons.prems by (subst update_keys) (auto simp: map_of_eq_None_iff)
  ultimately show ?case
    using Cons.IH Cons.prems by (auto split: option.split)
qed simp

lemma lookup_count_machines:
  assumes "map_of c fd = Some n" and "map_of fds fd \<noteq> None"
  shows "map_of (count_machines fds c ms) fd =
    Some (n + int (length (filter (\<lambda>m. Machine_Spec_FailureDomain m = Some fd) ms)))"
  using assms(1)
proof (induction ms arbitrary: c n)
  case (Cons m ms)
  then show ?case
    using assms(2) by (auto simp: update_conv' split: option.split)
qed simp

lemma pick_eq:
  assumes "wf_map fds"
  shows "pick fds ms = map (\<lambda>(fd, _). \<lparr>agg_id = fd, agg_count = int (machines_in ms fd)\<rparr>) fds"
proof (cases "fds = []")
  case True
  then show ?thesis by (simp add: pick_def)
next
  case False
  let ?init = "map (\<lambda>(fd, _). (fd, 0 :: int)) fds"
  let ?c = "count_machines fds ?init (map snd ms)"
  have keys0: "map fst ?init = map fst fds"
    by (induction fds) auto
  have wf0: "wf_map ?init"
    using assms unfolding wf_map_def keys0 .
  have init: "foldl (\<lambda>c (fd, _). AList.update fd 0 c) [] fds = ?init"
    using init_counters [of "[]" fds] wf0 by simp
  have keys: "map fst ?c = map fst fds"
    by (rule trans [OF keys_count_machines keys0]) force
  have val: "map_of ?c fd = Some (int (machines_in ms fd))" if "fd \<in> fst ` set fds" for fd
  proof -
    have "map_of ?init fd = Some 0"
      using that wf0 by (force simp: wf_map_lookup)
    moreover have "map_of fds fd \<noteq> None"
      using that by (simp add: map_of_eq_None_iff)
    moreover have "length (filter (\<lambda>m. Machine_Spec_FailureDomain m = Some fd) (map snd ms)) = machines_in ms fd"
      unfolding machines_in_def by (induction ms) auto
    ultimately show ?thesis
      using lookup_count_machines [of ?init fd 0 fds "map snd ms"] by simp
  qed
  have wf: "wf_map ?c"
    using assms by (simp only: wf_map_def keys)
  have c: "?c = map (\<lambda>k. (k, int (machines_in ms k))) (map fst fds)"
  proof (rule nth_equalityI)
    show len: "length ?c = length (map (\<lambda>k. (k, int (machines_in ms k))) (map fst fds))"
      using arg_cong [OF keys, of length] by simp
    fix i
    assume i: "i < length ?c"
    then have k: "fst (?c ! i) = map fst fds ! i"
      using nth_map [of i ?c fst] keys by simp
    moreover have "map fst fds ! i \<in> fst ` set fds"
      using i len by auto
    moreover have "map_of ?c (fst (?c ! i)) = Some (snd (?c ! i))"
      using i wf by (simp add: wf_map_lookup)
    ultimately have "snd (?c ! i) = int (machines_in ms (map fst fds ! i))"
      using val by simp
    then show "?c ! i = map (\<lambda>k. (k, int (machines_in ms k))) (map fst fds) ! i"
      using i len k by (simp add: prod_eq_iff)
  qed
  show ?thesis
    using False unfolding pick_def init Let_def by (simp add: c comp_def split_beta)
qed

subsection \<open>Properties\<close>

lemma PickFewest_spec:
  assumes "wf_map fds"
  shows "(PickFewest fds ms = None \<longleftrightarrow> fds = []) \<and>
    (\<forall>d. PickFewest fds ms = Some d \<longrightarrow>
       d \<in> fst ` set fds \<and> (\<forall>d'\<in>fst ` set fds. machines_in ms d \<le> machines_in ms d'))"
proof (cases "fds = []")
  case True
  then show ?thesis by (simp add: PickFewest_def pick_def)
next
  case False
  let ?p = "pick fds ms"
  have p: "?p \<noteq> []" "set ?p = (\<lambda>fd. \<lparr>agg_id = fd, agg_count = int (machines_in ms fd)\<rparr>) ` fst ` set fds"
    using False by (auto simp: pick_eq [OF assms] image_iff split_beta)
  have sw: "strict_weak_on (set ?p) failureDomainAggregations_Less"
    by (rule strict_weak_on_key [of _ _ agg_count]) (simp add: failureDomainAggregations_Less_def)
  let ?h = "go_sort failureDomainAggregations_Less ?p ! 0"
  have hd: "?h = hd (go_sort failureDomainAggregations_Less ?p)"
    using p(1) by (simp add: hd_conv_nth gs.srt_Nil_iff)
  define D where "D = fst ` set fds"
  have "?h \<in> set ?p"
    using gs.hd_srt_in [OF p(1)] by (simp add: hd)
  then obtain k where k: "k \<in> D" "?h = \<lparr>agg_id = k, agg_count = int (machines_in ms k)\<rparr>"
    unfolding p(2) D_def by (rule imageE)
  have "machines_in ms k \<le> machines_in ms d'" if "d' \<in> D" for d'
  proof -
    have "\<lparr>agg_id = d', agg_count = int (machines_in ms d')\<rparr> \<in> set ?p"
      unfolding p(2) using that D_def by blast
    from gs.hd_srt_least [OF sw this] show ?thesis
      by (simp add: hd [symmetric] k(2) failureDomainAggregations_Less_def)
  qed
  then show ?thesis
    using False p(1) k by (simp add: PickFewest_def Let_def D_def)
qed

text \<open>
  \<open>PickFewest\<close> returns nil only without failure domains; otherwise it returns a known failure
  domain that no other known one undercuts in its number of machines.
\<close>

lemma PickFewest_least:
  assumes "wf_map fds"
  shows "(PickFewest fds ms = None \<longleftrightarrow> fds = []) \<and>
    (\<forall>d. PickFewest fds ms = Some d \<longrightarrow>
       d \<in> fst ` set fds \<and> (\<forall>d'\<in>fst ` set fds. machines_in ms d \<le> machines_in ms d'))"
  using assms by (rule PickFewest_spec)

lemma PickFewest_least_witness:
  "let fds = [(''a'', \<lparr>FailureDomainSpec_ControlPlane = True, FailureDomainSpec_Attributes = []\<rparr>),
              (''b'', \<lparr>FailureDomainSpec_ControlPlane = True, FailureDomainSpec_Attributes = []\<rparr>)]
   in wf_map fds \<and> PickFewest fds [(''m'', machine_at ''m'' 0 (Some ''a''))] = Some ''b''"
proof -
  define fds where "fds =
    [(''a'', \<lparr>FailureDomainSpec_ControlPlane = True, FailureDomainSpec_Attributes = []\<rparr>),
     (''b'', \<lparr>FailureDomainSpec_ControlPlane = True, FailureDomainSpec_Attributes = []\<rparr>)]"
  let ?ms = "[(''m'', machine_at ''m'' 0 (Some ''a''))]"
  have wf: "wf_map fds" by (simp add: fds_def wf_map_def)
  have "machines_in ?ms ''a'' = 1" "machines_in ?ms ''b'' = 0"
    by (simp_all add: machines_in_def machine_at_def)
  then have "PickFewest fds ?ms = Some ''b''"
    using PickFewest_least [OF wf, of ?ms] by (cases "PickFewest fds ?ms") (auto simp: fds_def)
  then show ?thesis
    using wf by (simp add: fds_def)
qed

lemma PickMost_spec:
  assumes "wf_map fds"
  shows "(PickMost fds grp ms = None \<longleftrightarrow>
      (\<forall>m\<in>elems ms. \<forall>d\<in>fst ` set fds. Machine_Spec_FailureDomain m \<noteq> Some d)) \<and>
    (\<forall>d. PickMost fds grp ms = Some d \<longrightarrow>
       d \<in> fst ` set fds \<and> (\<exists>m\<in>elems ms. Machine_Spec_FailureDomain m = Some d) \<and>
       (\<forall>d'\<in>fst ` set fds. (\<exists>m\<in>elems ms. Machine_Spec_FailureDomain m = Some d') \<longrightarrow>
          machines_in grp d' \<le> machines_in grp d))"
proof -
  let ?p = "orderDescending fds grp"
  let ?has = "\<lambda>d. \<exists>m\<in>elems ms. Machine_Spec_FailureDomain m = Some d"
  have p: "set ?p = (\<lambda>fd. \<lparr>agg_id = fd, agg_count = int (machines_in grp fd)\<rparr>) ` fst ` set fds"
    by (auto simp: orderDescending_def Let_def gs.set_srt pick_eq [OF assms] image_iff split_beta)
  have "strict_weak_on A (\<lambda>i j. failureDomainAggregations_Less j i)" for A
    by (rule strict_weak_on_key [of _ _ "\<lambda>a. - agg_count a"]) (simp add: failureDomainAggregations_Less_def)
  then have sorted: "sorted_wrt (\<lambda>i j. agg_count j \<le> agg_count i) ?p"
    using gs.sorted_srt [of "pick fds grp" "\<lambda>i j. failureDomainAggregations_Less j i"]
    by (simp add: orderDescending_def Let_def failureDomainAggregations_Less_def not_less)
  have has: "(\<exists>(_, m)\<in>set ms. Machine_Spec_FailureDomain m = Some d) \<longleftrightarrow> ?has d" for d
    by (force simp: elems_def)
  show ?thesis
  proof (cases "PickMost fds grp ms")
    case None
    then have "\<forall>a\<in>set ?p. \<not> ?has (agg_id a)"
      by (simp add: PickMost_def has find_None_iff)
    then show ?thesis
      using None unfolding p by auto
  next
    case (Some d)
    then obtain a where a: "find (\<lambda>fd. ?has (agg_id fd)) ?p = Some a" "d = agg_id a"
      by (auto simp: PickMost_def has)
    then obtain i where i: "i < length ?p" "a = ?p ! i" "?has (agg_id a)" "\<forall>j<i. \<not> ?has (agg_id (?p ! j))"
      by (auto simp: find_Some_iff)
    have cnt: "agg_count x = int (machines_in grp (agg_id x)) \<and> agg_id x \<in> fst ` set fds" if "x \<in> set ?p" for x
      using that unfolding p by force
    have "machines_in grp d' \<le> machines_in grp d" if "d' \<in> fst ` set fds" "?has d'" for d'
    proof -
      have "\<lparr>agg_id = d', agg_count = int (machines_in grp d')\<rparr> \<in> set ?p"
        unfolding p using that(1) by (rule imageI)
      then obtain j where j: "j < length ?p" "?p ! j = \<lparr>agg_id = d', agg_count = int (machines_in grp d')\<rparr>"
        by (auto simp: in_set_conv_nth)
      have "i \<le> j"
      proof (rule ccontr)
        assume "\<not> i \<le> j"
        then have "\<not> ?has (agg_id (?p ! j))" using i(4) by simp
        then show False using that(2) j(2) by simp
      qed
      then have "agg_count (?p ! j) \<le> agg_count (?p ! i)"
        using sorted j(1) by (cases "i = j") (auto simp: sorted_wrt_iff_nth_less)
      then show ?thesis
        using cnt [of "?p ! j"] cnt [of "?p ! i"] i j a(2) by simp
    qed
    moreover have "d \<in> fst ` set fds" "?has d"
      using i a cnt [of a] by auto
    ultimately show ?thesis
      unfolding Some option.inject by blast
  qed
qed

text \<open>
  \<open>PickMost\<close> returns a known failure domain in which one of the given machines is, and which
  holds at least as many machines of the group as any other such domain; it returns nil only when
  none of the given machines is in a known failure domain.
\<close>

lemma PickMost_most:
  assumes "wf_map fds"
  shows "(PickMost fds grp ms = None \<longleftrightarrow>
      (\<forall>m\<in>elems ms. \<forall>d\<in>fst ` set fds. Machine_Spec_FailureDomain m \<noteq> Some d)) \<and>
    (\<forall>d. PickMost fds grp ms = Some d \<longrightarrow>
       d \<in> fst ` set fds \<and> (\<exists>m\<in>elems ms. Machine_Spec_FailureDomain m = Some d) \<and>
       (\<forall>d'\<in>fst ` set fds. (\<exists>m\<in>elems ms. Machine_Spec_FailureDomain m = Some d') \<longrightarrow>
          machines_in grp d' \<le> machines_in grp d))"
  using assms by (rule PickMost_spec)

lemma PickMost_most_witness:
  "let fds = [(''a'', \<lparr>FailureDomainSpec_ControlPlane = True, FailureDomainSpec_Attributes = []\<rparr>)];
       ms = [(''m'', machine_at ''m'' 0 (Some ''a''))]
   in wf_map fds \<and> PickMost fds ms ms = Some ''a''"
proof -
  define fds where "fds = [(''a'', \<lparr>FailureDomainSpec_ControlPlane = True, FailureDomainSpec_Attributes = []\<rparr>)]"
  let ?ms = "[(''m'', machine_at ''m'' 0 (Some ''a''))]"
  have wf: "wf_map fds" by (simp add: fds_def wf_map_def)
  have dom: "fst ` set fds = {''a''}" by (simp add: fds_def)
  have els: "elems ?ms = {machine_at ''m'' 0 (Some ''a'')}" by (simp add: elems_def)
  have "Machine_Spec_FailureDomain (machine_at ''m'' 0 (Some ''a'')) = Some ''a''"
    by (simp add: machine_at_def)
  then have "PickMost fds ?ms ?ms \<noteq> None" and "\<forall>d. PickMost fds ?ms ?ms = Some d \<longrightarrow> d = ''a''"
    using PickMost_most [OF wf, of ?ms ?ms] unfolding dom els by simp_all
  then have "PickMost fds ?ms ?ms = Some ''a''"
    by auto
  then show ?thesis
    using wf by (simp add: fds_def)
qed

end
