(* ===== verification/ControlPlane.thy ===== *)
theory ControlPlane
  imports FailureDomain
begin

text \<open>
  The business logic of a control plane: \<open>controlplane/ocne/internal/control_plane.go\<close>, the filters
  that decide whether a machine still matches the specification (\<open>filters.go\<close>) and the labels of
  its machines (\<open>cluster_labels.go\<close>).

  The annotation that holds a machine's cluster configuration is JSON text. Its decoding is the
  argument \<open>json\<close>, a pair of an encoder and a decoder. Generated names are arguments, too.
\<close>

record json_codec =
  json_Marshal :: "ClusterConfiguration option \<Rightarrow> error + string"
  json_Unmarshal :: "string \<Rightarrow> error + ClusterConfiguration option"

subsection \<open>Does a machine match the specification?\<close>

definition TemplateClonedFromNameAnnotation :: string where
  "TemplateClonedFromNameAnnotation = ''cluster.x-k8s.io/cloned-from-name''"
definition TemplateClonedFromGroupKindAnnotation :: string where
  "TemplateClonedFromGroupKindAnnotation = ''cluster.x-k8s.io/cloned-from-groupkind''"

definition isSubsetMapOf :: "(string, string) go_map \<Rightarrow> (string, string) go_map \<Rightarrow> bool" where
  "isSubsetMapOf base existing =
     list_all (\<lambda>(key, value). list_ex (\<lambda>(existingKey, existingValue).
        existingKey = key \<and> existingValue = value) existing) base"

definition matchMachineTemplateMetadata :: "OCNEControlPlane \<Rightarrow> ObjectMeta \<Rightarrow> bool" where
  "matchMachineTemplateMetadata ocnecp obj =
     (if \<not> isSubsetMapOf (MachineTemplate_Annotations (Spec_MachineTemplate (KCP_Spec ocnecp))) (Annotations obj)
      then False
      else if \<not> isSubsetMapOf (MachineTemplate_Labels (Spec_MachineTemplate (KCP_Spec ocnecp))) (Labels obj)
      then False
      else True)"

definition upd_init :: "(InitConfiguration \<Rightarrow> InitConfiguration) \<Rightarrow> OCNEConfigSpec \<Rightarrow> OCNEConfigSpec" where
  "upd_init f c = c\<lparr>OCNEConfigSpec_InitConfiguration := map_option f (OCNEConfigSpec_InitConfiguration c)\<rparr>"

definition upd_join :: "(JoinConfiguration \<Rightarrow> JoinConfiguration) \<Rightarrow> OCNEConfigSpec \<Rightarrow> OCNEConfigSpec" where
  "upd_join f c = c\<lparr>OCNEConfigSpec_JoinConfiguration := map_option f (OCNEConfigSpec_JoinConfiguration c)\<rparr>"

definition cleanupConfigFields :: "OCNEConfigSpec \<Rightarrow> OCNEConfigSpec \<Rightarrow> OCNEConfigSpec \<times> OCNEConfigSpec" where
  "cleanupConfigFields ocnecpConfig machineSpec =
     (let \<comment> \<open>the cluster configuration is compared elsewhere\<close>
          k1 = ocnecpConfig\<lparr>OCNEConfigSpec_ClusterConfiguration := None\<rparr>;
          m1 = machineSpec\<lparr>OCNEConfigSpec_ClusterConfiguration := None\<rparr>;
          \<comment> \<open>no join configuration in the specification\<close>
          m2 = (if OCNEConfigSpec_JoinConfiguration k1 = None
                then m1\<lparr>OCNEConfigSpec_JoinConfiguration := None\<rparr> else m1);
          \<comment> \<open>discovery\<close>
          k3 = upd_join (\<lambda>j. j\<lparr>JoinConfiguration_Discovery := zero_Discovery\<rparr>) k1;
          m3 = upd_join (\<lambda>j. j\<lparr>JoinConfiguration_Discovery := zero_Discovery\<rparr>) m2;
          kj = OCNEConfigSpec_JoinConfiguration k3;
          \<comment> \<open>no control plane section in the specification\<close>
          m4 = (if kj \<noteq> None \<and> JoinConfiguration_ControlPlane (the kj) = None
                then upd_join (\<lambda>j. j\<lparr>JoinConfiguration_ControlPlane := None\<rparr>) m3 else m3);
          \<comment> \<open>empty node registration in the specification\<close>
          m5 = (if kj \<noteq> None \<and> JoinConfiguration_NodeRegistration (the kj) = zero_NodeRegistrationOptions
                then upd_join (\<lambda>j. j\<lparr>JoinConfiguration_NodeRegistration := zero_NodeRegistrationOptions\<rparr>) m4
                else m4);
          \<comment> \<open>type information\<close>
          m6 = (case OCNEConfigSpec_InitConfiguration k3 of
                  Some ki \<Rightarrow> upd_init (\<lambda>i. i\<lparr>InitConfiguration_TypeMeta := InitConfiguration_TypeMeta ki\<rparr>) m5
                | None \<Rightarrow> m5);
          m7 = (case kj of
                  Some j' \<Rightarrow> upd_join (\<lambda>j. j\<lparr>JoinConfiguration_TypeMeta := JoinConfiguration_TypeMeta j'\<rparr>) m6
                | None \<Rightarrow> m6)
      in (k3, m7))"

definition getAdjustedKcpConfig :: "OCNEControlPlane \<Rightarrow> OCNEConfigSpec \<Rightarrow> OCNEConfigSpec" where
  "getAdjustedKcpConfig ocnecp machineSpec =
     (let c1 = Spec_ControlPlaneConfig (KCP_Spec ocnecp);
          c2 = (if OCNEConfigSpec_JoinConfiguration machineSpec = None
                then c1\<lparr>OCNEConfigSpec_JoinConfiguration := None\<rparr> else c1)
      in if OCNEConfigSpec_InitConfiguration machineSpec = None
         then c2\<lparr>OCNEConfigSpec_InitConfiguration := None\<rparr> else c2)"

text \<open>
  The comparison changes the machine's configuration it is given, which is the one cached in the
  control plane; the second component is that configuration afterwards.
\<close>

definition matchInitOrJoinConfiguration :: "OCNEConfig \<Rightarrow> OCNEControlPlane \<Rightarrow> bool \<times> OCNEConfig" where
  "matchInitOrJoinConfiguration machineConfig ocnecp =
     (let ocnecpConfig = DefaultOCNEConfigSpec (getAdjustedKcpConfig ocnecp (OCNEConfig_Spec machineConfig));
          machineSpec = DefaultOCNEConfigSpec (OCNEConfig_Spec machineConfig);
          (ocnecpConfig', machineSpec') = cleanupConfigFields ocnecpConfig machineSpec
      in (machineSpec' = ocnecpConfig', machineConfig\<lparr>OCNEConfig_Spec := machineSpec'\<rparr>))"

definition matchClusterConfiguration :: "json_codec \<Rightarrow> OCNEControlPlane \<Rightarrow> Machine \<Rightarrow> bool" where
  "matchClusterConfiguration json ocnecp machine =
     (case map_of (Annotations (Machine_ObjectMeta machine)) OCNEClusterConfigurationAnnotation of
        None \<Rightarrow> True
      | Some machineClusterConfigStr \<Rightarrow>
     (case json_Unmarshal json machineClusterConfigStr of
        Inl _ \<Rightarrow> False
      | Inr machineClusterConfig \<Rightarrow>
          (case machineClusterConfig of None \<Rightarrow> zero_ClusterConfiguration | Some c \<Rightarrow> c) =
          (case OCNEConfigSpec_ClusterConfiguration (Spec_ControlPlaneConfig (KCP_Spec ocnecp)) of
             None \<Rightarrow> zero_ClusterConfiguration | Some c \<Rightarrow> c)))"

definition MatchesOCNEBootstrapConfig ::
  "json_codec \<Rightarrow> (string, OCNEConfig) go_map \<Rightarrow> OCNEControlPlane \<Rightarrow> Func" where
  "MatchesOCNEBootstrapConfig json machineConfigs ocnecp machine =
     (case machine of
        None \<Rightarrow> False
      | Some m \<Rightarrow>
          (if \<not> matchClusterConfiguration json ocnecp m then False
           else if Machine_Spec_Bootstrap_ConfigRef m = None then True
           else case map_of machineConfigs (mname m) of
                  None \<Rightarrow> True
                | Some machineConfig \<Rightarrow>
                    (if \<not> matchMachineTemplateMetadata ocnecp (OCNEConfig_ObjectMeta machineConfig) then False
                     else fst (matchInitOrJoinConfiguration machineConfig ocnecp))))"

definition MatchesTemplateClonedFrom ::
  "'x ext_scheme \<Rightarrow> (string, ObjectMeta) go_map \<Rightarrow> OCNEControlPlane \<Rightarrow> Func" where
  "MatchesTemplateClonedFrom e infraConfigs ocnecp machine =
     (case machine of
        None \<Rightarrow> False
      | Some m \<Rightarrow>
     (case map_of infraConfigs (mname m) of
        None \<Rightarrow> True
      | Some infraObj \<Rightarrow>
     (case (map_of (Annotations infraObj) TemplateClonedFromNameAnnotation,
            map_of (Annotations infraObj) TemplateClonedFromGroupKindAnnotation) of
        (Some clonedFromName, Some clonedFromGroupKind) \<Rightarrow>
          (let ref = MachineTemplate_InfrastructureRef (Spec_MachineTemplate (KCP_Spec ocnecp))
           in if clonedFromName \<noteq> ObjectReference_Name ref \<or> clonedFromGroupKind \<noteq> GroupKindString e ref
              then False
              else matchMachineTemplateMetadata ocnecp infraObj)
      | _ \<Rightarrow> True)))"

definition MatchesMachineSpec ::
  "'x ext_scheme \<Rightarrow> json_codec \<Rightarrow> (string, ObjectMeta) go_map \<Rightarrow> (string, OCNEConfig) go_map \<Rightarrow>
   OCNEControlPlane \<Rightarrow> Func" where
  "MatchesMachineSpec e json infraConfigs machineConfigs ocnecp =
     And [\<lambda>machine. case machine of
            None \<Rightarrow> False | Some m \<Rightarrow> matchMachineTemplateMetadata ocnecp (Machine_ObjectMeta m),
          MatchesKubernetesVersion (Spec_Version (KCP_Spec ocnecp)),
          MatchesOCNEBootstrapConfig json machineConfigs ocnecp,
          MatchesTemplateClonedFrom e infraConfigs ocnecp]"

subsection \<open>Labels\<close>

definition ControlPlaneMachineLabelsForCluster ::
  "'x ext_scheme \<Rightarrow> OCNEControlPlane \<Rightarrow> string \<Rightarrow> (string, string) go_map" where
  "ControlPlaneMachineLabelsForCluster e ocnecp clusterName =
     (let labels = foldl (\<lambda>ls (k, v). AList.update k v ls) []
            (MachineTemplate_Labels (Spec_MachineTemplate (KCP_Spec ocnecp)))
      in AList.update MachineControlPlaneNameLabel (MustFormatValue e (Name (KCP_ObjectMeta ocnecp)))
           (AList.update MachineControlPlaneLabelName []
             (AList.update ClusterLabelName clusterName labels)))"

subsection \<open>The control plane\<close>

text \<open>A patch helper is known by the object it was made from.\<close>

record ControlPlane =
  KCP :: OCNEControlPlane
  CP_Cluster :: Cluster
  CP_Machines :: Machines
  machinesPatchHelpers :: "(string, Machine) go_map"
  reconciliationTime :: time
  ocneConfigs :: "(string, OCNEConfig) go_map"
  infraResources :: "(string, ObjectMeta) go_map"

text \<open>Reads of the API server: the replies to the gets of infrastructure objects and configurations.\<close>

record cp_reads =
  external_Get :: "ObjectReference \<Rightarrow> string \<Rightarrow> error + ObjectMeta"
  Get_OCNEConfig :: "string \<Rightarrow> string \<Rightarrow> error + OCNEConfig" \<comment> \<open>namespace and name\<close>
  patch_NewHelper :: "Machine \<Rightarrow> error option"

fun getInfraResources :: "'r cp_reads_scheme \<Rightarrow> Machine list \<Rightarrow> error + (string, ObjectMeta) go_map" where
  "getInfraResources cl [] = Inr []"
| "getInfraResources cl (m # machines) =
     (case external_Get cl (Machine_Spec_InfrastructureRef m) (Namespace (Machine_ObjectMeta m)) of
        Inl err \<Rightarrow>
          (if IsNotFound err then getInfraResources cl machines
           else Inl (Wrap ''failed to retrieve infra obj for machine'' err))
      | Inr infraObj \<Rightarrow>
          (case getInfraResources cl machines of
             Inl err \<Rightarrow> Inl err
           | Inr result \<Rightarrow> Inr ((mname m, infraObj) # result)))"

fun getOCNEConfigs :: "'r cp_reads_scheme \<Rightarrow> Machine list \<Rightarrow> error + (string, OCNEConfig) go_map" where
  "getOCNEConfigs cl [] = Inr []"
| "getOCNEConfigs cl (m # machines) =
     (case Machine_Spec_Bootstrap_ConfigRef m of
        None \<Rightarrow> getOCNEConfigs cl machines
      | Some bootstrapRef \<Rightarrow>
     (case Get_OCNEConfig cl (Namespace (Machine_ObjectMeta m)) (ObjectReference_Name bootstrapRef) of
        Inl err \<Rightarrow>
          (if IsNotFound err then getOCNEConfigs cl machines
           else Inl (Wrap ''failed to retrieve bootstrap config for machine'' err))
      | Inr machineConfig \<Rightarrow>
          (case getOCNEConfigs cl machines of
             Inl err \<Rightarrow> Inl err
           | Inr result \<Rightarrow> Inr ((mname m, machineConfig) # result))))"

fun newPatchHelpers :: "'r cp_reads_scheme \<Rightarrow> Machine list \<Rightarrow> error + (string, Machine) go_map" where
  "newPatchHelpers cl [] = Inr []"
| "newPatchHelpers cl (m # machines) =
     (case patch_NewHelper cl m of
        Some err \<Rightarrow> Inl (Wrap ''failed to create patch helper for machine'' err)
      | None \<Rightarrow>
          (case newPatchHelpers cl machines of
             Inl err \<Rightarrow> Inl err
           | Inr helpers \<Rightarrow> Inr ((mname m, m) # helpers)))"

definition NewControlPlane ::
  "'r cp_reads_scheme \<Rightarrow> time \<Rightarrow> Cluster \<Rightarrow> OCNEControlPlane \<Rightarrow> Machines \<Rightarrow> error + ControlPlane" where
  "NewControlPlane cl now cluster ocnecp ownedMachines =
     (case getInfraResources cl (map snd ownedMachines) of Inl err \<Rightarrow> Inl err
      | Inr infraObjects \<Rightarrow>
     (case getOCNEConfigs cl (map snd ownedMachines) of Inl err \<Rightarrow> Inl err
      | Inr configs \<Rightarrow>
     (case newPatchHelpers cl (map snd ownedMachines) of Inl err \<Rightarrow> Inl err
      | Inr patchHelpers \<Rightarrow>
          Inr \<lparr>KCP = ocnecp, CP_Cluster = cluster, CP_Machines = ownedMachines,
               machinesPatchHelpers = patchHelpers, reconciliationTime = now,
               ocneConfigs = configs, infraResources = infraObjects\<rparr>)))"

definition CP_FailureDomains :: "ControlPlane \<Rightarrow> FailureDomains" where
  "CP_FailureDomains c = Cluster_Status_FailureDomains (CP_Cluster c)"

definition CP_Version :: "ControlPlane \<Rightarrow> string" where
  "CP_Version c = Spec_Version (KCP_Spec (KCP c))"

definition MachineInfrastructureTemplateRef :: "ControlPlane \<Rightarrow> ObjectReference" where
  "MachineInfrastructureTemplateRef c = MachineTemplate_InfrastructureRef (Spec_MachineTemplate (KCP_Spec (KCP c)))"

definition controlplane_GroupVersion :: string where
  "controlplane_GroupVersion = ''controlplane.cluster.x-k8s.io/v1alpha1''"

definition AsOwnerReference :: "ControlPlane \<Rightarrow> OwnerReference" where
  "AsOwnerReference c =
     \<lparr>APIVersion = controlplane_GroupVersion, Kind = ''OCNEControlPlane'',
      OwnerReference_Name = Name (KCP_ObjectMeta (KCP c)), OwnerReference_UID = UID (KCP_ObjectMeta (KCP c)),
      Controller = None, BlockOwnerDeletion = None\<rparr>"

definition EtcdImageData :: "ControlPlane \<Rightarrow> string \<times> string" where
  "EtcdImageData c =
     (case OCNEConfigSpec_ClusterConfiguration (Spec_ControlPlaneConfig (KCP_Spec (KCP c))) of
        None \<Rightarrow> ([], [])
      | Some cc \<Rightarrow>
     (case Etcd_Local (ClusterConfiguration_Etcd cc) of
        None \<Rightarrow> ([], [])
      | Some l \<Rightarrow> (ImageMeta_ImageRepository (LocalEtcd_ImageMeta l), ImageMeta_ImageTag (LocalEtcd_ImageMeta l))))"

definition IsEtcdManaged :: "ControlPlane \<Rightarrow> bool" where
  "IsEtcdManaged c =
     (case OCNEConfigSpec_ClusterConfiguration (Spec_ControlPlaneConfig (KCP_Spec (KCP c))) of
        None \<Rightarrow> True
      | Some cc \<Rightarrow> Etcd_External (ClusterConfiguration_Etcd cc) = None)"

definition MachinesNeedingRollout :: "'x ext_scheme \<Rightarrow> json_codec \<Rightarrow> ControlPlane \<Rightarrow> Machines" where
  "MachinesNeedingRollout e json c =
     (let machines = Filter (CP_Machines c) [Not HasDeletionTimestamp]
      in AnyFilter machines
           [ShouldRolloutBefore (reconciliationTime c) (Spec_RolloutBefore (KCP_Spec (KCP c))),
            ShouldRolloutAfter (Some (reconciliationTime c)) (Spec_RolloutAfter (KCP_Spec (KCP c))),
            Not (MatchesMachineSpec e json (infraResources c) (ocneConfigs c) (KCP c))])"

definition UpToDateMachines :: "'x ext_scheme \<Rightarrow> json_codec \<Rightarrow> ControlPlane \<Rightarrow> Machines" where
  "UpToDateMachines e json c =
     Filter (CP_Machines c)
       [Not (ShouldRolloutBefore (reconciliationTime c) (Spec_RolloutBefore (KCP_Spec (KCP c)))),
        Not (ShouldRolloutAfter (Some (reconciliationTime c)) (Spec_RolloutAfter (KCP_Spec (KCP c)))),
        MatchesMachineSpec e json (infraResources c) (ocneConfigs c) (KCP c)]"

definition FailureDomainWithMostMachines :: "'x ext_scheme \<Rightarrow> ControlPlane \<Rightarrow> Machines \<Rightarrow> string option" where
  "FailureDomainWithMostMachines e c machines =
     (let notInFailureDomains =
            Filter machines [Not (InFailureDomains (GetIDs e (FilterControlPlane e (CP_FailureDomains c))))]
      in case Oldest notInFailureDomains of
           Some m \<Rightarrow> Machine_Spec_FailureDomain m
         | None \<Rightarrow>
             PickMost (FilterControlPlane e (Cluster_Status_FailureDomains (CP_Cluster c))) (CP_Machines c) machines)"

definition MachineInFailureDomainWithMostMachines ::
  "'x ext_scheme \<Rightarrow> ControlPlane \<Rightarrow> Machines \<Rightarrow> error + Machine" where
  "MachineInFailureDomainWithMostMachines e c machines =
     (let fd = FailureDomainWithMostMachines e c machines;
          machinesInFailureDomain = Filter machines [InFailureDomains [fd]]
      in case Oldest machinesInFailureDomain of
           None \<Rightarrow> Inl (Err ''failed to pick control plane Machine to mark for deletion'')
         | Some machineToMark \<Rightarrow> Inr machineToMark)"

definition MachineWithDeleteAnnotation :: "Machines \<Rightarrow> Machines" where
  "MachineWithDeleteAnnotation machines = Filter machines [HasAnnotationKey DeleteMachineAnnotation]"

definition NextFailureDomainForScaleUp :: "'x ext_scheme \<Rightarrow> json_codec \<Rightarrow> ControlPlane \<Rightarrow> string option" where
  "NextFailureDomainForScaleUp e json c =
     (if length (FilterControlPlane e (Cluster_Status_FailureDomains (CP_Cluster c))) = 0 then None
      else PickFewest (FilterControlPlane e (CP_FailureDomains c)) (UpToDateMachines e json c))"

definition InitialControlPlaneConfig :: "ControlPlane \<Rightarrow> OCNEConfigSpec" where
  "InitialControlPlaneConfig c =
     (Spec_ControlPlaneConfig (KCP_Spec (KCP c)))\<lparr>OCNEConfigSpec_JoinConfiguration := None\<rparr>"

definition JoinControlPlaneConfig :: "ControlPlane \<Rightarrow> OCNEConfigSpec" where
  "JoinControlPlaneConfig c =
     (Spec_ControlPlaneConfig (KCP_Spec (KCP c)))\<lparr>OCNEConfigSpec_InitConfiguration := None\<rparr>"

definition zero_OCNEConfigStatus :: OCNEConfigStatus where
  "zero_OCNEConfigStatus =
     \<lparr>OCNEConfigStatus_Ready = False, OCNEConfigStatus_DataSecretName = None,
      OCNEConfigStatus_FailureReason = [], OCNEConfigStatus_FailureMessage = [],
      OCNEConfigStatus_ObservedGeneration = 0, OCNEConfigStatus_Conditions = []\<rparr>"

definition GenerateOCNEConfig ::
  "'x ext_scheme \<Rightarrow> string \<Rightarrow> ControlPlane \<Rightarrow> OCNEConfigSpec \<Rightarrow> OCNEConfig" where
  \<comment> \<open>the second argument is the name made by the name generator\<close>
  "GenerateOCNEConfig e name c spec =
     \<lparr>OCNEConfig_TypeMeta = zero_TypeMeta,
      OCNEConfig_ObjectMeta = empty_meta\<lparr>
        Name := name,
        Namespace := Namespace (KCP_ObjectMeta (KCP c)),
        Labels := ControlPlaneMachineLabelsForCluster e (KCP c) (Name (Cluster_ObjectMeta (CP_Cluster c))),
        Annotations := MachineTemplate_Annotations (Spec_MachineTemplate (KCP_Spec (KCP c))),
        OwnerReferences := [AsOwnerReference c]\<rparr>,
      OCNEConfig_Spec = spec,
      OCNEConfig_Status = zero_OCNEConfigStatus\<rparr>"

definition NewMachine ::
  "'x ext_scheme \<Rightarrow> string \<Rightarrow> ControlPlane \<Rightarrow> ObjectReference \<Rightarrow> ObjectReference option \<Rightarrow>
   string option \<Rightarrow> Machine" where
  "NewMachine e name c infraRef bootstrapRef failureDomain =
     \<lparr>Machine_TypeMeta = zero_TypeMeta,
      Machine_ObjectMeta = empty_meta\<lparr>
        Name := name,
        Namespace := Namespace (KCP_ObjectMeta (KCP c)),
        Labels := ControlPlaneMachineLabelsForCluster e (KCP c) (Name (Cluster_ObjectMeta (CP_Cluster c))),
        Annotations := MachineTemplate_Annotations (Spec_MachineTemplate (KCP_Spec (KCP c))),
        OwnerReferences := [NewControllerRef e (KCP_ObjectMeta (KCP c)) controlplane_GroupVersion ''OCNEControlPlane'']\<rparr>,
      Machine_Spec_ClusterName = Name (Cluster_ObjectMeta (CP_Cluster c)),
      Machine_Spec_Bootstrap_ConfigRef = bootstrapRef,
      Machine_Spec_InfrastructureRef = infraRef,
      Machine_Spec_Version = Some (CP_Version c),
      Machine_Spec_FailureDomain = failureDomain,
      Machine_Spec_NodeDrainTimeout = None,
      Machine_Spec_NodeDeletionTimeout = None,
      Machine_Status_NodeRef = None,
      Machine_Status_CertificatesExpiryDate = None,
      Machine_Status_Conditions = []\<rparr>"

definition NeedsReplacementNode :: "ControlPlane \<Rightarrow> bool" where
  "NeedsReplacementNode c =
     (case Spec_Replicas (KCP_Spec (KCP c)) of
        None \<Rightarrow> False
      | Some replicas \<Rightarrow> int (length (CP_Machines c)) + 1 = replicas)"

definition HasDeletingMachine :: "ControlPlane \<Rightarrow> bool" where
  "HasDeletingMachine c \<longleftrightarrow> length (Filter (CP_Machines c) [HasDeletionTimestamp]) > 0"

definition GetOCNEConfig :: "ControlPlane \<Rightarrow> string \<Rightarrow> OCNEConfig option" where
  "GetOCNEConfig c machineName = map_of (ocneConfigs c) machineName"

definition UnhealthyMachines :: "ControlPlane \<Rightarrow> Machines" where
  "UnhealthyMachines c = Filter (CP_Machines c) [HasUnhealthyCondition]"

definition HealthyMachines :: "ControlPlane \<Rightarrow> Machines" where
  "HealthyMachines c = Filter (CP_Machines c) [Not HasUnhealthyCondition]"

definition HasUnhealthyMachine :: "ControlPlane \<Rightarrow> bool" where
  "HasUnhealthyMachine c \<longleftrightarrow> length (UnhealthyMachines c) > 0"

text \<open>The conditions of machines the control plane owns when it patches them.\<close>

definition machine_owned_conditions :: "ConditionType list" where
  "machine_owned_conditions =
     [MachineAPIServerPodHealthyCondition, MachineControllerManagerPodHealthyCondition,
      MachineSchedulerPodHealthyCondition, MachineEtcdPodHealthyCondition, MachineEtcdMemberHealthyCondition]"

text \<open>\<open>helper_Patch\<close> is the reply to the patch of a machine: from the object of the helper to the new one.\<close>

definition PatchMachines ::
  "(Machine \<Rightarrow> Machine \<Rightarrow> ConditionType list \<Rightarrow> error option) \<Rightarrow> ControlPlane \<Rightarrow> error option" where
  "PatchMachines helper_Patch c =
     NewAggregate (concat (map (\<lambda>(_, machine).
       (case map_of (machinesPatchHelpers c) (mname machine) of
          Some helper \<Rightarrow>
            (case helper_Patch helper machine machine_owned_conditions of
               Some err \<Rightarrow> [Wrap (''failed to patch machine '' @ mname machine) err]
             | None \<Rightarrow> [])
        | None \<Rightarrow> [Err (''failed to get patch helper for machine '' @ mname machine)])) (CP_Machines c)))"

subsection \<open>The comparison of configurations\<close>

text \<open>
  The declarative reading of the comparison. The format is compared after defaulting, the cluster
  configuration is not compared, an init or join section counts only when the machine has it, the
  type information and the discovery section never count, and the control plane section and the
  node registration of the join section count only when the specification sets them.
\<close>

definition init_matches :: "InitConfiguration option \<Rightarrow> InitConfiguration option \<Rightarrow> bool" where
  "init_matches mi ki =
     (case mi of
        None \<Rightarrow> True
      | Some m \<Rightarrow>
     (case ki of
        None \<Rightarrow> False
      | Some k \<Rightarrow> m\<lparr>InitConfiguration_TypeMeta := InitConfiguration_TypeMeta k\<rparr> = k))"

definition join_matches :: "JoinConfiguration option \<Rightarrow> JoinConfiguration option \<Rightarrow> bool" where
  "join_matches mj kj =
     (case (mj, kj) of
        (Some m, Some k) \<Rightarrow>
          m\<lparr>JoinConfiguration_TypeMeta := JoinConfiguration_TypeMeta k,
            JoinConfiguration_Discovery := JoinConfiguration_Discovery k,
            JoinConfiguration_ControlPlane :=
              (if JoinConfiguration_ControlPlane k = None then None else JoinConfiguration_ControlPlane m),
            JoinConfiguration_NodeRegistration :=
              (if JoinConfiguration_NodeRegistration k = zero_NodeRegistrationOptions
               then zero_NodeRegistrationOptions else JoinConfiguration_NodeRegistration m)\<rparr> = k
      | _ \<Rightarrow> True)"

definition rest_of :: "OCNEConfigSpec \<Rightarrow> OCNEConfigSpec" where
  "rest_of c = (DefaultOCNEConfigSpec c)\<lparr>OCNEConfigSpec_ClusterConfiguration := None,
     OCNEConfigSpec_InitConfiguration := None, OCNEConfigSpec_JoinConfiguration := None\<rparr>"

definition config_matches :: "OCNEConfigSpec \<Rightarrow> OCNEConfigSpec \<Rightarrow> bool" where
  "config_matches m k \<longleftrightarrow>
     rest_of m = rest_of k \<and>
     init_matches (OCNEConfigSpec_InitConfiguration m) (OCNEConfigSpec_InitConfiguration k) \<and>
     join_matches (OCNEConfigSpec_JoinConfiguration m) (OCNEConfigSpec_JoinConfiguration k)"

lemma spec_split:
  "a = b \<longleftrightarrow>
     rest_of a = rest_of b \<and> OCNEConfigSpec_Format a = OCNEConfigSpec_Format b \<and>
     OCNEConfigSpec_ClusterConfiguration a = OCNEConfigSpec_ClusterConfiguration b \<and>
     OCNEConfigSpec_InitConfiguration a = OCNEConfigSpec_InitConfiguration b \<and>
     OCNEConfigSpec_JoinConfiguration a = OCNEConfigSpec_JoinConfiguration b"
  for a b :: OCNEConfigSpec
  by (cases a; cases b) (auto simp: rest_of_def DefaultOCNEConfigSpec_def)

lemma Default_simps [simp]:
  "OCNEConfigSpec_ClusterConfiguration (DefaultOCNEConfigSpec c) = OCNEConfigSpec_ClusterConfiguration c"
  "OCNEConfigSpec_InitConfiguration (DefaultOCNEConfigSpec c) = OCNEConfigSpec_InitConfiguration c"
  "OCNEConfigSpec_JoinConfiguration (DefaultOCNEConfigSpec c) = OCNEConfigSpec_JoinConfiguration c"
  "DefaultOCNEConfigSpec (DefaultOCNEConfigSpec c) = DefaultOCNEConfigSpec c"
  by (simp_all add: DefaultOCNEConfigSpec_def CloudConfig_def)

lemma rest_of_updates [simp]:
  "rest_of (c\<lparr>OCNEConfigSpec_ClusterConfiguration := x\<rparr>) = rest_of c"
  "rest_of (c\<lparr>OCNEConfigSpec_InitConfiguration := y\<rparr>) = rest_of c"
  "rest_of (c\<lparr>OCNEConfigSpec_JoinConfiguration := z\<rparr>) = rest_of c"
  "rest_of (DefaultOCNEConfigSpec c) = rest_of c"
  by (simp_all add: rest_of_def DefaultOCNEConfigSpec_def CloudConfig_def)

lemma rest_of_Format: "rest_of a = rest_of b \<Longrightarrow>
  OCNEConfigSpec_Format (DefaultOCNEConfigSpec a) = OCNEConfigSpec_Format (DefaultOCNEConfigSpec b)"
  by (drule arg_cong [of _ _ OCNEConfigSpec_Format]) (simp add: rest_of_def)

text \<open>What \<open>cleanupConfigFields\<close> leaves of the init and the join section.\<close>

definition clean_init :: "InitConfiguration option \<Rightarrow> InitConfiguration option \<Rightarrow> InitConfiguration option" where
  "clean_init mi ki =
     (case (mi, ki) of
        (Some m, Some k) \<Rightarrow> Some (m\<lparr>InitConfiguration_TypeMeta := InitConfiguration_TypeMeta k\<rparr>)
      | _ \<Rightarrow> mi)"

definition clean_join :: "JoinConfiguration option \<Rightarrow> JoinConfiguration option \<Rightarrow> JoinConfiguration option" where
  "clean_join mj kj =
     (case (mj, kj) of
        (Some m, Some k) \<Rightarrow>
          Some (m\<lparr>JoinConfiguration_TypeMeta := JoinConfiguration_TypeMeta k,
                  JoinConfiguration_Discovery := zero_Discovery,
                  JoinConfiguration_ControlPlane :=
                    (if JoinConfiguration_ControlPlane k = None then None else JoinConfiguration_ControlPlane m),
                  JoinConfiguration_NodeRegistration :=
                    (if JoinConfiguration_NodeRegistration k = zero_NodeRegistrationOptions
                     then zero_NodeRegistrationOptions else JoinConfiguration_NodeRegistration m)\<rparr>)
      | _ \<Rightarrow> None)"

lemma upd_simps [simp]:
  "OCNEConfigSpec_InitConfiguration (upd_init f c) = map_option f (OCNEConfigSpec_InitConfiguration c)"
  "OCNEConfigSpec_JoinConfiguration (upd_init f c) = OCNEConfigSpec_JoinConfiguration c"
  "OCNEConfigSpec_ClusterConfiguration (upd_init f c) = OCNEConfigSpec_ClusterConfiguration c"
  "OCNEConfigSpec_Format (upd_init f c) = OCNEConfigSpec_Format c"
  "rest_of (upd_init f c) = rest_of c"
  "OCNEConfigSpec_InitConfiguration (upd_join g c) = OCNEConfigSpec_InitConfiguration c"
  "OCNEConfigSpec_JoinConfiguration (upd_join g c) = map_option g (OCNEConfigSpec_JoinConfiguration c)"
  "OCNEConfigSpec_ClusterConfiguration (upd_join g c) = OCNEConfigSpec_ClusterConfiguration c"
  "OCNEConfigSpec_Format (upd_join g c) = OCNEConfigSpec_Format c"
  "rest_of (upd_join g c) = rest_of c"
  by (simp_all add: upd_init_def upd_join_def)

lemma cleanup_fst:
  "fst (cleanupConfigFields k m) =
     upd_join (\<lambda>j. j\<lparr>JoinConfiguration_Discovery := zero_Discovery\<rparr>)
       (k\<lparr>OCNEConfigSpec_ClusterConfiguration := None\<rparr>)"
  by (simp add: cleanupConfigFields_def Let_def)

lemma cleanup_snd:
  "rest_of (snd (cleanupConfigFields k m)) = rest_of m"
  "OCNEConfigSpec_Format (snd (cleanupConfigFields k m)) = OCNEConfigSpec_Format m"
  "OCNEConfigSpec_ClusterConfiguration (snd (cleanupConfigFields k m)) = None"
  "OCNEConfigSpec_InitConfiguration (snd (cleanupConfigFields k m)) =
     clean_init (OCNEConfigSpec_InitConfiguration m) (OCNEConfigSpec_InitConfiguration k)"
  "OCNEConfigSpec_JoinConfiguration (snd (cleanupConfigFields k m)) =
     clean_join (OCNEConfigSpec_JoinConfiguration m) (OCNEConfigSpec_JoinConfiguration k)"
  by (simp_all add: cleanupConfigFields_def Let_def clean_init_def clean_join_def option.map_comp comp_def
      split: option.split)

lemma clean_init_matches:
  "clean_init mi (if mi = None then None else ki) = (if mi = None then None else ki) \<longleftrightarrow> init_matches mi ki"
  by (cases mi; cases ki) (simp_all add: clean_init_def init_matches_def)

lemma clean_join_matches:
  "clean_join mj (if mj = None then None else kj) =
     map_option (\<lambda>j. j\<lparr>JoinConfiguration_Discovery := zero_Discovery\<rparr>) (if mj = None then None else kj) \<longleftrightarrow>
   join_matches mj kj"
proof (cases mj; cases kj)
  fix m k
  assume "mj = Some m" and "kj = Some k"
  then show ?thesis
    by (cases m; cases k) (simp add: clean_join_def join_matches_def)
qed (simp_all add: clean_join_def join_matches_def)

lemma getAdjusted_fields:
  "OCNEConfigSpec_InitConfiguration (getAdjustedKcpConfig k m) =
     (if OCNEConfigSpec_InitConfiguration m = None then None
      else OCNEConfigSpec_InitConfiguration (Spec_ControlPlaneConfig (KCP_Spec k)))"
  "OCNEConfigSpec_JoinConfiguration (getAdjustedKcpConfig k m) =
     (if OCNEConfigSpec_JoinConfiguration m = None then None
      else OCNEConfigSpec_JoinConfiguration (Spec_ControlPlaneConfig (KCP_Spec k)))"
  "rest_of (getAdjustedKcpConfig k m) = rest_of (Spec_ControlPlaneConfig (KCP_Spec k))"
  by (simp_all add: getAdjustedKcpConfig_def Let_def)

lemma matchInitOrJoin_iff:
  "fst (matchInitOrJoinConfiguration m k) \<longleftrightarrow>
     config_matches (OCNEConfig_Spec m) (Spec_ControlPlaneConfig (KCP_Spec k))"
proof -
  let ?m = "OCNEConfig_Spec m" and ?k = "Spec_ControlPlaneConfig (KCP_Spec k)"
  have "fst (matchInitOrJoinConfiguration m k) \<longleftrightarrow>
      rest_of ?m = rest_of ?k \<and>
      OCNEConfigSpec_Format (DefaultOCNEConfigSpec ?m) =
        OCNEConfigSpec_Format (DefaultOCNEConfigSpec (getAdjustedKcpConfig k ?m)) \<and>
      clean_init (OCNEConfigSpec_InitConfiguration ?m)
        (OCNEConfigSpec_InitConfiguration (getAdjustedKcpConfig k ?m)) =
        OCNEConfigSpec_InitConfiguration (getAdjustedKcpConfig k ?m) \<and>
      clean_join (OCNEConfigSpec_JoinConfiguration ?m)
        (OCNEConfigSpec_JoinConfiguration (getAdjustedKcpConfig k ?m)) =
        map_option (\<lambda>j. j\<lparr>JoinConfiguration_Discovery := zero_Discovery\<rparr>)
          (OCNEConfigSpec_JoinConfiguration (getAdjustedKcpConfig k ?m))"
    unfolding matchInitOrJoinConfiguration_def Let_def split_beta fst_conv
    by (subst spec_split) (simp add: cleanup_fst cleanup_snd getAdjusted_fields(3))
  then show ?thesis
    using rest_of_Format [of ?m "getAdjustedKcpConfig k ?m"]
    by (auto simp: getAdjusted_fields clean_init_matches clean_join_matches config_matches_def)
qed

lemma init_matches_clean:
  "init_matches (clean_init mi (if mi = None then None else ki)) ki \<longleftrightarrow> init_matches mi ki"
  by (cases mi; cases ki) (simp_all add: clean_init_def init_matches_def)

lemma join_matches_clean:
  "join_matches (clean_join mj (if mj = None then None else kj)) kj \<longleftrightarrow> join_matches mj kj"
  by (cases mj; cases kj) (simp_all add: clean_join_def join_matches_def)

lemma isSubsetMapOf_iff: "isSubsetMapOf base existing \<longleftrightarrow> set base \<subseteq> set existing"
  by (auto simp: isSubsetMapOf_def list_all_iff list_ex_iff)

lemma InFailureDomains_iff: "InFailureDomains fds (Some m) \<longleftrightarrow> Machine_Spec_FailureDomain m \<in> set fds"
  by (auto simp: InFailureDomains_def list_ex_iff split: option.splits)

text \<open>The names of the failure domains that may hold control plane machines.\<close>

definition cp_domains :: "ControlPlane \<Rightarrow> string set" where
  "cp_domains c = {k. \<exists>s. (k, s) \<in> set (CP_FailureDomains c) \<and> FailureDomainSpec_ControlPlane s}"

lemma FilterControlPlane_domains:
  assumes "ext_laws e" and "wf_map (CP_FailureDomains c)"
  shows "fst ` set (FilterControlPlane e (CP_FailureDomains c)) = cp_domains c"
    and "wf_map (FilterControlPlane e (CP_FailureDomains c))"
  using ext_lawsD(7,8) [OF assms] by (force simp: cp_domains_def)+

lemma FilterControlPlane_empty:
  assumes "ext_laws e" and "wf_map (CP_FailureDomains c)"
  shows "FilterControlPlane e (CP_FailureDomains c) = [] \<longleftrightarrow> cp_domains c = {}"
  using FilterControlPlane_domains(1) [OF assms] by auto

lemma set_GetIDs_domains:
  assumes "ext_laws e" and "wf_map (CP_FailureDomains c)"
  shows "set (GetIDs e (FilterControlPlane e (CP_FailureDomains c))) = Some ` cp_domains c"
  using FilterControlPlane_domains(1) [OF assms] ext_lawsD(9) [OF assms(1)] by metis

subsection \<open>An example control plane\<close>

definition null_json :: json_codec where
  "null_json = \<lparr>json_Marshal = (\<lambda>_. Inr ''null''), json_Unmarshal = (\<lambda>_. Inr None)\<rparr>"

definition example_kcp :: OCNEControlPlane where
  "example_kcp =
     \<lparr>KCP_ObjectMeta = empty_meta\<lparr>Name := ''kcp'', Namespace := ''ns'', UID := ''1''\<rparr>,
      KCP_Spec =
        \<lparr>Spec_Replicas = Some 3, Spec_Version = ''v1.24.8'',
         Spec_MachineTemplate =
           \<lparr>MachineTemplate_Labels = [], MachineTemplate_Annotations = [],
            MachineTemplate_InfrastructureRef = zero_ObjectReference, MachineTemplate_NodeDrainTimeout = None,
            MachineTemplate_NodeVolumeDetachTimeout = None, MachineTemplate_NodeDeletionTimeout = None\<rparr>,
         Spec_ControlPlaneConfig = zero_OCNEConfigSpec, Spec_RolloutBefore = None, Spec_RolloutAfter = None,
         Spec_RolloutStrategy =
           Some \<lparr>RolloutStrategy_Type = RollingUpdateStrategyType,
                 RolloutStrategy_RollingUpdate = Some \<lparr>MaxSurge = Some (FromInt 1)\<rparr>\<rparr>,
         Spec_ModuleOperator = None, Spec_VerrazzanoPlatformOperator = None\<rparr>,
      KCP_Status =
        \<lparr>Status_Selector = [], Status_Replicas = 0, Status_Version = None, Status_UpdatedReplicas = 0,
         Status_ReadyReplicas = 0, Status_UnavailableReplicas = 0, Status_Initialized = False,
         Status_Ready = False, Status_FailureReason = [], Status_FailureMessage = None,
         Status_ObservedGeneration = 0, Status_Conditions = []\<rparr>\<rparr>"

definition example_cluster :: Cluster where
  "example_cluster =
     \<lparr>Cluster_ObjectMeta = empty_meta\<lparr>Name := ''c'', Namespace := ''ns''\<rparr>, Cluster_Spec_Paused = False, Cluster_Spec_ClusterNetwork = None,
      Cluster_Spec_ControlPlaneEndpoint_Host = ''h'', Cluster_Spec_ControlPlaneEndpoint_Port = 6443,
      Cluster_Spec_ControlPlaneRef = None, Cluster_Status_InfrastructureReady = True,
      Cluster_Status_FailureDomains =
        [(''a'', \<lparr>FailureDomainSpec_ControlPlane = True, FailureDomainSpec_Attributes = []\<rparr>),
         (''b'', \<lparr>FailureDomainSpec_ControlPlane = True, FailureDomainSpec_Attributes = []\<rparr>)],
      Cluster_Status_Conditions = []\<rparr>"

definition example_machines :: Machines where
  "example_machines =
     [(''m1'', machine_at ''m1'' 1 (Some ''a'')), (''m2'', machine_at ''m2'' 2 (Some ''a'')),
      (''m3'', machine_at ''m3'' 3 (Some ''b''))]"

definition example_cp :: ControlPlane where
  "example_cp =
     \<lparr>KCP = example_kcp, CP_Cluster = example_cluster, CP_Machines = example_machines,
      machinesPatchHelpers = example_machines, reconciliationTime = 10, ocneConfigs = [], infraResources = []\<rparr>"

lemma example_cp_wf:
  "wf_machines (CP_Machines example_cp)" "wf_map (CP_FailureDomains example_cp)"
  "CP_Machines example_cp = example_machines" "wf_machines example_machines"
  "elems example_machines =
     {machine_at ''m1'' 1 (Some ''a''), machine_at ''m2'' 2 (Some ''a''), machine_at ''m3'' 3 (Some ''b'')}"
  by (simp_all add: example_cp_def example_machines_def wf_machines_def wf_map_def machine_at_def
      CP_FailureDomains_def example_cluster_def elems_def)

subsection \<open>Properties\<close>

text \<open>
  C31. Comparing a machine's bootstrap configuration with the specification decides exactly the
  declarative match: everything but the cluster configuration, the type information and the
  discovery settings counts, where the specification leaves the join section, its control plane
  section or its node registration unset, the machine's values do not count, and a section the
  machine lacks does not count. The comparison changes the cached configuration, and asking again
  with the changed configuration gives the same answer.
\<close>

theorem matchInitOrJoinConfiguration_spec:
  "(fst (matchInitOrJoinConfiguration m k) \<longleftrightarrow>
      config_matches (OCNEConfig_Spec m) (Spec_ControlPlaneConfig (KCP_Spec k))) \<and>
   fst (matchInitOrJoinConfiguration (snd (matchInitOrJoinConfiguration m k)) k) =
     fst (matchInitOrJoinConfiguration m k)"
proof -
  let ?a = "DefaultOCNEConfigSpec (getAdjustedKcpConfig k (OCNEConfig_Spec m))"
  let ?m = "DefaultOCNEConfigSpec (OCNEConfig_Spec m)"
  have "OCNEConfig_Spec (snd (matchInitOrJoinConfiguration m k)) = snd (cleanupConfigFields ?a ?m)"
    by (simp add: matchInitOrJoinConfiguration_def Let_def split_beta)
  then show ?thesis
    by (simp add: matchInitOrJoin_iff config_matches_def cleanup_snd getAdjusted_fields
        init_matches_clean join_matches_clean)
qed

text \<open>
  Among the machines that are not being deleted, the machines needing a rollout are exactly
  those that are not up to date: no machine is both, and none is neither.
\<close>

lemma rollout_partition:
  assumes "wf_machines (CP_Machines c)"
  shows "elems (MachinesNeedingRollout e json c) =
    {m \<in> elems (CP_Machines c). \<not> HasDeletionTimestamp (Some m)} - elems (UpToDateMachines e json c)"
  using assms
  by (auto simp: MachinesNeedingRollout_def UpToDateMachines_def Let_def mc.els_filt mc.els_anyfilt
      mc.inv_filt Not_def)

lemma rollout_partition_witness:
  "wf_machines (CP_Machines example_cp) \<and> elems (CP_Machines example_cp) \<noteq> {} \<and>
   elems (MachinesNeedingRollout std_ext null_json example_cp) =
     {m \<in> elems (CP_Machines example_cp). \<not> HasDeletionTimestamp (Some m)} -
     elems (UpToDateMachines std_ext null_json example_cp)"
proof (intro conjI)
  show "elems (CP_Machines example_cp) \<noteq> {}"
    unfolding example_cp_wf(3,5) by simp
qed (rule example_cp_wf(1) rollout_partition [OF example_cp_wf(1)])+

lemma MostMachines_picks:
  assumes "ext_laws e" and "wf_map (CP_FailureDomains c)" and "wf_machines ms" and "elems ms \<noteq> {}"
  shows "\<exists>m. MachineInFailureDomainWithMostMachines e c ms = Inr m \<and> m \<in> elems ms \<and>
    (\<forall>x\<in>elems ms. Machine_Spec_FailureDomain x = Machine_Spec_FailureDomain m \<longrightarrow>
       CreationTimestamp (Machine_ObjectMeta m) \<le> CreationTimestamp (Machine_ObjectMeta x)) \<and>
    (if \<exists>x\<in>elems ms. Machine_Spec_FailureDomain x \<notin> Some ` cp_domains c
     then Machine_Spec_FailureDomain m \<notin> Some ` cp_domains c
     else \<exists>d\<in>cp_domains c. Machine_Spec_FailureDomain m = Some d \<and>
       (\<forall>x\<in>elems ms. \<forall>d'. Machine_Spec_FailureDomain x = Some d' \<longrightarrow>
          machines_in (CP_Machines c) d' \<le> machines_in (CP_Machines c) d))"
proof -
  let ?out = "Filter ms [Not (InFailureDomains (GetIDs e (FilterControlPlane e (CP_FailureDomains c))))]"
  let ?fd = "FailureDomainWithMostMachines e c ms"
  let ?pick = "PickMost (FilterControlPlane e (CP_FailureDomains c)) (CP_Machines c) ms"
  have out: "elems ?out = {x \<in> elems ms. Machine_Spec_FailureDomain x \<notin> Some ` cp_domains c}"
    by (simp add: mc.els_filt assms(3) Not_def InFailureDomains_iff set_GetIDs_domains [OF assms(1,2)])
  have fd: "(\<exists>x\<in>elems ms. Machine_Spec_FailureDomain x = ?fd) \<and>
    (if \<exists>x\<in>elems ms. Machine_Spec_FailureDomain x \<notin> Some ` cp_domains c then ?fd \<notin> Some ` cp_domains c
     else \<exists>d\<in>cp_domains c. ?fd = Some d \<and> (\<forall>x\<in>elems ms. \<forall>d'. Machine_Spec_FailureDomain x = Some d' \<longrightarrow>
        machines_in (CP_Machines c) d' \<le> machines_in (CP_Machines c) d))"
  proof (cases "Oldest ?out")
    case (Some m)
    then have "m \<in> elems ms" "Machine_Spec_FailureDomain m \<notin> Some ` cp_domains c"
      using mc.oldest_in [OF Some] out by auto
    moreover have "?fd = Machine_Spec_FailureDomain m"
      by (simp add: FailureDomainWithMostMachines_def Let_def Some)
    ultimately show ?thesis by auto
  next
    case None
    then have all: "\<forall>x\<in>elems ms. Machine_Spec_FailureDomain x \<in> Some ` cp_domains c"
      using mc.oldest_None out by auto
    have pick: "?fd = ?pick"
      using None by (simp add: FailureDomainWithMostMachines_def Let_def CP_FailureDomains_def)
    note dom = FilterControlPlane_domains [OF assms(1,2)]
    note most = PickMost_spec [OF dom(2), of "CP_Machines c" ms, unfolded dom(1)]
    obtain d where d: "?pick = Some d"
      using most all assms(4) by (cases ?pick) force+
    then have "d \<in> cp_domains c" "\<exists>m\<in>elems ms. Machine_Spec_FailureDomain m = Some d"
      "\<forall>d'\<in>cp_domains c. (\<exists>m\<in>elems ms. Machine_Spec_FailureDomain m = Some d') \<longrightarrow>
         machines_in (CP_Machines c) d' \<le> machines_in (CP_Machines c) d"
      using most by blast+
    moreover have "d' \<in> cp_domains c" if "x \<in> elems ms" "Machine_Spec_FailureDomain x = Some d'" for x d'
      using all that by force
    ultimately show ?thesis
      unfolding pick d using all by auto
  qed
  let ?in = "Filter ms [InFailureDomains [?fd]]"
  have els: "elems ?in = {x \<in> elems ms. Machine_Spec_FailureDomain x = ?fd}"
    by (simp add: mc.els_filt assms(3) InFailureDomains_iff)
  then obtain m where m: "Oldest ?in = Some m" "m \<in> elems ?in"
    using mc.oldest_some [of ?in] fd by auto
  have "\<forall>x\<in>elems ms. Machine_Spec_FailureDomain x = Machine_Spec_FailureDomain m \<longrightarrow>
      CreationTimestamp (Machine_ObjectMeta m) \<le> CreationTimestamp (Machine_ObjectMeta x)"
    using mc.oldest_least [OF m(1)] not_Less_le m(2) by (simp add: els)
  moreover have "MachineInFailureDomainWithMostMachines e c ms = Inr m"
    by (simp add: MachineInFailureDomainWithMostMachines_def Let_def m(1))
  ultimately show ?thesis
    using m(2) fd by (intro exI [of _ m]) (simp add: els)
qed

text \<open>
  Picking the machine to delete succeeds whenever there is a candidate. When a candidate is
  outside the failure domains of the cluster that may hold control planes, the picked one is;
  otherwise it is in a failure domain with the most control plane machines among those that hold
  a candidate. In both cases it is the oldest candidate of its failure domain.
\<close>

lemma MachineInFailureDomainWithMostMachines_picks:
  assumes "ext_laws e" and "wf_map (CP_FailureDomains c)" and "wf_machines ms" and "elems ms \<noteq> {}"
  shows "\<exists>m. MachineInFailureDomainWithMostMachines e c ms = Inr m \<and> m \<in> elems ms \<and>
    (\<forall>x\<in>elems ms. Machine_Spec_FailureDomain x = Machine_Spec_FailureDomain m \<longrightarrow>
       CreationTimestamp (Machine_ObjectMeta m) \<le> CreationTimestamp (Machine_ObjectMeta x)) \<and>
    (if \<exists>x\<in>elems ms. Machine_Spec_FailureDomain x \<notin> Some ` cp_domains c
     then Machine_Spec_FailureDomain m \<notin> Some ` cp_domains c
     else \<exists>d\<in>cp_domains c. Machine_Spec_FailureDomain m = Some d \<and>
       (\<forall>x\<in>elems ms. \<forall>d'. Machine_Spec_FailureDomain x = Some d' \<longrightarrow>
          machines_in (CP_Machines c) d' \<le> machines_in (CP_Machines c) d))"
  by (rule MostMachines_picks [OF assms])

lemma MachineInFailureDomainWithMostMachines_picks_witness:
  "\<exists>m. MachineInFailureDomainWithMostMachines std_ext example_cp example_machines = Inr m \<and>
       m \<in> elems example_machines"
proof -
  have "elems example_machines \<noteq> {}"
    by (simp add: example_cp_wf(5))
  then show ?thesis
    using MachineInFailureDomainWithMostMachines_picks [OF std_ext_laws example_cp_wf(2,4)] by blast
qed

text \<open>
  The failure domain for the next machine is nil when the cluster has none that may hold
  control planes; otherwise it is such a failure domain, and none of them has fewer up-to-date
  control plane machines.
\<close>

lemma NextFailureDomainForScaleUp_fewest:
  assumes "ext_laws e" and "wf_map (CP_FailureDomains c)"
  shows "(NextFailureDomainForScaleUp e json c = None \<longleftrightarrow> cp_domains c = {}) \<and>
    (\<forall>d. NextFailureDomainForScaleUp e json c = Some d \<longrightarrow> d \<in> cp_domains c \<and>
       (\<forall>d'\<in>cp_domains c. machines_in (UpToDateMachines e json c) d \<le> machines_in (UpToDateMachines e json c) d'))"
proof -
  note dom = FilterControlPlane_domains [OF assms]
  have "NextFailureDomainForScaleUp e json c =
      (if cp_domains c = {} then None
       else PickFewest (FilterControlPlane e (CP_FailureDomains c)) (UpToDateMachines e json c))"
    using FilterControlPlane_empty [OF assms] by (simp add: NextFailureDomainForScaleUp_def CP_FailureDomains_def)
  then show ?thesis
    using PickFewest_spec [OF dom(2), of "UpToDateMachines e json c", unfolded dom(1)]
      FilterControlPlane_empty [OF assms] by auto
qed

lemma NextFailureDomainForScaleUp_fewest_witness:
  "\<exists>d. NextFailureDomainForScaleUp std_ext null_json example_cp = Some d \<and> d \<in> cp_domains example_cp"
proof -
  have "''a'' \<in> cp_domains example_cp"
    by (simp add: cp_domains_def CP_FailureDomains_def example_cp_def example_cluster_def)
  then show ?thesis
    using NextFailureDomainForScaleUp_fewest [OF std_ext_laws example_cp_wf(2), of null_json] by blast
qed

end
