(* ===== verification/Effects.thy ===== *)
theory Effects
  imports Prelude "HOL-Library.State_Monad"
begin

text \<open>
  Code with effects. An operation that talks to the outside is an action of the library's state
  monad. The state holds the trace of the calls made so far, and the reply to a call is a
  function of that trace: an environment is any strategy of replies, so a theorem for all
  environments covers every failure and every interleaving with other actors.

  \<open>wp\<close> is the weakest precondition of an action. Its rules, collected in \<open>wp_simps\<close>, push a
  postcondition through the do-blocks.
\<close>

named_theorems wp_simps \<open>rules of weakest preconditions\<close>

definition wp :: "('s, 'a) state \<Rightarrow> ('a \<Rightarrow> 's \<Rightarrow> bool) \<Rightarrow> 's \<Rightarrow> bool" where
  "wp m Q s = (case run_state m s of (a, s') \<Rightarrow> Q a s')"

lemma wp_return [wp_simps]: "wp (State_Monad.return a) Q = Q a"
  by (rule ext) (simp add: wp_def State_Monad.return_def)

lemma wp_bind [wp_simps]: "wp (State_Monad.bind m f) Q = wp m (\<lambda>a. wp (f a) Q)"
  by (rule ext) (simp add: wp_def State_Monad.bind_def split: prod.split)

lemma wp_get [wp_simps]: "wp State_Monad.get Q = (\<lambda>s. Q s s)"
  by (rule ext) (simp add: wp_def State_Monad.get_def)

lemma wp_set [wp_simps]: "wp (State_Monad.set s') Q = (\<lambda>s. Q () s')"
  by (rule ext) (simp add: wp_def State_Monad.set_def)

lemma wp_if [wp_simps]: "wp (if b then m else n) Q = (if b then wp m Q else wp n Q)"
  by simp

lemma wp_mono: "wp m P s \<Longrightarrow> (\<And>a s'. P a s' \<Longrightarrow> Q a s') \<Longrightarrow> wp m Q s"
  by (auto simp: wp_def split: prod.splits)

lemma wp_conj: "wp m P s \<Longrightarrow> wp m Q s \<Longrightarrow> wp m (\<lambda>a s'. P a s' \<and> Q a s') s"
  by (auto simp: wp_def split: prod.splits)

lemma wp_run: "run_state m s = (a, s') \<Longrightarrow> wp m Q s \<Longrightarrow> Q a s'"
  by (simp add: wp_def)

lemma wpI: "(\<And>a s'. run_state m s = (a, s') \<Longrightarrow> Q a s') \<Longrightarrow> wp m Q s"
  by (auto simp: wp_def split: prod.split)

text \<open>A state with a trace of calls; \<open>perform\<close> makes a call and reads the reply.\<close>

definition perform :: "'c \<Rightarrow> ('c list \<Rightarrow> 'a) \<Rightarrow> ('c list, 'a) state" where
  "perform c reply = State (\<lambda>t. (reply t, t @ [c]))"

lemma wp_perform [wp_simps]: "wp (perform c reply) Q = (\<lambda>t. Q (reply t) (t @ [c]))"
  by (rule ext) (simp add: wp_def perform_def)

text \<open>An invariant that every action of a loop keeps is kept by the loop.\<close>

fun mapM :: "('a \<Rightarrow> ('s, 'b) state) \<Rightarrow> 'a list \<Rightarrow> ('s, 'b list) state" where
  "mapM f [] = State_Monad.return []"
| "mapM f (x # xs) = do { y \<leftarrow> f x; ys \<leftarrow> mapM f xs; State_Monad.return (y # ys) }"

lemma wp_mapM:
  assumes "\<And>x s. x \<in> set xs \<Longrightarrow> I s \<Longrightarrow> wp (f x) (\<lambda>_. I) s" and "I s"
  shows "wp (mapM f xs) (\<lambda>_. I) s"
  using assms
proof (induction xs arbitrary: s)
  case Nil
  then show ?case by (simp add: wp_simps)
next
  case (Cons x xs)
  have "wp (mapM f xs) (\<lambda>_. I) s'" if "I s'" for s'
    using Cons that by simp
  moreover have "wp (f x) (\<lambda>_. I) s"
    using Cons.prems by simp
  ultimately show ?case
    by (auto simp: wp_simps intro: wp_mono)
qed

subsection \<open>Relations that actions keep\<close>

text \<open>
  A relation between the states before and after an action that can be chained is kept by an action
  when its parts keep it.
\<close>

locale chained =
  fixes R :: "'s \<Rightarrow> 's \<Rightarrow> bool"
  assumes R_refl: "R s s"
    and R_trans: "R s s1 \<Longrightarrow> R s1 s2 \<Longrightarrow> R s s2"
begin

definition steady :: "('s, 'a) state \<Rightarrow> bool" where
  "steady m \<longleftrightarrow> (\<forall>s. wp m (\<lambda>_. R s) s)"

lemma steady_bind:
  assumes "steady m" "\<And>a. steady (f a)"
  shows "steady (State_Monad.bind m f)"
  unfolding steady_def wp_bind
proof
  fix s
  have "wp (f a) (\<lambda>_. R s) s1" if "R s s1" for a s1
    using assms(2) [unfolded steady_def] by (auto intro: wp_mono R_trans [OF that])
  then show "wp m (\<lambda>a. wp (f a) (\<lambda>_. R s)) s"
    using assms(1) [unfolded steady_def] by (auto intro: wp_mono)
qed

lemma steady_return: "steady (State_Monad.return a)"
  by (simp add: steady_def wp_simps R_refl)

lemma steady_cases:
  "(b \<Longrightarrow> steady m) \<Longrightarrow> (\<not> b \<Longrightarrow> steady n) \<Longrightarrow> steady (if b then m else n)"
  "steady n \<Longrightarrow> (\<And>x. steady (f x)) \<Longrightarrow> steady (case opt of None \<Rightarrow> n | Some x \<Rightarrow> f x)"
  "(\<And>x. steady (g x)) \<Longrightarrow> (\<And>y. steady (h y)) \<Longrightarrow> steady (case sm of Inl x \<Rightarrow> g x | Inr y \<Rightarrow> h y)"
  "(\<And>x y. steady (k x y)) \<Longrightarrow> steady (case pr of (x, y) \<Rightarrow> k x y)"
  "steady m \<Longrightarrow> steady n \<Longrightarrow> steady (case b of True \<Rightarrow> m | False \<Rightarrow> n)"
  by (simp_all split: option.split sum.split prod.split bool.split)

lemma steadyD: "steady m \<Longrightarrow> wp m (\<lambda>_. R s) s"
  by (simp add: steady_def)

lemma steady_then: "steady m \<Longrightarrow> R s s1 \<Longrightarrow> wp m (\<lambda>_. R s) s1"
  by (rule wp_mono [OF steadyD]) (auto intro: R_trans)

lemmas steady_intros = steady_bind steady_return steady_cases

end

subsection \<open>Traces\<close>

text \<open>\<open>calls P t\<close>: every call of the trace satisfies \<open>P\<close>, given the trace before it.\<close>

definition calls :: "('c list \<Rightarrow> 'c \<Rightarrow> bool) \<Rightarrow> 'c list \<Rightarrow> bool" where
  "calls P t \<longleftrightarrow> (\<forall>i<length t. P (take i t) (t ! i))"

lemma calls_Nil [simp]: "calls P []"
  by (simp add: calls_def)

lemma calls_snoc [simp]: "calls P (t @ [c]) \<longleftrightarrow> calls P t \<and> P t c"
  by (auto simp: calls_def nth_append less_Suc_eq)

text \<open>\<open>seen Q t\<close>: some call of the trace satisfies \<open>Q\<close>, given the trace before it.\<close>

definition seen :: "('c list \<Rightarrow> 'c \<Rightarrow> bool) \<Rightarrow> 'c list \<Rightarrow> bool" where
  "seen Q t \<longleftrightarrow> (\<exists>i<length t. Q (take i t) (t ! i))"

lemma seen_iff_not_calls: "seen Q t \<longleftrightarrow> \<not> calls (\<lambda>h c. \<not> Q h c) t"
  by (auto simp: seen_def calls_def)

lemma seen_Nil [simp]: "\<not> seen Q []"
  by (simp add: seen_def)

lemma seen_snoc [simp]: "seen Q (t @ [c]) \<longleftrightarrow> seen Q t \<or> Q t c"
  by (simp add: seen_iff_not_calls)

lemma seen_mono: "seen Q t \<Longrightarrow> prefix t t' \<Longrightarrow> seen Q t'"
proof (induction t' rule: rev_induct)
  case Nil
  then show ?case by simp
next
  case (snoc c t')
  show ?case
  proof (cases "t = t' @ [c]")
    case True
    then show ?thesis using snoc.prems by simp
  next
    case False
    then have "prefix t t'" using snoc.prems(2) by (simp add: prefix_snoc)
    then show ?thesis using snoc by simp
  qed
qed

end
