(* ===== verification/Etcd.thy ===== *)
theory Etcd
  imports ControlPlane Effects
begin

text \<open>
  The etcd side of a workload cluster: the client wrapper \<open>etcd/etcd.go\<close>, the member helpers
  \<open>etcd/util/util.go\<close>, the choice of the node to connect to (\<open>etcd_client_generator.go\<close>) and the
  operations on members and leadership (\<open>workload_cluster_etcd.go\<close>).

  The environment gives the replies of the etcd client library, of the API server of the workload
  cluster and of the update of the kubeadm config map.
\<close>

subsection \<open>Members\<close>

record EtcdMember =
  ClusterID :: "64 word"
  ID :: "64 word"
  EtcdMember_Name :: string
  PeerURLs :: "string list"
  ClientURLs :: "string list"
  IsLearner :: bool
  Alarms :: "int list"

text \<open>The protobuf messages.\<close>

record pbMember =
  pb_ID :: "64 word"
  pb_Name :: string
  pb_PeerURLs :: "string list"
  pb_ClientURLs :: "string list"
  pb_IsLearner :: bool

record MemberAlarm =
  MemberID :: "64 word"
  MemberAlarm_Type :: int

definition pbMemberToMember :: "pbMember \<Rightarrow> EtcdMember" where
  "pbMemberToMember m =
     \<lparr>ClusterID = 0, ID = pb_ID m, EtcdMember_Name = pb_Name m, PeerURLs = pb_PeerURLs m,
      ClientURLs = pb_ClientURLs m, IsLearner = pb_IsLearner m, Alarms = []\<rparr>"

definition MemberForName :: "EtcdMember list \<Rightarrow> string \<Rightarrow> EtcdMember option" where
  "MemberForName members name = find (\<lambda>m. EtcdMember_Name m = name) members"

definition MemberNames :: "EtcdMember list \<Rightarrow> string list" where
  "MemberNames members = map EtcdMember_Name members"

definition MemberEqual :: "EtcdMember list \<Rightarrow> EtcdMember list \<Rightarrow> bool" where
  "MemberEqual members1 members2 \<longleftrightarrow> set (MemberNames members1) = set (MemberNames members2)"

subsection \<open>The client\<close>

datatype ecall =
    GetControlPlaneNodes
  | NewDialer
  | ClientNew "string list"
  | EtcdStatus string
  | ClientClose "string list"
  | MemberList string
  | AlarmList string
  | MemberRemove string "64 word"
  | MemberUpdate string "64 word" "string list"
  | CallMoveLeader string "64 word"
  | RemoveNodeFromConfigMap string

record etcd_env =
  reply_ControlPlaneNodes :: "ecall list \<Rightarrow> error + string list" \<comment> \<open>the names of the nodes\<close>
  reply_NewDialer :: "ecall list \<Rightarrow> error option"
  reply_New :: "string list \<Rightarrow> ecall list \<Rightarrow> error option"
  reply_Status :: "string \<Rightarrow> ecall list \<Rightarrow> error + (64 word \<times> string list)" \<comment> \<open>leader and errors\<close>
  reply_Close :: "string list \<Rightarrow> ecall list \<Rightarrow> error option"
  reply_MemberList :: "string \<Rightarrow> ecall list \<Rightarrow> error + (64 word \<times> pbMember list)"
  reply_AlarmList :: "string \<Rightarrow> ecall list \<Rightarrow> error + MemberAlarm list"
  reply_MemberRemove :: "string \<Rightarrow> 64 word \<Rightarrow> ecall list \<Rightarrow> error option"
  reply_MemberUpdate :: "string \<Rightarrow> 64 word \<Rightarrow> string list \<Rightarrow> ecall list \<Rightarrow> error + pbMember list"
  reply_MoveLeader :: "string \<Rightarrow> 64 word \<Rightarrow> ecall list \<Rightarrow> error option"
  reply_RemoveNode :: "string \<Rightarrow> ecall list \<Rightarrow> error option"

type_synonym 'a eact = "(ecall list, 'a) state"

record Client =
  Endpoint :: string
  LeaderID :: "64 word"
  Errors :: "string list"

definition newEtcdClient :: "'r etcd_env_scheme \<Rightarrow> string list \<Rightarrow> (error + Client) eact" where
  "newEtcdClient env endpoints =
     (case endpoints of
        [] \<Rightarrow> State_Monad.return (Inl (Err ''etcd client was not configured with any endpoints''))
      | endpoint # _ \<Rightarrow> do {
          status \<leftarrow> perform (EtcdStatus endpoint) (reply_Status env endpoint);
          State_Monad.return
            (case status of
               Inl err \<Rightarrow> Inl (Wrap ''failed to get etcd status'' err)
             | Inr (leader, errs) \<Rightarrow> Inr \<lparr>Endpoint = endpoint, LeaderID = leader, Errors = errs\<rparr>)
        })"

definition NewClient :: "'r etcd_env_scheme \<Rightarrow> string list \<Rightarrow> (error + Client) eact" where
  "NewClient env endpoints = do {
     dialer \<leftarrow> perform NewDialer (reply_NewDialer env);
     (case dialer of
        Some err \<Rightarrow> State_Monad.return (Inl (Wrap ''unable to create a dialer for etcd client'' err))
      | None \<Rightarrow> do {
          etcdClient \<leftarrow> perform (ClientNew endpoints) (reply_New env endpoints);
          (case etcdClient of
             Some err \<Rightarrow> State_Monad.return (Inl (Wrap ''unable to create etcd client'' err))
           | None \<Rightarrow> do {
               client \<leftarrow> newEtcdClient env endpoints;
               (case client of
                  Inl err \<Rightarrow> do {
                    closeErr \<leftarrow> perform (ClientClose endpoints) (reply_Close env endpoints);
                    State_Monad.return (Inl (Wrap ''unable to create etcd client''
                      (Aggregate (err # (case closeErr of Some c \<Rightarrow> [c] | None \<Rightarrow> [])))))
                  }
                | Inr c \<Rightarrow> State_Monad.return (Inr c))
             })
        })
   }"

definition Close :: "'r etcd_env_scheme \<Rightarrow> Client \<Rightarrow> error option eact" where
  "Close env c = perform (ClientClose [Endpoint c]) (reply_Close env [Endpoint c])"

definition list_alarms :: "'r etcd_env_scheme \<Rightarrow> Client \<Rightarrow> (error + MemberAlarm list) eact" where
  "list_alarms env c = do {
     r \<leftarrow> perform (AlarmList (Endpoint c)) (reply_AlarmList env (Endpoint c));
     State_Monad.return
       (case r of Inl err \<Rightarrow> Inl (Wrap ''failed to get alarms for etcd cluster'' err) | Inr as \<Rightarrow> Inr as)
   }"

definition to_member :: "64 word \<Rightarrow> MemberAlarm list \<Rightarrow> pbMember \<Rightarrow> EtcdMember" where
  "to_member clusterID alarms m =
     (pbMemberToMember m)\<lparr>ClusterID := clusterID,
        Alarms := map MemberAlarm_Type (filter (\<lambda>a. MemberID a = pb_ID m) alarms)\<rparr>"

definition Members :: "'r etcd_env_scheme \<Rightarrow> Client \<Rightarrow> (error + EtcdMember list) eact" where
  "Members env c = do {
     response \<leftarrow> perform (MemberList (Endpoint c)) (reply_MemberList env (Endpoint c));
     (case response of
        Inl err \<Rightarrow> State_Monad.return (Inl (Wrap ''failed to get list of members for etcd cluster'' err))
      | Inr (clusterID, pbs) \<Rightarrow> do {
          alarms \<leftarrow> list_alarms env c;
          State_Monad.return
            (case alarms of Inl err \<Rightarrow> Inl err | Inr as \<Rightarrow> Inr (map (to_member clusterID as) pbs))
        })
   }"

definition MoveLeader :: "'r etcd_env_scheme \<Rightarrow> Client \<Rightarrow> 64 word \<Rightarrow> error option eact" where
  "MoveLeader env c newLeaderID = do {
     err \<leftarrow> perform (CallMoveLeader (Endpoint c) newLeaderID) (reply_MoveLeader env (Endpoint c) newLeaderID);
     State_Monad.return (map_option (Wrap ''failed to move etcd leader'') err)
   }"

definition RemoveMember :: "'r etcd_env_scheme \<Rightarrow> Client \<Rightarrow> 64 word \<Rightarrow> error option eact" where
  "RemoveMember env c i = do {
     err \<leftarrow> perform (MemberRemove (Endpoint c) i) (reply_MemberRemove env (Endpoint c) i);
     State_Monad.return (map_option (Wrap ''failed to remove member'') err)
   }"

definition UpdateMemberPeerURLs ::
  "'r etcd_env_scheme \<Rightarrow> Client \<Rightarrow> 64 word \<Rightarrow> string list \<Rightarrow> (error + EtcdMember list) eact" where
  "UpdateMemberPeerURLs env c i peerURLs = do {
     response \<leftarrow> perform (MemberUpdate (Endpoint c) i peerURLs) (reply_MemberUpdate env (Endpoint c) i peerURLs);
     State_Monad.return
       (case response of
          Inl err \<Rightarrow> Inl (Wrap ''failed to update etcd member peer list'' err)
        | Inr pbs \<Rightarrow> Inr (map pbMemberToMember pbs))
   }"

text \<open>
  The pattern all users of a client share: the deferred \<open>Close\<close>, the list of the members, and what
  is done with it.
\<close>

definition with_members ::
  "'r etcd_env_scheme \<Rightarrow> Client \<Rightarrow> (error + EtcdMember list \<Rightarrow> 'a eact) \<Rightarrow> 'a eact" where
  "with_members env c body = do {
     members \<leftarrow> Members env c;
     result \<leftarrow> body members;
     _ \<leftarrow> Close env c;
     State_Monad.return result
   }"

subsection \<open>Choosing the node to connect to\<close>

definition staticPodName :: "string \<Rightarrow> string \<Rightarrow> string" where
  "staticPodName component nodeName = component @ ''-'' @ nodeName"

definition errEtcdNodeConnection :: error where
  "errEtcdNodeConnection = Err ''failed to connect to etcd node''"

fun first_available :: "'r etcd_env_scheme \<Rightarrow> string list \<Rightarrow> error list \<Rightarrow> (error + Client) eact" where
  "first_available env [] errs =
     State_Monad.return (Inl (Wrap ''could not establish a connection to any etcd node'' (Aggregate errs)))"
| "first_available env (name # names) errs = do {
     client \<leftarrow> NewClient env [staticPodName ''etcd'' name];
     (case client of
        Inl err \<Rightarrow> first_available env names (errs @ [err])
      | Inr c \<Rightarrow> State_Monad.return (Inr c))
   }"

definition forFirstAvailableNode :: "'r etcd_env_scheme \<Rightarrow> string list \<Rightarrow> (error + Client) eact" where
  "forFirstAvailableNode env nodeNames =
     (if nodeNames = []
      then State_Monad.return (Inl (Err ''invalid argument: forLeader can't be called with an empty list of nodes''))
      else first_available env nodeNames [])"

definition connect_to_leader ::
  "'r etcd_env_scheme \<Rightarrow> string list \<Rightarrow> Client \<Rightarrow> error + EtcdMember list \<Rightarrow> (error + Client) eact" where
  "connect_to_leader env allNodes c members =
     (case members of
        Inl err \<Rightarrow> State_Monad.return (Inl (Aggregate [err, errEtcdNodeConnection]))
      | Inr ms \<Rightarrow>
     (case find (\<lambda>m. ID m = LeaderID c) ms of
        Some leaderMember \<Rightarrow>
          (if EtcdMember_Name leaderMember \<notin> set allNodes
           then State_Monad.return (Inl (Err ''etcd leader is reported, but we couldn't find a corresponding Node in the cluster''))
           else forFirstAvailableNode env [EtcdMember_Name leaderMember])
      | None \<Rightarrow>
          State_Monad.return (Inl (Err ''etcd leader is reported, but we couldn't find any matching member''))))"

definition getLeaderClient :: "'r etcd_env_scheme \<Rightarrow> string \<Rightarrow> string list \<Rightarrow> (error + Client) eact" where
  "getLeaderClient env nodeName allNodes = do {
     client \<leftarrow> forFirstAvailableNode env [nodeName];
     (case client of
        Inl err \<Rightarrow> State_Monad.return (Inl (Aggregate [err, errEtcdNodeConnection]))
      | Inr c \<Rightarrow> with_members env c (connect_to_leader env allNodes c))
   }"

fun leader_loop :: "'r etcd_env_scheme \<Rightarrow> string list \<Rightarrow> string list \<Rightarrow> error list \<Rightarrow> (error + Client) eact" where
  "leader_loop env allNodes [] errs =
     State_Monad.return (Inl (Wrap ''could not establish a connection to the etcd leader'' (Aggregate errs)))"
| "leader_loop env allNodes (nodeName # nodeNames) errs = do {
     cl \<leftarrow> getLeaderClient env nodeName allNodes;
     (case cl of
        Inl err \<Rightarrow>
          (if errors_Is err errEtcdNodeConnection then leader_loop env allNodes nodeNames (errs @ [err])
           else State_Monad.return (Inl err))
      | Inr c \<Rightarrow> State_Monad.return (Inr c))
   }"

definition forLeader :: "'r etcd_env_scheme \<Rightarrow> string list \<Rightarrow> (error + Client) eact" where
  "forLeader env nodeNames =
     (if nodeNames = []
      then State_Monad.return (Inl (Err ''invalid argument: forLeader can't be called with an empty list of nodes''))
      else leader_loop env nodeNames nodeNames [])"

subsection \<open>Operations of the workload cluster\<close>

definition getControlPlaneNodes :: "'r etcd_env_scheme \<Rightarrow> (error + string list) eact" where
  "getControlPlaneNodes env = perform GetControlPlaneNodes (reply_ControlPlaneNodes env)"

definition RemoveNodeFromOCNEConfigMap :: "'r etcd_env_scheme \<Rightarrow> string \<Rightarrow> error option eact" where
  "RemoveNodeFromOCNEConfigMap env name = perform (RemoveNodeFromConfigMap name) (reply_RemoveNode env name)"

definition remove_listed_member ::
  "'r etcd_env_scheme \<Rightarrow> string \<Rightarrow> Client \<Rightarrow> error + EtcdMember list \<Rightarrow> error option eact" where
  "remove_listed_member env name c members =
     (case members of
        Inl err \<Rightarrow> State_Monad.return (Some (Wrap ''failed to list etcd members using etcd client'' err))
      | Inr ms \<Rightarrow>
     (case MemberForName ms name of
        None \<Rightarrow> State_Monad.return None
      | Some member \<Rightarrow> do {
          err \<leftarrow> RemoveMember env c (ID member);
          State_Monad.return (map_option (Wrap ''failed to remove member from etcd'') err)
        }))"

definition removeMemberForNode :: "'r etcd_env_scheme \<Rightarrow> string \<Rightarrow> error option eact" where
  "removeMemberForNode env name = do {
     nodes \<leftarrow> getControlPlaneNodes env;
     (case nodes of
        Inl err \<Rightarrow> State_Monad.return (Some err)
      | Inr controlPlaneNodes \<Rightarrow>
          (if length controlPlaneNodes < 2 then State_Monad.return (Some ErrControlPlaneMinNodes)
           else do {
             client \<leftarrow> forFirstAvailableNode env (filter (\<lambda>n. n \<noteq> name) controlPlaneNodes);
             (case client of
                Inl err \<Rightarrow> State_Monad.return (Some (Wrap ''failed to create etcd client'' err))
              | Inr c \<Rightarrow> with_members env c (remove_listed_member env name c))
           }))
   }"

definition RemoveEtcdMemberForMachine :: "'r etcd_env_scheme \<Rightarrow> Machine option \<Rightarrow> error option eact" where
  "RemoveEtcdMemberForMachine env machine =
     (case machine of
        None \<Rightarrow> State_Monad.return None
      | Some m \<Rightarrow>
     (case Machine_Status_NodeRef m of
        None \<Rightarrow> State_Monad.return None
      | Some ref \<Rightarrow> removeMemberForNode env (ObjectReference_Name ref)))"

fun remove_members ::
  "'r etcd_env_scheme \<Rightarrow> string list \<Rightarrow> EtcdMember list \<Rightarrow> string list \<times> error list \<Rightarrow>
   (string list \<times> error list) eact" where
  "remove_members env nodeNames [] acc = State_Monad.return acc"
| "remove_members env nodeNames (member # members) (removedMembers, errs) =
     (if EtcdMember_Name member = [] \<or> EtcdMember_Name member \<in> set nodeNames
      then remove_members env nodeNames members (removedMembers, errs)
      else do {
        err1 \<leftarrow> removeMemberForNode env (EtcdMember_Name member);
        err2 \<leftarrow> RemoveNodeFromOCNEConfigMap env (EtcdMember_Name member);
        remove_members env nodeNames members
          (removedMembers @ [EtcdMember_Name member],
           errs @ (case err1 of Some e \<Rightarrow> [e] | None \<Rightarrow> []) @ (case err2 of Some e \<Rightarrow> [e] | None \<Rightarrow> []))
      })"

definition reconcileEtcdMember ::
  "'r etcd_env_scheme \<Rightarrow> string list \<Rightarrow> string \<Rightarrow> (string list \<times> error list) eact" where
  "reconcileEtcdMember env nodeNames nodeName = do {
     client \<leftarrow> forFirstAvailableNode env [nodeName];
     (case client of
        Inl _ \<Rightarrow> State_Monad.return ([], [])
      | Inr c \<Rightarrow> with_members env c (\<lambda>members.
          case members of
            Inl _ \<Rightarrow> State_Monad.return ([], [])
          | Inr ms \<Rightarrow> remove_members env nodeNames ms ([], [])))
   }"

definition ReconcileEtcdMembers ::
  "'r etcd_env_scheme \<Rightarrow> string list \<Rightarrow> (string list \<times> error option) eact" where
  "ReconcileEtcdMembers env nodeNames = do {
     rs \<leftarrow> mapM (reconcileEtcdMember env nodeNames) nodeNames;
     State_Monad.return (concat (map fst rs), NewAggregate (concat (map snd rs)))
   }"

definition forward_listed_leader ::
  "'r etcd_env_scheme \<Rightarrow> string \<Rightarrow> string \<Rightarrow> Client \<Rightarrow> error + EtcdMember list \<Rightarrow> error option eact" where
  "forward_listed_leader env node candidateNode c members =
     (case members of
        Inl err \<Rightarrow> State_Monad.return (Some (Wrap ''failed to list etcd members using etcd client'' err))
      | Inr ms \<Rightarrow>
     (case MemberForName ms node of
        None \<Rightarrow> State_Monad.return None
      | Some currentMember \<Rightarrow>
          (if ID currentMember \<noteq> LeaderID c then State_Monad.return None
           else (case MemberForName ms candidateNode of
                   None \<Rightarrow> State_Monad.return (Some (Err ''failed to get etcd member from node''))
                 | Some nextLeader \<Rightarrow> do {
                     err \<leftarrow> MoveLeader env c (ID nextLeader);
                     State_Monad.return (map_option (Wrap ''failed to move leader'') err)
                   }))))"

definition ForwardEtcdLeadership ::
  "'r etcd_env_scheme \<Rightarrow> Machine option \<Rightarrow> Machine option \<Rightarrow> error option eact" where
  "ForwardEtcdLeadership env machine leaderCandidate =
     (case machine of None \<Rightarrow> State_Monad.return None | Some m \<Rightarrow>
     (case Machine_Status_NodeRef m of None \<Rightarrow> State_Monad.return None | Some ref \<Rightarrow>
     (case leaderCandidate of
        None \<Rightarrow> State_Monad.return (Some (Err ''leader candidate cannot be nil''))
      | Some candidate \<Rightarrow>
     (case Machine_Status_NodeRef candidate of
        None \<Rightarrow> State_Monad.return (Some (Err ''leader has no node reference''))
      | Some candidateRef \<Rightarrow> do {
          nodes \<leftarrow> getControlPlaneNodes env;
          (case nodes of
             Inl err \<Rightarrow> State_Monad.return (Some (Wrap ''failed to list control plane nodes'' err))
           | Inr nodeNames \<Rightarrow> do {
               client \<leftarrow> forLeader env nodeNames;
               (case client of
                  Inl err \<Rightarrow> State_Monad.return (Some (Wrap ''failed to create etcd client'' err))
                | Inr c \<Rightarrow> with_members env c
                    (forward_listed_leader env (ObjectReference_Name ref) (ObjectReference_Name candidateRef) c))
             })
        }))))"

definition EtcdMembers :: "'r etcd_env_scheme \<Rightarrow> (error + string list) eact" where
  "EtcdMembers env = do {
     nodes \<leftarrow> getControlPlaneNodes env;
     (case nodes of
        Inl err \<Rightarrow> State_Monad.return (Inl (Wrap ''failed to list control plane nodes'' err))
      | Inr nodeNames \<Rightarrow> do {
          client \<leftarrow> forLeader env nodeNames;
          (case client of
             Inl err \<Rightarrow> State_Monad.return (Inl (Wrap ''failed to create etcd client'' err))
           | Inr c \<Rightarrow> with_members env c (\<lambda>members. State_Monad.return
               (case members of
                  Inl err \<Rightarrow> Inl (Wrap ''failed to list etcd members using etcd client'' err)
                | Inr ms \<Rightarrow> Inr (MemberNames ms))))
        })
   }"

subsection \<open>What a trace shows\<close>

text \<open>The etcd at an endpoint has listed a member with an id and a name, and has named its leader.\<close>

definition listed :: "'r etcd_env_scheme \<Rightarrow> ecall list \<Rightarrow> string \<Rightarrow> 64 word \<Rightarrow> string \<Rightarrow> bool" where
  "listed env t ep i n \<longleftrightarrow>
     seen (\<lambda>h c. c = MemberList ep \<and>
        (\<exists>cid pbs. reply_MemberList env ep h = Inr (cid, pbs) \<and>
           (\<exists>p\<in>set pbs. pb_ID p = i \<and> pb_Name p = n))) t"

definition leader_seen :: "'r etcd_env_scheme \<Rightarrow> ecall list \<Rightarrow> string \<Rightarrow> 64 word \<Rightarrow> bool" where
  "leader_seen env t ep l \<longleftrightarrow>
     seen (\<lambda>h c. c = EtcdStatus ep \<and> (\<exists>es. reply_Status env ep h = Inr (l, es))) t"

lemma listed_mono: "listed env t ep i n \<Longrightarrow> prefix t t' \<Longrightarrow> listed env t' ep i n"
  unfolding listed_def by (rule seen_mono)

lemma leader_seen_mono: "leader_seen env t ep l \<Longrightarrow> prefix t t' \<Longrightarrow> leader_seen env t' ep l"
  unfolding leader_seen_def by (rule seen_mono)

lemma MemberForName_SomeD: "MemberForName ms n = Some m \<Longrightarrow> m \<in> set ms \<and> EtcdMember_Name m = n"
  by (auto simp: MemberForName_def find_Some_iff)

text \<open>The API server has listed two nodes or more.\<close>

definition two_nodes :: "'r etcd_env_scheme \<Rightarrow> ecall list \<Rightarrow> bool" where
  "two_nodes env t \<longleftrightarrow>
     seen (\<lambda>h c. c = GetControlPlaneNodes \<and> (\<exists>ns. reply_ControlPlaneNodes env h = Inr ns \<and> 2 \<le> length ns)) t"

lemma two_nodes_mono: "two_nodes env t \<Longrightarrow> prefix t t' \<Longrightarrow> two_nodes env t'"
  unfolding two_nodes_def by (rule seen_mono)

text \<open>When the member of a node may be removed through an endpoint.\<close>

definition removable :: "'r etcd_env_scheme \<Rightarrow> string \<Rightarrow> ecall list \<Rightarrow> string \<Rightarrow> 64 word \<Rightarrow> bool" where
  "removable env name t ep i \<longleftrightarrow>
     two_nodes env t \<and> listed env t ep i name \<and> ep \<noteq> staticPodName ''etcd'' name"

text \<open>
  When leadership may be handed to a member through an endpoint: that endpoint has named the member
  of the machine's node as leader, and has listed the member as that of the candidate's node.
\<close>

definition node_ref :: "Machine option \<Rightarrow> ObjectReference option" where
  "node_ref machine = Option.bind machine Machine_Status_NodeRef"

definition forwardable ::
  "'r etcd_env_scheme \<Rightarrow> Machine option \<Rightarrow> Machine option \<Rightarrow> ecall list \<Rightarrow> string \<Rightarrow> 64 word \<Rightarrow> bool" where
  "forwardable env machine candidate t ep i \<longleftrightarrow>
     (\<exists>a b l. node_ref machine = Some a \<and> node_ref candidate = Some b \<and> leader_seen env t ep l \<and>
        listed env t ep l (ObjectReference_Name a) \<and> listed env t ep i (ObjectReference_Name b))"

text \<open>Calls that change neither the etcd cluster nor the config map.\<close>

fun quiet :: "ecall \<Rightarrow> bool" where
  "quiet (MemberRemove _ _) = False"
| "quiet (MemberUpdate _ _ _) = False"
| "quiet (CallMoveLeader _ _) = False"
| "quiet (RemoveNodeFromConfigMap _) = False"
| "quiet _ = True"

text \<open>
  A client is good when the endpoint it talks to has told it the leader it knows. A list of members
  is one that the endpoint has returned.
\<close>

definition good_client :: "'r etcd_env_scheme \<Rightarrow> ecall list \<Rightarrow> Client \<Rightarrow> bool" where
  "good_client env t c \<longleftrightarrow> leader_seen env t (Endpoint c) (LeaderID c)"

definition members_of :: "'r etcd_env_scheme \<Rightarrow> ecall list \<Rightarrow> string \<Rightarrow> EtcdMember list \<Rightarrow> bool" where
  "members_of env t ep ms \<longleftrightarrow>
     seen (\<lambda>h c. c = MemberList ep \<and>
        (\<exists>cid pbs. reply_MemberList env ep h = Inr (cid, pbs) \<and>
           map (\<lambda>m. (ID m, EtcdMember_Name m)) ms = map (\<lambda>p. (pb_ID p, pb_Name p)) pbs)) t"

text \<open>The endpoint has returned a list of members without the name.\<close>

definition unlisted :: "'r etcd_env_scheme \<Rightarrow> ecall list \<Rightarrow> string \<Rightarrow> string \<Rightarrow> bool" where
  "unlisted env t ep n \<longleftrightarrow>
     seen (\<lambda>h c. c = MemberList ep \<and>
        (\<exists>cid pbs. reply_MemberList env ep h = Inr (cid, pbs) \<and> n \<notin> pb_Name ` set pbs)) t"

lemma members_of_listed:
  assumes "members_of env t ep ms" "m \<in> set ms"
  shows "listed env t ep (ID m) (EtcdMember_Name m)"
proof -
  have "\<exists>p\<in>set pbs. pb_ID p = ID m \<and> pb_Name p = EtcdMember_Name m"
    if "map (\<lambda>m. (ID m, EtcdMember_Name m)) ms = map (\<lambda>p. (pb_ID p, pb_Name p)) pbs" for pbs
  proof -
    have "(ID m, EtcdMember_Name m) \<in> set (map (\<lambda>p. (pb_ID p, pb_Name p)) pbs)"
      using assms(2) by (simp flip: that)
    then show ?thesis by auto
  qed
  then show ?thesis
    using assms(1) unfolding members_of_def listed_def seen_def by blast
qed

lemma members_of_unlisted:
  assumes "members_of env t ep ms" "MemberForName ms n = None"
  shows "unlisted env t ep n"
proof -
  have "n \<notin> pb_Name ` set pbs"
    if "map (\<lambda>m. (ID m, EtcdMember_Name m)) ms = map (\<lambda>p. (pb_ID p, pb_Name p)) pbs" for pbs
  proof -
    have "map EtcdMember_Name ms = map pb_Name pbs"
      using arg_cong [OF that, of "map snd"] by (simp add: comp_def)
    then have "EtcdMember_Name ` set ms = pb_Name ` set pbs"
      by (metis list.set_map)
    moreover have "n \<notin> EtcdMember_Name ` set ms"
      using assms(2) by (auto simp: MemberForName_def find_None_iff)
    ultimately show ?thesis by simp
  qed
  then show ?thesis
    using assms(1) unfolding members_of_def unlisted_def seen_def by blast
qed

lemma good_client_mono: "good_client env t c \<Longrightarrow> prefix t t' \<Longrightarrow> good_client env t' c"
  unfolding good_client_def by (rule leader_seen_mono)

text \<open>The endpoint of one of the given nodes.\<close>

definition endpoint_of :: "string list \<Rightarrow> string \<Rightarrow> bool" where
  "endpoint_of nodes ep \<longleftrightarrow> (\<exists>n\<in>set nodes. ep = staticPodName ''etcd'' n)"

definition connected ::
  "'r etcd_env_scheme \<Rightarrow> string list \<Rightarrow> (error + Client) \<Rightarrow> ecall list \<Rightarrow> bool" where
  "connected env nodes r t \<longleftrightarrow> (\<forall>c. r = Inr c \<longrightarrow> endpoint_of nodes (Endpoint c) \<and> good_client env t c)"

lemma connected_Inl [simp]: "connected env nodes (Inl e) t"
  by (simp add: connected_def)

lemma connected_mono:
  "connected env nodes r t \<Longrightarrow> prefix t t' \<Longrightarrow> set nodes \<subseteq> set nodes' \<Longrightarrow> connected env nodes' r t'"
  by (auto simp: connected_def endpoint_of_def intro: good_client_mono)

text \<open>
  A property of traces that quiet calls keep is kept by everything that only connects and reads.
\<close>

locale kept_by_quiet =
  fixes I :: "ecall list \<Rightarrow> bool"
  assumes quiet_step: "I t \<Longrightarrow> quiet c \<Longrightarrow> I (t @ [c])"
begin

lemma NewClient_wp:
  fixes env :: "'r etcd_env_scheme"
  assumes "I t"
  shows "wp (NewClient env [staticPodName ''etcd'' n])
    (\<lambda>r t'. I t' \<and> prefix t t' \<and> connected env [n] r t') t"
  using assms
  by (auto simp: NewClient_def newEtcdClient_def wp_simps connected_def endpoint_of_def good_client_def
      leader_seen_def quiet_step simp del: append_assoc intro: prefix_order.trans [of _ "_ @ _"]
      split: option.split sum.split)

lemma first_available_wp:
  fixes env :: "'r etcd_env_scheme"
  assumes "I t"
  shows "wp (first_available env names errs)
    (\<lambda>r t'. I t' \<and> prefix t t' \<and> connected env names r t') t"
  using assms
proof (induction names arbitrary: errs t)
  case Nil
  then show ?case by (simp add: wp_simps)
next
  case (Cons n names)
  have IH: "wp (first_available env names es)
      (\<lambda>r u'. I u' \<and> prefix t u' \<and> connected env (n # names) r u') u"
    if "I u" "prefix t u" for es u
    by (rule wp_mono [OF Cons.IH [OF that(1)]])
      (use that(2) in \<open>auto intro: prefix_order.trans connected_mono\<close>)
  show ?case
    unfolding first_available.simps wp_bind
    by (rule wp_mono [OF NewClient_wp [OF Cons.prems]])
      (auto simp: wp_simps IH split: sum.split intro: connected_mono)
qed

lemma forFirstAvailableNode_wp:
  fixes env :: "'r etcd_env_scheme"
  assumes "I t"
  shows "wp (forFirstAvailableNode env names)
    (\<lambda>r t'. I t' \<and> prefix t t' \<and> connected env names r t') t"
  using first_available_wp [OF assms, of env names "[]"] assms
  by (simp add: forFirstAvailableNode_def wp_simps)

lemma Members_wp:
  fixes env :: "'r etcd_env_scheme"
  assumes "I t"
  shows "wp (Members env c) (\<lambda>r t'. I t' \<and> prefix t t' \<and>
    (\<forall>ms. r = Inr ms \<longrightarrow> members_of env t' (Endpoint c) ms)) t"
  using assms
  by (auto simp: Members_def list_alarms_def wp_simps quiet_step members_of_def to_member_def
      pbMemberToMember_def comp_def simp del: append_assoc intro: prefix_order.trans [of _ "_ @ _"] split: sum.split)

text \<open>What follows a list of the members may break \<open>I\<close>; its result survives the \<open>Close\<close>.\<close>

lemma with_members_wp:
  fixes env :: "'r etcd_env_scheme"
  assumes "I t"
    and body: "\<And>(members :: error + EtcdMember list) u. I u \<Longrightarrow> prefix t u \<Longrightarrow>
      (\<forall>ms. members = Inr ms \<longrightarrow> members_of env u (Endpoint c) ms) \<Longrightarrow>
      wp (body members) (\<lambda>r t'. prefix u t' \<and> Q r t') u"
    and Q: "\<And>r u d. Q r u \<Longrightarrow> quiet d \<Longrightarrow> Q r (u @ [d])"
  shows "wp (with_members env c body) (\<lambda>r t'. prefix t t' \<and> Q r t') t"
  unfolding with_members_def wp_bind
proof (rule wp_mono [OF Members_wp [OF assms(1), of env c]], elim conjE)
  fix members :: "error + EtcdMember list" and u
  assume u: "I u" "prefix t u" "\<forall>ms. members = Inr ms \<longrightarrow> members_of env u (Endpoint c) ms"
  show "wp (body members) (\<lambda>r. wp (Close env c) (\<lambda>_. wp (State_Monad.return r)
      (\<lambda>r t'. prefix t t' \<and> Q r t'))) u"
    by (rule wp_mono [OF body [OF u]])
      (use u(2) prefix_order.trans Q in \<open>auto simp: wp_simps Close_def\<close>)
qed

lemma connect_to_leader_wp:
  fixes env :: "'r etcd_env_scheme"
  assumes "I t"
  shows "wp (connect_to_leader env nodes c members)
    (\<lambda>r t'. prefix t t' \<and> I t' \<and> connected env nodes r t') t"
proof -
  have "wp (forFirstAvailableNode env [EtcdMember_Name l])
      (\<lambda>r t'. prefix t t' \<and> I t' \<and> connected env nodes r t') t"
    if "EtcdMember_Name l \<in> set nodes" for l :: EtcdMember
    by (rule wp_mono [OF forFirstAvailableNode_wp [OF assms]]) (use that in \<open>auto intro: connected_mono\<close>)
  then show ?thesis
    using assms by (simp add: connect_to_leader_def wp_simps split: sum.split option.split)
qed

lemma getLeaderClient_wp:
  fixes env :: "'r etcd_env_scheme"
  assumes "I t"
  shows "wp (getLeaderClient env name nodes)
    (\<lambda>r t'. prefix t t' \<and> I t' \<and> connected env nodes r t') t"
proof -
  have "wp (with_members env c (connect_to_leader env nodes c))
      (\<lambda>r t'. prefix u t' \<and> I t' \<and> connected env nodes r t') u" if "I u" for u c
    by (rule with_members_wp [OF that]) (auto intro: connect_to_leader_wp quiet_step connected_mono)
  then have "wp (with_members env c (connect_to_leader env nodes c))
      (\<lambda>r t'. prefix t t' \<and> I t' \<and> connected env nodes r t') u" if "I u" "prefix t u" for u c
    using that wp_mono prefix_order.trans by (smt (verit, best))
  then show ?thesis
    unfolding getLeaderClient_def wp_bind
    by (intro wp_mono [OF forFirstAvailableNode_wp [OF assms]]) (auto simp: wp_simps split: sum.split)
qed

lemma leader_loop_wp:
  fixes env :: "'r etcd_env_scheme"
  assumes "I u" "prefix t u"
  shows "wp (leader_loop env nodes names errs)
    (\<lambda>r t'. prefix t t' \<and> I t' \<and> connected env nodes r t') u"
  using assms
proof (induction names arbitrary: errs u)
  case (Cons n names)
  show ?case
    unfolding leader_loop.simps wp_bind
    by (rule wp_mono [OF getLeaderClient_wp [OF Cons.prems(1)]])
      (use Cons in \<open>auto simp: wp_simps split: sum.split intro: prefix_order.trans\<close>)
qed (simp add: wp_simps)

lemma forLeader_wp:
  fixes env :: "'r etcd_env_scheme"
  assumes "I t"
  shows "wp (forLeader env nodes)
    (\<lambda>r t'. prefix t t' \<and> I t' \<and> connected env nodes r t') t"
  using leader_loop_wp [OF assms prefix_order.refl, of env nodes nodes "[]"] assms by (simp add: forLeader_def wp_simps)

text \<open>
  \<open>removeMemberForNode\<close> does nothing but read, or removes the listed member of the node through the
  endpoint of another node, after the API server has listed two nodes or more.
\<close>

lemma removeMemberForNode_wp:
  fixes env :: "'r etcd_env_scheme"
  assumes t: "I t"
    and J: "\<And>e u. I u \<Longrightarrow> J (Some e) u" "\<And>r u d. J r u \<Longrightarrow> quiet d \<Longrightarrow> J r (u @ [d])"
    and gone: "\<And>u ep. I u \<Longrightarrow> unlisted env u ep name \<Longrightarrow> J None u"
    and removal: "\<And>u ep i r. I u \<Longrightarrow> removable env name u ep i \<Longrightarrow>
      (r = None \<longleftrightarrow> reply_MemberRemove env ep i u = None) \<Longrightarrow> J r (u @ [MemberRemove ep i])"
  shows "wp (removeMemberForNode env name) (\<lambda>r t'. prefix t t' \<and> J r t') t"
proof -
  define v where "v = t @ [GetControlPlaneNodes]"
  have Iv: "I v" and pv: "prefix t v"
    using t by (auto simp: v_def intro: quiet_step)
  have body: "wp (remove_listed_member env name c members) (\<lambda>r t'. prefix u t' \<and> J r t') u"
    if u: "I u" "prefix v u" "two_nodes env v" "endpoint_of (filter (\<lambda>n. n \<noteq> name) ns) (Endpoint c)"
      and ms: "\<forall>ms. members = Inr ms \<longrightarrow> members_of env u (Endpoint c) ms" for members u c ns
  proof -
    have "removable env name u (Endpoint c) (ID m)" if "members = Inr l" "MemberForName l name = Some m" for l m
      using that u ms MemberForName_SomeD [of l name m]
      by (auto simp: removable_def endpoint_of_def staticPodName_def dest: members_of_listed
          intro: two_nodes_mono)
    moreover have "J None u" if "members = Inr l" "MemberForName l name = None" for l
      using that ms u(1) by (intro gone) (auto intro: members_of_unlisted)
    ultimately show ?thesis
      using u(1) J removal
      by (auto simp: remove_listed_member_def RemoveMember_def wp_simps split: sum.split option.split)
  qed
  have client: "wp (with_members env c (remove_listed_member env name c)) (\<lambda>r t'. prefix u t' \<and> J r t') u"
    if "I u" "prefix v u" "two_nodes env v" "endpoint_of (filter (\<lambda>n. n \<noteq> name) ns) (Endpoint c)" for u c ns
    by (rule with_members_wp [OF that(1)]) (use that in \<open>auto intro: body prefix_order.trans J(2)\<close>)
  have "wp (forFirstAvailableNode env (filter (\<lambda>n. n \<noteq> name) ns)) (\<lambda>client.
      wp (case client of
            Inl err \<Rightarrow> State_Monad.return (Some (Wrap ''failed to create etcd client'' err))
          | Inr c \<Rightarrow> with_members env c (remove_listed_member env name c)) (\<lambda>r t'. prefix t t' \<and> J r t')) v"
    if two: "two_nodes env v" for ns
  proof (rule wp_mono [OF forFirstAvailableNode_wp [OF Iv]], elim conjE)
    fix client u
    assume "I u" "prefix v u" "connected env (filter (\<lambda>n. n \<noteq> name) ns) client u"
    then show "wp (case client of
            Inl err \<Rightarrow> State_Monad.return (Some (Wrap ''failed to create etcd client'' err))
          | Inr c \<Rightarrow> with_members env c (remove_listed_member env name c)) (\<lambda>r t'. prefix t t' \<and> J r t') u"
      using pv two J(1)
      by (auto simp: wp_simps connected_def split: sum.split
          intro: prefix_order.trans intro!: wp_mono [OF client])
  qed
  moreover have "two_nodes env v" if "reply_ControlPlaneNodes env t = Inr ns" "\<not> length ns < 2" for ns
    using that by (auto simp: v_def two_nodes_def)
  ultimately show ?thesis
    using Iv pv J(1)
    by (auto simp: removeMemberForNode_def getControlPlaneNodes_def wp_simps v_def [symmetric] split: sum.split)
qed

lemma ForwardEtcdLeadership_wp:
  fixes env :: "'r etcd_env_scheme"
  assumes t: "I t"
    and J: "\<And>u. I u \<Longrightarrow> J u" "\<And>u d. J u \<Longrightarrow> quiet d \<Longrightarrow> J (u @ [d])"
    and move: "\<And>u ep i. I u \<Longrightarrow> forwardable env machine candidate u ep i \<Longrightarrow> J (u @ [CallMoveLeader ep i])"
  shows "wp (ForwardEtcdLeadership env machine candidate) (\<lambda>_ t'. prefix t t' \<and> J t') t"
proof -
  define v where "v = t @ [GetControlPlaneNodes]"
  have Iv: "I v" and pv: "prefix t v"
    using t by (auto simp: v_def intro: quiet_step)
  have body: "wp (forward_listed_leader env (ObjectReference_Name a) (ObjectReference_Name b) c members)
      (\<lambda>_ t'. prefix u t' \<and> J t') u"
    if u: "I u" "good_client env u c" "\<forall>ms. members = Inr ms \<longrightarrow> members_of env u (Endpoint c) ms"
      and refs: "node_ref machine = Some a" "node_ref candidate = Some b" for members u c a b
  proof -
    have "forwardable env machine candidate u (Endpoint c) (ID n)"
      if "members = Inr l" "MemberForName l (ObjectReference_Name a) = Some m" "ID m = LeaderID c"
        "MemberForName l (ObjectReference_Name b) = Some n" for l m n
      using that u refs MemberForName_SomeD [OF that(2)] MemberForName_SomeD [OF that(4)]
      unfolding forwardable_def good_client_def by (metis members_of_listed)
    then show ?thesis
      using u(1) J(1) move
      by (auto simp: forward_listed_leader_def MoveLeader_def wp_simps split: sum.split option.split)
  qed
  have client: "wp (with_members env c
        (forward_listed_leader env (ObjectReference_Name a) (ObjectReference_Name b) c))
      (\<lambda>_ t'. prefix u t' \<and> J t') u"
    if "I u" "good_client env u c" "node_ref machine = Some a" "node_ref candidate = Some b" for u c a b
    by (rule with_members_wp [OF that(1)]) (use that in \<open>auto intro: body good_client_mono J(2)\<close>)
  have "wp (forLeader env ns) (\<lambda>client.
      wp (case client of
            Inl err \<Rightarrow> State_Monad.return (Some (Wrap ''failed to create etcd client'' err))
          | Inr c \<Rightarrow> with_members env c
              (forward_listed_leader env (ObjectReference_Name a) (ObjectReference_Name b) c))
        (\<lambda>_ t'. prefix t t' \<and> J t')) v"
    if "node_ref machine = Some a" "node_ref candidate = Some b" for ns a b
  proof (rule wp_mono [OF forLeader_wp [OF Iv]], elim conjE)
    fix client u
    assume "I u" "prefix v u" "connected env ns client u"
    then show "wp (case client of
            Inl err \<Rightarrow> State_Monad.return (Some (Wrap ''failed to create etcd client'' err))
          | Inr c \<Rightarrow> with_members env c
              (forward_listed_leader env (ObjectReference_Name a) (ObjectReference_Name b) c))
        (\<lambda>_ t'. prefix t t' \<and> J t') u"
      using pv J(1) that
      by (auto simp: wp_simps connected_def split: sum.split
          intro: prefix_order.trans intro!: wp_mono [OF client])
  qed
  then show ?thesis
    using Iv pv J(1) t
    by (auto simp: ForwardEtcdLeadership_def getControlPlaneNodes_def node_ref_def wp_simps v_def [symmetric]
        split: sum.split option.split)
qed

end

subsection \<open>The operations change the cluster only as they should\<close>

text \<open>A trace with at most one change, which is made when \<open>P\<close> allows it.\<close>

definition one_change :: "(ecall list \<Rightarrow> ecall \<Rightarrow> bool) \<Rightarrow> ecall list \<Rightarrow> bool" where
  "one_change P t \<longleftrightarrow> list_all quiet t \<or>
     (\<exists>h c u. t = h @ c # u \<and> list_all quiet h \<and> list_all quiet u \<and> P h c)"

lemma one_change_snoc: "one_change P t \<Longrightarrow> quiet c \<Longrightarrow> one_change P (t @ [c])"
  unfolding one_change_def by fastforce

lemma one_changeI: "list_all quiet h \<Longrightarrow> P h c \<Longrightarrow> one_change P (h @ [c])"
  unfolding one_change_def by fastforce

interpretation reads: kept_by_quiet "list_all quiet"
  by unfold_locales simp

text \<open>What \<open>ReconcileEtcdMembers\<close> may do: remove members and entries of names that are no node.\<close>

fun reconcile_guard :: "'r etcd_env_scheme \<Rightarrow> string list \<Rightarrow> ecall list \<Rightarrow> ecall \<Rightarrow> bool" where
  "reconcile_guard env nodes h (MemberRemove ep i) \<longleftrightarrow>
     (\<exists>n. n \<noteq> [] \<and> n \<notin> set nodes \<and> removable env n h ep i)"
| "reconcile_guard env nodes h (RemoveNodeFromConfigMap n) \<longleftrightarrow> n \<noteq> [] \<and> n \<notin> set nodes"
| "reconcile_guard env nodes h c \<longleftrightarrow> quiet c"

lemma reconcile_guard_quiet: "quiet c \<Longrightarrow> reconcile_guard env nodes h c"
  by (cases c) auto

interpretation guarded: kept_by_quiet "calls (reconcile_guard env nodes)" for env nodes
  by unfold_locales (simp add: reconcile_guard_quiet)

definition stale :: "string list \<Rightarrow> string list \<Rightarrow> bool" where
  "stale nodes names \<longleftrightarrow> (\<forall>n\<in>set names. n \<noteq> [] \<and> n \<notin> set nodes)"

lemma remove_members_wp:
  fixes env :: "'r etcd_env_scheme"
  assumes "calls (reconcile_guard env nodes) t" "stale nodes (fst acc)"
  shows "wp (remove_members env nodes ms acc)
    (\<lambda>r t'. prefix t t' \<and> calls (reconcile_guard env nodes) t' \<and> stale nodes (fst r)) t"
  using assms
proof (induction ms arbitrary: t acc)
  case Nil
  then show ?case by (simp add: wp_simps)
next
  case (Cons m ms)
  obtain rs es where acc: "acc = (rs, es)" by (cases acc)
  show ?case
  proof (cases "EtcdMember_Name m = [] \<or> EtcdMember_Name m \<in> set nodes")
    case True
    then show ?thesis using Cons acc by auto
  next
    case False
    have removal: "wp (removeMemberForNode env (EtcdMember_Name m))
        (\<lambda>_ t'. prefix t t' \<and> calls (reconcile_guard env nodes) t') t"
      by (rule guarded.removeMemberForNode_wp) (use Cons.prems False in \<open>auto simp: reconcile_guard_quiet\<close>)
    have "stale nodes (rs @ [EtcdMember_Name m])"
      using False Cons.prems(2) acc by (auto simp: stale_def)
    then have rest: "wp (remove_members env nodes ms (rs @ [EtcdMember_Name m], es'))
        (\<lambda>r t'. prefix t t' \<and> calls (reconcile_guard env nodes) t' \<and> stale nodes (fst r)) u"
      if "calls (reconcile_guard env nodes) u" "prefix t u" for u es'
      by (intro wp_mono [OF Cons.IH [OF that(1)]]) (use that(2) prefix_order.trans in auto)
    show ?thesis
      using False
      by (auto simp: acc wp_simps RemoveNodeFromOCNEConfigMap_def intro!: wp_mono [OF removal] rest)
  qed
qed

lemma reconcileEtcdMember_wp:
  fixes env :: "'r etcd_env_scheme"
  assumes "calls (reconcile_guard env nodes) t"
  shows "wp (reconcileEtcdMember env nodes n)
    (\<lambda>r t'. prefix t t' \<and> calls (reconcile_guard env nodes) t' \<and> stale nodes (fst r)) t"
proof -
  have client: "wp (with_members env c (\<lambda>members. case members of
          Inl _ \<Rightarrow> State_Monad.return ([], [])
        | Inr ms \<Rightarrow> remove_members env nodes ms ([], [])))
      (\<lambda>r t'. prefix u t' \<and> calls (reconcile_guard env nodes) t' \<and> stale nodes (fst r)) u"
    if "calls (reconcile_guard env nodes) u" for u c
    by (rule guarded.with_members_wp [OF that])
      (auto simp: wp_simps reconcile_guard_quiet stale_def split: sum.split
        intro!: remove_members_wp [unfolded stale_def])
  show ?thesis
    unfolding reconcileEtcdMember_def wp_bind
    by (rule wp_mono [OF guarded.forFirstAvailableNode_wp [OF assms]])
      (auto simp: wp_simps stale_def split: sum.split intro: prefix_order.trans
        intro!: wp_mono [OF client [unfolded stale_def]])
qed

lemma mapM_reconcile_wp:
  fixes env :: "'r etcd_env_scheme"
  assumes "calls (reconcile_guard env nodes) t"
  shows "wp (mapM (reconcileEtcdMember env nodes) ns)
    (\<lambda>rs t'. calls (reconcile_guard env nodes) t' \<and> stale nodes (concat (map fst rs))) t"
  using assms
proof (induction ns arbitrary: t)
  case Nil
  then show ?case by (simp add: wp_simps stale_def)
next
  case (Cons n ns)
  show ?case
    unfolding mapM.simps wp_bind
    by (rule wp_mono [OF reconcileEtcdMember_wp [OF Cons.prems]], elim conjE, rule wp_mono [OF Cons.IH])
      (auto simp: wp_simps stale_def)
qed

lemma ReconcileEtcdMembers_wp:
  fixes env :: "'r etcd_env_scheme"
  assumes "calls (reconcile_guard env nodes) t"
  shows "wp (ReconcileEtcdMembers env nodes)
    (\<lambda>r t'. calls (reconcile_guard env nodes) t' \<and> stale nodes (fst r)) t"
  unfolding ReconcileEtcdMembers_def wp_bind
  by (rule wp_mono [OF mapM_reconcile_wp [OF assms]]) (simp add: wp_simps)

text \<open>A cluster of two nodes \<open>a\<close> and \<open>b\<close> whose etcd, led by \<open>a\<close>, still has the member of \<open>c\<close>.\<close>

definition example_etcd :: etcd_env where
  "example_etcd =
     \<lparr>reply_ControlPlaneNodes = \<lambda>_. Inr [''a'', ''b''], reply_NewDialer = \<lambda>_. None, reply_New = \<lambda>_ _. None,
      reply_Status = \<lambda>_ _. Inr (1, []), reply_Close = \<lambda>_ _. None,
      reply_MemberList = \<lambda>_ _. Inr (7,
        [\<lparr>pb_ID = 1, pb_Name = ''a'', pb_PeerURLs = [], pb_ClientURLs = [], pb_IsLearner = False\<rparr>,
         \<lparr>pb_ID = 2, pb_Name = ''b'', pb_PeerURLs = [], pb_ClientURLs = [], pb_IsLearner = False\<rparr>,
         \<lparr>pb_ID = 3, pb_Name = ''c'', pb_PeerURLs = [], pb_ClientURLs = [], pb_IsLearner = False\<rparr>]),
      reply_AlarmList = \<lambda>_ _. Inr [], reply_MemberRemove = \<lambda>_ _ _. None,
      reply_MemberUpdate = \<lambda>_ _ _ _. Inr [], reply_MoveLeader = \<lambda>_ _ _. None,
      reply_RemoveNode = \<lambda>_ _. None\<rparr>"

definition example_node_machine :: "string \<Rightarrow> Machine" where
  "example_node_machine n = (machine_at n 0 None)\<lparr>Machine_Status_NodeRef := Some
     \<lparr>ObjectReference_Kind = ''Node'', ObjectReference_Namespace = [], ObjectReference_Name = n,
      ObjectReference_UID = [], ObjectReference_APIVersion = ''v1''\<rparr>\<rparr>"

text \<open>
  C13. Whatever the etcd members, the API server and their failures do, \<open>ReconcileEtcdMembers\<close> never
  moves leadership and never updates a member. Every member it removes has a name that is not
  empty and is not one of the given nodes, was listed with that id by the endpoint asked, and is
  removed through the endpoint of another node after at least two nodes have been listed; the
  entries it takes out of the config map and the names it reports are stale in the same way.
\<close>

theorem ReconcileEtcdMembers_only_stale:
  "case run_state (ReconcileEtcdMembers env nodes) [] of
     (r, t) \<Rightarrow> calls (reconcile_guard env nodes) t \<and> stale nodes (fst r)"
  using ReconcileEtcdMembers_wp [of env nodes "[]"] by (simp add: wp_def)

text \<open>
  C14. \<open>RemoveEtcdMemberForMachine\<close> makes at most one change to the cluster: it removes the listed
  member of the machine's node, never through the endpoint on that node, and only after at least
  two control plane nodes have been listed, so the last member stays.
\<close>

theorem RemoveEtcdMemberForMachine_safe:
  "one_change
     (\<lambda>h c. \<exists>ep i ref. c = MemberRemove ep i \<and> node_ref machine = Some ref \<and>
        removable env (ObjectReference_Name ref) h ep i)
     (snd (run_state (RemoveEtcdMemberForMachine env machine) []))"
proof (cases "node_ref machine")
  case None
  then show ?thesis
    by (auto simp: RemoveEtcdMemberForMachine_def node_ref_def one_change_def State_Monad.return_def
        split: option.split)
next
  case (Some ref)
  let ?P = "\<lambda>h c. \<exists>ep i ref. c = MemberRemove ep i \<and> node_ref machine = Some ref \<and>
    removable env (ObjectReference_Name ref) h ep i"
  have "wp (removeMemberForNode env (ObjectReference_Name ref)) (\<lambda>r t. prefix [] t \<and> one_change ?P t) []"
    by (rule reads.removeMemberForNode_wp)
      (auto simp: one_change_def [of _ "[]"] Some intro: one_change_snoc one_changeI one_change_def [THEN iffD2])
  then show ?thesis
    using Some
    by (auto simp: RemoveEtcdMemberForMachine_def node_ref_def wp_def split: option.splits prod.splits bind_splits)
qed

text \<open>
  When \<open>RemoveEtcdMemberForMachine\<close> reports success for a machine with a node, the member is
  gone: a removal of the id listed under the node's name has succeeded, or an endpoint has listed
  the members without that name.
\<close>

lemma RemoveEtcdMemberForMachine_done:
  assumes "node_ref machine = Some ref"
    and "run_state (RemoveEtcdMemberForMachine env machine) [] = (None, t)"
  shows "(\<exists>ep. unlisted env t ep (ObjectReference_Name ref)) \<or>
    seen (\<lambda>h c. \<exists>ep i. c = MemberRemove ep i \<and> removable env (ObjectReference_Name ref) h ep i \<and>
      reply_MemberRemove env ep i h = None) t"
proof -
  let ?J = "\<lambda>r t. r = None \<longrightarrow> (\<exists>ep. unlisted env t ep (ObjectReference_Name ref)) \<or>
    seen (\<lambda>h c. \<exists>ep i. c = MemberRemove ep i \<and> removable env (ObjectReference_Name ref) h ep i \<and>
      reply_MemberRemove env ep i h = None) t"
  have "wp (removeMemberForNode env (ObjectReference_Name ref)) (\<lambda>r t. prefix [] t \<and> ?J r t) []"
    by (rule reads.removeMemberForNode_wp) (auto simp: unlisted_def)
  then show ?thesis
    using assms
    by (auto simp: RemoveEtcdMemberForMachine_def node_ref_def wp_def split: option.splits bind_splits)
qed

lemma RemoveEtcdMemberForMachine_done_witness:
  "let t = snd (run_state (RemoveEtcdMemberForMachine example_etcd (Some (example_node_machine ''c''))) [])
   in MemberRemove ''etcd-a'' 3 \<in> set t \<and>
     ((\<exists>ep. unlisted example_etcd t ep ''c'') \<or>
      seen (\<lambda>h c. \<exists>ep i. c = MemberRemove ep i \<and> removable example_etcd ''c'' h ep i \<and>
        reply_MemberRemove example_etcd ep i h = None) t)"
proof -
  let ?ref = "\<lparr>ObjectReference_Kind = ''Node'', ObjectReference_Namespace = [], ObjectReference_Name = ''c'',
      ObjectReference_UID = [], ObjectReference_APIVersion = ''v1''\<rparr>"
  have ref: "node_ref (Some (example_node_machine ''c'')) = Some ?ref"
    by (simp add: node_ref_def example_node_machine_def)
  have ev: "run_state (RemoveEtcdMemberForMachine example_etcd (Some (example_node_machine ''c''))) [] =
      (None, [GetControlPlaneNodes, NewDialer, ClientNew [''etcd-a''], EtcdStatus ''etcd-a'',
        MemberList ''etcd-a'', AlarmList ''etcd-a'', MemberRemove ''etcd-a'' 3, ClientClose [''etcd-a'']])"
    by code_simp
  show ?thesis
    using RemoveEtcdMemberForMachine_done [OF ref ev] by (simp add: ev)
qed

text \<open>
  C30. \<open>ForwardEtcdLeadership\<close> makes at most one change: it moves leadership, only when the endpoint
  has named the member of the machine's node as the leader, and to the member listed
  for the candidate's node. The candidate decides, not the order of the followers as the comment of the function has it; and a candidate that
  is the machine itself is not excluded, so that the move may leave the leader where it is.
\<close>

theorem ForwardEtcdLeadership_once:
  "one_change (\<lambda>h c. \<exists>ep i. c = CallMoveLeader ep i \<and> forwardable env machine candidate h ep i)
     (snd (run_state (ForwardEtcdLeadership env machine candidate) []))"
proof -
  let ?P = "\<lambda>h c. \<exists>ep i. c = CallMoveLeader ep i \<and> forwardable env machine candidate h ep i"
  have "wp (ForwardEtcdLeadership env machine candidate) (\<lambda>_ t. prefix [] t \<and> one_change ?P t) []"
    by (rule reads.ForwardEtcdLeadership_wp)
      (auto intro: one_change_snoc one_changeI one_change_def [THEN iffD2])
  then show ?thesis by (simp add: wp_def split: prod.splits)
qed

text \<open>On the example the operations do remove the stale member and do hand over leadership.\<close>

lemma etcd_example:
  "MemberRemove ''etcd-a'' 3 \<in> set (snd (run_state (ReconcileEtcdMembers example_etcd [''a'', ''b'']) []))"
  "CallMoveLeader ''etcd-a'' 2 \<in> set (snd (run_state (ForwardEtcdLeadership example_etcd
     (Some (example_node_machine ''a'')) (Some (example_node_machine ''b''))) []))"
  by code_simp+

end
