(* ===== verification/InitLock.thy ===== *)
theory InitLock
  imports ControlPlaneApi
begin

text \<open>
  The init lock of \<open>bootstrap/ocne/internal/locking/control_plane_init_mutex.go\<close>: a config map that
  only one control plane machine can create. \<open>Lock\<close> and \<open>Unlock\<close> are programs over the calls of the
  API server. The reconcilers of different machines run at the same time, so a system of machines
  interleaves the programs call by call, with failures of the API server at any point.

  Encoding the holder in JSON is a parameter of the programs, with the law that decoding gives the
  name back. Config maps are read without a cache (\<open>ClientDisableCacheFor\<close> in
  \<open>bootstrap/ocne/main.go\<close>), so a read returns the stored value. Machines, clusters and configurations
  are read from the cache of the manager, which may lag behind: the machines that \<open>Lock\<close> asks for are those of the
  cache, and a reconciliation starts with what it has read of its cluster and its configuration.
\<close>

subsection \<open>Programs over the API server\<close>

record ConfigMap =
  ConfigMap_ObjectMeta :: ObjectMeta
  ConfigMap_Data :: "(string, string) go_map"

datatype 'a prog =
    Ret 'a
  | GetConfigMap string string "error + ConfigMap \<Rightarrow> 'a prog"
  | GetMachine string string "error option \<Rightarrow> 'a prog"
  | CreateConfigMap ConfigMap "error option \<Rightarrow> 'a prog"
  | DeleteConfigMap string string "error option \<Rightarrow> 'a prog"

primrec andThen :: "'a prog \<Rightarrow> ('a \<Rightarrow> 'b prog) \<Rightarrow> 'b prog" where
  "andThen (Ret a) f = f a"
| "andThen (GetConfigMap ns n k) f = GetConfigMap ns n (\<lambda>r. andThen (k r) f)"
| "andThen (GetMachine ns n k) f = GetMachine ns n (\<lambda>r. andThen (k r) f)"
| "andThen (CreateConfigMap cm k) f = CreateConfigMap cm (\<lambda>r. andThen (k r) f)"
| "andThen (DeleteConfigMap ns n k) f = DeleteConfigMap ns n (\<lambda>r. andThen (k r) f)"

subsection \<open>The semaphore\<close>

definition semaphoreInformationKey :: string where
  "semaphoreInformationKey = ''lock-information''"

record information_codec =
  Marshal_information :: "string \<Rightarrow> error + string"
  Unmarshal_information :: "string \<Rightarrow> error + string"

definition codec_law :: "information_codec \<Rightarrow> bool" where
  "codec_law codec \<longleftrightarrow>
     (\<forall>name b. Marshal_information codec name = Inr b \<longrightarrow> Unmarshal_information codec b = Inr name)"

definition configMapName :: "string \<Rightarrow> string" where
  "configMapName clusterName = clusterName @ ''-lock''"

definition newSemaphore :: ConfigMap where
  "newSemaphore = \<lparr>ConfigMap_ObjectMeta = empty_meta, ConfigMap_Data = []\<rparr>"

text \<open>The name of the machine in the semaphore; a missing entry reads as the empty string.\<close>

definition information :: "information_codec \<Rightarrow> ConfigMap \<Rightarrow> error + string" where
  "information codec s =
     (case Unmarshal_information codec
        (case map_of (ConfigMap_Data s) semaphoreInformationKey of None \<Rightarrow> [] | Some b \<Rightarrow> b) of
        Inl err \<Rightarrow> Inl (Wrap ''failed to unmarshal semaphore information'' err)
      | Inr li \<Rightarrow> Inr li)"

definition setInformation :: "information_codec \<Rightarrow> string \<Rightarrow> ConfigMap \<Rightarrow> error + ConfigMap" where
  "setInformation codec machineName s =
     (case Marshal_information codec machineName of
        Inl err \<Rightarrow> Inl (Wrap ''failed to marshal semaphore information'' err)
      | Inr b \<Rightarrow> Inr (s\<lparr>ConfigMap_Data := [(semaphoreInformationKey, b)]\<rparr>))"

definition setMetadata :: "Cluster \<Rightarrow> string \<times> string \<Rightarrow> ConfigMap \<Rightarrow> ConfigMap" where
  "setMetadata cluster gvk s = s\<lparr>ConfigMap_ObjectMeta :=
     empty_meta\<lparr>Namespace := Namespace (Cluster_ObjectMeta cluster),
       Name := configMapName (Name (Cluster_ObjectMeta cluster)),
       Labels := [(ClusterLabelName, Name (Cluster_ObjectMeta cluster))],
       OwnerReferences :=
         [\<lparr>APIVersion = fst gvk, Kind = snd gvk,
           OwnerReference_Name = Name (Cluster_ObjectMeta cluster),
           OwnerReference_UID = UID (Cluster_ObjectMeta cluster),
           Controller = None, BlockOwnerDeletion = None\<rparr>]\<rparr>\<rparr>"

subsection \<open>Lock and Unlock\<close>

definition unlock_deleted :: "error option \<Rightarrow> bool prog" where
  "unlock_deleted r = (case r of None \<Rightarrow> Ret True | Some err \<Rightarrow> Ret (IsNotFound err))"

definition unlock_got :: "Cluster \<Rightarrow> error + ConfigMap \<Rightarrow> bool prog" where
  "unlock_got cluster r =
     (case r of
        Inl err \<Rightarrow> Ret (IsNotFound err)
      | Inr cm \<Rightarrow> DeleteConfigMap (Namespace (Cluster_ObjectMeta cluster))
          (configMapName (Name (Cluster_ObjectMeta cluster))) unlock_deleted)"

definition Unlock :: "Cluster \<Rightarrow> bool prog" where
  "Unlock cluster = GetConfigMap (Namespace (Cluster_ObjectMeta cluster))
     (configMapName (Name (Cluster_ObjectMeta cluster))) (unlock_got cluster)"

definition lock_holder :: "Cluster \<Rightarrow> error option \<Rightarrow> bool prog" where
  "lock_holder cluster r =
     (case r of
        Some err \<Rightarrow> if IsNotFound err then andThen (Unlock cluster) (\<lambda>_. Ret False) else Ret False
      | None \<Rightarrow> Ret False)"

definition lock_created :: "error option \<Rightarrow> bool prog" where
  "lock_created r = Ret (r = None)"

definition lock_create :: "information_codec \<Rightarrow> Cluster \<Rightarrow> string \<times> string \<Rightarrow> string \<Rightarrow> bool prog" where
  "lock_create codec cluster gvk machine =
     (case setInformation codec machine (setMetadata cluster gvk newSemaphore) of
        Inl err \<Rightarrow> Ret False
      | Inr sema \<Rightarrow> CreateConfigMap sema lock_created)"

definition lock_got ::
  "information_codec \<Rightarrow> Cluster \<Rightarrow> string \<times> string \<Rightarrow> string \<Rightarrow> error + ConfigMap \<Rightarrow> bool prog" where
  "lock_got codec cluster gvk machine r =
     (case r of
        Inl err \<Rightarrow> if IsNotFound err then lock_create codec cluster gvk machine else Ret False
      | Inr sema \<Rightarrow>
     (case information codec sema of
        Inl err \<Rightarrow> Ret False
      | Inr holder \<Rightarrow>
          (if holder = machine then Ret True
           else GetMachine (Namespace (Cluster_ObjectMeta cluster)) holder (lock_holder cluster))))"

text \<open>\<open>gvk\<close> is the API version and kind of the cluster object.\<close>

definition Lock :: "information_codec \<Rightarrow> Cluster \<Rightarrow> string \<times> string \<Rightarrow> string \<Rightarrow> bool prog" where
  "Lock codec cluster gvk machine = GetConfigMap (Namespace (Cluster_ObjectMeta cluster))
     (configMapName (Name (Cluster_ObjectMeta cluster))) (lock_got codec cluster gvk machine)"

subsection \<open>The API server\<close>

record api =
  api_ConfigMaps :: "(string \<times> string, ConfigMap) go_map"
  api_Machines :: "(string \<times> string) list" \<comment> \<open>as the cache of the client has them\<close>

text \<open>
  A call may fail before it has an effect, or have its effect and still report an error. The
  failures are not \<open>NotFound\<close> or \<open>AlreadyExists\<close>.
\<close>

datatype fault = Fine | FailsBefore string | FailsAfter string

fun failed :: "fault \<Rightarrow> error option" where
  "failed Fine = None"
| "failed (FailsBefore e) = Some (Err e)"
| "failed (FailsAfter e) = Some (Err e)"

fun effective :: "fault \<Rightarrow> bool" where
  "effective (FailsBefore _) = False"
| "effective _ = True"

definition cm_key :: "ConfigMap \<Rightarrow> string \<times> string" where
  "cm_key cm = (Namespace (ConfigMap_ObjectMeta cm), Name (ConfigMap_ObjectMeta cm))"

fun serve :: "fault \<Rightarrow> 'a prog \<Rightarrow> api \<Rightarrow> 'a prog \<times> api" where
  "serve f (Ret a) s = (Ret a, s)"
| "serve f (GetConfigMap ns n k) s =
     (k (case failed f of
           Some e \<Rightarrow> Inl e
         | None \<Rightarrow> (case map_of (api_ConfigMaps s) (ns, n) of None \<Rightarrow> Inl (NotFound n) | Some cm \<Rightarrow> Inr cm)), s)"
| "serve f (GetMachine ns n k) s =
     (k (case failed f of
           Some e \<Rightarrow> Some e
         | None \<Rightarrow> if (ns, n) \<in> set (api_Machines s) then None else Some (NotFound n)), s)"
| "serve f (CreateConfigMap cm k) s =
     (case map_of (api_ConfigMaps s) (cm_key cm) of
        Some _ \<Rightarrow> (k (Some (case failed f of Some e \<Rightarrow> e | None \<Rightarrow> AlreadyExists (snd (cm_key cm)))), s)
      | None \<Rightarrow> (k (failed f),
          if effective f then s\<lparr>api_ConfigMaps := AList.update (cm_key cm) cm (api_ConfigMaps s)\<rparr> else s))"
| "serve f (DeleteConfigMap ns n k) s =
     (case map_of (api_ConfigMaps s) (ns, n) of
        None \<Rightarrow> (k (Some (case failed f of Some e \<Rightarrow> e | None \<Rightarrow> NotFound n)), s)
      | Some _ \<Rightarrow> (k (failed f),
          if effective f then s\<lparr>api_ConfigMaps := AList.delete (ns, n) (api_ConfigMaps s)\<rparr> else s))"

text \<open>A program run alone, without failures. Four calls are enough for \<open>Lock\<close> and \<open>Unlock\<close>.\<close>

fun run_alone :: "nat \<Rightarrow> 'a prog \<Rightarrow> api \<Rightarrow> 'a option \<times> api" where
  "run_alone n (Ret a) s = (Some a, s)"
| "run_alone 0 p s = (None, s)"
| "run_alone (Suc n) p s = (case serve Fine p s of (p', s') \<Rightarrow> run_alone n p' s')"

subsection \<open>Machines that compete for the lock\<close>

text \<open>
  What the reconciler of a machine is doing: nothing, trying to lock, initializing the cluster with
  the lock held, unlocking after a failed initialization (\<open>handleClusterNotInitialized\<close> in
  \<open>kubeadmconfig_controller.go\<close>), or unlocking at the start of a join (\<open>reconcile\<close> there). A machine
  is reconciled by one worker at a time.
\<close>

datatype proc =
    is_Idle: Idle | Locking "bool prog" | is_Holding: Holding | Unlocking "bool prog" | Joining "bool prog"

text \<open>
  Beside the API server and the workers the system has the machines that exist, those whose
  configuration has the data to initialize the cluster, and whether the cluster is initialized.
\<close>

record sys =
  sys_api :: api
  sys_procs :: "string \<Rightarrow> proc"
  sys_machines :: "string list"
  sys_done :: "string \<Rightarrow> bool"
  sys_initialized :: bool

text \<open>
  What a reconciliation has read when it starts: whether the configuration is ready, whether the
  cluster is initialized, and whether the machine is one of the control plane that has a cluster or an init configuration.
  Reads may be old, so what they say is true was true; what they deny may have changed.
\<close>

record reads =
  rd_ready :: bool
  rd_initialized :: bool
  rd_control_plane :: bool

text \<open>
  The branch that a reconciliation takes. It returns early when the configuration is ready, and, while the cluster
  is not initialized, for a machine of the workers or without those configurations. Returning early for
  another reason, such as an infrastructure that is not ready, is a run that does not start.
\<close>

definition decide ::
  "information_codec \<Rightarrow> Cluster \<Rightarrow> string \<times> string \<Rightarrow> string \<Rightarrow> reads \<Rightarrow> proc" where
  "decide codec cluster gvk m v =
     (if rd_ready v then Idle
      else if rd_initialized v then Joining (Unlock cluster)
      else if rd_control_plane v then Locking (Lock codec cluster gvk m)
      else Idle)"

datatype event =
    Start string reads
  | Step string fault
  | Fail string
  | Finish string
  | Crash string
  | Initialize
  | Appear string
  | Vanish string
  | Observe string

definition step_proc :: "fault \<Rightarrow> api \<Rightarrow> proc \<Rightarrow> (proc \<times> api) option" where
  "step_proc f a pr =
     (case pr of
        Locking (Ret b) \<Rightarrow> Some (if b then Holding else Idle, a)
      | Locking p \<Rightarrow> Some (map_prod Locking id (serve f p a))
      | Unlocking (Ret b) \<Rightarrow> Some (Idle, a)
      | Unlocking p \<Rightarrow> Some (map_prod Unlocking id (serve f p a))
      | Joining (Ret b) \<Rightarrow> Some (Idle, a)
      | Joining p \<Rightarrow> Some (map_prod Joining id (serve f p a))
      | _ \<Rightarrow> None)"

definition lock_namespace :: "Cluster \<Rightarrow> string" where
  "lock_namespace cluster = Namespace (Cluster_ObjectMeta cluster)"

text \<open>
  One event. A holder ends with its data stored (\<open>Finish\<close>) or with an error (\<open>Fail\<close>), and any worker can stop
  where it is (\<open>Crash\<close>). The cluster becomes initialized after some machine has its data. \<open>Observe\<close> brings the
  cache up to date for a machine.
\<close>

fun lock_step ::
  "information_codec \<Rightarrow> Cluster \<Rightarrow> string \<times> string \<Rightarrow> event \<Rightarrow> sys \<Rightarrow> sys option" where
  "lock_step codec cluster gvk (Start m v) s =
     (if is_Idle (sys_procs s m) \<and> m \<in> set (sys_machines s) \<and>
         (rd_ready v \<longrightarrow> sys_done s m) \<and> (rd_initialized v \<longrightarrow> sys_initialized s)
      then Some (s\<lparr>sys_procs := (sys_procs s)(m := decide codec cluster gvk m v)\<rparr>) else None)"
| "lock_step codec cluster gvk (Step m f) s =
     map_option (\<lambda>(pr, a). s\<lparr>sys_api := a, sys_procs := (sys_procs s)(m := pr)\<rparr>)
       (step_proc f (sys_api s) (sys_procs s m))"
| "lock_step codec cluster gvk (Fail m) s =
     (if is_Holding (sys_procs s m)
      then Some (s\<lparr>sys_procs := (sys_procs s)(m := Unlocking (Unlock cluster))\<rparr>) else None)"
| "lock_step codec cluster gvk (Finish m) s =
     (if is_Holding (sys_procs s m)
      then Some (s\<lparr>sys_procs := (sys_procs s)(m := Idle), sys_done := (sys_done s)(m := True)\<rparr>) else None)"
| "lock_step codec cluster gvk (Crash m) s = Some (s\<lparr>sys_procs := (sys_procs s)(m := Idle)\<rparr>)"
| "lock_step codec cluster gvk Initialize s =
     (if list_ex (sys_done s) (sys_machines s) then Some (s\<lparr>sys_initialized := True\<rparr>) else None)"
| "lock_step codec cluster gvk (Appear m) s = Some (s\<lparr>sys_machines := m # sys_machines s\<rparr>)"
| "lock_step codec cluster gvk (Vanish m) s = Some (s\<lparr>sys_machines := removeAll m (sys_machines s)\<rparr>)"
| "lock_step codec cluster gvk (Observe m) s =
     Some (s\<lparr>sys_api := (sys_api s)\<lparr>api_Machines :=
       (let others = removeAll (lock_namespace cluster, m) (api_Machines (sys_api s))
        in if m \<in> set (sys_machines s) then (lock_namespace cluster, m) # others else others)\<rparr>\<rparr>)"

fun lock_run ::
  "information_codec \<Rightarrow> Cluster \<Rightarrow> string \<times> string \<Rightarrow> (sys \<Rightarrow> event \<Rightarrow> bool) \<Rightarrow> event list \<Rightarrow> sys \<Rightarrow> sys option" where
  "lock_run codec cluster gvk allowed [] s = Some s"
| "lock_run codec cluster gvk allowed (e # es) s =
     (if allowed s e
      then (case lock_step codec cluster gvk e s of
              None \<Rightarrow> None | Some s' \<Rightarrow> lock_run codec cluster gvk allowed es s')
      else None)"

definition start_state :: sys where
  "start_state = \<lparr>sys_api = \<lparr>api_ConfigMaps = [], api_Machines = []\<rparr>, sys_procs = \<lambda>_. Idle,
     sys_machines = [], sys_done = \<lambda>_. False, sys_initialized = False\<rparr>"

text \<open>The states the system can reach through the events that \<open>allowed\<close> permits where they happen.\<close>

inductive lock_reachable ::
  "information_codec \<Rightarrow> Cluster \<Rightarrow> string \<times> string \<Rightarrow> (sys \<Rightarrow> event \<Rightarrow> bool) \<Rightarrow> sys \<Rightarrow> bool"
  for codec cluster gvk allowed where
  start: "lock_reachable codec cluster gvk allowed start_state"
| step: "lock_reachable codec cluster gvk allowed s \<Longrightarrow> allowed s e \<Longrightarrow>
     lock_step codec cluster gvk e s = Some s' \<Longrightarrow> lock_reachable codec cluster gvk allowed s'"

text \<open>
  The conditions under which the lock excludes: the cluster is not initialized yet, no machine is deleted,
  and a reconciliation that starts has read the current state of its configuration, at a time when the cache
  knows its machine.
\<close>

fun before_init :: "Cluster \<Rightarrow> sys \<Rightarrow> event \<Rightarrow> bool" where
  "before_init cluster s (Start m v) =
     (rd_ready v = sys_done s m \<and> (lock_namespace cluster, m) \<in> set (api_Machines (sys_api s)))"
| "before_init cluster s Initialize = False"
| "before_init cluster s (Vanish _) = False"
| "before_init cluster s _ = True"

lemma lock_run_reachable:
  "lock_reachable codec cluster gvk allowed s \<Longrightarrow> lock_run codec cluster gvk allowed es s = Some s' \<Longrightarrow>
   lock_reachable codec cluster gvk allowed s'"
  by (induction es arbitrary: s) (auto split: option.splits if_splits intro: lock_reachable.step)

lemma lock_run_append:
  "lock_run codec cluster gvk allowed es s = Some s1 \<Longrightarrow>
   lock_run codec cluster gvk allowed (es @ fs) s = lock_run codec cluster gvk allowed fs s1"
  by (induction es arbitrary: s) (auto split: option.splits if_splits)

subsection \<open>Mutual exclusion\<close>

definition lock_key :: "Cluster \<Rightarrow> string \<times> string" where
  "lock_key cluster =
     (Namespace (Cluster_ObjectMeta cluster), configMapName (Name (Cluster_ObjectMeta cluster)))"

text \<open>The stored config map names the machine.\<close>

definition named :: "information_codec \<Rightarrow> Cluster \<Rightarrow> api \<Rightarrow> string \<Rightarrow> bool" where
  "named codec cluster a m \<longleftrightarrow>
     (\<exists>cm. map_of (api_ConfigMaps a) (lock_key cluster) = Some cm \<and> information codec cm = Inr m)"

lemma named_unique: "named codec cluster a m \<Longrightarrow> named codec cluster a n \<Longrightarrow> m = n"
  by (auto simp: named_def)

text \<open>The points a program can be at, and what is known there.\<close>

definition machine_exists :: "Cluster \<Rightarrow> api \<Rightarrow> string \<Rightarrow> bool" where
  "machine_exists cluster a m \<longleftrightarrow> (Namespace (Cluster_ObjectMeta cluster), m) \<in> set (api_Machines a)"

inductive lock_point ::
  "information_codec \<Rightarrow> Cluster \<Rightarrow> string \<times> string \<Rightarrow> api \<Rightarrow> string \<Rightarrow> bool prog \<Rightarrow> bool"
  for codec cluster gvk a m where
  begin_lock: "lock_point codec cluster gvk a m (Lock codec cluster gvk m)"
| creating: "lock_point codec cluster gvk a m (lock_create codec cluster gvk m)"
| asking: "machine_exists cluster a h \<Longrightarrow>
     lock_point codec cluster gvk a m (GetMachine (Namespace (Cluster_ObjectMeta cluster)) h (lock_holder cluster))"
| refused: "lock_point codec cluster gvk a m (Ret False)"
| granted: "named codec cluster a m \<Longrightarrow> lock_point codec cluster gvk a m (Ret True)"

inductive unlock_point :: "information_codec \<Rightarrow> Cluster \<Rightarrow> api \<Rightarrow> string \<Rightarrow> bool prog \<Rightarrow> bool"
  for codec cluster a m where
  "named codec cluster a m \<Longrightarrow> unlock_point codec cluster a m (Unlock cluster)"
| "named codec cluster a m \<Longrightarrow> unlock_point codec cluster a m
     (DeleteConfigMap (Namespace (Cluster_ObjectMeta cluster))
       (configMapName (Name (Cluster_ObjectMeta cluster))) unlock_deleted)"
| "unlock_point codec cluster a m (Ret b)"

fun proc_ok :: "information_codec \<Rightarrow> Cluster \<Rightarrow> string \<times> string \<Rightarrow> api \<Rightarrow> string \<Rightarrow> proc \<Rightarrow> bool" where
  "proc_ok codec cluster gvk a m Idle = True"
| "proc_ok codec cluster gvk a m (Locking p) = lock_point codec cluster gvk a m p"
| "proc_ok codec cluster gvk a m Holding = named codec cluster a m"
| "proc_ok codec cluster gvk a m (Unlocking p) = unlock_point codec cluster a m p"
| "proc_ok codec cluster gvk a m (Joining p) = False"

text \<open>The machine named by a stored lock is known to the cache.\<close>

definition holder_exists :: "information_codec \<Rightarrow> Cluster \<Rightarrow> api \<Rightarrow> bool" where
  "holder_exists codec cluster a \<longleftrightarrow>
     (\<forall>cm. map_of (api_ConfigMaps a) (lock_key cluster) = Some cm \<longrightarrow>
        (\<exists>m. information codec cm = Inr m \<and> machine_exists cluster a m))"

text \<open>
  The invariant until the cluster is initialized: what every worker knows, the machine in the lock is known,
  the cache has only machines that exist, and the data of a machine that is done is protected by the lock.
\<close>

definition lock_inv :: "information_codec \<Rightarrow> Cluster \<Rightarrow> string \<times> string \<Rightarrow> sys \<Rightarrow> bool" where
  "lock_inv codec cluster gvk s \<longleftrightarrow>
     (\<forall>m. proc_ok codec cluster gvk (sys_api s) m (sys_procs s m)) \<and>
     holder_exists codec cluster (sys_api s) \<and>
     (\<forall>m. \<not> is_Idle (sys_procs s m) \<longrightarrow> machine_exists cluster (sys_api s) m) \<and>
     (\<forall>m. machine_exists cluster (sys_api s) m \<longrightarrow> m \<in> set (sys_machines s)) \<and>
     \<not> sys_initialized s \<and>
     (\<forall>m. sys_done s m \<longrightarrow> named codec cluster (sys_api s) m \<and> is_Idle (sys_procs s m))"

text \<open>Other machines do not mind a change that keeps their own name and the machines of the cache.\<close>

lemma proc_ok_stable:
  assumes "proc_ok codec cluster gvk a m pr" "named codec cluster a m \<Longrightarrow> named codec cluster a' m"
    "set (api_Machines a) \<subseteq> set (api_Machines a')"
  shows "proc_ok codec cluster gvk a' m pr"
proof -
  have "machine_exists cluster a' h" if "machine_exists cluster a h" for h
    using that assms(3) by (auto simp: machine_exists_def)
  then show ?thesis
    using assms(1,2)
    by (cases pr) (auto elim!: lock_point.cases unlock_point.cases intro: lock_point.intros unlock_point.intros)
qed

lemma failed_not_api [simp]:
  "failed f = Some e \<Longrightarrow> \<not> IsNotFound e" "failed f = Some e \<Longrightarrow> \<not> IsAlreadyExists e"
  by (cases f; auto)+

lemma setInformation_sema:
  assumes "codec_law codec" "setInformation codec m (setMetadata cluster gvk newSemaphore) = Inr sema"
  shows "cm_key sema = lock_key cluster" "information codec sema = Inr m"
  using assms
  by (auto simp: setInformation_def setMetadata_def information_def cm_key_def lock_key_def codec_law_def
      split: sum.splits)

text \<open>What a call of a process keeps, for itself and for the others.\<close>

definition kept :: "information_codec \<Rightarrow> Cluster \<Rightarrow> string \<Rightarrow> api \<Rightarrow> api \<Rightarrow> bool" where
  "kept codec cluster m a a' \<longleftrightarrow>
     api_Machines a' = api_Machines a \<and> holder_exists codec cluster a' \<and>
     (\<forall>x. x \<noteq> m \<longrightarrow> named codec cluster a x \<longrightarrow> named codec cluster a' x)"

lemma serve_create:
  assumes law: "codec_law codec" and a: "holder_exists codec cluster a" "machine_exists cluster a m"
    and ev: "serve f (lock_create codec cluster gvk m) a = (p', a')"
  shows "lock_point codec cluster gvk a' m p' \<and> kept codec cluster m a a'"
proof (cases "setInformation codec m (setMetadata cluster gvk newSemaphore)")
  case (Inl e)
  then show ?thesis
    using a ev by (auto simp: lock_create_def kept_def intro: lock_point.intros)
next
  case (Inr sema)
  note sema = setInformation_sema [OF law Inr]
  let ?a = "a\<lparr>api_ConfigMaps := AList.update (lock_key cluster) sema (api_ConfigMaps a)\<rparr>"
  have new: "named codec cluster ?a m" "holder_exists codec cluster ?a"
    using sema(2) a(2) by (auto simp: named_def holder_exists_def machine_exists_def update_conv')
  show ?thesis
  proof (cases "map_of (api_ConfigMaps a) (lock_key cluster)")
    case None
    then have "\<not> named codec cluster a x" for x
      by (simp add: named_def)
    then show ?thesis
      using ev Inr sema(1) None new a(1)
      by (cases f) (auto simp: lock_create_def lock_created_def kept_def intro: lock_point.intros)
  next
    case (Some cm)
    then show ?thesis
      using ev Inr sema(1) a(1)
      by (auto simp: lock_create_def lock_created_def kept_def intro: lock_point.intros)
  qed
qed

lemma serve_lock:
  assumes law: "codec_law codec" and a: "holder_exists codec cluster a" "machine_exists cluster a m"
    and p: "lock_point codec cluster gvk a m p" and ev: "serve f p a = (p', a')"
  shows "lock_point codec cluster gvk a' m p' \<and> kept codec cluster m a a'"
  using p
proof cases
  case begin_lock
  have "lock_point codec cluster gvk a m (lock_got codec cluster gvk m (Inr cm))"
    if cm: "map_of (api_ConfigMaps a) (lock_key cluster) = Some cm" for cm
  proof -
    obtain h where h: "information codec cm = Inr h" "machine_exists cluster a h"
      using a(1) cm by (auto simp: holder_exists_def)
    moreover have "named codec cluster a h"
      using cm h(1) by (auto simp: named_def)
    ultimately show ?thesis
      by (cases "h = m") (auto simp: lock_got_def intro: granted asking)
  qed
  moreover have "lock_point codec cluster gvk a m (lock_got codec cluster gvk m (Inl (NotFound n)))" for n
    by (simp add: lock_got_def creating)
  moreover have "lock_point codec cluster gvk a m (lock_got codec cluster gvk m (Inl e))"
    if "failed f = Some e" for e
    using that by (simp add: lock_got_def refused)
  ultimately have "lock_point codec cluster gvk a m p'" "a' = a"
    using begin_lock ev
    by (auto simp: Lock_def lock_key_def split: option.splits)
  then show ?thesis
    using a(1) by (simp add: kept_def)
next
  case creating
  then show ?thesis using serve_create [OF law a] ev by simp
next
  case (asking h)
  then show ?thesis
    using ev a(1)
    by (auto simp: machine_exists_def lock_holder_def kept_def split: option.splits intro: lock_point.intros)
qed (use ev a(1) in \<open>auto simp: kept_def intro: lock_point.intros\<close>)

lemma serve_unlock:
  assumes a: "holder_exists codec cluster a"
    and p: "unlock_point codec cluster a m p" and ev: "serve f p a = (p', a')"
  shows "unlock_point codec cluster a' m p' \<and> kept codec cluster m a a'"
  using p
proof cases
  case 1
  then show ?thesis
    using ev a
    by (auto simp: Unlock_def unlock_got_def kept_def split: option.splits intro: unlock_point.intros)
next
  case 2
  have gone: "holder_exists codec cluster (a\<lparr>api_ConfigMaps := AList.delete (lock_key cluster) (api_ConfigMaps a)\<rparr>)"
    by (simp add: holder_exists_def delete_conv')
  obtain cm where "map_of (api_ConfigMaps a) (lock_key cluster) = Some cm"
    using 2(2) by (auto simp: named_def)
  then have "p' = unlock_deleted (failed f)"
    and a': "a' = a \<or> a' = a\<lparr>api_ConfigMaps := AList.delete (lock_key cluster) (api_ConfigMaps a)\<rparr>"
    using ev 2(1) by (auto simp: lock_key_def split: if_splits)
  moreover have "unlock_point codec cluster a' m (unlock_deleted r)" for r
    by (cases r) (simp_all add: unlock_deleted_def unlock_point.intros(3))
  moreover have "x = m" if "named codec cluster a x" for x
    using named_unique that 2(2) by blast
  then have "kept codec cluster m a a'"
    using a' a gone unfolding kept_def by auto
  ultimately show ?thesis by simp
next
  case (3 b)
  then show ?thesis using ev a by (auto simp: kept_def intro: unlock_point.intros)
qed

lemma lock_inv_update:
  assumes "lock_inv codec cluster gvk s" "kept codec cluster m (sys_api s) a"
    "proc_ok codec cluster gvk a m pr" "machine_exists cluster (sys_api s) m" "\<not> sys_done s m"
  shows "lock_inv codec cluster gvk (s\<lparr>sys_api := a, sys_procs := (sys_procs s)(m := pr)\<rparr>)"
  using assms proc_ok_stable [of codec cluster gvk "sys_api s" _ _ a]
  by (auto simp: lock_inv_def kept_def machine_exists_def)

lemma kept_refl: "holder_exists codec cluster a \<Longrightarrow> kept codec cluster m a a"
  by (simp add: kept_def)

lemma lock_point_Ret_True: "lock_point codec cluster gvk a m (Ret True) \<Longrightarrow> named codec cluster a m"
  by (auto elim!: lock_point.cases simp: Lock_def lock_create_def split: sum.splits)

lemma lock_inv_proc:
  assumes "lock_inv codec cluster gvk s" "sys_procs s m = pr" "\<not> is_Idle pr"
  shows "proc_ok codec cluster gvk (sys_api s) m pr" "machine_exists cluster (sys_api s) m"
    "holder_exists codec cluster (sys_api s)" "\<not> sys_done s m"
  using assms by (auto simp: lock_inv_def)

text \<open>What one step of a worker gives.\<close>

lemma step_proc_ok:
  assumes law: "codec_law codec" and ok: "proc_ok codec cluster gvk a m pr" "\<not> is_Idle pr"
    and a: "holder_exists codec cluster a" "machine_exists cluster a m"
    and ev: "step_proc f a pr = Some (pr', a')"
  shows "proc_ok codec cluster gvk a' m pr' \<and> kept codec cluster m a a'"
proof (cases pr)
  case (Locking p)
  obtain p' a1 where sv: "serve f p a = (p', a1)" by fastforce
  have "lock_point codec cluster gvk a1 m p' \<and> kept codec cluster m a a1"
    using serve_lock [OF law a _ sv] ok(1) Locking by simp
  then show ?thesis
    using ev Locking sv ok(1) kept_refl [OF a(1)] lock_point_Ret_True [of codec cluster gvk a m]
    by (auto simp: step_proc_def split: prog.splits)
next
  case (Unlocking p)
  obtain p' a1 where sv: "serve f p a = (p', a1)" by fastforce
  have "unlock_point codec cluster a1 m p' \<and> kept codec cluster m a a1"
    using serve_unlock [OF a(1) _ sv] ok(1) Unlocking by simp
  then show ?thesis
    using ev Unlocking sv kept_refl [OF a(1)] by (auto simp: step_proc_def split: prog.splits)
qed (use ok ev in \<open>auto simp: step_proc_def\<close>)

lemma lock_inv_step:
  assumes law: "codec_law codec" and inv: "lock_inv codec cluster gvk s"
    and ev: "lock_step codec cluster gvk (Step m f) s = Some s'"
  shows "lock_inv codec cluster gvk s'"
proof -
  obtain pr a where pr: "step_proc f (sys_api s) (sys_procs s m) = Some (pr, a)"
    and s': "s' = s\<lparr>sys_api := a, sys_procs := (sys_procs s)(m := pr)\<rparr>"
    using ev by auto
  then have busy: "\<not> is_Idle (sys_procs s m)"
    by (auto simp: step_proc_def is_Idle_def)
  note here = lock_inv_proc [OF inv refl busy]
  show ?thesis
    using lock_inv_update [OF inv] step_proc_ok [OF law here(1) busy here(3,2) pr] here(2,4) s' by blast
qed

lemma decide_ok:
  assumes "\<not> rd_initialized v"
  shows "proc_ok codec cluster gvk a m (decide codec cluster gvk m v)"
  using assms by (simp add: decide_def begin_lock)

lemma lock_inv_observe:
  assumes inv: "lock_inv codec cluster gvk s"
    and more: "set (api_Machines (sys_api s)) \<subseteq> set ms"
    and known: "\<And>x. (Namespace (Cluster_ObjectMeta cluster), x) \<in> set ms \<Longrightarrow> x \<in> set (sys_machines s)"
  shows "lock_inv codec cluster gvk (s\<lparr>sys_api := (sys_api s)\<lparr>api_Machines := ms\<rparr>\<rparr>)"
proof -
  let ?a = "(sys_api s)\<lparr>api_Machines := ms\<rparr>"
  have exists: "machine_exists cluster ?a x" if "machine_exists cluster (sys_api s) x" for x
    using that more by (auto simp: machine_exists_def)
  have named: "named codec cluster ?a x = named codec cluster (sys_api s) x" for x
    by (simp add: named_def)
  have "holder_exists codec cluster ?a"
    using inv exists unfolding lock_inv_def holder_exists_def by (metis api.select_convs(1) api.surjective api.update_convs(2))
  moreover have "proc_ok codec cluster gvk ?a x pr" if "proc_ok codec cluster gvk (sys_api s) x pr" for x pr
    by (rule proc_ok_stable [OF that]) (simp_all add: named more)
  ultimately show ?thesis
    using inv exists known by (simp add: lock_inv_def named) (simp add: machine_exists_def)
qed

lemma lock_inv_event:
  assumes law: "codec_law codec" and inv: "lock_inv codec cluster gvk s"
    and ev: "lock_step codec cluster gvk e s = Some s'" "before_init cluster s e"
  shows "lock_inv codec cluster gvk s'"
proof (cases e)
  case (Start m v)
  then have "s' = s\<lparr>sys_procs := (sys_procs s)(m := decide codec cluster gvk m v)\<rparr>" "\<not> rd_initialized v"
    "machine_exists cluster (sys_api s) m" "rd_ready v = sys_done s m"
    using ev inv by (auto simp: lock_inv_def machine_exists_def lock_namespace_def split: if_splits)
  then show ?thesis
    using inv decide_ok [of v codec cluster gvk "sys_api s" m] by (auto simp: lock_inv_def decide_def)
next
  case (Step m f)
  then show ?thesis using lock_inv_step [OF law inv] ev(1) by simp
next
  case (Fail m)
  then have "is_Holding (sys_procs s m)" and s': "s' = s\<lparr>sys_procs := (sys_procs s)(m := Unlocking (Unlock cluster))\<rparr>"
    using ev(1) by (auto split: if_splits)
  then have "sys_procs s m = Holding"
    by (simp add: is_Holding_def)
  from lock_inv_proc [OF inv this] show ?thesis
    using inv s' by (auto simp: lock_inv_def intro: unlock_point.intros)
next
  case (Finish m)
  then have "is_Holding (sys_procs s m)"
    and s': "s' = s\<lparr>sys_procs := (sys_procs s)(m := Idle), sys_done := (sys_done s)(m := True)\<rparr>"
    using ev(1) by (auto split: if_splits)
  then have "sys_procs s m = Holding"
    by (simp add: is_Holding_def)
  from lock_inv_proc [OF inv this] show ?thesis
    using inv s' by (auto simp: lock_inv_def)
next
  case (Observe m)
  let ?ms = "let others = removeAll (lock_namespace cluster, m) (api_Machines (sys_api s))
    in if m \<in> set (sys_machines s) then (lock_namespace cluster, m) # others else others"
  have s': "s' = s\<lparr>sys_api := (sys_api s)\<lparr>api_Machines := ?ms\<rparr>\<rparr>"
    using ev(1) Observe by simp
  show ?thesis
    unfolding s'
    by (rule lock_inv_observe [OF inv])
      (use inv in \<open>auto simp: lock_inv_def machine_exists_def lock_namespace_def Let_def split: if_splits\<close>)
qed (use ev inv in \<open>auto simp: lock_inv_def split: if_splits\<close>)

lemma lock_reachable_inv:
  assumes "codec_law codec" "lock_reachable codec cluster gvk (before_init cluster) s"
  shows "lock_inv codec cluster gvk s"
  using assms(2)
proof induction
  case start
  then show ?case by (simp add: lock_inv_def start_state_def holder_exists_def machine_exists_def)
next
  case (step s e s')
  then show ?case using lock_inv_event [OF assms(1)] by blast
qed

subsection \<open>Properties\<close>

lemma case_SomeE:
  assumes "case x of None \<Rightarrow> False | Some s \<Rightarrow> P s"
  obtains s where "x = Some s" "P s"
  using assms by (cases x) auto

text \<open>A concrete cluster, and an encoding of machine names.\<close>

definition example_codec :: information_codec where
  "example_codec = \<lparr>Marshal_information = Inr, Unmarshal_information = Inr\<rparr>"

lemma example_codec_law: "codec_law example_codec"
  by (simp add: codec_law_def example_codec_def)

definition lock_cluster :: Cluster where
  "lock_cluster = \<lparr>Cluster_ObjectMeta = empty_meta\<lparr>Name := ''c'', Namespace := ''ns''\<rparr>,
     Cluster_Spec_Paused = False, Cluster_Spec_ClusterNetwork = None, Cluster_Spec_ControlPlaneEndpoint_Host = [],
     Cluster_Spec_ControlPlaneEndpoint_Port = 0, Cluster_Spec_ControlPlaneRef = None,
     Cluster_Status_InfrastructureReady = True, Cluster_Status_FailureDomains = [],
     Cluster_Status_Conditions = []\<rparr>"

text \<open>A machine is in charge when it makes the data to initialize the cluster or has made it.\<close>

definition in_charge :: "sys \<Rightarrow> string \<Rightarrow> bool" where
  "in_charge s m \<longleftrightarrow> is_Holding (sys_procs s m) \<or> sys_done s m"

text \<open>What a control plane machine reads that has no data, in a cluster that it takes to be new or initialized.\<close>

definition reads_new :: reads where
  "reads_new = \<lparr>rd_ready = False, rd_initialized = False, rd_control_plane = True\<rparr>"

definition reads_initialized :: reads where
  "reads_initialized = \<lparr>rd_ready = False, rd_initialized = True, rd_control_plane = True\<rparr>"

text \<open>
  C7. Until the cluster is initialized, and as long as no machine object is deleted, at most one
  machine holds the init lock or has the data that initializes the cluster, and the stored config map
  names it. This holds whatever the interleaving of the calls, whatever calls fail before or after they
  take effect, and wherever workers stop. It needs that a reconciliation starts with a current read of its own configuration,
  and only when the cache that the others read knows its machine.
\<close>

theorem init_lock_mutual_exclusion:
  assumes "codec_law codec"
    and "lock_reachable codec cluster gvk (before_init cluster) s"
    and "in_charge s m" "in_charge s n"
  shows "m = n \<and> named codec cluster (sys_api s) m"
proof -
  note inv = lock_reachable_inv [OF assms(1,2)]
  have "named codec cluster (sys_api s) x" if "in_charge s x" for x
    using that lock_inv_proc(1) [OF inv, of x Holding] inv
    by (auto simp: in_charge_def is_Holding_def lock_inv_def)
  then show ?thesis using assms(3,4) named_unique by blast
qed

theorem init_lock_mutual_exclusion_witness:
  "\<exists>s. lock_reachable example_codec lock_cluster (''v1'', ''Cluster'') (before_init lock_cluster) s \<and>
     in_charge s ''a'' \<and> \<not> in_charge s ''b'' \<and> named example_codec lock_cluster (sys_api s) ''a''"
proof -
  let ?es = "[Appear ''a'', Appear ''b'', Observe ''a'', Observe ''b'', Start ''a'' reads_new, Start ''b'' reads_new,
    Step ''a'' Fine, Step ''b'' Fine, Step ''b'' (FailsBefore ''timeout''), Step ''a'' Fine, Step ''a'' Fine, Finish ''a'']"
  have "case lock_run example_codec lock_cluster (''v1'', ''Cluster'') (before_init lock_cluster) ?es start_state of
      None \<Rightarrow> False | Some s \<Rightarrow> sys_done s ''a''"
    by code_simp
  then obtain s where
      run: "lock_run example_codec lock_cluster (''v1'', ''Cluster'') (before_init lock_cluster) ?es start_state = Some s"
    and holds: "in_charge s ''a''"
    by (elim case_SomeE) (auto simp: in_charge_def)
  have reach: "lock_reachable example_codec lock_cluster (''v1'', ''Cluster'') (before_init lock_cluster) s"
    by (rule lock_run_reachable [OF lock_reachable.start run])
  show ?thesis
    using init_lock_mutual_exclusion [OF example_codec_law reach holds] reach holds by blast
qed

subsection \<open>Races\<close>

text \<open>Runs without failures: reconciliations start and their calls are served.\<close>

fun orderly :: "sys \<Rightarrow> event \<Rightarrow> bool" where
  "orderly s (Start _ _) = True"
| "orderly s (Step _ f) = (f = Fine)"
| "orderly s _ = False"

abbreviation lock_entry :: "Cluster \<Rightarrow> sys \<Rightarrow> ConfigMap option" where
  "lock_entry cluster s \<equiv> map_of (api_ConfigMaps (sys_api s)) (lock_key cluster)"

abbreviation set_proc :: "string \<Rightarrow> proc \<Rightarrow> sys \<Rightarrow> sys" where
  "set_proc m pr s \<equiv> s\<lparr>sys_procs := (sys_procs s)(m := pr)\<rparr>"

abbreviation unlocked :: "Cluster \<Rightarrow> sys \<Rightarrow> sys" where
  "unlocked cluster s \<equiv> s\<lparr>sys_api := (sys_api s)
     \<lparr>api_ConfigMaps := AList.delete (lock_key cluster) (api_ConfigMaps (sys_api s))\<rparr>\<rparr>"

text \<open>The last call of a \<open>Lock\<close> that releases the lock of a machine that is gone.\<close>

definition releasing :: "Cluster \<Rightarrow> bool prog" where
  "releasing cluster = DeleteConfigMap (Namespace (Cluster_ObjectMeta cluster))
     (configMapName (Name (Cluster_ObjectMeta cluster))) (\<lambda>r. andThen (unlock_deleted r) (\<lambda>_. Ret False))"

lemmas lock_program_defs = decide_def step_proc_def Lock_def lock_got_def lock_holder_def Unlock_def unlock_got_def
  unlock_deleted_def lock_key_def reads_new_def reads_initialized_def

lemma run_to_release:
  assumes "is_Idle (sys_procs s a)" "a \<in> set (sys_machines s)" "a \<noteq> x"
    and "named codec cluster (sys_api s) x" "\<not> machine_exists cluster (sys_api s) x"
  shows "lock_run codec cluster gvk orderly [Start a reads_new, Step a Fine, Step a Fine, Step a Fine] s =
    Some (set_proc a (Locking (releasing cluster)) s)"
  using assms by (auto simp: named_def machine_exists_def lock_program_defs releasing_def)

lemma run_release:
  assumes "sys_procs s a = Locking (releasing cluster)" "lock_entry cluster s = Some cm"
  shows "lock_run codec cluster gvk orderly [Step a Fine, Step a Fine] s = Some (set_proc a Idle (unlocked cluster s))"
  using assms by (simp add: lock_program_defs releasing_def)

lemma run_lock:
  assumes "codec_law codec" "Marshal_information codec b = Inr d"
    and "sys_procs s b = Locking (Lock codec cluster gvk b)" "lock_entry cluster s = None"
  obtains s' where "lock_run codec cluster gvk orderly [Step b Fine, Step b Fine, Step b Fine] s = Some s'"
    "is_Holding (sys_procs s' b)" "named codec cluster (sys_api s') b"
    "\<And>m. m \<noteq> b \<Longrightarrow> sys_procs s' m = sys_procs s m" "sys_machines s' = sys_machines s" "sys_done s' = sys_done s"
    "api_Machines (sys_api s') = api_Machines (sys_api s)"
proof -
  obtain sema where sema: "setInformation codec b (setMetadata cluster gvk newSemaphore) = Inr sema"
    using assms(2) by (auto simp: setInformation_def)
  note key = setInformation_sema [OF assms(1) sema]
  let ?s = "set_proc b Holding (s\<lparr>sys_api := (sys_api s)
    \<lparr>api_ConfigMaps := AList.update (lock_key cluster) sema (api_ConfigMaps (sys_api s))\<rparr>\<rparr>)"
  have "lock_run codec cluster gvk orderly [Step b Fine, Step b Fine, Step b Fine] s = Some ?s"
    using assms(3,4) sema key(1) by (simp add: lock_program_defs lock_create_def lock_created_def)
  moreover have "named codec cluster (sys_api ?s) b"
    using key(2) by (simp add: named_def update_conv')
  ultimately show ?thesis using that by simp
qed

lemma run_start:
  assumes "is_Idle (sys_procs s b)" "b \<in> set (sys_machines s)"
  shows "lock_run codec cluster gvk orderly [Start b reads_new] s = Some (set_proc b (Locking (Lock codec cluster gvk b)) s)"
  using assms by (simp add: decide_def reads_new_def)

lemma run_join:
  assumes "is_Idle (sys_procs s w)" "w \<in> set (sys_machines s)" "sys_initialized s" "lock_entry cluster s = Some cm"
  shows "lock_run codec cluster gvk orderly [Start w reads_initialized, Step w Fine, Step w Fine, Step w Fine] s =
    Some (set_proc w Idle (unlocked cluster s))"
  using assms by (simp add: lock_program_defs)

lemma named_entry: "named codec cluster (sys_api s) m \<Longrightarrow> \<exists>cm. lock_entry cluster s = Some cm"
  by (auto simp: named_def)

text \<open>A machine that is free and finds no lock takes it.\<close>

lemma run_take:
  assumes "codec_law codec" "Marshal_information codec b = Inr d"
    and "is_Idle (sys_procs s b)" "b \<in> set (sys_machines s)" "lock_entry cluster s = None"
  obtains es s' where "lock_run codec cluster gvk orderly es s = Some s'"
    "is_Holding (sys_procs s' b)" "named codec cluster (sys_api s') b"
    "\<And>m. m \<noteq> b \<Longrightarrow> sys_procs s' m = sys_procs s m" "sys_machines s' = sys_machines s"
proof -
  let ?s = "set_proc b (Locking (Lock codec cluster gvk b)) s"
  obtain s' where "lock_run codec cluster gvk orderly [Step b Fine, Step b Fine, Step b Fine] ?s = Some s'"
    "is_Holding (sys_procs s' b)" "named codec cluster (sys_api s') b"
    "\<And>m. m \<noteq> b \<Longrightarrow> sys_procs s' m = sys_procs ?s m" "sys_machines s' = sys_machines ?s"
    by (rule run_lock [OF assms(1,2), of ?s cluster gvk]) (use assms(5) in simp_all)
  then show ?thesis
    using that [of "[Start b reads_new] @ [Step b Fine, Step b Fine, Step b Fine]" s']
      lock_run_append [OF run_start [OF assms(3,4)]] by simp
qed

text \<open>
  C33. When the machine that the lock names is deleted, mutual exclusion fails: from every state in which
  the cache no longer has the holder, and in which two other machines exist and are idle, a run without
  any failure leads to both holding the lock. Both see that the holder is gone; one unlocks and takes the lock, and the
  other, which has already decided to unlock, deletes the new lock and takes it too. \<open>Unlock\<close> deletes the
  config map by name, whoever created it.
\<close>

theorem init_lock_race:
  assumes "codec_law codec" "Marshal_information codec a = Inr d" "Marshal_information codec b = Inr d'"
    and "named codec cluster (sys_api s) x" "\<not> machine_exists cluster (sys_api s) x" "distinct [a, b, x]"
    and "is_Idle (sys_procs s a)" "is_Idle (sys_procs s b)" "a \<in> set (sys_machines s)" "b \<in> set (sys_machines s)"
  shows "\<exists>es s'. lock_run codec cluster gvk orderly es s = Some s' \<and>
    is_Holding (sys_procs s' a) \<and> is_Holding (sys_procs s' b)"
proof -
  let ?r = "lock_run codec cluster gvk orderly"
  obtain cm where cm: "lock_entry cluster s = Some cm" using named_entry [OF assms(4)] by blast
  let ?s1 = "set_proc a (Locking (releasing cluster)) s"
  let ?s2 = "set_proc b (Locking (releasing cluster)) ?s1"
  let ?s3 = "set_proc b Idle (unlocked cluster ?s2)"
  have 1: "?r [Start a reads_new, Step a Fine, Step a Fine, Step a Fine] s = Some ?s1"
    by (rule run_to_release [OF assms(7,9) _ assms(4,5)]) (use assms(6) in simp)
  have 2: "?r [Start b reads_new, Step b Fine, Step b Fine, Step b Fine] ?s1 = Some ?s2"
    by (rule run_to_release [of _ _ x]) (use assms in auto)
  have 3: "?r [Step b Fine, Step b Fine] ?s2 = Some ?s3"
    by (rule run_release) (use cm in simp_all)
  obtain es4 s4 where 4: "?r es4 ?s3 = Some s4" "is_Holding (sys_procs s4 b)" "named codec cluster (sys_api s4) b"
    "\<And>m. m \<noteq> b \<Longrightarrow> sys_procs s4 m = sys_procs ?s3 m" "sys_machines s4 = sys_machines ?s3"
    by (rule run_take [OF assms(1,3), of ?s3 cluster gvk]) (use assms in \<open>simp_all add: delete_conv'\<close>)
  obtain cm' where cm': "lock_entry cluster s4 = Some cm'" using named_entry [OF 4(3)] by blast
  let ?s5 = "set_proc a Idle (unlocked cluster s4)"
  have 5: "?r [Step a Fine, Step a Fine] s4 = Some ?s5"
    by (rule run_release [OF _ cm']) (use 4(4) [of a] assms(6) in simp)
  obtain es6 s6 where 6: "?r es6 ?s5 = Some s6" "is_Holding (sys_procs s6 a)"
    "\<And>m. m \<noteq> a \<Longrightarrow> sys_procs s6 m = sys_procs ?s5 m"
    by (rule run_take [OF assms(1,2), of ?s5 cluster gvk]) (use assms 4(5) in \<open>simp_all add: delete_conv'\<close>)
  have "is_Holding (sys_procs s6 b)" using 6(3) [of b] 4(2) assms(6) by auto
  moreover have "?r ([Start a reads_new, Step a Fine, Step a Fine, Step a Fine] @
      [Start b reads_new, Step b Fine, Step b Fine, Step b Fine] @ [Step b Fine, Step b Fine] @ es4 @
      [Step a Fine, Step a Fine] @ es6) s = Some s6"
    unfolding lock_run_append [OF 1] lock_run_append [OF 2] lock_run_append [OF 3] lock_run_append [OF 4(1)]
      lock_run_append [OF 5] by (rule 6(1))
  ultimately show ?thesis using 6(2) by blast
qed

definition lock_of :: "string \<Rightarrow> api" where
  "lock_of m = \<lparr>api_ConfigMaps = [((''ns'', ''c-lock''),
     \<lparr>ConfigMap_ObjectMeta = empty_meta, ConfigMap_Data = [(''lock-information'', m)]\<rparr>)],
   api_Machines = [(''ns'', ''a''), (''ns'', ''b'')]\<rparr>"

lemma named_lock_of: "named example_codec lock_cluster (lock_of m) m"
  by (simp add: lock_of_def example_codec_def lock_cluster_def named_def lock_key_def configMapName_def
      information_def semaphoreInformationKey_def)

theorem init_lock_race_witness:
  "\<exists>es s'. lock_run example_codec lock_cluster (''v1'', ''Cluster'') orderly es
      \<lparr>sys_api = lock_of ''x'', sys_procs = \<lambda>_. Idle, sys_machines = [''a'', ''b''], sys_done = \<lambda>_. False,
       sys_initialized = False\<rparr> = Some s' \<and> is_Holding (sys_procs s' ''a'') \<and> is_Holding (sys_procs s' ''b'')"
  by (rule init_lock_race [OF example_codec_law _ _ _ _ _ _ _ _ _, where x = "''x''" and d = "''a''" and d' = "''b''"])
    (simp_all add: named_lock_of, simp_all add: example_codec_def machine_exists_def lock_cluster_def lock_of_def)

text \<open>
  C40. Once the cluster is initialized, every reconciliation of a machine that joins releases the lock,
  although another machine may have read the cluster before and be on its way to the lock. From every state in
  which the cluster is initialized, a machine is done and holds the lock, a second machine has started to lock and a
  third one is idle, a run without any failure leads to the second machine holding the lock
  too, so that two machines get the data to initialize the cluster.
\<close>

theorem init_lock_join_race:
  assumes "codec_law codec" "Marshal_information codec b = Inr d"
    and "sys_initialized s" "sys_done s m" "named codec cluster (sys_api s) m" "distinct [b, m, w]"
    and "sys_procs s b = Locking (Lock codec cluster gvk b)"
    and "is_Idle (sys_procs s w)" "w \<in> set (sys_machines s)"
  shows "\<exists>es s'. lock_run codec cluster gvk orderly es s = Some s' \<and> in_charge s' m \<and>
    is_Holding (sys_procs s' b) \<and> named codec cluster (sys_api s') b"
proof -
  let ?r = "lock_run codec cluster gvk orderly"
  let ?s1 = "set_proc w Idle (unlocked cluster s)"
  obtain cm where "lock_entry cluster s = Some cm" using named_entry [OF assms(5)] by blast
  then have 1: "?r [Start w reads_initialized, Step w Fine, Step w Fine, Step w Fine] s = Some ?s1"
    by (rule run_join [OF assms(8,9,3)])
  obtain s2 where 2: "?r [Step b Fine, Step b Fine, Step b Fine] ?s1 = Some s2"
    "is_Holding (sys_procs s2 b)" "named codec cluster (sys_api s2) b" "sys_done s2 = sys_done ?s1"
    by (rule run_lock [OF assms(1,2), of ?s1 cluster gvk]) (use assms(6,7) in \<open>simp_all add: delete_conv'\<close>)
  have "?r ([Start w reads_initialized, Step w Fine, Step w Fine, Step w Fine] @ [Step b Fine, Step b Fine, Step b Fine]) s =
      Some s2"
    unfolding lock_run_append [OF 1] by (rule 2(1))
  moreover have "in_charge s2 m"
    using 2(4) assms(4) by (simp add: in_charge_def)
  ultimately show ?thesis using 2(2,3) by blast
qed

theorem init_lock_join_race_witness:
  "\<exists>es s'. lock_run example_codec lock_cluster (''v1'', ''Cluster'') orderly es
      \<lparr>sys_api = lock_of ''a'', sys_procs = (\<lambda>_. Idle)(''b'' := Locking (Lock example_codec lock_cluster (''v1'', ''Cluster'') ''b'')),
       sys_machines = [''a'', ''b'', ''w''], sys_done = (\<lambda>_. False)(''a'' := True), sys_initialized = True\<rparr> = Some s' \<and>
     in_charge s' ''a'' \<and> is_Holding (sys_procs s' ''b'') \<and> named example_codec lock_cluster (sys_api s') ''b''"
  by (rule init_lock_join_race [OF example_codec_law, where w = "''w''" and d = "''b''"])
    (simp_all add: named_lock_of, simp_all add: example_codec_def)

text \<open>A \<open>Lock\<close> that nothing disturbs.\<close>

lemma run_alone_create:
  assumes "codec_law codec" "Marshal_information codec m = Inr b"
    "map_of (api_ConfigMaps a) (lock_key cluster) = None"
  shows "\<exists>a'. run_alone 4 (Lock codec cluster gvk m) a = (Some True, a') \<and> named codec cluster a' m \<and>
    api_Machines a' = api_Machines a"
proof -
  obtain sema where sema: "setInformation codec m (setMetadata cluster gvk newSemaphore) = Inr sema"
    using assms(2) by (auto simp: setInformation_def)
  note key = setInformation_sema [OF assms(1) sema]
  then have "named codec cluster (a\<lparr>api_ConfigMaps := AList.update (lock_key cluster) sema (api_ConfigMaps a)\<rparr>) m"
    by (simp add: named_def update_conv')
  then show ?thesis
    using assms(3) sema key(1)
    by (simp add: Lock_def lock_got_def lock_create_def lock_created_def lock_key_def eval_nat_numeral)
qed

lemma run_alone_held:
  assumes "named codec cluster a h"
  shows "run_alone 4 (Lock codec cluster gvk m) a =
    (Some (h = m),
     if h = m \<or> machine_exists cluster a h then a
     else a\<lparr>api_ConfigMaps := AList.delete (lock_key cluster) (api_ConfigMaps a)\<rparr>)"
proof -
  obtain cm where "map_of (api_ConfigMaps a) (lock_key cluster) = Some cm" "information codec cm = Inr h"
    using assms by (auto simp: named_def)
  then show ?thesis
    by (simp add: Lock_def lock_got_def lock_key_def lock_holder_def Unlock_def unlock_got_def
        unlock_deleted_def machine_exists_def eval_nat_numeral)
qed

text \<open>
  A lock whose holder has been deleted does not block the cluster for good. The first attempt of
  another machine is refused but removes the stale lock, and its second attempt succeeds.
\<close>

lemma Lock_recovers:
  assumes "codec_law codec" "Marshal_information codec m = Inr b"
    and "named codec cluster a h" "h \<noteq> m" "\<not> machine_exists cluster a h"
  shows "\<exists>a1 a2. run_alone 4 (Lock codec cluster gvk m) a = (Some False, a1) \<and>
    run_alone 4 (Lock codec cluster gvk m) a1 = (Some True, a2) \<and> named codec cluster a2 m"
proof -
  let ?a = "a\<lparr>api_ConfigMaps := AList.delete (lock_key cluster) (api_ConfigMaps a)\<rparr>"
  have "map_of (api_ConfigMaps ?a) (lock_key cluster) = None"
    by (simp add: delete_conv')
  from run_alone_create [OF assms(1,2) this, of gvk] show ?thesis
    using run_alone_held [OF assms(3), of gvk m] assms(4,5) by auto
qed

lemma Lock_recovers_witness:
  "\<exists>a1 a2. run_alone 4 (Lock example_codec lock_cluster (''v1'', ''Cluster'') ''b'')
      \<lparr>api_ConfigMaps = [((''ns'', ''c-lock''),
         \<lparr>ConfigMap_ObjectMeta = empty_meta, ConfigMap_Data = [(''lock-information'', ''x'')]\<rparr>)],
       api_Machines = [(''ns'', ''b'')]\<rparr> = (Some False, a1) \<and>
    run_alone 4 (Lock example_codec lock_cluster (''v1'', ''Cluster'') ''b'') a1 = (Some True, a2) \<and>
    named example_codec lock_cluster a2 ''b''"
  by (rule Lock_recovers [OF example_codec_law, where h = "''x''" and b = "''b''"])
    (simp_all add: example_codec_def lock_cluster_def named_def lock_key_def configMapName_def information_def
      semaphoreInformationKey_def machine_exists_def)

text \<open>
  C32. Alone and without failures \<open>Lock\<close> always answers. It grants the lock exactly when there is no
  lock or the lock already names the machine, and then the stored lock names the machine; it never
  takes the lock of another machine that the cache of machines has.
\<close>

theorem Lock_alone:
  assumes "codec_law codec" "Marshal_information codec m = Inr b"
    and "\<And>cm. map_of (api_ConfigMaps a) (lock_key cluster) = Some cm \<Longrightarrow> \<exists>h. information codec cm = Inr h"
  shows "\<exists>granted a'. run_alone 4 (Lock codec cluster gvk m) a = (Some granted, a') \<and>
    (granted \<longleftrightarrow> map_of (api_ConfigMaps a) (lock_key cluster) = None \<or> named codec cluster a m) \<and>
    (granted \<longrightarrow> named codec cluster a' m) \<and>
    (\<forall>h. named codec cluster a h \<longrightarrow> machine_exists cluster a h \<longrightarrow> named codec cluster a' h)"
proof (cases "map_of (api_ConfigMaps a) (lock_key cluster)")
  case None
  then show ?thesis
    using run_alone_create [OF assms(1,2) None, of gvk] by (auto simp: named_def)
next
  case (Some cm)
  then obtain h where h: "named codec cluster a h"
    using assms(3) by (auto simp: named_def)
  have "named codec cluster a x \<longleftrightarrow> x = h" for x
    using h named_unique by blast
  then show ?thesis
    using run_alone_held [OF h, of gvk m] Some by (simp add: eq_commute [of m h])
qed

theorem Lock_alone_witness:
  "\<exists>granted a'. run_alone 4 (Lock example_codec lock_cluster (''v1'', ''Cluster'') ''b'')
      \<lparr>api_ConfigMaps = [], api_Machines = []\<rparr> = (Some granted, a') \<and>
    granted \<and> named example_codec lock_cluster a' ''b''"
  using Lock_alone [OF example_codec_law, of "''b''" "''b''" "\<lparr>api_ConfigMaps = [], api_Machines = []\<rparr>"
      lock_cluster "(''v1'', ''Cluster'')"]
  by (simp add: example_codec_def) blast

end
