(* ===== verification/Images.thy ===== *)
theory Images
  imports BootstrapApi Util
begin

text \<open>
  Image registries and image names: \<open>internal/util/ocne/ocne.go\<close> (default registry, proxy
  exclusions), \<open>ImageRepositoryFromClusterConfig\<close> of \<open>workload_cluster.go\<close> and
  \<open>util/container/image.go\<close>. The parser and printer of image references is the package
  \<open>docker/distribution/reference\<close>, here the record \<open>reference\<close> of its functions.
\<close>

subsection \<open>Default registries\<close>

definition DefaultImageRepository :: string where "DefaultImageRepository = ''registry.k8s.io''"
definition OldDefaultImageRepository :: string where "OldDefaultImageRepository = ''k8s.gcr.io''"
definition DefaultOCNEImageRepository :: string where
  "DefaultOCNEImageRepository = ''container-registry.oracle.com/olcne''"
definition DefaultOCNESocket :: string where "DefaultOCNESocket = ''/var/run/crio/crio.sock''"
definition DefaultOCNECSISocket :: string where "DefaultOCNECSISocket = ''/var/run/shared-tmpfs/csi.sock''"

definition MinKubernetesVersionImageRegistryMigration :: semver where
  "MinKubernetesVersionImageRegistryMigration = release 1 24 8"
definition NextKubernetesVersionImageRegistryMigration :: semver where
  "NextKubernetesVersionImageRegistryMigration = release 1 25 7"

definition LTE :: "'x semver_lib_scheme \<Rightarrow> semver \<Rightarrow> semver \<Rightarrow> bool" where
  "LTE lib v w \<longleftrightarrow> semver_Compare lib v w \<le> 0"

definition GTE :: "'x semver_lib_scheme \<Rightarrow> semver \<Rightarrow> semver \<Rightarrow> bool" where
  "GTE lib v w \<longleftrightarrow> 0 \<le> semver_Compare lib v w"

definition LT :: "'x semver_lib_scheme \<Rightarrow> semver \<Rightarrow> semver \<Rightarrow> bool" where
  "LT lib v w \<longleftrightarrow> semver_Compare lib v w < 0"

definition GetDefaultRegistry :: "'x semver_lib_scheme \<Rightarrow> semver \<Rightarrow> string" where
  "GetDefaultRegistry lib version =
     (if LTE lib version (release 1 22 16) then OldDefaultImageRepository
      else if GTE lib version (release 1 22 17) \<and> LT lib version (release 1 23 0) then DefaultImageRepository
      else if GTE lib version (release 1 23 0) \<and> LTE lib version (release 1 23 14) then OldDefaultImageRepository
      else if GTE lib version (release 1 23 15) \<and> LT lib version (release 1 24 0) then DefaultImageRepository
      else if GTE lib version (release 1 24 0) \<and> LTE lib version (release 1 24 7) then OldDefaultImageRepository
      else DefaultOCNEImageRepository)"

definition ImageRepositoryFromClusterConfig ::
  "'x semver_lib_scheme \<Rightarrow> ClusterConfiguration option \<Rightarrow> semver \<Rightarrow> string" where
  "ImageRepositoryFromClusterConfig lib clusterConfig kubernetesVersion =
     (if clusterConfig \<noteq> None \<and> ClusterConfiguration_ImageRepository (the clusterConfig) \<noteq> []
      then ClusterConfiguration_ImageRepository (the clusterConfig)
      else if GTE lib kubernetesVersion MinKubernetesVersionImageRegistryMigration \<and>
              LT lib kubernetesVersion NextKubernetesVersionImageRegistryMigration
      then GetDefaultRegistry lib kubernetesVersion
      else [])"

subsection \<open>Proxy exclusions\<close>

definition constructNoProxy :: "string \<Rightarrow> string \<Rightarrow> string \<Rightarrow> string" where
  "constructNoProxy noProxy podSubnet serviceSubnet =
     (let localHostPresent = sublist ''localhost'' noProxy;
          socketPresent = sublist DefaultOCNECSISocket noProxy
      in if noProxy = [] then ''localhost,'' @ podSubnet @ '','' @ serviceSubnet @ '','' @ DefaultOCNECSISocket
         else if localHostPresent \<and> socketPresent then noProxy
         else if \<not> localHostPresent \<and> \<not> socketPresent then ''localhost,'' @ noProxy @ '','' @ DefaultOCNECSISocket
         else if \<not> localHostPresent then ''localhost,'' @ noProxy
         else noProxy @ '','' @ DefaultOCNECSISocket)"

subsection \<open>Image names\<close>

definition oci_tag_char :: "char \<Rightarrow> bool" where
  "oci_tag_char c \<longleftrightarrow> is_alnum c \<or> c \<in> set ''-_.''"

definition ImageTagIsValid :: "string \<Rightarrow> bool" where
  "ImageTagIsValid tagName \<longleftrightarrow> \<not> list_ex (\<lambda>c. \<not> oci_tag_char c) tagName"

definition SemverToOCIImageTag :: "string \<Rightarrow> string" where
  "SemverToOCIImageTag version = map (\<lambda>c. if oci_tag_char c then c else CHR ''_'') version"

record Image =
  Repository :: string
  Image_Name :: string
  Tag :: string
  Digest :: string

text \<open>
  A parsed reference: its full name, the path without the domain, and tag and digest if present.
\<close>

record named =
  named_Name :: string
  named_Path :: string
  named_Tag :: "string option"
  named_Digest :: "string option"

record reference =
  ParseNamed :: "string \<Rightarrow> error + named"
  ParseNormalizedNamed :: "string \<Rightarrow> error + named"
  WithName :: "string \<Rightarrow> error + named"
  WithTag :: "named \<Rightarrow> string \<Rightarrow> error + named"
  FamiliarString :: "named \<Rightarrow> string"
  TagNameOnlyString :: "named \<Rightarrow> string"

text \<open>The part of a path after its last slash (the second result of \<open>path.Split\<close>).\<close>

definition path_file :: "string \<Rightarrow> string" where
  "path_file p = rev (takeWhile (\<lambda>c. c \<noteq> CHR ''/'') (rev p))"

text \<open>\<open>path.Clean\<close> and \<open>path.Join\<close>: empty and dot elements vanish, a double dot takes back the element before.\<close>

fun split_slash :: "string \<Rightarrow> string list" where
  "split_slash [] = [[]]"
| "split_slash (c # cs) =
     (if c = CHR ''/'' then [] # split_slash cs
      else (case split_slash cs of [] \<Rightarrow> [[c]] | w # ws \<Rightarrow> (c # w) # ws))"

fun clean_elements :: "bool \<Rightarrow> string list \<Rightarrow> string list \<Rightarrow> string list" where
  "clean_elements rooted acc [] = rev acc"
| "clean_elements rooted acc (w # ws) =
     (if w = [] \<or> w = ''.'' then clean_elements rooted acc ws
      else if w = ''..'' then
        (case acc of
           [] \<Rightarrow> clean_elements rooted (if rooted then [] else [w]) ws
         | a # as \<Rightarrow> if a = ''..'' then clean_elements rooted (w # acc) ws else clean_elements rooted as ws)
      else clean_elements rooted (w # acc) ws)"

fun join_slash :: "string list \<Rightarrow> string" where
  "join_slash [] = []"
| "join_slash [w] = w"
| "join_slash (w # ws) = w @ ''/'' @ join_slash ws"

definition path_Clean :: "string \<Rightarrow> string" where
  "path_Clean p =
     (let rooted = prefix ''/'' p;
          body = (if rooted then ''/'' else []) @ join_slash (clean_elements rooted [] (split_slash p))
      in if body = [] then ''.'' else body)"

definition path_Join :: "string list \<Rightarrow> string" where
  "path_Join ps =
     (let qs = filter (\<lambda>p. p \<noteq> []) ps in if qs = [] then [] else path_Clean (join_slash qs))"

text \<open>Slicing the repository out of the name panics when the bounds do not fit.\<close>

definition ImageFromString :: "'r reference_scheme \<Rightarrow> string \<Rightarrow> error + Image" where
  "ImageFromString ref imageName =
     (case ParseNamed ref imageName of
        Inl err \<Rightarrow> Inl (Wrap ''couldn't parse image name'' err)
      | Inr n \<Rightarrow>
          (let nameOnly = path_file (named_Path n);
               complete = length (named_Name n)
           in if nameOnly \<noteq> [] \<and> complete < length nameOnly + 1 then Inl (Panic ''slice bounds out of range'')
              else Inr \<lparr>Repository =
                     (if nameOnly \<noteq> [] then take (complete - length nameOnly - 1) (named_Name n) else []),
                   Image_Name = nameOnly,
                   Tag = (case named_Tag n of Some t \<Rightarrow> t | None \<Rightarrow> []),
                   Digest = (case named_Digest n of Some d \<Rightarrow> d | None \<Rightarrow> [])\<rparr>))"

definition Image_String :: "Image \<Rightarrow> string" where
  "Image_String i =
     (let ref = Repository i @ ''/'' @ Image_Name i;
          ref = (if Tag i \<noteq> [] then ref @ '':'' @ Tag i else ref)
      in if Digest i \<noteq> [] then ref @ ''@'' @ Digest i else ref)"

definition ModifyImageRepository :: "'r reference_scheme \<Rightarrow> string \<Rightarrow> string \<Rightarrow> error + string" where
  "ModifyImageRepository ref imageName repositoryName =
     (case ImageFromString ref imageName of
        Inl err \<Rightarrow> Inl (Wrap ''failed to parse image name'' err)
      | Inr img \<Rightarrow>
     (case WithName ref (path_Join [repositoryName, Image_Name img]) of
        Inl err \<Rightarrow> Inl (Wrap ''failed to update repository name'' err)
      | Inr nameUpdated \<Rightarrow>
          (if Tag img \<noteq> [] then
             (case WithTag ref nameUpdated (Tag img) of
                Inl err \<Rightarrow> Inl (Wrap ''failed to parse image tag'' err)
              | Inr retagged \<Rightarrow> Inr (FamiliarString ref retagged))
           else Inl (Err ''image must be tagged''))))"

definition ModifyImageTag :: "'r reference_scheme \<Rightarrow> string \<Rightarrow> string \<Rightarrow> error + string" where
  "ModifyImageTag ref imageName tagName =
     (let normalisedTagName = SemverToOCIImageTag tagName
      in case ParseNormalizedNamed ref imageName of
           Inl err \<Rightarrow> Inl (Wrap ''failed to parse image name'' err)
         | Inr namedRef \<Rightarrow>
             (if named_Digest namedRef \<noteq> None
              then Inl (Err ''image uses digest as version, cannot update tag '')
              else case WithTag ref namedRef normalisedTagName of
                     Inl err \<Rightarrow> Inl (Wrap ''failed to update image tag'' err)
                   | Inr namedTagged \<Rightarrow> Inr (TagNameOnlyString ref namedTagged)))"

subsection \<open>Facts\<close>

lemma compare_release:
  assumes "semver_laws lib" "Pre v = []"
  shows "semver_Compare lib v (release a b c) = core_cmp v (release a b c)"
  using semver_lawsD(5) [OF assms(1)] assms(2) by (simp add: release_def)

lemma SemverToOCIImageTag_idem: "ImageTagIsValid t \<Longrightarrow> SemverToOCIImageTag t = t"
  by (auto simp: ImageTagIsValid_def SemverToOCIImageTag_def list_ex_iff map_idI)

text \<open>
  Normalising a version always gives a valid image tag of the same length, and changes
  nothing exactly when the version already is one.
\<close>

lemma SemverToOCIImageTag_valid:
  "ImageTagIsValid (SemverToOCIImageTag v) \<and> length (SemverToOCIImageTag v) = length v \<and>
   (SemverToOCIImageTag v = v \<longleftrightarrow> ImageTagIsValid v)"
proof -
  have "ImageTagIsValid (SemverToOCIImageTag v)"
    by (auto simp: ImageTagIsValid_def SemverToOCIImageTag_def list_ex_iff oci_tag_char_def)
  then show ?thesis
    using SemverToOCIImageTag_idem [of v] by (auto simp: SemverToOCIImageTag_def)
qed

text \<open>
  Without a configured repository, and for versions without pre-release identifiers, the image
  repository is set only for versions from 1.24.8 on and below 1.25.7, and then it is Oracle's
  repository: the two Kubernetes registries the comment names are never chosen.
\<close>

lemma ImageRepositoryFromClusterConfig_default:
  assumes "semver_laws lib" "Pre v = []"
    and "case cc of None \<Rightarrow> True | Some c \<Rightarrow> ClusterConfiguration_ImageRepository c = []"
  shows "ImageRepositoryFromClusterConfig lib cc v =
    (if 0 \<le> core_cmp v (release 1 24 8) \<and> core_cmp v (release 1 25 7) < 0
     then DefaultOCNEImageRepository else [])"
proof -
  have "\<not> core_cmp v (release 1 22 16) \<le> 0" "\<not> core_cmp v (release 1 23 0) < 0"
    "\<not> core_cmp v (release 1 23 14) \<le> 0" "\<not> core_cmp v (release 1 24 0) < 0"
    "\<not> core_cmp v (release 1 24 7) \<le> 0"
    if "0 \<le> core_cmp v (release 1 24 8)"
    using that by (auto simp: core_cmp_def cmp_def release_def word_less_nat_alt split: if_splits)
  then show ?thesis
    using assms(3)
    by (auto simp: ImageRepositoryFromClusterConfig_def GetDefaultRegistry_def LTE_def GTE_def LT_def
        MinKubernetesVersionImageRegistryMigration_def NextKubernetesVersionImageRegistryMigration_def
        compare_release [OF assms(1,2)] split: option.splits)
qed

lemma ImageRepositoryFromClusterConfig_default_witness:
  "ImageRepositoryFromClusterConfig std_ext None (release 1 24 9) = DefaultOCNEImageRepository"
  using ImageRepositoryFromClusterConfig_default [of std_ext "release 1 24 9" None] std_ext_laws
  by (simp add: ext_lawsD(1) release_def core_cmp_def cmp_def)

text \<open>
  The constructed list of proxy exclusions always contains the local host and the socket of the
  storage interface, and it contains what the user excluded.
\<close>

lemma constructNoProxy_covers:
  "sublist ''localhost'' (constructNoProxy n p s) \<and> sublist DefaultOCNECSISocket (constructNoProxy n p s) \<and>
   sublist n (constructNoProxy n p s) \<and> constructNoProxy (constructNoProxy n p s) p s = constructNoProxy n p s"
proof -
  have right: "sublist a (c @ b)" and left: "sublist a (b @ c)" if "sublist a b" for a b c :: string
    using that sublist_append_rightI sublist_append_leftI sublist_order.order.trans by blast+
  then have tail: "sublist a (x # b)" if "sublist a b" for a b :: string and x
    using that right [of a b "[x]"] by simp
  have "sublist ''localhost'' (''localhost,'' @ c)" for c
    by (simp add: sublist_Cons_right)
  then have "sublist ''localhost'' (constructNoProxy n p s) \<and> sublist DefaultOCNECSISocket (constructNoProxy n p s) \<and>
      sublist n (constructNoProxy n p s)"
    unfolding constructNoProxy_def Let_def
    by (simp add: tail right left split: if_split)
  then show ?thesis
    by (auto simp: constructNoProxy_def [of "constructNoProxy n p s"] Let_def)
qed

end
