(* ===== verification/Certificates.thy ===== *)
theory Certificates
  imports Images Effects
begin

text \<open>
  The certificates of a cluster: \<open>util/secret\<close>. The operations run on a client of the API server, a
  record of actions, so that each controller can pass its own. Keys and certificates are made by the
  crypto libraries, which are actions of that record too; the certificates are strings.
\<close>

subsection \<open>Secrets\<close>

type_synonym Purpose = string

definition KubeconfigDataName :: string where "KubeconfigDataName = ''value''"
definition TLSKeyDataName :: string where "TLSKeyDataName = ''tls.key''"
definition TLSCrtDataName :: string where "TLSCrtDataName = ''tls.crt''"
definition Kubeconfig :: Purpose where "Kubeconfig = ''kubeconfig''"
definition ClusterCA :: Purpose where "ClusterCA = ''ca''"
definition EtcdCA :: Purpose where "EtcdCA = ''etcd''"
definition ServiceAccount :: Purpose where "ServiceAccount = ''sa''"
definition FrontProxyCA :: Purpose where "FrontProxyCA = ''proxy''"
definition APIServerEtcdClient :: Purpose where "APIServerEtcdClient = ''apiserver-etcd-client''"

definition allSecretPurposes :: "Purpose list" where
  "allSecretPurposes = [Kubeconfig, ClusterCA, EtcdCA, ServiceAccount, FrontProxyCA, APIServerEtcdClient]"

lemmas purpose_defs = Kubeconfig_def ClusterCA_def EtcdCA_def ServiceAccount_def FrontProxyCA_def
  APIServerEtcdClient_def

text \<open>The type of the secrets that Cluster API creates.\<close>

definition ClusterSecretType :: string where "ClusterSecretType = ''cluster.x-k8s.io/secret''"

record Secret =
  Secret_ObjectMeta :: ObjectMeta
  Secret_Type :: string
  Secret_Data :: "(string, string) go_map"

definition secret_Name :: "string \<Rightarrow> Purpose \<Rightarrow> string" where
  "secret_Name cluster purpose = cluster @ ''-'' @ purpose"

text \<open>The position of the last dash: what is before it and what is after it.\<close>

definition split_last_dash :: "string \<Rightarrow> (string \<times> string) option" where
  "split_last_dash name =
     (if CHR ''-'' \<in> set name
      then Some (rev (tl (dropWhile (\<lambda>c. c \<noteq> CHR ''-'') (rev name))),
             rev (takeWhile (\<lambda>c. c \<noteq> CHR ''-'') (rev name)))
      else None)"

definition ParseSecretName :: "string \<Rightarrow> error + string \<times> Purpose" where
  "ParseSecretName name =
     (case split_last_dash name of
        None \<Rightarrow> Inl (Err (name @ '' is not a valid cluster secret name. The purpose suffix is missing''))
      | Some (clusterName, purposeSuffix) \<Rightarrow>
          (if purposeSuffix \<in> set allSecretPurposes then Inr (clusterName, purposeSuffix)
           else Inl (Err (name @ '' is not a valid cluster secret name. Invalid purpose suffix''))))"

subsection \<open>Certificates\<close>

record KeyPair =
  KeyPair_Cert :: string
  KeyPair_Key :: string

record Certificate =
  Cert_Generated :: bool
  Cert_External :: bool
  Cert_Purpose :: Purpose
  Cert_KeyPair :: "KeyPair option"
  CertFile :: string
  KeyFile :: string

definition DefaultCertificatesDir :: string where "DefaultCertificatesDir = ''/etc/kubernetes/pki''"

definition new_certificate :: "Purpose \<Rightarrow> bool \<Rightarrow> string \<Rightarrow> string \<Rightarrow> Certificate" where
  "new_certificate purpose ext certFile keyFile =
     \<lparr>Cert_Generated = False, Cert_External = ext, Cert_Purpose = purpose, Cert_KeyPair = None,
      CertFile = certFile, KeyFile = keyFile\<rparr>"

definition NewCertificatesForInitialControlPlane :: "ClusterConfiguration option \<Rightarrow> Certificate list" where
  "NewCertificatesForInitialControlPlane config =
     (let certificatesDir =
            (case config of
               None \<Rightarrow> DefaultCertificatesDir
             | Some c \<Rightarrow> if ClusterConfiguration_CertificatesDir c \<noteq> [] then ClusterConfiguration_CertificatesDir c
                 else DefaultCertificatesDir);
          certificates =
            [new_certificate ClusterCA False (path_Join [certificatesDir, ''ca.crt'']) (path_Join [certificatesDir, ''ca.key'']),
             new_certificate ServiceAccount False (path_Join [certificatesDir, ''sa.pub'']) (path_Join [certificatesDir, ''sa.key'']),
             new_certificate FrontProxyCA False (path_Join [certificatesDir, ''front-proxy-ca.crt''])
               (path_Join [certificatesDir, ''front-proxy-ca.key''])]
      in case Option.bind config (Etcd_External \<circ> ClusterConfiguration_Etcd) of
           None \<Rightarrow> certificates @
             [new_certificate EtcdCA False (path_Join [certificatesDir, ''etcd'', ''ca.crt''])
                (path_Join [certificatesDir, ''etcd'', ''ca.key''])]
         | Some ext \<Rightarrow> certificates @
             [new_certificate APIServerEtcdClient True (ExternalEtcd_CertFile ext) (ExternalEtcd_KeyFile ext),
              new_certificate EtcdCA True (ExternalEtcd_CAFile ext) []])"

text \<open>The certificates of a joining control plane machine are the same.\<close>

definition NewControlPlaneJoinCerts :: "ClusterConfiguration option \<Rightarrow> Certificate list" where
  "NewControlPlaneJoinCerts config = NewCertificatesForInitialControlPlane config"

definition NewCertificatesForWorker :: "string \<Rightarrow> Certificate list" where
  "NewCertificatesForWorker caCertPath =
     [new_certificate ClusterCA False
        (if caCertPath = [] then path_Join [DefaultCertificatesDir, ''ca.crt''] else caCertPath) []]"

definition GetByPurpose :: "Certificate list \<Rightarrow> Purpose \<Rightarrow> Certificate option" where
  "GetByPurpose c purpose = find (\<lambda>certificate. Cert_Purpose certificate = purpose) c"

definition secretToKeyPair :: "Secret \<Rightarrow> error + KeyPair" where
  "secretToKeyPair s =
     (case map_of (Secret_Data s) TLSCrtDataName of
        None \<Rightarrow> Inl (Err (''missing data for key '' @ TLSCrtDataName))
      | Some c \<Rightarrow> Inr \<lparr>KeyPair_Cert = c,
          KeyPair_Key = (case map_of (Secret_Data s) TLSKeyDataName of None \<Rightarrow> [] | Some key \<Rightarrow> key)\<rparr>)"

definition ErrMissingCertificate :: error where "ErrMissingCertificate = Err ''missing certificate''"
definition ErrMissingCrt :: error where "ErrMissingCrt = Err ''missing crt data''"
definition ErrMissingKey :: error where "ErrMissingKey = Err ''missing key data''"

fun EnsureAllExist :: "Certificate list \<Rightarrow> error option" where
  "EnsureAllExist [] = None"
| "EnsureAllExist (c # cs) =
     (case Cert_KeyPair c of
        None \<Rightarrow> Some ErrMissingCertificate
      | Some kp \<Rightarrow>
          (if KeyPair_Cert kp = [] then Some (Wrap (''for certificate: '' @ Cert_Purpose c) ErrMissingCrt)
           else if \<not> Cert_External c \<and> KeyPair_Key kp = []
           then Some (Wrap (''for certificate: '' @ Cert_Purpose c) ErrMissingKey)
           else EnsureAllExist cs))"

text \<open>A certificate without a key pair is a nil pointer dereference here.\<close>

definition AsSecret :: "string \<Rightarrow> string \<Rightarrow> OwnerReference \<Rightarrow> Certificate \<Rightarrow> KeyPair \<Rightarrow> Secret" where
  "AsSecret ns clusterName owner c kp =
     \<lparr>Secret_ObjectMeta = empty_meta\<lparr>
        Namespace := ns, Name := secret_Name clusterName (Cert_Purpose c),
        Labels := [(ClusterLabelName, clusterName)],
        OwnerReferences := (if Cert_Generated c then [owner] else [])\<rparr>,
      Secret_Type = ClusterSecretType,
      Secret_Data = [(TLSKeyDataName, KeyPair_Key kp), (TLSCrtDataName, KeyPair_Cert kp)]\<rparr>"

definition rootOwnerValue :: string where "rootOwnerValue = ''root:root''"

definition certificate_file :: "string \<Rightarrow> string \<Rightarrow> string \<Rightarrow> File" where
  "certificate_file path permissions content =
     \<lparr>File_Path = path, File_Owner = rootOwnerValue, File_Permissions = permissions, File_Encoding = [],
      File_Append = False, File_Content = content, File_ContentFrom = None\<rparr>"

definition Certificate_AsFiles :: "Certificate \<Rightarrow> error + File list" where
  "Certificate_AsFiles c =
     (case Cert_KeyPair c of
        None \<Rightarrow> Inl (Panic ''nil pointer dereference'')
      | Some kp \<Rightarrow> Inr
          ((if KeyPair_Cert kp \<noteq> [] then [certificate_file (CertFile c) ''0640'' (KeyPair_Cert kp)] else []) @
           (if KeyPair_Key kp \<noteq> [] then [certificate_file (KeyFile c) ''0600'' (KeyPair_Key kp)] else [])))"

fun files_of_purposes :: "Certificate list \<Rightarrow> Purpose list \<Rightarrow> error + File list" where
  "files_of_purposes c [] = Inr []"
| "files_of_purposes c (p # ps) =
     (case GetByPurpose c p of
        None \<Rightarrow> files_of_purposes c ps
      | Some certificate \<Rightarrow>
          (case Certificate_AsFiles certificate of
             Inl err \<Rightarrow> Inl err
           | Inr files \<Rightarrow> (case files_of_purposes c ps of Inl err \<Rightarrow> Inl err | Inr rest \<Rightarrow> Inr (files @ rest))))"

definition Certificates_AsFiles :: "Certificate list \<Rightarrow> error + File list" where
  "Certificates_AsFiles c = files_of_purposes c [ClusterCA, EtcdCA, FrontProxyCA, ServiceAccount, APIServerEtcdClient]"

subsection \<open>Finding and making certificates\<close>

record 's cert_client =
  client_Get :: "string \<Rightarrow> string \<Rightarrow> ('s, error + Secret) state" \<comment> \<open>namespace and name\<close>
  client_Create :: "Secret \<Rightarrow> ('s, error option) state"
  generateCACert :: "('s, error + KeyPair) state"
  generateServiceAccountKeys :: "('s, error + KeyPair) state"

fun Lookup :: "('s, 'm) cert_client_scheme \<Rightarrow> string \<Rightarrow> string \<Rightarrow> Certificate list \<Rightarrow> ('s, error + Certificate list) state" where
  "Lookup client ns clusterName [] = State_Monad.return (Inr [])"
| "Lookup client ns clusterName (certificate # cs) = do {
     r \<leftarrow> client_Get client ns (secret_Name clusterName (Cert_Purpose certificate));
     (case r of
        Inl err \<Rightarrow>
          (if IsNotFound err then
             (if Cert_External certificate
              then State_Monad.return (Inl (Wrap ''external certificate not found'' err))
              else do {
                rest \<leftarrow> Lookup client ns clusterName cs;
                State_Monad.return (map_sum id (\<lambda>rest. certificate # rest) rest)
              })
           else State_Monad.return (Inl err))
      | Inr s \<Rightarrow>
          (case secretToKeyPair s of
             Inl err \<Rightarrow> State_Monad.return (Inl err)
           | Inr kp \<Rightarrow> do {
               rest \<leftarrow> Lookup client ns clusterName cs;
               State_Monad.return (map_sum id (\<lambda>rest. certificate\<lparr>Cert_KeyPair := Some kp\<rparr> # rest) rest)
             }))
   }"

definition Certificate_Generate :: "('s, 'm) cert_client_scheme \<Rightarrow> Certificate \<Rightarrow> ('s, error + Certificate) state" where
  "Certificate_Generate client c =
     (if Cert_Purpose c = APIServerEtcdClient then State_Monad.return (Inr c)
      else do {
        kp \<leftarrow> (if Cert_Purpose c = ServiceAccount then generateServiceAccountKeys client else generateCACert client);
        State_Monad.return
          (case kp of
             Inl err \<Rightarrow> Inl err
           | Inr kp \<Rightarrow> Inr (c\<lparr>Cert_KeyPair := Some kp, Cert_Generated := True\<rparr>))
      })"

fun Generate :: "('s, 'm) cert_client_scheme \<Rightarrow> Certificate list \<Rightarrow> ('s, error + Certificate list) state" where
  "Generate client [] = State_Monad.return (Inr [])"
| "Generate client (c # cs) = do {
     r \<leftarrow> (if Cert_KeyPair c = None then Certificate_Generate client c else State_Monad.return (Inr c));
     (case r of
        Inl err \<Rightarrow> State_Monad.return (Inl err)
      | Inr c' \<Rightarrow> do {
          rest \<leftarrow> Generate client cs;
          State_Monad.return (map_sum id (\<lambda>rest. c' # rest) rest)
        })
   }"

text \<open>A generated certificate has a key pair.\<close>

fun SaveGenerated ::
  "('s, 'm) cert_client_scheme \<Rightarrow> string \<Rightarrow> string \<Rightarrow> OwnerReference \<Rightarrow> Certificate list \<Rightarrow> ('s, error option) state" where
  "SaveGenerated client ns clusterName owner [] = State_Monad.return None"
| "SaveGenerated client ns clusterName owner (c # cs) =
     (if \<not> Cert_Generated c then SaveGenerated client ns clusterName owner cs
      else (case Cert_KeyPair c of
              None \<Rightarrow> State_Monad.return (Some (Panic ''nil pointer dereference''))
            | Some kp \<Rightarrow> do {
                err \<leftarrow> client_Create client (AsSecret ns clusterName owner c kp);
                (case err of
                   Some err \<Rightarrow> State_Monad.return (Some err)
                 | None \<Rightarrow> SaveGenerated client ns clusterName owner cs)
              }))"

definition LookupOrGenerate ::
  "('s, 'm) cert_client_scheme \<Rightarrow> string \<Rightarrow> string \<Rightarrow> OwnerReference \<Rightarrow> Certificate list \<Rightarrow>
   ('s, error + Certificate list) state" where
  "LookupOrGenerate client ns clusterName owner c = do {
     found \<leftarrow> Lookup client ns clusterName c;
     (case found of
        Inl err \<Rightarrow> State_Monad.return (Inl err)
      | Inr found \<Rightarrow> do {
          generated \<leftarrow> Generate client found;
          (case generated of
             Inl err \<Rightarrow> State_Monad.return (Inl err)
           | Inr generated \<Rightarrow> do {
               err \<leftarrow> SaveGenerated client ns clusterName owner generated;
               State_Monad.return (case err of Some err \<Rightarrow> Inl err | None \<Rightarrow> Inr generated)
             })
        })
   }"


lemma map_sum_InrD: "map_sum f g r = Inr y \<Longrightarrow> \<exists>x. r = Inr x \<and> y = g x"
  by (cases r) auto

subsection \<open>Names of secrets\<close>

lemma split_last_dash_append:
  assumes "CHR ''-'' \<notin> set p"
  shows "split_last_dash (c @ CHR ''-'' # p) = Some (c, p)"
proof -
  have "dropWhile (\<lambda>x. x \<noteq> CHR ''-'') (rev p @ CHR ''-'' # rev c) = CHR ''-'' # rev c"
    "takeWhile (\<lambda>x. x \<noteq> CHR ''-'') (rev p @ CHR ''-'' # rev c) = rev p"
    using assms by (auto simp: dropWhile_append takeWhile_append)
  then show ?thesis
    by (simp add: split_last_dash_def)
qed

text \<open>
  C35. Parsing the name of a cluster secret gives the cluster and the purpose back, for every purpose
  but one: the purpose of the client certificate of etcd contains a dash, and its names are refused.
\<close>

theorem ParseSecretName_roundtrip:
  assumes "p \<in> set allSecretPurposes"
  shows "if p = APIServerEtcdClient then \<exists>err. ParseSecretName (secret_Name c p) = Inl err
    else ParseSecretName (secret_Name c p) = Inr (c, p)"
proof (cases "p = APIServerEtcdClient")
  case True
  have "split_last_dash ((c @ ''-apiserver-etcd'') @ CHR ''-'' # ''client'') = Some (c @ ''-apiserver-etcd'', ''client'')"
    by (rule split_last_dash_append) simp
  moreover have "''client'' \<notin> set allSecretPurposes"
    by (simp add: allSecretPurposes_def purpose_defs)
  ultimately show ?thesis
    using True by (simp add: ParseSecretName_def secret_Name_def APIServerEtcdClient_def)
next
  case False
  then have "CHR ''-'' \<notin> set p"
    using assms by (auto simp: allSecretPurposes_def purpose_defs)
  then show ?thesis
    using assms False by (simp add: ParseSecretName_def secret_Name_def split_last_dash_append)
qed

theorem ParseSecretName_roundtrip_witness:
  "EtcdCA \<in> set allSecretPurposes \<and> ParseSecretName (secret_Name ''c-1'' EtcdCA) = Inr (''c-1'', EtcdCA)"
  using ParseSecretName_roundtrip [of EtcdCA "''c-1''"] by (simp add: allSecretPurposes_def purpose_defs)

subsection \<open>Certificates are made once\<close>

text \<open>
  What the client of an API server is documented to do with secrets. The secrets that are stored are a
  function of the state, by namespace and name. Any call may fail. A read that succeeds returns what is stored. A creation that succeeds found
  nothing under the key and stored the secret there; one that fails changed nothing or did the same. Making keys does not touch
  the secrets. Where the client is healthy, reads do not fail.
\<close>

definition secret_key :: "Secret \<Rightarrow> string \<times> string" where
  "secret_key sec = (Namespace (Secret_ObjectMeta sec), Name (Secret_ObjectMeta sec))"

definition secret_laws ::
  "('s, 'm) cert_client_scheme \<Rightarrow> ('s \<Rightarrow> string \<times> string \<Rightarrow> Secret option) \<Rightarrow> ('s \<Rightarrow> bool) \<Rightarrow> bool" where
  "secret_laws client secrets_of healthy \<longleftrightarrow>
     (\<forall>ns name s. wp (client_Get client ns name) (\<lambda>r s'. secrets_of s' = secrets_of s \<and>
        (\<forall>sec. r = Inr sec \<longrightarrow> secrets_of s (ns, name) = Some sec) \<and>
        (healthy s \<longrightarrow> healthy s' \<and> (\<forall>sec. secrets_of s (ns, name) = Some sec \<longrightarrow> r = Inr sec))) s) \<and>
     (\<forall>sec s. wp (client_Create client sec) (\<lambda>r s'.
        if secrets_of s (secret_key sec) = None \<and> secrets_of s' = (secrets_of s)(secret_key sec \<mapsto> sec) then True
        else secrets_of s' = secrets_of s \<and> r \<noteq> None) s) \<and>
     (\<forall>s. wp (generateCACert client) (\<lambda>_ s'. secrets_of s' = secrets_of s) s) \<and>
     (\<forall>s. wp (generateServiceAccountKeys client) (\<lambda>_ s'. secrets_of s' = secrets_of s) s)"

lemma secret_lawsD:
  assumes "secret_laws client secrets_of healthy"
  shows "wp (client_Get client ns name) (\<lambda>r s'. secrets_of s' = secrets_of s \<and>
      (\<forall>sec. r = Inr sec \<longrightarrow> secrets_of s (ns, name) = Some sec) \<and>
      (healthy s \<longrightarrow> healthy s' \<and> (\<forall>sec. secrets_of s (ns, name) = Some sec \<longrightarrow> r = Inr sec))) s"
    and "wp (client_Create client sec) (\<lambda>r s'.
      if secrets_of s (secret_key sec) = None \<and> secrets_of s' = (secrets_of s)(secret_key sec \<mapsto> sec) then True
      else secrets_of s' = secrets_of s \<and> r \<noteq> None) s"
    and "wp (generateCACert client) (\<lambda>_ s'. secrets_of s' = secrets_of s) s"
    and "wp (generateServiceAccountKeys client) (\<lambda>_ s'. secrets_of s' = secrets_of s) s"
  using assms by (simp_all add: secret_laws_def)

text \<open>Whether the key pair of the certificate is the one in its secret.\<close>

definition cert_saved :: "string \<Rightarrow> string \<Rightarrow> (string \<times> string \<Rightarrow> Secret option) \<Rightarrow> Certificate \<Rightarrow> bool" where
  "cert_saved ns clusterName secrets c \<longleftrightarrow>
     (\<exists>kp sec. Cert_KeyPair c = Some kp \<and> secrets (ns, secret_Name clusterName (Cert_Purpose c)) = Some sec \<and>
        secretToKeyPair sec = Inr kp)"

text \<open>
  How the secrets may change: a new secret is the one of a certificate of the list that was made, under its name and
  with its owner, where there was none.
\<close>

definition secrets_added ::
  "string \<Rightarrow> string \<Rightarrow> OwnerReference \<Rightarrow> Certificate list \<Rightarrow> (string \<times> string \<Rightarrow> Secret option) \<Rightarrow>
   (string \<times> string \<Rightarrow> Secret option) \<Rightarrow> bool" where
  "secrets_added ns clusterName owner cs secrets secrets' \<longleftrightarrow>
     (\<forall>k. secrets' k = secrets k \<or> secrets k = None \<and>
        (\<exists>c\<in>set cs. \<exists>kp. Cert_Generated c \<and> Cert_KeyPair c = Some kp \<and>
           k = (ns, secret_Name clusterName (Cert_Purpose c)) \<and> secrets' k = Some (AsSecret ns clusterName owner c kp)))"

lemma secrets_added_refl: "secrets_added ns clusterName owner cs m m"
  by (simp add: secrets_added_def)

lemma secrets_added_trans:
  assumes "secrets_added ns clusterName owner cs m m1" "secrets_added ns clusterName owner cs m1 m2"
  shows "secrets_added ns clusterName owner cs m m2"
  unfolding secrets_added_def
proof
  fix k
  show "m2 k = m k \<or> m k = None \<and> (\<exists>c\<in>set cs. \<exists>kp. Cert_Generated c \<and> Cert_KeyPair c = Some kp \<and>
      k = (ns, secret_Name clusterName (Cert_Purpose c)) \<and> m2 k = Some (AsSecret ns clusterName owner c kp))"
    using assms [unfolded secrets_added_def, rule_format, of k] by (cases "m1 k") auto
qed

lemma secrets_added_mono:
  "secrets_added ns clusterName owner cs m m' \<Longrightarrow> set cs \<subseteq> set ds \<Longrightarrow> secrets_added ns clusterName owner ds m m'"
  unfolding secrets_added_def by blast

lemma cert_saved_added:
  assumes "cert_saved ns clusterName m c" "secrets_added ns clusterName owner cs m m'"
  shows "cert_saved ns clusterName m' c"
proof -
  have "m' k = Some sec" if "m k = Some sec" for k sec
    using assms(2) [unfolded secrets_added_def, rule_format, of k] that by auto
  then show ?thesis using assms(1) unfolding cert_saved_def by blast
qed

text \<open>What the steps do to a certificate.\<close>

definition looked_up :: "string \<Rightarrow> string \<Rightarrow> (string \<times> string \<Rightarrow> Secret option) \<Rightarrow> Certificate \<Rightarrow> Certificate \<Rightarrow> bool" where
  "looked_up ns clusterName secrets c c' \<longleftrightarrow>
     (c' = c \<and> \<not> Cert_External c) \<or>
     ((\<exists>kp. c' = c\<lparr>Cert_KeyPair := Some kp\<rparr>) \<and> cert_saved ns clusterName secrets c')"

lemma looked_up_intros:
  "\<not> Cert_External c \<Longrightarrow> looked_up ns clusterName secrets c c"
  "secrets (ns, secret_Name clusterName (Cert_Purpose c)) = Some sec \<Longrightarrow> secretToKeyPair sec = Inr kp \<Longrightarrow>
   looked_up ns clusterName secrets c (c\<lparr>Cert_KeyPair := Some kp\<rparr>)"
  by (auto simp: looked_up_def cert_saved_def)

lemma Lookup_wp:
  assumes laws: "secret_laws client secrets_of healthy"
  shows "wp (Lookup client ns clusterName cs)
     (\<lambda>r s'. secrets_of s' = secrets_of s \<and>
        (\<forall>cs'. r = Inr cs' \<longrightarrow> list_all2 (looked_up ns clusterName (secrets_of s)) cs cs')) s"
proof (induction cs arbitrary: s)
  case Nil
  show ?case by (simp add: wp_simps)
next
  case (Cons c cs)
  show ?case
    unfolding Lookup.simps wp_bind
    by (rule wp_mono [OF secret_lawsD(1) [OF laws]])
      (auto simp: wp_simps split: sum.split intro!: wp_mono [OF Cons.IH] looked_up_intros dest!: map_sum_InrD)
qed

definition made_up :: "Certificate \<Rightarrow> Certificate \<Rightarrow> bool" where
  "made_up c c' \<longleftrightarrow>
     c' = c \<and> (Cert_KeyPair c \<noteq> None \<or> Cert_Purpose c = APIServerEtcdClient) \<or>
     Cert_KeyPair c = None \<and> (\<exists>kp. c' = c\<lparr>Cert_KeyPair := Some kp, Cert_Generated := True\<rparr>)"

lemma Certificate_Generate_wp:
  assumes laws: "secret_laws client secrets_of healthy" and "Cert_KeyPair c = None"
  shows "wp (Certificate_Generate client c)
     (\<lambda>r s'. secrets_of s' = secrets_of s \<and> (\<forall>c'. r = Inr c' \<longrightarrow> made_up c c')) s"
  using assms(2) unfolding Certificate_Generate_def
  by (auto simp: wp_simps made_up_def intro!: wp_mono [OF secret_lawsD(3) [OF laws]]
      wp_mono [OF secret_lawsD(4) [OF laws]] split: sum.splits)

lemma Generate_wp:
  assumes laws: "secret_laws client secrets_of healthy"
  shows "wp (Generate client cs)
     (\<lambda>r s'. secrets_of s' = secrets_of s \<and> (\<forall>cs'. r = Inr cs' \<longrightarrow> list_all2 made_up cs cs')) s"
proof (induction cs arbitrary: s)
  case Nil
  show ?case by (simp add: wp_simps)
next
  case (Cons c cs)
  have "wp (if Cert_KeyPair c = None then Certificate_Generate client c else State_Monad.return (Inr c))
      (\<lambda>r s'. secrets_of s' = secrets_of s \<and> (\<forall>c'. r = Inr c' \<longrightarrow> made_up c c')) s"
    using Certificate_Generate_wp [OF laws] by (simp add: wp_simps made_up_def)
  then show ?case
    unfolding Generate.simps wp_bind
    by (rule wp_mono)
      (auto simp: wp_simps split: sum.split intro!: wp_mono [OF Cons.IH] dest!: map_sum_InrD)
qed

lemma AsSecret_KeyPair: "secretToKeyPair (AsSecret ns clusterName owner c kp) = Inr kp"
  by (simp add: secretToKeyPair_def AsSecret_def TLSCrtDataName_def TLSKeyDataName_def)

lemma AsSecret_key: "secret_key (AsSecret ns clusterName owner c kp) = (ns, secret_Name clusterName (Cert_Purpose c))"
  by (simp add: secret_key_def AsSecret_def)

lemma SaveGenerated_wp:
  assumes laws: "secret_laws client secrets_of healthy"
  shows "wp (SaveGenerated client ns clusterName owner cs)
     (\<lambda>r s'. secrets_added ns clusterName owner cs (secrets_of s) (secrets_of s') \<and>
        (r = None \<longrightarrow> (\<forall>c\<in>set cs. Cert_Generated c \<longrightarrow> cert_saved ns clusterName (secrets_of s') c))) s"
proof (induction cs arbitrary: s)
  case Nil
  show ?case by (simp add: wp_simps secrets_added_refl)
next
  case (Cons c cs)
  have rest: "wp (SaveGenerated client ns clusterName owner cs)
      (\<lambda>r s'. secrets_added ns clusterName owner (c # cs) (secrets_of s) (secrets_of s') \<and>
         (r = None \<longrightarrow> (\<forall>x\<in>set (c # cs). Cert_Generated x \<longrightarrow> cert_saved ns clusterName (secrets_of s') x))) s1"
    if "secrets_added ns clusterName owner (c # cs) (secrets_of s) (secrets_of s1)"
      "Cert_Generated c \<Longrightarrow> cert_saved ns clusterName (secrets_of s1) c" for s1
  proof -
    have "secrets_added ns clusterName owner (c # cs) (secrets_of s) m"
      if "secrets_added ns clusterName owner cs (secrets_of s1) m" for m
      by (rule secrets_added_trans [OF \<open>secrets_added _ _ _ _ _ (secrets_of s1)\<close> secrets_added_mono [OF that]]) auto
    then show ?thesis
      by (intro wp_mono [OF Cons.IH]) (use that(2) in \<open>auto intro: cert_saved_added\<close>)
  qed
  have added: "secrets_added ns clusterName owner (c # cs) m (m((ns, secret_Name clusterName (Cert_Purpose c)) \<mapsto>
      AsSecret ns clusterName owner c kp))"
    if "Cert_Generated c" "Cert_KeyPair c = Some kp" "m (ns, secret_Name clusterName (Cert_Purpose c)) = None" for kp m
    using that by (auto simp: secrets_added_def)
  have saved: "cert_saved ns clusterName (m((ns, secret_Name clusterName (Cert_Purpose c)) \<mapsto>
      AsSecret ns clusterName owner c kp)) c" if "Cert_KeyPair c = Some kp" for kp m
    using that by (simp add: cert_saved_def AsSecret_KeyPair)
  show ?case
  proof (cases "Cert_Generated c")
    case False
    then show ?thesis using rest [of s] by (simp add: secrets_added_refl)
  next
    case True
    show ?thesis
    proof (cases "Cert_KeyPair c")
      case None
      then show ?thesis using True by (simp add: wp_simps secrets_added_refl)
    next
      case (Some kp)
      have "wp (client_Create client (AsSecret ns clusterName owner c kp))
          (\<lambda>err. wp (case err of None \<Rightarrow> SaveGenerated client ns clusterName owner cs
             | Some err \<Rightarrow> State_Monad.return (Some err))
             (\<lambda>r s'. secrets_added ns clusterName owner (c # cs) (secrets_of s) (secrets_of s') \<and>
                (r = None \<longrightarrow> (\<forall>x\<in>set (c # cs). Cert_Generated x \<longrightarrow> cert_saved ns clusterName (secrets_of s') x)))) s"
      proof (rule wp_mono [OF secret_lawsD(2) [OF laws]], goal_cases)
        case (1 err s1)
        then have "secrets_added ns clusterName owner (c # cs) (secrets_of s) (secrets_of s1)"
            "err = None \<Longrightarrow> cert_saved ns clusterName (secrets_of s1) c"
          using added [OF True Some] saved [OF Some]
          by (auto simp: AsSecret_key secrets_added_refl split: if_splits)
        then show ?case
          by (cases err) (use rest in \<open>auto simp: wp_simps\<close>)
      qed
      then show ?thesis
        using True Some by (simp add: wp_bind)
    qed
  qed
qed

lemma saved_one:
  assumes "looked_up ns clusterName secrets c f" "made_up f m" "Cert_KeyPair c = None" "\<not> Cert_Generated c"
    and "Cert_Purpose c = APIServerEtcdClient \<Longrightarrow> Cert_External c" "secrets_added ns clusterName owner cs secrets secrets'"
    and "Cert_Generated m \<Longrightarrow> cert_saved ns clusterName secrets' m"
  shows "cert_saved ns clusterName secrets' m"
proof (cases "Cert_Generated m")
  case False
  then have "m = f" "Cert_KeyPair f \<noteq> None \<or> Cert_Purpose f = APIServerEtcdClient"
    using assms(2) by (auto simp: made_up_def)
  moreover from this have "f \<noteq> c \<or> Cert_External c"
    using assms(3,5) by auto
  ultimately show ?thesis
    using assms(1) cert_saved_added [OF _ assms(6)] by (auto simp: looked_up_def)
qed (rule assms(7))

text \<open>A certificate as it is asked for: no key pair yet, and the client certificate of etcd always from outside.\<close>

definition fresh_certificate :: "Certificate \<Rightarrow> bool" where
  "fresh_certificate c \<longleftrightarrow> Cert_KeyPair c = None \<and> \<not> Cert_Generated c \<and>
     (Cert_Purpose c = APIServerEtcdClient \<longrightarrow> Cert_External c)"

lemma saved_if_made:
  assumes "list_all2 (looked_up ns clusterName secrets) cs found" "list_all2 made_up found made"
    and "\<forall>c\<in>set cs. fresh_certificate c"
    and "secrets_added ns clusterName owner ds secrets secrets'"
    and "\<forall>c\<in>set made. Cert_Generated c \<longrightarrow> cert_saved ns clusterName secrets' c"
  shows "list_all (cert_saved ns clusterName secrets') made \<and> map Cert_Purpose made = map Cert_Purpose cs"
  using assms
proof (induction cs arbitrary: found made)
  case (Cons c cs)
  obtain f fs m ms where eq: "found = f # fs" "made = m # ms" "looked_up ns clusterName secrets c f" "made_up f m"
      "list_all2 (looked_up ns clusterName secrets) cs fs" "list_all2 made_up fs ms"
    using Cons.prems(1,2) by (auto simp: list_all2_Cons1)
  have "cert_saved ns clusterName secrets' m"
    by (rule saved_one [OF eq(3,4) _ _ _ Cons.prems(4)]) (use Cons.prems(3,5) eq(2) in \<open>simp_all add: fresh_certificate_def\<close>)
  moreover have "Cert_Purpose m = Cert_Purpose c"
    using eq by (auto simp: looked_up_def made_up_def)
  moreover have "list_all (cert_saved ns clusterName secrets') ms \<and> map Cert_Purpose ms = map Cert_Purpose cs"
    by (rule Cons.IH [OF eq(5,6) _ Cons.prems(4)]) (use Cons.prems(3,5) eq(2) in simp_all)
  ultimately show ?case
    by (simp add: eq(2))
qed simp

text \<open>
  Which secrets a run may add, in terms of the certificates that it was asked for: that of a missing certificate
  which does not come from outside, under its name in the namespace, owned by the owner.
\<close>

definition made_for ::
  "string \<Rightarrow> string \<Rightarrow> OwnerReference \<Rightarrow> Certificate list \<Rightarrow> (string \<times> string \<Rightarrow> Secret option) \<Rightarrow>
   (string \<times> string \<Rightarrow> Secret option) \<Rightarrow> bool" where
  "made_for ns clusterName owner cs secrets secrets' \<longleftrightarrow>
     (\<forall>k. secrets' k = secrets k \<or> secrets k = None \<and>
        (\<exists>c\<in>set cs. \<not> Cert_External c \<and> k = (ns, secret_Name clusterName (Cert_Purpose c)) \<and>
           (\<exists>sec. secrets' k = Some sec \<and> Secret_Type sec = ClusterSecretType \<and>
              OwnerReferences (Secret_ObjectMeta sec) = [owner] \<and>
              Labels (Secret_ObjectMeta sec) = [(ClusterLabelName, clusterName)] \<and> (\<exists>kp. secretToKeyPair sec = Inr kp))))"

lemma generated_fresh:
  assumes "list_all2 (looked_up ns clusterName secrets) cs found" "list_all2 made_up found made"
    and "\<forall>c\<in>set cs. fresh_certificate c" "m \<in> set made" "Cert_Generated m"
  shows "\<exists>c\<in>set cs. \<not> Cert_External c \<and> Cert_Purpose m = Cert_Purpose c"
proof -
  obtain i where i: "i < length made" "m = made ! i"
    using assms(4) by (auto simp: in_set_conv_nth)
  then have "looked_up ns clusterName secrets (cs ! i) (found ! i)" "made_up (found ! i) m" "i < length cs"
    using assms(1,2) by (auto simp: list_all2_conv_all_nth)
  moreover from this have "fresh_certificate (cs ! i)" using assms(3) by simp
  ultimately have "\<not> Cert_External (cs ! i)" "Cert_Purpose m = Cert_Purpose (cs ! i)"
    using assms(5) by (auto simp: looked_up_def made_up_def fresh_certificate_def)
  then show ?thesis using \<open>i < length cs\<close> by auto
qed

lemma made_for_refl: "made_for ns clusterName owner cs m m"
  by (simp add: made_for_def)

lemma secrets_added_made_for:
  assumes "secrets_added ns clusterName owner made m m'"
    and "\<And>c. c \<in> set made \<Longrightarrow> Cert_Generated c \<Longrightarrow> \<exists>d\<in>set cs. \<not> Cert_External d \<and> Cert_Purpose c = Cert_Purpose d"
  shows "made_for ns clusterName owner cs m m'"
  unfolding made_for_def
proof
  fix k
  show "m' k = m k \<or> m k = None \<and> (\<exists>c\<in>set cs. \<not> Cert_External c \<and> k = (ns, secret_Name clusterName (Cert_Purpose c)) \<and>
      (\<exists>sec. m' k = Some sec \<and> Secret_Type sec = ClusterSecretType \<and> OwnerReferences (Secret_ObjectMeta sec) = [owner] \<and>
         Labels (Secret_ObjectMeta sec) = [(ClusterLabelName, clusterName)] \<and> (\<exists>kp. secretToKeyPair sec = Inr kp)))"
  proof (cases "m' k = m k")
    case False
    then obtain c kp where c: "m k = None" "c \<in> set made" "Cert_Generated c"
        "k = (ns, secret_Name clusterName (Cert_Purpose c))" "m' k = Some (AsSecret ns clusterName owner c kp)"
      using assms(1) unfolding secrets_added_def by blast
    obtain d where "d \<in> set cs" "\<not> Cert_External d" "Cert_Purpose c = Cert_Purpose d"
      using assms(2) [OF c(2,3)] by blast
    moreover have "Secret_Type (AsSecret ns clusterName owner c kp) = ClusterSecretType"
        "OwnerReferences (Secret_ObjectMeta (AsSecret ns clusterName owner c kp)) = [owner]"
        "Labels (Secret_ObjectMeta (AsSecret ns clusterName owner c kp)) = [(ClusterLabelName, clusterName)]"
      using c(3) by (simp_all add: AsSecret_def)
    ultimately show ?thesis
      using c AsSecret_KeyPair [of ns clusterName owner c kp] by auto
  qed simp
qed

lemma LookupOrGenerate_wp:
  assumes laws: "secret_laws client secrets_of healthy" and fresh: "\<forall>c\<in>set cs. fresh_certificate c"
  shows "wp (LookupOrGenerate client ns clusterName owner cs)
    (\<lambda>r s'. made_for ns clusterName owner cs (secrets_of s) (secrets_of s') \<and>
      (\<forall>cs'. r = Inr cs' \<longrightarrow>
         list_all (cert_saved ns clusterName (secrets_of s')) cs' \<and> map Cert_Purpose cs' = map Cert_Purpose cs)) s"
  unfolding LookupOrGenerate_def wp_bind
proof (rule wp_mono [OF Lookup_wp [OF laws]], elim conjE, goal_cases)
  case (1 found s1)
  show ?case
  proof (cases found)
    case (Inr found')
    then have found: "list_all2 (looked_up ns clusterName (secrets_of s)) cs found'"
      using 1 by simp
    show ?thesis
      unfolding Inr sum.case wp_bind
    proof (rule wp_mono [OF Generate_wp [OF laws]], elim conjE, goal_cases)
      case (1 made s2)
      show ?case
      proof (cases made)
        case (Inr made')
        then have made: "list_all2 made_up found' made'" and s2: "secrets_of s2 = secrets_of s"
          using 1 \<open>secrets_of s1 = secrets_of s\<close> by simp_all
        show ?thesis
          unfolding Inr sum.case wp_bind
        proof (rule wp_mono [OF SaveGenerated_wp [OF laws]], elim conjE, unfold s2, goal_cases)
          case (1 err s3)
          then show ?case
            using saved_if_made [OF found made fresh] secrets_added_made_for [OF 1(1) generated_fresh [OF found made fresh]]
            by (auto simp: wp_simps split: option.splits)
        qed
      qed (use 1 \<open>secrets_of s1 = secrets_of s\<close> in \<open>simp add: wp_simps made_for_refl\<close>)
    qed
  qed (use 1 in \<open>simp add: wp_simps made_for_refl\<close>)
qed

text \<open>A run over certificates that are all in their secrets, where no read fails, finds them and changes nothing.\<close>

lemma Lookup_saved_wp:
  assumes laws: "secret_laws client secrets_of healthy"
    and "\<forall>c\<in>set cs. cert_saved ns clusterName (secrets_of s) c" "healthy s"
    and "map Cert_Purpose ds = map Cert_Purpose cs"
  shows "wp (Lookup client ns clusterName ds) (\<lambda>r s'. secrets_of s' = secrets_of s \<and>
    (\<exists>es. r = Inr es \<and> map Cert_KeyPair es = map Cert_KeyPair cs \<and> map Cert_Generated es = map Cert_Generated ds)) s"
  using assms(2-)
proof (induction cs arbitrary: ds s)
  case (Cons c cs)
  then obtain d ds' where ds: "ds = d # ds'" "Cert_Purpose d = Cert_Purpose c" "map Cert_Purpose ds' = map Cert_Purpose cs"
    by (cases ds) auto
  obtain kp sec where kp: "Cert_KeyPair c = Some kp"
      "secrets_of s (ns, secret_Name clusterName (Cert_Purpose c)) = Some sec" "secretToKeyPair sec = Inr kp"
    using Cons.prems(1) by (auto simp: cert_saved_def)
  show ?case
    unfolding ds(1) Lookup.simps wp_bind
  proof (rule wp_mono [OF secret_lawsD(1) [OF laws]], goal_cases)
    case (1 r s1)
    then have r: "r = Inr sec" "secrets_of s1 = secrets_of s" "healthy s1"
      using kp(2) Cons.prems(2) unfolding ds(2) by blast+
    have "wp (Lookup client ns clusterName ds') (\<lambda>r s'. secrets_of s' = secrets_of s1 \<and>
        (\<exists>es. r = Inr es \<and> map Cert_KeyPair es = map Cert_KeyPair cs \<and> map Cert_Generated es = map Cert_Generated ds')) s1"
      by (rule Cons.IH) (use Cons.prems(1) ds(3) r in simp_all)
    then show ?case
      unfolding r(1) sum.case kp(3) wp_bind
      by (rule wp_mono) (auto simp: wp_simps kp(1) r(2))
  qed
qed (simp add: wp_simps)

lemma Generate_done: "\<forall>c\<in>set cs. Cert_KeyPair c \<noteq> None \<Longrightarrow> wp (Generate client cs) Q s = Q (Inr cs) s"
  by (induction cs arbitrary: Q) (auto simp: wp_simps)

lemma SaveGenerated_done:
  "\<forall>c\<in>set cs. \<not> Cert_Generated c \<Longrightarrow> wp (SaveGenerated client ns clusterName owner cs) Q s = Q None s"
  by (induction cs) (auto simp: wp_simps)

lemma LookupOrGenerate_saved_wp:
  assumes laws: "secret_laws client secrets_of healthy"
    and "\<forall>c\<in>set cs. cert_saved ns clusterName (secrets_of s) c" "healthy s"
    and "map Cert_Purpose ds = map Cert_Purpose cs" "\<forall>d\<in>set ds. \<not> Cert_Generated d"
  shows "wp (LookupOrGenerate client ns clusterName owner ds) (\<lambda>r s'. secrets_of s' = secrets_of s \<and>
    (\<exists>es. r = Inr es \<and> map Cert_KeyPair es = map Cert_KeyPair cs)) s"
  unfolding LookupOrGenerate_def wp_bind
proof (rule wp_mono [OF Lookup_saved_wp [OF assms(1-4)]], elim conjE exE, goal_cases)
  case (1 r s1 es)
  have "None \<notin> set (map Cert_KeyPair cs)" "True \<notin> set (map Cert_Generated ds)"
    using assms(2,5) by (auto simp: cert_saved_def)
  then have "None \<notin> Cert_KeyPair ` set es" "True \<notin> Cert_Generated ` set es"
    using 1(3,4) by (metis list.set_map)+
  then have "\<forall>c\<in>set es. Cert_KeyPair c \<noteq> None" "\<forall>c\<in>set es. \<not> Cert_Generated c"
    by force+
  then show ?case
    using 1 by (simp add: wp_simps Generate_done SaveGenerated_done)
qed

lemma new_certificates: "\<forall>c\<in>set (NewCertificatesForInitialControlPlane config). fresh_certificate c"
  by (auto simp: NewCertificatesForInitialControlPlane_def new_certificate_def fresh_certificate_def purpose_defs Let_def
      split: option.split)

text \<open>
  C10. Looking up or generating the certificates of a cluster, with a client that behaves as documented while nobody else
  writes the secrets, and whatever calls of it fail. In every case, failures included, a secret that is
  there stays as it is, and a new one is the well-formed secret of a certificate that does not come from outside, in the
  namespace of the cluster and owned by the given owner. When the run succeeds, every certificate of the control plane is there with the key
  pair that its secret holds, and doing it again while reads do not fail, for instance for a joining control plane machine in a later
  reconciliation, succeeds with the same key pairs and leaves all secrets as they are.
\<close>

theorem LookupOrGenerate_once:
  assumes "secret_laws client secrets_of healthy"
    and "run_state (LookupOrGenerate client ns clusterName owner (NewCertificatesForInitialControlPlane config)) s = (r, s')"
  shows "made_for ns clusterName owner (NewCertificatesForInitialControlPlane config) (secrets_of s) (secrets_of s') \<and>
    (\<forall>cs. r = Inr cs \<longrightarrow>
       list_all (cert_saved ns clusterName (secrets_of s')) cs \<and>
       map Cert_Purpose cs = map Cert_Purpose (NewCertificatesForInitialControlPlane config) \<and>
       (\<forall>later owner'. healthy later \<and> secrets_of later = secrets_of s' \<longrightarrow>
          (\<exists>cs' s2. run_state (LookupOrGenerate client ns clusterName owner' (NewControlPlaneJoinCerts config)) later = (Inr cs', s2) \<and>
             map Cert_KeyPair cs' = map Cert_KeyPair cs \<and> secrets_of s2 = secrets_of s')))"
proof -
  have first: "made_for ns clusterName owner (NewCertificatesForInitialControlPlane config) (secrets_of s) (secrets_of s')"
      "r = Inr cs \<Longrightarrow> list_all (cert_saved ns clusterName (secrets_of s')) cs \<and>
         map Cert_Purpose cs = map Cert_Purpose (NewCertificatesForInitialControlPlane config)" for cs
    using wp_run [OF assms(2) LookupOrGenerate_wp [OF assms(1) new_certificates]] by simp_all
  have "\<exists>cs' s2. run_state (LookupOrGenerate client ns clusterName owner' (NewControlPlaneJoinCerts config)) later = (Inr cs', s2) \<and>
      map Cert_KeyPair cs' = map Cert_KeyPair cs \<and> secrets_of s2 = secrets_of s'"
    if "r = Inr cs" "healthy later" "secrets_of later = secrets_of s'" for cs later owner'
  proof -
    have "wp (LookupOrGenerate client ns clusterName owner' (NewControlPlaneJoinCerts config)) (\<lambda>r s'. secrets_of s' = secrets_of later \<and>
        (\<exists>es. r = Inr es \<and> map Cert_KeyPair es = map Cert_KeyPair cs)) later"
      by (rule LookupOrGenerate_saved_wp [OF assms(1)])
        (use first(2) [OF that(1)] that new_certificates in
          \<open>auto simp: NewControlPlaneJoinCerts_def list_all_iff fresh_certificate_def\<close>)
    then show ?thesis
      using that(3) by (auto simp: wp_def split: prod.splits)
  qed
  then show ?thesis using first by blast
qed

text \<open>
  A client of which the laws hold: a store of secrets in which any call may fail, with any error, and a creation that fails
  may have stored the secret. The list gives the failures to come, with whether the call still has its effect; after its end no call fails.
\<close>

record secret_store =
  ss_secrets :: "(string \<times> string, Secret) go_map"
  ss_faults :: "(bool \<times> error) option list"
  ss_next :: nat

definition store_call :: "(secret_store \<Rightarrow> 'a \<times> secret_store) \<Rightarrow> (error \<Rightarrow> 'a) \<Rightarrow> (secret_store, 'a) state" where
  "store_call f refuse = State (\<lambda>s.
     case ss_faults s of
       [] \<Rightarrow> f s
     | None # fs \<Rightarrow> f (s\<lparr>ss_faults := fs\<rparr>)
     | Some (acts, err) # fs \<Rightarrow> (refuse err, if acts then snd (f (s\<lparr>ss_faults := fs\<rparr>)) else s\<lparr>ss_faults := fs\<rparr>))"

definition store_keys :: "(secret_store, error + KeyPair) state" where
  "store_keys = store_call (\<lambda>s. (Inr \<lparr>KeyPair_Cert = ''crt'' @ show_nat (ss_next s),
     KeyPair_Key = ''key'' @ show_nat (ss_next s)\<rparr>, s\<lparr>ss_next := ss_next s + 1\<rparr>)) Inl"

definition store_client :: "secret_store cert_client" where
  "store_client =
     \<lparr>client_Get = \<lambda>ns name. store_call (\<lambda>s.
        (case map_of (ss_secrets s) (ns, name) of None \<Rightarrow> Inl (NotFound name) | Some sec \<Rightarrow> Inr sec, s)) Inl,
      client_Create = \<lambda>sec. store_call (\<lambda>s.
        case map_of (ss_secrets s) (secret_key sec) of
          Some _ \<Rightarrow> (Some (AlreadyExists (Name (Secret_ObjectMeta sec))), s)
        | None \<Rightarrow> (None, s\<lparr>ss_secrets := (secret_key sec, sec) # ss_secrets s\<rparr>)) Some,
      generateCACert = store_keys, generateServiceAccountKeys = store_keys\<rparr>"

definition store_secrets :: "secret_store \<Rightarrow> string \<times> string \<Rightarrow> Secret option" where
  "store_secrets s = map_of (ss_secrets s)"

definition store_healthy :: "secret_store \<Rightarrow> bool" where
  "store_healthy s = (ss_faults s = [])"

lemma store_client_laws: "secret_laws store_client store_secrets store_healthy"
  by (auto simp: secret_laws_def wp_def store_client_def store_keys_def store_call_def store_secrets_def store_healthy_def
      split: list.split option.split prod.split if_splits)

definition example_owner :: OwnerReference where
  "example_owner = \<lparr>APIVersion = ''v1'', Kind = ''K'', OwnerReference_Name = ''o'', OwnerReference_UID = ''u'',
     Controller = None, BlockOwnerDeletion = None\<rparr>"

text \<open>
  Another namespace has a secret of the same name. The first run loses the answer to its creation of the first secret and
  fails; the second finds that secret and makes the other three.
\<close>

definition example_secret :: Secret where
  "example_secret = AsSecret ''other'' ''c'' example_owner (new_certificate ClusterCA False [] [])
     \<lparr>KeyPair_Cert = ''x'', KeyPair_Key = ''y''\<rparr>"

definition example_run :: "(error + Certificate list) \<times> secret_store" where
  "example_run =
     (let run = run_state (LookupOrGenerate store_client ''ns'' ''c'' example_owner (NewCertificatesForInitialControlPlane None))
      in run (snd (run \<lparr>ss_secrets = [(secret_key example_secret, example_secret)],
           ss_faults = replicate 8 None @ [Some (True, Err ''timeout'')], ss_next = 0\<rparr>)))"

theorem LookupOrGenerate_once_witness:
  "secret_laws store_client store_secrets store_healthy \<and>
   (\<exists>cs s'. example_run = (Inr cs, s') \<and> map (map_option KeyPair_Key \<circ> Cert_KeyPair) cs =
      [Some ''key0'', Some ''key4'', Some ''key5'', Some ''key6''] \<and>
      list_all (cert_saved ''ns'' ''c'' (store_secrets s')) cs \<and>
      (\<exists>cs' s2. run_state (LookupOrGenerate store_client ''ns'' ''c'' example_owner (NewControlPlaneJoinCerts None)) s' = (Inr cs', s2) \<and>
         map Cert_KeyPair cs' = map Cert_KeyPair cs \<and> store_secrets s2 = store_secrets s'))"
proof -
  have "case example_run of (Inr cs, s') \<Rightarrow> map (map_option KeyPair_Key \<circ> Cert_KeyPair) cs =
      [Some ''key0'', Some ''key4'', Some ''key5'', Some ''key6''] \<and> store_healthy s' | _ \<Rightarrow> False"
    by code_simp
  then obtain cs s' where run: "example_run = (Inr cs, s')" "store_healthy s'"
      "map (map_option KeyPair_Key \<circ> Cert_KeyPair) cs = [Some ''key0'', Some ''key4'', Some ''key5'', Some ''key6'']"
    by (cases example_run) (auto split: prod.splits sum.splits)
  note once = LookupOrGenerate_once [OF store_client_laws run(1) [unfolded example_run_def Let_def]]
  show ?thesis
    by (rule conjI [OF store_client_laws], rule exI [of _ cs], rule exI [of _ s'])
      (use once [THEN conjunct2, rule_format, OF refl] run in simp)
qed


subsection \<open>What the client keeps\<close>

text \<open>What every operation of the client keeps, \<open>LookupOrGenerate\<close> keeps.\<close>

locale steady_client = chained R
  for R :: "'s \<Rightarrow> 's \<Rightarrow> bool" +
  fixes client :: "('s, 'm) cert_client_scheme"
  assumes R_Get: "wp (client_Get client ns name) (\<lambda>_. R s) s"
    and R_Create: "wp (client_Create client sec) (\<lambda>_. R s) s"
    and R_generateCACert: "wp (generateCACert client) (\<lambda>_. R s) s"
    and R_generateServiceAccountKeys: "wp (generateServiceAccountKeys client) (\<lambda>_. R s) s"
begin

lemma steady_client: "steady (client_Get client ns name)" "steady (client_Create client sec)"
  "steady (generateCACert client)" "steady (generateServiceAccountKeys client)"
  by (simp_all add: steady_def R_Get R_Create R_generateCACert R_generateServiceAccountKeys)

lemma steady_Lookup: "steady (Lookup client ns clusterName cs)"
  by (induction cs) (auto intro!: steady_intros steady_client)

lemma steady_Generate: "steady (Generate client cs)"
  by (induction cs)
    (auto intro!: steady_intros steady_client simp: Certificate_Generate_def)

lemma steady_SaveGenerated: "steady (SaveGenerated client ns clusterName owner cs)"
  by (induction cs) (auto intro!: steady_intros steady_client)

lemma steady_LookupOrGenerate: "steady (LookupOrGenerate client ns clusterName owner cs)"
  unfolding LookupOrGenerate_def
  by (intro steady_intros steady_Lookup steady_Generate steady_SaveGenerated)

end

end
