(* ===== verification/Controller.thy ===== *)
theory Controller
  imports ControlPlane Certificates
begin

text \<open>
  The ground the controllers of \<open>controlplane/ocne/internal/controllers\<close> stand on, and the helpers
  of \<open>helpers.go\<close> that create machines.

  A reconciliation works on objects in memory and calls the management cluster, the workload cluster
  (the interface \<open>internal.WorkloadCluster\<close>) and packages that reach outside. The state holds the
  trace of these calls, the \<open>OCNEControlPlane\<close> object, and the machines and configurations of the
  control plane; pointers that alias in the code are one field of the state here. The environment
  gives the reply to each call as a function of the calls before it.
\<close>

subsection \<open>Calls and replies\<close>

text \<open>What \<open>external.CreateFromTemplate\<close> is given.\<close>

record CreateFromTemplateInput =
  TemplateRef :: ObjectReference
  Input_Namespace :: string
  OwnerRef :: OwnerReference
  Input_ClusterName :: string
  Input_Labels :: "(string, string) go_map"
  Input_Annotations :: "(string, string) go_map"

text \<open>The methods of the workload cluster.\<close>

datatype wcall =
    ForwardEtcdLeadershipCall Machine "Machine option"
  | RemoveEtcdMemberForMachineCall Machine
  | RemoveMachineFromOCNEConfigMapCall Machine semver
  | ReconcileEtcdMembersCall "string list" semver
  | EtcdMembersCall
  | ClusterStatusCall
  | UpdateStaticPodConditionsCall
  | UpdateEtcdConditionsCall
  | ReconcileKubeletRBACRoleCall semver
  | ReconcileKubeletRBACBindingCall semver
  | AllowBootstrapTokensToGetNodesCall
  | UpdateKubernetesVersionInOCNEConfigMapCall semver
  | UpdateImageRepositoryInOCNEConfigMapCall string semver
  | UpdateEtcdVersionInOCNEConfigMapCall string string semver
  | UpdateEtcdExtraArgsInOCNEConfigMapCall "string string_map" semver
  | UpdateAPIServerInOCNEConfigMapCall APIServer semver
  | UpdateControllerManagerInOCNEConfigMapCall ControlPlaneComponent semver
  | UpdateSchedulerInOCNEConfigMapCall ControlPlaneComponent semver
  | UpdateKubeletConfigMapCall semver
  | UpdateKubeProxyImageInfoCall semver
  | UpdateCoreDNSCall semver
  | GetAPIServerCertificateExpiryCall string

datatype kcall =
    GetKCPCall
  | GetUncachedKCPCall
  | GetClusterCall string string
  | NewKCPHelperCall
  | PatchKCPCall OCNEControlPlane
  | ListMachinesCall bool \<comment> \<open>whether the read goes past the cache\<close>
  | ListMachinePoolsCall
  | ReadObjectsCall
  | CreateFromTemplateCall CreateFromTemplateInput
  | CreateConfigCall OCNEConfig
  | CreateMachineCall Machine
  | DeleteObjectCall ObjectReference
  | DeleteMachineCall string
  | NewMachineHelperCall string
  | PatchMachineCall Machine
  | NewConfigHelperCall string
  | PatchConfigCall OCNEConfig
  | GetConfigCall string
  | UpdateReferenceAPIContractCall ObjectReference
  | GetTemplateCall ObjectReference
  | NewTemplateHelperCall
  | PatchTemplateCall ObjectMeta
  | GetSecretCall string string
  | CreateSecretCall Secret
  | GenerateKeysCall Purpose
  | ListSecretsCall string
  | NewSecretHelperCall string
  | PatchSecretCall Secret
  | UpdateSecretCall Secret
  | CreateKubeconfigCall
  | NeedsClientCertRotationCall
  | RegenerateKubeconfigCall
  | GetKubeconfigCall
  | GetAddonsCall string
  | InstallOrUpgradeCall string
  | GetReleaseCall string
  | UninstallCall string
  | GetWorkloadClusterCall
  | WorkloadCall wcall

text \<open>The status of the workload cluster (\<open>internal.ClusterStatus\<close> in \<open>workload_cluster.go\<close>).\<close>

record WorkloadStatus =
  WorkloadStatus_Nodes :: int
  WorkloadStatus_ReadyNodes :: int
  WorkloadStatus_HasOCNEConfig :: bool

record kenv =
  reply_Error :: "kcall \<Rightarrow> kcall list \<Rightarrow> error option" \<comment> \<open>of the calls that only return an error\<close>
  reply_KCP :: "kcall \<Rightarrow> kcall list \<Rightarrow> error + OCNEControlPlane"
  reply_Cluster :: "string \<Rightarrow> string \<Rightarrow> kcall list \<Rightarrow> error + Cluster"
  reply_Machines :: "bool \<Rightarrow> kcall list \<Rightarrow> error + Machine list"
  reply_MachinePools :: "kcall list \<Rightarrow> error + nat"
  reply_Reads :: "kcall list \<Rightarrow> cp_reads"
  reply_Template :: "kcall list \<Rightarrow> error + ObjectReference"
  reply_TemplateMeta :: "kcall list \<Rightarrow> error + ObjectMeta"
  reply_UID :: "kcall list \<Rightarrow> string"
  reply_Config :: "string \<Rightarrow> kcall list \<Rightarrow> error + OCNEConfig"
  reply_Secret :: "string \<Rightarrow> string \<Rightarrow> kcall list \<Rightarrow> error + Secret"
  reply_KeyPair :: "Purpose \<Rightarrow> kcall list \<Rightarrow> error + KeyPair"
  reply_Contract :: "ObjectReference \<Rightarrow> kcall list \<Rightarrow> error + ObjectReference"
  reply_Secrets :: "kcall list \<Rightarrow> error + Secret list"
  reply_Bool :: "kcall list \<Rightarrow> error + bool"
  reply_Names :: "wcall \<Rightarrow> kcall list \<Rightarrow> error + string list"
  reply_WorkloadStatus :: "kcall list \<Rightarrow> error + WorkloadStatus"
  reply_Expiry :: "kcall list \<Rightarrow> error + string"
  reply_Release :: "string \<Rightarrow> kcall list \<Rightarrow> string option \<times> error option" \<comment> \<open>the release may be nil\<close>
  reply_Conditions :: "wcall \<Rightarrow> kcall list \<Rightarrow> Conditions \<times> Machines \<Rightarrow> Conditions \<times> (Machine \<Rightarrow> Conditions)"
  GenerateName :: "string \<Rightarrow> kcall list \<Rightarrow> string"
  Now :: "kcall list \<Rightarrow> time"
  Error_text :: "error \<Rightarrow> string"
  Selector_String :: "Requirement list \<Rightarrow> string"
  SetControllerReference :: "OCNEControlPlane \<Rightarrow> Machine \<Rightarrow> error + Machine"
  MachinePool_enabled :: bool

record kst =
  k_trace :: "kcall list"
  k_kcp :: OCNEControlPlane
  k_machines :: Machines
  k_configs :: "(string, OCNEConfig) go_map"

type_synonym 'a kact = "(kst, 'a) state"

text \<open>What the methods return: a result and an error.\<close>

type_synonym outcome = "Result \<times> error option"

definition kcall :: "kcall \<Rightarrow> (kcall list \<Rightarrow> 'a) \<Rightarrow> 'a kact" where
  "kcall c reply = State (\<lambda>s. (reply (k_trace s), s\<lparr>k_trace := k_trace s @ [c]\<rparr>))"

definition kmodify :: "(kst \<Rightarrow> kst) \<Rightarrow> unit kact" where
  "kmodify f = State (\<lambda>s. ((), f s))"

definition kread :: "(kst \<Rightarrow> 'a) \<Rightarrow> 'a kact" where
  "kread f = State (\<lambda>s. (f s, s))"

lemma wp_kcall [wp_simps]: "wp (kcall c reply) Q = (\<lambda>s. Q (reply (k_trace s)) (s\<lparr>k_trace := k_trace s @ [c]\<rparr>))"
  by (rule ext) (simp add: wp_def kcall_def)

lemma wp_kmodify [wp_simps]: "wp (kmodify f) Q = (\<lambda>s. Q () (f s))"
  by (rule ext) (simp add: wp_def kmodify_def)

lemma wp_kread [wp_simps]: "wp (kread f) Q = (\<lambda>s. Q (f s) s)"
  by (rule ext) (simp add: wp_def kread_def)

text \<open>A call that only returns an error.\<close>

definition ecall_of :: "'r kenv_scheme \<Rightarrow> kcall \<Rightarrow> error option kact" where
  "ecall_of env c = kcall c (reply_Error env c)"

lemma wp_ecall_of [wp_simps]:
  "wp (ecall_of env c) Q = (\<lambda>s. Q (reply_Error env c (k_trace s)) (s\<lparr>k_trace := k_trace s @ [c]\<rparr>))"
  by (simp add: ecall_of_def wp_simps)

text \<open>Marking a condition of the control plane object, at the time of the clock.\<close>

definition mark :: "'r kenv_scheme \<Rightarrow> (time \<Rightarrow> Conditions \<Rightarrow> Conditions) \<Rightarrow> unit kact" where
  "mark env f = kmodify (\<lambda>s. s\<lparr>k_kcp := with_conditions (f (Now env (k_trace s))) (k_kcp s)\<rparr>)"

lemma wp_mark [wp_simps]:
  "wp (mark env f) Q = (\<lambda>s. Q () (s\<lparr>k_kcp := with_conditions (f (Now env (k_trace s))) (k_kcp s)\<rparr>))"
  by (simp add: mark_def wp_simps)

subsection \<open>Creating machines\<close>

definition bootstrap_GroupVersion :: string where
  "bootstrap_GroupVersion = ''bootstrap.cluster.x-k8s.io/v1alpha1''"

definition kcp_owner :: "OCNEControlPlane \<Rightarrow> OwnerReference" where
  "kcp_owner ocnecp =
     \<lparr>APIVersion = controlplane_GroupVersion, Kind = ''OCNEControlPlane'',
      OwnerReference_Name = Name (KCP_ObjectMeta ocnecp), OwnerReference_UID = UID (KCP_ObjectMeta ocnecp),
      Controller = None, BlockOwnerDeletion = None\<rparr>"

definition config_for ::
  "'x ext_scheme \<Rightarrow> OCNEControlPlane \<Rightarrow> Cluster \<Rightarrow> string \<Rightarrow> OCNEConfigSpec \<Rightarrow> OCNEConfig" where
  "config_for e ocnecp cluster name spec =
     \<lparr>OCNEConfig_TypeMeta = zero_TypeMeta,
      OCNEConfig_ObjectMeta = empty_meta\<lparr>
        Name := name,
        Namespace := Namespace (KCP_ObjectMeta ocnecp),
        Labels := ControlPlaneMachineLabelsForCluster e ocnecp (Name (Cluster_ObjectMeta cluster)),
        Annotations := MachineTemplate_Annotations (Spec_MachineTemplate (KCP_Spec ocnecp)),
        OwnerReferences := [kcp_owner ocnecp]\<rparr>,
      OCNEConfig_Spec = spec,
      OCNEConfig_Status = zero_OCNEConfigStatus\<rparr>"

definition generateKubeadmConfig ::
  "'x ext_scheme \<Rightarrow> 'r kenv_scheme \<Rightarrow> Cluster \<Rightarrow> OCNEConfigSpec \<Rightarrow> (error + ObjectReference) kact" where
  "generateKubeadmConfig e env cluster spec = do {
     ocnecp \<leftarrow> kread k_kcp;
     name \<leftarrow> kread (\<lambda>s. GenerateName env (Name (KCP_ObjectMeta ocnecp) @ ''-'') (k_trace s));
     uid \<leftarrow> kread (\<lambda>s. reply_UID env (k_trace s));
     err \<leftarrow> ecall_of env (CreateConfigCall (config_for e ocnecp cluster name spec));
     State_Monad.return
       (case err of
          Some err \<Rightarrow> Inl (Wrap ''Failed to create bootstrap configuration'' err)
        | None \<Rightarrow> Inr \<lparr>ObjectReference_Kind = ''OCNEConfig'',
            ObjectReference_Namespace = Namespace (KCP_ObjectMeta ocnecp), ObjectReference_Name = name,
            ObjectReference_UID = uid, ObjectReference_APIVersion = bootstrap_GroupVersion\<rparr>)
   }"

text \<open>
  The machine object. The annotations of the template are added to a fresh map, the encoded cluster
  configuration last.
\<close>

definition machine_for ::
  "'x ext_scheme \<Rightarrow> OCNEControlPlane \<Rightarrow> Cluster \<Rightarrow> string \<Rightarrow> ObjectReference \<Rightarrow> ObjectReference option \<Rightarrow>
   string option \<Rightarrow> string \<Rightarrow> Machine" where
  "machine_for e ocnecp cluster name infraRef bootstrapRef failureDomain clusterConfig =
     \<lparr>Machine_TypeMeta = zero_TypeMeta,
      Machine_ObjectMeta = empty_meta\<lparr>
        Name := name,
        Namespace := Namespace (KCP_ObjectMeta ocnecp),
        Labels := ControlPlaneMachineLabelsForCluster e ocnecp (Name (Cluster_ObjectMeta cluster)),
        Annotations := AList.update OCNEClusterConfigurationAnnotation clusterConfig
          (fold (\<lambda>(k, v). AList.update k v) (MachineTemplate_Annotations (Spec_MachineTemplate (KCP_Spec ocnecp))) []),
        OwnerReferences := [NewControllerRef e (KCP_ObjectMeta ocnecp) controlplane_GroupVersion ''OCNEControlPlane'']\<rparr>,
      Machine_Spec_ClusterName = Name (Cluster_ObjectMeta cluster),
      Machine_Spec_Bootstrap_ConfigRef = bootstrapRef,
      Machine_Spec_InfrastructureRef = infraRef,
      Machine_Spec_Version = Some (Spec_Version (KCP_Spec ocnecp)),
      Machine_Spec_FailureDomain = failureDomain,
      Machine_Spec_NodeDrainTimeout = MachineTemplate_NodeDrainTimeout (Spec_MachineTemplate (KCP_Spec ocnecp)),
      Machine_Spec_NodeDeletionTimeout = MachineTemplate_NodeDeletionTimeout (Spec_MachineTemplate (KCP_Spec ocnecp)),
      Machine_Status_NodeRef = None,
      Machine_Status_CertificatesExpiryDate = None,
      Machine_Status_Conditions = []\<rparr>"

definition generateMachine ::
  "'x ext_scheme \<Rightarrow> json_codec \<Rightarrow> 'r kenv_scheme \<Rightarrow> Cluster \<Rightarrow> ObjectReference \<Rightarrow> ObjectReference option \<Rightarrow>
   string option \<Rightarrow> error option kact" where
  "generateMachine e json env cluster infraRef bootstrapRef failureDomain = do {
     ocnecp \<leftarrow> kread k_kcp;
     name \<leftarrow> kread (\<lambda>s. GenerateName env (Name (KCP_ObjectMeta ocnecp) @ ''-'') (k_trace s));
     (case json_Marshal json (OCNEConfigSpec_ClusterConfiguration (Spec_ControlPlaneConfig (KCP_Spec ocnecp))) of
        Inl err \<Rightarrow> State_Monad.return (Some (Wrap ''failed to marshal cluster configuration'' err))
      | Inr clusterConfig \<Rightarrow> do {
          err \<leftarrow> ecall_of env (CreateMachineCall
            (machine_for e ocnecp cluster name infraRef bootstrapRef failureDomain clusterConfig));
          State_Monad.return (map_option (Wrap ''failed to create machine'') err)
        })
   }"

fun cleanupFromGeneration :: "'r kenv_scheme \<Rightarrow> ObjectReference option list \<Rightarrow> error list \<Rightarrow> error option kact" where
  "cleanupFromGeneration env [] errs = State_Monad.return (NewAggregate errs)"
| "cleanupFromGeneration env (None # refs) errs = cleanupFromGeneration env refs errs"
| "cleanupFromGeneration env (Some ref # refs) errs = do {
     err \<leftarrow> ecall_of env (DeleteObjectCall ref);
     cleanupFromGeneration env refs (errs @
       (case err of
          Some err \<Rightarrow> if IsNotFound err then [] else [Wrap ''failed to cleanup generated resources after error'' err]
        | None \<Rightarrow> []))
   }"

definition generate_or_cleanup ::
  "'x ext_scheme \<Rightarrow> json_codec \<Rightarrow> 'r kenv_scheme \<Rightarrow> Cluster \<Rightarrow> ObjectReference \<Rightarrow> ObjectReference \<Rightarrow>
   string option \<Rightarrow> error option kact" where
  "generate_or_cleanup e json env cluster infraRef bootstrapRef failureDomain = do {
     err \<leftarrow> generateMachine e json env cluster infraRef (Some bootstrapRef) failureDomain;
     (case err of
        None \<Rightarrow> State_Monad.return None
      | Some err \<Rightarrow> do {
          mark env (\<lambda>now cs. MarkFalse now cs MachinesCreatedCondition MachineGenerationFailedReason
            SeverityError (Sprintf0 (Error_text env err)));
          cleanup \<leftarrow> cleanupFromGeneration env [Some infraRef, Some bootstrapRef] [];
          State_Monad.return (NewAggregate (Wrap ''failed to create Machine'' err #
            (case cleanup of None \<Rightarrow> [] | Some c \<Rightarrow> [Wrap ''failed to cleanup generated resources'' c])))
        })
   }"

definition cloneConfigsAndGenerateMachine ::
  "'x ext_scheme \<Rightarrow> json_codec \<Rightarrow> 'r kenv_scheme \<Rightarrow> Cluster \<Rightarrow> OCNEConfigSpec \<Rightarrow> string option \<Rightarrow>
   error option kact" where
  "cloneConfigsAndGenerateMachine e json env cluster bootstrapSpec failureDomain = do {
     ocnecp \<leftarrow> kread k_kcp;
     infra \<leftarrow> kcall (CreateFromTemplateCall
       \<lparr>TemplateRef = MachineTemplate_InfrastructureRef (Spec_MachineTemplate (KCP_Spec ocnecp)),
        Input_Namespace = Namespace (KCP_ObjectMeta ocnecp),
        OwnerRef = kcp_owner ocnecp,
        Input_ClusterName = Name (Cluster_ObjectMeta cluster),
        Input_Labels = ControlPlaneMachineLabelsForCluster e ocnecp (Name (Cluster_ObjectMeta cluster)),
        Input_Annotations = MachineTemplate_Annotations (Spec_MachineTemplate (KCP_Spec ocnecp))\<rparr>)
       (reply_Template env);
     (case infra of
        Inl err \<Rightarrow> do {
          mark env (\<lambda>now cs. MarkFalse now cs MachinesCreatedCondition InfrastructureTemplateCloningFailedReason
            SeverityError (Sprintf0 (Error_text env err)));
          State_Monad.return (Some (Wrap ''failed to clone infrastructure template'' err))
        }
      | Inr infraRef \<Rightarrow> do {
          bootstrap \<leftarrow> generateKubeadmConfig e env cluster bootstrapSpec;
          (case bootstrap of
             Inl err \<Rightarrow> do {
               mark env (\<lambda>now cs. MarkFalse now cs MachinesCreatedCondition BootstrapTemplateCloningFailedReason
                 SeverityError (Sprintf0 (Error_text env err)));
               cleanup \<leftarrow> cleanupFromGeneration env [Some infraRef, None] [];
               State_Monad.return (NewAggregate (Wrap ''failed to generate bootstrap config'' err #
                 (case cleanup of None \<Rightarrow> [] | Some c \<Rightarrow> [Wrap ''failed to cleanup generated resources'' c])))
             }
           | Inr bootstrapRef \<Rightarrow> generate_or_cleanup e json env cluster infraRef bootstrapRef failureDomain)
        })
   }"

subsection \<open>What creating a machine does\<close>

fun creates_machine :: "kcall \<Rightarrow> bool" where
  "creates_machine (CreateMachineCall _) = True"
| "creates_machine _ = False"

fun deletes_machine :: "kcall \<Rightarrow> bool" where
  "deletes_machine (DeleteMachineCall _) = True"
| "deletes_machine _ = False"

text \<open>
  The errors that a reported error is made of, without the messages it is wrapped in, and the
  failures of deletions that a cleanup has to report: all but those of objects that are gone already.
\<close>

fun root_causes :: "error \<Rightarrow> error list" where
  "root_causes (Wrap _ err) = root_causes err"
| "root_causes (Aggregate errs) = concat (map root_causes errs)"
| "root_causes err = [err]"

fun cleanup_failures :: "'r kenv_scheme \<Rightarrow> kcall list \<Rightarrow> ObjectReference list \<Rightarrow> error list" where
  "cleanup_failures env t [] = []"
| "cleanup_failures env t (ref # refs) =
     filter (\<lambda>err. \<not> IsNotFound err) (case reply_Error env (DeleteObjectCall ref) t of None \<Rightarrow> [] | Some err \<Rightarrow> [err]) @
     cleanup_failures env (t @ [DeleteObjectCall ref]) refs"

definition reports_all :: "error \<Rightarrow> error \<Rightarrow> error list \<Rightarrow> bool" where
  "reports_all err cause failures \<longleftrightarrow> root_causes err = concat (map root_causes (cause # failures))"

text \<open>
  The calls of one creation, in order: the infrastructure object, the configuration and the machine;
  after a failure the objects made so far are deleted. \<open>Created\<close> is the only way to report success; in the other cases
  the error that is returned is made of that of the step that failed and those of the deletions. \<open>enc\<close> is the
  outcome of encoding the cluster configuration for the annotation of the machine.
\<close>

inductive generation ::
  "'r kenv_scheme \<Rightarrow> error + string \<Rightarrow> kcall list \<Rightarrow> kcall list \<Rightarrow> error option \<Rightarrow> bool" for env enc t where
  CloneFailed: "reply_Template env t = Inl e \<Longrightarrow> reports_all err e [] \<Longrightarrow>
     generation env enc t [CreateFromTemplateCall inp] (Some err)"
| ConfigFailed: "reply_Template env t = Inr infra \<Longrightarrow>
     reply_Error env (CreateConfigCall cfg) (t @ [CreateFromTemplateCall inp]) = Some e \<Longrightarrow>
     reports_all err e (cleanup_failures env (t @ [CreateFromTemplateCall inp, CreateConfigCall cfg]) [infra]) \<Longrightarrow>
     generation env enc t [CreateFromTemplateCall inp, CreateConfigCall cfg, DeleteObjectCall infra] (Some err)"
| EncodeFailed: "reply_Template env t = Inr infra \<Longrightarrow>
     reply_Error env (CreateConfigCall cfg) (t @ [CreateFromTemplateCall inp]) = None \<Longrightarrow>
     ObjectReference_Name ref = Name (OCNEConfig_ObjectMeta cfg) \<Longrightarrow> enc = Inl e \<Longrightarrow>
     reports_all err e (cleanup_failures env (t @ [CreateFromTemplateCall inp, CreateConfigCall cfg]) [infra, ref]) \<Longrightarrow>
     generation env enc t [CreateFromTemplateCall inp, CreateConfigCall cfg,
       DeleteObjectCall infra, DeleteObjectCall ref] (Some err)"
| MachineFailed: "reply_Template env t = Inr infra \<Longrightarrow>
     reply_Error env (CreateConfigCall cfg) (t @ [CreateFromTemplateCall inp]) = None \<Longrightarrow> enc = Inr cc \<Longrightarrow>
     reply_Error env (CreateMachineCall m) (t @ [CreateFromTemplateCall inp, CreateConfigCall cfg]) = Some e \<Longrightarrow>
     ObjectReference_Name ref = Name (OCNEConfig_ObjectMeta cfg) \<Longrightarrow>
     reports_all err e
       (cleanup_failures env (t @ [CreateFromTemplateCall inp, CreateConfigCall cfg, CreateMachineCall m]) [infra, ref]) \<Longrightarrow>
     generation env enc t [CreateFromTemplateCall inp, CreateConfigCall cfg, CreateMachineCall m,
       DeleteObjectCall infra, DeleteObjectCall ref] (Some err)"
| Created: "reply_Template env t = Inr infra \<Longrightarrow>
     reply_Error env (CreateConfigCall cfg) (t @ [CreateFromTemplateCall inp]) = None \<Longrightarrow> enc = Inr cc \<Longrightarrow>
     reply_Error env (CreateMachineCall m) (t @ [CreateFromTemplateCall inp, CreateConfigCall cfg]) = None \<Longrightarrow>
     Machine_Spec_InfrastructureRef m = infra \<Longrightarrow>
     map_option ObjectReference_Name (Machine_Spec_Bootstrap_ConfigRef m) = Some (Name (OCNEConfig_ObjectMeta cfg)) \<Longrightarrow>
     map_of (Annotations (Machine_ObjectMeta m)) OCNEClusterConfigurationAnnotation = Some cc \<Longrightarrow>
     generation env enc t [CreateFromTemplateCall inp, CreateConfigCall cfg, CreateMachineCall m] None"

lemma config_for_Name [simp]: "Name (OCNEConfig_ObjectMeta (config_for e k cluster name spec)) = name"
  by (simp add: config_for_def)

lemma machine_for_simps [simp]:
  "Machine_Spec_InfrastructureRef (machine_for e k cluster name infra ref fd cc) = infra"
  "Machine_Spec_Bootstrap_ConfigRef (machine_for e k cluster name infra ref fd cc) = ref"
  "Machine_Spec_FailureDomain (machine_for e k cluster name infra ref fd cc) = fd"
  "map_of (Annotations (Machine_ObjectMeta (machine_for e k cluster name infra ref fd cc))) OCNEClusterConfigurationAnnotation = Some cc"
  by (simp_all add: machine_for_def update_conv')

lemma generateKubeadmConfig_wp:
  fixes env :: "'r kenv_scheme"
  shows "wp (generateKubeadmConfig e env cluster spec)
    (\<lambda>r s'. let name = GenerateName env (Name (KCP_ObjectMeta (k_kcp s)) @ ''-'') (k_trace s);
           c = CreateConfigCall (config_for e (k_kcp s) cluster name spec)
       in s' = s\<lparr>k_trace := k_trace s @ [c]\<rparr> \<and>
          (case r of
             Inl err \<Rightarrow> (\<exists>e. reply_Error env c (k_trace s) = Some e \<and> root_causes err = root_causes e)
           | Inr ref \<Rightarrow> reply_Error env c (k_trace s) = None \<and> ObjectReference_Name ref = name)) s"
  unfolding generateKubeadmConfig_def
  by (simp add: wp_simps Let_def split: option.split)

definition encoding :: "json_codec \<Rightarrow> kst \<Rightarrow> error + string" where
  "encoding json s = json_Marshal json (OCNEConfigSpec_ClusterConfiguration (Spec_ControlPlaneConfig (KCP_Spec (k_kcp s))))"

lemma generateMachine_wp:
  fixes env :: "'r kenv_scheme"
  shows "wp (generateMachine e json env cluster infra ref fd)
    (\<lambda>r s'. case encoding json s of
       Inl err \<Rightarrow> (\<exists>err'. r = Some err' \<and> root_causes err' = root_causes err) \<and> s' = s
     | Inr cc \<Rightarrow> (\<exists>name. let c = CreateMachineCall (machine_for e (k_kcp s) cluster name infra ref fd cc)
          in s' = s\<lparr>k_trace := k_trace s @ [c]\<rparr> \<and>
             (case reply_Error env c (k_trace s) of
                None \<Rightarrow> r = None
              | Some err \<Rightarrow> \<exists>err'. r = Some err' \<and> root_causes err' = root_causes err))) s"
  unfolding generateMachine_def encoding_def
  by (auto simp: wp_simps Let_def split: sum.split option.split)

lemma cleanupFromGeneration_wp:
  fixes env :: "'r kenv_scheme"
  shows "wp (cleanupFromGeneration env refs errs)
    (\<lambda>r s'. s' = s\<lparr>k_trace := k_trace s @ map DeleteObjectCall (concat (map (case_option [] (\<lambda>ref. [ref])) refs))\<rparr> \<and>
       concat (map root_causes (case r of None \<Rightarrow> [] | Some err \<Rightarrow> [err])) =
         concat (map root_causes (errs @ cleanup_failures env (k_trace s) (concat (map (case_option [] (\<lambda>ref. [ref])) refs))))) s"
proof (induction refs arbitrary: errs s)
  case Nil
  show ?case by (cases errs) (simp_all add: wp_simps)
next
  case (Cons ref refs)
  show ?case
    by (cases ref) (auto simp: wp_simps split: option.split intro!: wp_mono [OF Cons.IH])
qed

text \<open>What a creation leaves alone.\<close>

definition same_objects :: "kst \<Rightarrow> kst \<Rightarrow> bool" where
  "same_objects s s' \<longleftrightarrow>
     KCP_Spec (k_kcp s') = KCP_Spec (k_kcp s) \<and> KCP_ObjectMeta (k_kcp s') = KCP_ObjectMeta (k_kcp s) \<and>
     k_machines s' = k_machines s \<and> k_configs s' = k_configs s"

definition generated :: "json_codec \<Rightarrow> 'r kenv_scheme \<Rightarrow> kst \<Rightarrow> error option \<Rightarrow> kst \<Rightarrow> bool" where
  "generated json env s r s' \<longleftrightarrow> same_objects s s' \<and>
     (\<exists>new. k_trace s' = k_trace s @ new \<and> generation env (encoding json s) (k_trace s) new r)"

lemma generatedI:
  "same_objects s s' \<Longrightarrow> k_trace s' = k_trace s @ new \<Longrightarrow> generation env (encoding json s) (k_trace s) new r \<Longrightarrow>
   generated json env s r s'"
  by (auto simp: generated_def)

text \<open>What is returned after a failure and the cleanup.\<close>

lemma reports_all_aggregate:
  assumes "root_causes err = root_causes cause"
    "concat (map root_causes (case r of None \<Rightarrow> [] | Some c \<Rightarrow> [c])) = concat (map root_causes failures)"
  shows "reports_all (Aggregate (Wrap msg err # (case r of None \<Rightarrow> [] | Some c \<Rightarrow> [Wrap msg' c]))) cause failures"
  using assms by (auto simp: reports_all_def split: option.splits)

lemma generate_or_cleanup_wp:
  fixes env :: "'r kenv_scheme"
  assumes "reply_Template env (k_trace s) = Inr infra"
    and "reply_Error env (CreateConfigCall cfg) (k_trace s @ [CreateFromTemplateCall inp]) = None"
    and "ObjectReference_Name ref = Name (OCNEConfig_ObjectMeta cfg)"
  shows "wp (generate_or_cleanup e json env cluster infra ref fd) (generated json env s)
    (s\<lparr>k_trace := k_trace s @ [CreateFromTemplateCall inp, CreateConfigCall cfg]\<rparr>)"
  unfolding generate_or_cleanup_def wp_bind
proof (rule wp_mono [OF generateMachine_wp], goal_cases)
  case (1 r s1)
  have enc: "encoding json (s\<lparr>k_trace := t\<rparr>) = encoding json s" for t
    by (simp add: encoding_def)
  show ?case
  proof (cases "encoding json s")
    case (Inl cause)
    with 1 obtain err where "r = Some err" "root_causes err = root_causes cause"
        "s1 = s\<lparr>k_trace := k_trace s @ [CreateFromTemplateCall inp, CreateConfigCall cfg]\<rparr>"
      by (auto simp: enc)
    then show ?thesis
      by (auto simp: wp_simps same_objects_def simp del: cleanupFromGeneration.simps intro!: wp_mono [OF cleanupFromGeneration_wp] generatedI
          generation.EncodeFailed [OF assms Inl] reports_all_aggregate)
  next
    case (Inr cc)
    with 1 obtain name where s1: "s1 = s\<lparr>k_trace := k_trace s @ [CreateFromTemplateCall inp, CreateConfigCall cfg,
          CreateMachineCall (machine_for e (k_kcp s) cluster name infra (Some ref) fd cc)]\<rparr>"
      and r: "case reply_Error env (CreateMachineCall (machine_for e (k_kcp s) cluster name infra (Some ref) fd cc))
          (k_trace s @ [CreateFromTemplateCall inp, CreateConfigCall cfg]) of
          None \<Rightarrow> r = None | Some err \<Rightarrow> \<exists>err'. r = Some err' \<and> root_causes err' = root_causes err"
      by (auto simp: enc Let_def)
    show ?thesis
    proof (cases r)
      case None
      then show ?thesis
        using r s1 assms(3) by (auto simp: wp_simps same_objects_def split: option.splits
            intro!: generatedI generation.Created [OF assms(1,2) Inr])
    next
      case (Some err)
      with r obtain cause where "reply_Error env (CreateMachineCall (machine_for e (k_kcp s) cluster name infra (Some ref) fd cc))
          (k_trace s @ [CreateFromTemplateCall inp, CreateConfigCall cfg]) = Some cause" "root_causes err = root_causes cause"
        by (auto split: option.splits)
      then show ?thesis
        using Some s1
        by (auto simp: wp_simps same_objects_def simp del: cleanupFromGeneration.simps intro!: wp_mono [OF cleanupFromGeneration_wp] generatedI
            generation.MachineFailed [OF assms(1,2) Inr _ assms(3)] reports_all_aggregate)
    qed
  qed
qed

lemma cloneConfigsAndGenerateMachine_wp:
  fixes env :: "'r kenv_scheme"
  shows "wp (cloneConfigsAndGenerateMachine e json env cluster spec fd) (generated json env s) s"
proof (cases "reply_Template env (k_trace s)")
  case (Inl err)
  then show ?thesis
    by (auto simp: cloneConfigsAndGenerateMachine_def wp_simps same_objects_def reports_all_def
        intro!: generatedI generation.CloneFailed)
next
  case (Inr infra)
  show ?thesis
    unfolding cloneConfigsAndGenerateMachine_def wp_simps Inr sum.case
  proof (rule wp_mono [OF generateKubeadmConfig_wp], goal_cases)
    case (1 bootstrap s1)
    show ?case
    proof (cases bootstrap)
      case (Inl err)
      then show ?thesis
        using 1
        by (auto simp: Let_def wp_simps same_objects_def simp del: cleanupFromGeneration.simps intro!: wp_mono [OF cleanupFromGeneration_wp] generatedI
            generation.ConfigFailed [OF Inr] reports_all_aggregate)
    next
      case (Inr ref)
      then show ?thesis
        using 1 by (auto simp: Let_def intro!: generate_or_cleanup_wp [OF \<open>reply_Template env (k_trace s) = Inr infra\<close>])
    qed
  qed
qed

subsection \<open>A new machine is up to date\<close>

lemma map_of_fold_update:
  assumes "wf_map kvs"
  shows "map_of (fold (\<lambda>kv. AList.update (fst kv) (snd kv)) kvs base) x =
    (case map_of kvs x of Some v \<Rightarrow> Some v | None \<Rightarrow> map_of base x)"
  using assms
proof (induction kvs arbitrary: base)
  case (Cons kv kvs)
  moreover have "map_of kvs k = None" if "kv = (k, v)" for k v
    using Cons.prems that by (auto simp: wf_map_def map_of_eq_None_iff)
  ultimately show ?case
    by (cases kv) (auto simp: wf_map_def update_conv' split: option.split)
qed simp

lemma isSubsetMapOf_lookup:
  assumes "\<And>k v. map_of base k = Some v \<Longrightarrow> map_of existing k = Some v" "wf_map base"
  shows "isSubsetMapOf base existing"
  using assms wf_map_lookup [OF assms(2)] by (auto simp: isSubsetMapOf_iff dest: map_of_SomeD)

definition reserved_labels :: "string list" where
  "reserved_labels = [ClusterLabelName, MachineControlPlaneLabelName, MachineControlPlaneNameLabel]"

lemma machine_labels_lookup:
  fixes e :: "'x ext_scheme"
  assumes "wf_map (MachineTemplate_Labels (Spec_MachineTemplate (KCP_Spec k)))" "x \<notin> set reserved_labels"
  shows "map_of (ControlPlaneMachineLabelsForCluster e k c) x =
    map_of (MachineTemplate_Labels (Spec_MachineTemplate (KCP_Spec k))) x"
  using assms map_of_fold_update [OF assms(1), of "[]" x]
  by (simp add: ControlPlaneMachineLabelsForCluster_def reserved_labels_def update_conv'
      foldl_conv_fold split_def split: option.splits)

text \<open>
  The labels and annotations of the machine template that a new machine can carry unchanged: distinct
  keys, none of them among the keys the controller sets itself.
\<close>

definition template_ok :: "OCNEControlPlane \<Rightarrow> bool" where
  "template_ok k \<longleftrightarrow>
     (let t = Spec_MachineTemplate (KCP_Spec k)
      in wf_map (MachineTemplate_Labels t) \<and> wf_map (MachineTemplate_Annotations t) \<and>
         set reserved_labels \<inter> fst ` set (MachineTemplate_Labels t) = {} \<and>
         OCNEClusterConfigurationAnnotation \<notin> fst ` set (MachineTemplate_Annotations t))"

lemma template_labels_kept:
  fixes e :: "'x ext_scheme"
  assumes "template_ok k"
  shows "isSubsetMapOf (MachineTemplate_Labels (Spec_MachineTemplate (KCP_Spec k)))
    (ControlPlaneMachineLabelsForCluster e k c)"
proof (rule isSubsetMapOf_lookup)
  let ?ls = "MachineTemplate_Labels (Spec_MachineTemplate (KCP_Spec k))"
  show wf: "wf_map ?ls"
    using assms by (simp add: template_ok_def Let_def)
  fix x v
  assume x: "map_of ?ls x = Some v"
  then have "x \<in> fst ` set ?ls"
    by (metis domI dom_map_of_conv_image_fst)
  then have "x \<notin> set reserved_labels"
    using assms by (auto simp: template_ok_def Let_def)
  then show "map_of (ControlPlaneMachineLabelsForCluster e k c) x = Some v"
    using machine_labels_lookup [OF wf, of x e c] x by simp
qed

lemma template_annotations_kept:
  fixes e :: "'x ext_scheme"
  assumes "template_ok k"
  shows "isSubsetMapOf (MachineTemplate_Annotations (Spec_MachineTemplate (KCP_Spec k)))
    (Annotations (Machine_ObjectMeta (machine_for e k cluster name infra ref fd cc)))"
proof (rule isSubsetMapOf_lookup)
  let ?as = "MachineTemplate_Annotations (Spec_MachineTemplate (KCP_Spec k))"
  show wf: "wf_map ?as"
    using assms by (simp add: template_ok_def Let_def)
  fix x v
  assume x: "map_of ?as x = Some v"
  then have "x \<in> fst ` set ?as"
    by (metis domI dom_map_of_conv_image_fst)
  then have "x \<noteq> OCNEClusterConfigurationAnnotation"
    using assms unfolding template_ok_def Let_def by blast
  then show "map_of (Annotations (Machine_ObjectMeta (machine_for e k cluster name infra ref fd cc))) x = Some v"
    using x map_of_fold_update [OF wf, of "[]" x] by (simp add: machine_for_def update_conv' split_def)
qed

lemma config_matches_self:
  "config_matches (c\<lparr>OCNEConfigSpec_JoinConfiguration := None\<rparr>) c"
  "config_matches (c\<lparr>OCNEConfigSpec_InitConfiguration := None\<rparr>) c"
  by (cases "OCNEConfigSpec_InitConfiguration c"; cases "OCNEConfigSpec_JoinConfiguration c";
      simp add: config_matches_def init_matches_def join_matches_def)+

lemma isSubsetMapOf_refl: "isSubsetMapOf m m"
  by (auto simp: isSubsetMapOf_iff)

text \<open>
  What \<open>external.CreateFromTemplate\<close> documents of the object it clones: the labels and annotations it
  was given are on the object, and annotations name the template.
\<close>

definition cloned_from_template ::
  "'x ext_scheme \<Rightarrow> OCNEControlPlane \<Rightarrow> (string, string) go_map \<Rightarrow> ObjectMeta \<Rightarrow> bool" where
  "cloned_from_template e k labels obj \<longleftrightarrow>
     (let t = Spec_MachineTemplate (KCP_Spec k)
      in isSubsetMapOf (MachineTemplate_Annotations t) (Annotations obj) \<and>
         isSubsetMapOf labels (Labels obj) \<and>
         map_of (Annotations obj) TemplateClonedFromNameAnnotation =
           Some (ObjectReference_Name (MachineTemplate_InfrastructureRef t)) \<and>
         map_of (Annotations obj) TemplateClonedFromGroupKindAnnotation =
           Some (GroupKindString e (MachineTemplate_InfrastructureRef t)))"

lemma isSubsetMapOf_trans: "isSubsetMapOf a b \<Longrightarrow> isSubsetMapOf b c \<Longrightarrow> isSubsetMapOf a c"
  by (auto simp: isSubsetMapOf_iff)

text \<open>A machine as the API server has it after its creation, and that it matches the specification it was made from.\<close>

definition created_at :: "time \<Rightarrow> Machine \<Rightarrow> Machine" where
  "created_at t m = m\<lparr>Machine_ObjectMeta := (Machine_ObjectMeta m)\<lparr>CreationTimestamp := t\<rparr>\<rparr>"

lemma created_at_simps [simp]:
  "Labels (Machine_ObjectMeta (created_at t m)) = Labels (Machine_ObjectMeta m)"
  "Annotations (Machine_ObjectMeta (created_at t m)) = Annotations (Machine_ObjectMeta m)"
  "DeletionTimestamp (Machine_ObjectMeta (created_at t m)) = DeletionTimestamp (Machine_ObjectMeta m)"
  "CreationTimestamp (Machine_ObjectMeta (created_at t m)) = t"
  "mname (created_at t m) = mname m" "Machine_Spec_Version (created_at t m) = Machine_Spec_Version m"
  "Machine_Spec_Bootstrap_ConfigRef (created_at t m) = Machine_Spec_Bootstrap_ConfigRef m"
  "Machine_Status_CertificatesExpiryDate (created_at t m) = Machine_Status_CertificatesExpiryDate m"
  by (simp_all add: created_at_def)

lemma new_machine_matches:
  fixes e :: "'x ext_scheme"
  assumes "template_ok k"
    and "json_Unmarshal json cc = Inr (OCNEConfigSpec_ClusterConfiguration (Spec_ControlPlaneConfig (KCP_Spec k)))"
    and "spec = InitialControlPlaneConfig cp \<or> spec = JoinControlPlaneConfig cp" "KCP cp = k"
    and "map_of configs name = Some (config_for e k cluster cfgname spec)"
    and "map_of infras name = Some obj"
    and "cloned_from_template e k (ControlPlaneMachineLabelsForCluster e k (Name (Cluster_ObjectMeta cluster))) obj"
  shows "MatchesMachineSpec e json infras configs k (Some (created_at t (machine_for e k cluster name infra ref fd cc)))"
proof -
  let ?m = "created_at t (machine_for e k cluster name infra ref fd cc)"
  have name: "mname ?m = name" and labels: "Labels (Machine_ObjectMeta ?m) =
      ControlPlaneMachineLabelsForCluster e k (Name (Cluster_ObjectMeta cluster))"
    and ann: "map_of (Annotations (Machine_ObjectMeta ?m)) OCNEClusterConfigurationAnnotation = Some cc"
    by (simp_all add: machine_for_def update_conv')
  have "matchMachineTemplateMetadata k (Machine_ObjectMeta ?m)"
    using template_labels_kept [OF assms(1), of e] template_annotations_kept [OF assms(1), of e] labels
    by (simp add: matchMachineTemplateMetadata_def)
  moreover have "MatchesKubernetesVersion (Spec_Version (KCP_Spec k)) (Some ?m)"
    by (simp add: MatchesKubernetesVersion_def machine_for_def)
  moreover have "matchMachineTemplateMetadata k (OCNEConfig_ObjectMeta (config_for e k cluster cfgname spec))"
    using template_labels_kept [OF assms(1), of e]
    by (simp add: matchMachineTemplateMetadata_def config_for_def isSubsetMapOf_refl)
  moreover have "fst (matchInitOrJoinConfiguration (config_for e k cluster cfgname spec) k)"
    using assms(3,4) config_matches_self
    by (auto simp: matchInitOrJoin_iff config_for_def InitialControlPlaneConfig_def JoinControlPlaneConfig_def)
  moreover have "matchMachineTemplateMetadata k obj"
    using assms(7) isSubsetMapOf_trans [OF template_labels_kept [OF assms(1), of e]]
    by (auto simp: matchMachineTemplateMetadata_def cloned_from_template_def Let_def)
  ultimately show ?thesis
    using assms(2,5-7) name ann
    by (simp add: MatchesMachineSpec_def And_def MatchesOCNEBootstrapConfig_def matchClusterConfiguration_def
        MatchesTemplateClonedFrom_def cloned_from_template_def Let_def)
qed

text \<open>
  C18. A machine that the controller made from the current specification, for an initial or a joining machine, is rolled out
  again exactly when \<open>rolloutAfter\<close> lies between its creation and the present; so, apart from that
  request, creating machines is not followed by another rollout. This is for a template that sets none of the labels and not the
  annotation that the controller itself sets (with such a label every new machine counts as outdated), for an encoding of the
  cluster configuration that decodes to it again, and for an infrastructure object as \<open>external.CreateFromTemplate\<close> documents it;
  the machine has no recorded expiry of its certificates yet.
\<close>

theorem new_machine_no_rollout:
  fixes e :: "'x ext_scheme"
  assumes "wf_machines (CP_Machines c)" and "template_ok (KCP c)"
    and "json_Unmarshal json cc = Inr (OCNEConfigSpec_ClusterConfiguration (Spec_ControlPlaneConfig (KCP_Spec (KCP c))))"
    and "spec = InitialControlPlaneConfig c \<or> spec = JoinControlPlaneConfig c"
    and "map_of (ocneConfigs c) name = Some (config_for e (KCP c) cluster cfgname spec)"
    and "map_of (infraResources c) name = Some obj"
    and "cloned_from_template e (KCP c) (ControlPlaneMachineLabelsForCluster e (KCP c) (Name (Cluster_ObjectMeta cluster))) obj"
    and "m = created_at t (machine_for e (KCP c) cluster name infra ref fd cc)" and "m \<in> elems (CP_Machines c)"
  shows "m \<in> elems (MachinesNeedingRollout e json c) \<longleftrightarrow>
    (\<exists>after. Spec_RolloutAfter (KCP_Spec (KCP c)) = Some after \<and> t < after \<and> after < reconciliationTime c)"
proof -
  have "MatchesMachineSpec e json (infraResources c) (ocneConfigs c) (KCP c) (Some m)"
    unfolding assms(8) by (rule new_machine_matches [OF assms(2-4) refl assms(5-7)])
  moreover have "\<not> ShouldRolloutBefore now rb (Some m)" "\<not> HasDeletionTimestamp (Some m)" for now rb
    by (simp_all add: assms(8) ShouldRolloutBefore_def HasDeletionTimestamp_def machine_for_def empty_meta_def Time_IsZero_def
        split: option.split)
  ultimately show ?thesis
    using assms(1,8,9)
    by (auto simp: MachinesNeedingRollout_def Let_def mc.els_filt mc.els_anyfilt mc.inv_filt Not_def
        ShouldRolloutAfter_def Time_Before_def split: option.splits)
qed

text \<open>
  A control plane with a template that has labels and annotations, a cluster configuration and both kinds of
  requested rollouts, of which the one with a date was before the machine was created.
\<close>

definition full_template :: OCNEControlPlaneMachineTemplate where
  "full_template = (Spec_MachineTemplate (KCP_Spec example_kcp))
     \<lparr>MachineTemplate_Labels := [(''team'', ''x'')], MachineTemplate_Annotations := [(''note'', ''y'')]\<rparr>"

definition full_kcp :: OCNEControlPlane where
  "full_kcp = example_kcp\<lparr>KCP_Spec := (KCP_Spec example_kcp)\<lparr>Spec_MachineTemplate := full_template,
     Spec_ControlPlaneConfig := zero_OCNEConfigSpec\<lparr>OCNEConfigSpec_ClusterConfiguration :=
       Some (zero_ClusterConfiguration\<lparr>ClusterConfiguration_ImageRepository := ''r''\<rparr>)\<rparr>,
     Spec_RolloutBefore := Some \<lparr>CertificatesExpiryDays = Some 30\<rparr>, Spec_RolloutAfter := Some 5\<rparr>\<rparr>"

definition repository_json :: json_codec where
  "repository_json =
     \<lparr>json_Marshal = (\<lambda>c. Inr (case c of None \<Rightarrow> ''null'' | Some c \<Rightarrow> ClusterConfiguration_ImageRepository c)),
      json_Unmarshal = (\<lambda>s. Inr (if s = ''null'' then None
        else Some (zero_ClusterConfiguration\<lparr>ClusterConfiguration_ImageRepository := s\<rparr>)))\<rparr>"

definition full_infra :: ObjectMeta where
  "full_infra = empty_meta\<lparr>Labels := ControlPlaneMachineLabelsForCluster std_ext full_kcp ''c'',
     Annotations := [(''note'', ''y''), (TemplateClonedFromNameAnnotation, []),
       (TemplateClonedFromGroupKindAnnotation, GroupKindString std_ext zero_ObjectReference)]\<rparr>"

definition full_machine :: "time \<Rightarrow> Machine" where
  "full_machine t = created_at t (machine_for std_ext full_kcp example_cluster ''m'' zero_ObjectReference None None ''r'')"

definition full_cp :: "time \<Rightarrow> ControlPlane" where
  "full_cp t = example_cp\<lparr>KCP := full_kcp, CP_Machines := [(''m'', full_machine t)],
     ocneConfigs := [(''m'', config_for std_ext full_kcp example_cluster ''cfg''
        ((Spec_ControlPlaneConfig (KCP_Spec full_kcp))\<lparr>OCNEConfigSpec_InitConfiguration := None\<rparr>))],
     infraResources := [(''m'', full_infra)]\<rparr>"

lemma full_template_simps [simp]:
  "MachineTemplate_Labels full_template = [(''team'', ''x'')]" "MachineTemplate_Annotations full_template = [(''note'', ''y'')]"
  "MachineTemplate_InfrastructureRef full_template = zero_ObjectReference"
  "Spec_MachineTemplate (KCP_Spec full_kcp) = full_template"
  by (simp_all add: full_template_def full_kcp_def example_kcp_def)

lemma full_cp_ok:
  "wf_machines (CP_Machines (full_cp t))" "template_ok full_kcp"
  "cloned_from_template std_ext full_kcp (ControlPlaneMachineLabelsForCluster std_ext full_kcp ''c'') full_infra"
  by (simp_all add: full_cp_def full_machine_def wf_machines_def wf_map_def machine_for_def template_ok_def Let_def
      reserved_labels_def ClusterLabelName_def MachineControlPlaneLabelName_def MachineControlPlaneNameLabel_def
      OCNEClusterConfigurationAnnotation_def cloned_from_template_def full_infra_def isSubsetMapOf_refl isSubsetMapOf_iff
      TemplateClonedFromNameAnnotation_def TemplateClonedFromGroupKindAnnotation_def zero_ObjectReference_def)

theorem new_machine_no_rollout_witness:
  "full_machine 7 \<in> elems (CP_Machines (full_cp 7)) \<and>
   full_machine 7 \<notin> elems (MachinesNeedingRollout std_ext repository_json (full_cp 7)) \<and>
   full_machine 3 \<in> elems (MachinesNeedingRollout std_ext repository_json (full_cp 3))"
proof -
  have "full_machine t \<in> elems (CP_Machines (full_cp t)) \<and>
      (full_machine t \<in> elems (MachinesNeedingRollout std_ext repository_json (full_cp t)) \<longleftrightarrow> t < 5)" for t
  proof -
    have "full_machine t \<in> elems (CP_Machines (full_cp t))"
      by (simp add: full_cp_def elems_def)
    moreover from this have "full_machine t \<in> elems (MachinesNeedingRollout std_ext repository_json (full_cp t)) \<longleftrightarrow>
        (\<exists>after. Spec_RolloutAfter (KCP_Spec (KCP (full_cp t))) = Some after \<and> t < after \<and> after < reconciliationTime (full_cp t))"
      by (intro new_machine_no_rollout [where cc = "''r''" and spec = "JoinControlPlaneConfig (full_cp t)" and name = "''m''" and
            cluster = example_cluster and cfgname = "''cfg''" and obj = full_infra and t = t and
            infra = zero_ObjectReference and ref = None and fd = None])
        (use full_cp_ok in \<open>simp_all add: full_cp_def full_machine_def repository_json_def full_kcp_def example_cluster_def
          JoinControlPlaneConfig_def\<close>)
    ultimately show ?thesis
      by (simp add: full_cp_def full_kcp_def example_cp_def)
  qed
  then show ?thesis by simp
qed

text \<open>
  C17. Creating a machine makes its three objects in order, each only after the one before succeeded.
  When a step fails, the objects made before are deleted again, and no error is lost: the error that is returned is
  made of exactly that of the step that failed, followed by those of the deletions that failed for another reason than that the
  object is gone. Success is reported exactly when the machine object was created, and that machine refers to the new
  infrastructure object and configuration and carries the encoded cluster configuration. The specification and the machines
  in memory are not touched.
\<close>

theorem cloneConfigsAndGenerateMachine_spec:
  "case run_state (cloneConfigsAndGenerateMachine e json env cluster spec fd) s of
     (r, s') \<Rightarrow> generated json env s r s'"
  using cloneConfigsAndGenerateMachine_wp [of e json env cluster spec fd s] by (simp add: wp_def)

text \<open>
  A label of the template under the cluster name key that differs from the cluster's name can never
  be on a machine: every machine then counts as outdated, also a new one.
\<close>

lemma reserved_label_never_matches:
  assumes "(ClusterLabelName, v) \<in> set (MachineTemplate_Labels (Spec_MachineTemplate (KCP_Spec k)))"
    "v \<noteq> Name (Cluster_ObjectMeta cluster)" "wf_map (MachineTemplate_Labels (Spec_MachineTemplate (KCP_Spec k)))"
  shows "\<not> MatchesMachineSpec e json infras configs k (Some (machine_for e k cluster name infra ref fd cc))"
proof -
  let ?labels = "ControlPlaneMachineLabelsForCluster e k (Name (Cluster_ObjectMeta cluster))"
  let ?base = "foldl (\<lambda>ls (k, v). AList.update k v ls) []
    (MachineTemplate_Labels (Spec_MachineTemplate (KCP_Spec k)))"
  have "wf_map (foldl (\<lambda>ls (k, v). AList.update k v ls) b xs)" if "wf_map b" for b :: "(string, string) go_map" and xs
    using that by (induction xs arbitrary: b) (auto split: prod.split)
  then have "wf_map ?labels"
    by (simp add: ControlPlaneMachineLabelsForCluster_def)
  moreover have "map_of ?labels ClusterLabelName = Some (Name (Cluster_ObjectMeta cluster))"
    by (simp add: ControlPlaneMachineLabelsForCluster_def update_conv' ClusterLabelName_def
        MachineControlPlaneLabelName_def MachineControlPlaneNameLabel_def)
  ultimately have "(ClusterLabelName, v) \<notin> set ?labels"
    using assms(2) by (simp flip: wf_map_lookup)
  then have "\<not> matchMachineTemplateMetadata k (Machine_ObjectMeta (machine_for e k cluster name infra ref fd cc))"
    using assms(1)
    by (auto simp: matchMachineTemplateMetadata_def isSubsetMapOf_iff machine_for_def)
  then show ?thesis
    by (simp add: MatchesMachineSpec_def And_def)
qed

end
