(* ===== verification/Scale.thy ===== *)
theory Scale
  imports Controller Images
begin

text \<open>
  Scaling and rolling out: \<open>scale.go\<close> and \<open>upgrade.go\<close> of the control plane controllers, with the
  constants of \<open>consts.go\<close>.

  The argument \<open>cp\<close> holds what does not change in a reconciliation of the internal control plane
  object: the cluster, the time, the infrastructure objects and the patch helpers. The control plane
  object, the machines and their configurations are in the state; \<open>view\<close> puts them together.
\<close>

definition view :: "ControlPlane \<Rightarrow> kst \<Rightarrow> ControlPlane" where
  "view cp s = cp\<lparr>KCP := k_kcp s, CP_Machines := k_machines s, ocneConfigs := k_configs s\<rparr>"

lemma view_simps [simp]:
  "KCP (view cp s) = k_kcp s" "CP_Machines (view cp s) = k_machines s" "ocneConfigs (view cp s) = k_configs s"
  "CP_Cluster (view cp s) = CP_Cluster cp" "reconciliationTime (view cp s) = reconciliationTime cp"
  "infraResources (view cp s) = infraResources cp" "machinesPatchHelpers (view cp s) = machinesPatchHelpers cp"
  "view cp (s\<lparr>k_trace := t\<rparr>) = view cp s"
  by (simp_all add: view_def)

definition deleteRequeueAfter :: int where "deleteRequeueAfter = 30 * second"
definition preflightFailedRequeueAfter :: int where "preflightFailedRequeueAfter = 15 * second"
definition dependentCertRequeueAfter :: int where "dependentCertRequeueAfter = 30 * second"

text \<open>The control plane object as an owner.\<close>

definition kcp_object :: "OCNEControlPlane \<Rightarrow> string \<times> string \<times> string" where
  "kcp_object k = (''controlplane.cluster.x-k8s.io'', ''OCNEControlPlane'', Name (KCP_ObjectMeta k))"

definition failed_with :: "error \<Rightarrow> outcome" where "failed_with err = (no_result, Some err)"
definition done_with :: "Result \<Rightarrow> outcome" where "done_with r = (r, None)"

subsection \<open>Preflight checks\<close>

definition preflightCheckCondition :: "string \<Rightarrow> string \<Rightarrow> Conditions \<Rightarrow> ConditionType \<Rightarrow> error option" where
  "preflightCheckCondition kind name conds condition =
     (case Get conds condition of
        None \<Rightarrow> Some (Err (kind @ '' '' @ name @ '' does not have '' @ condition @ '' condition''))
      | Some c \<Rightarrow>
          (if Status c = ConditionFalse
           then Some (Err (kind @ '' '' @ name @ '' reports '' @ condition @ '' condition is false ('' @ Message c @ '')''))
           else if Status c = ConditionUnknown
           then Some (Err (kind @ '' '' @ name @ '' reports '' @ condition @ '' condition is unknown ('' @ Message c @ '')''))
           else None))"

definition allMachineHealthConditions :: "ControlPlane \<Rightarrow> ConditionType list" where
  "allMachineHealthConditions c =
     [MachineAPIServerPodHealthyCondition, MachineControllerManagerPodHealthyCondition,
      MachineSchedulerPodHealthyCondition] @
     (if IsEtcdManaged c then [MachineEtcdPodHealthyCondition, MachineEtcdMemberHealthyCondition] else [])"

definition preflight_machine :: "ControlPlane \<Rightarrow> Machine list \<Rightarrow> Machine \<Rightarrow> error list" where
  "preflight_machine c excludeFor machine =
     (if list_ex (\<lambda>excluded. mname machine = mname excluded) excludeFor then []
      else List.map_filter
        (preflightCheckCondition ''machine'' (mname machine) (Machine_Status_Conditions machine))
        (allMachineHealthConditions c))"

definition preflightChecks :: "ControlPlane \<Rightarrow> Machine list \<Rightarrow> outcome" where
  "preflightChecks c excludeFor =
     (if Len (CP_Machines c) = 0 then done_with no_result
      else if HasDeletingMachine c then done_with (requeue_after deleteRequeueAfter)
      else if concat (map (preflight_machine c excludeFor \<circ> snd) (CP_Machines c)) \<noteq> []
      then done_with (requeue_after preflightFailedRequeueAfter)
      else done_with no_result)"

subsection \<open>Scaling up\<close>

definition initializeControlPlane ::
  "'x ext_scheme \<Rightarrow> json_codec \<Rightarrow> 'r kenv_scheme \<Rightarrow> Cluster \<Rightarrow> ControlPlane \<Rightarrow> outcome kact" where
  "initializeControlPlane e json env cluster cp = do {
     ocnecp \<leftarrow> kread k_kcp;
     ml \<leftarrow> kcall (ListMachinesCall True) (reply_Machines env True);
     (case GetFilteredMachinesForCluster ml [OwnedMachines e (kcp_object ocnecp)] of
        Inl err \<Rightarrow> State_Monad.return (failed_with err)
      | Inr ownedMachines \<Rightarrow>
          (if length ownedMachines > 0
           then State_Monad.return (failed_with (Err ''control plane has already been initialized''))
           else do {
             c \<leftarrow> kread (view cp);
             err \<leftarrow> cloneConfigsAndGenerateMachine e json env cluster (InitialControlPlaneConfig c)
               (NextFailureDomainForScaleUp e json c);
             State_Monad.return
               (case err of Some err \<Rightarrow> failed_with err | None \<Rightarrow> done_with requeue_now)
           }))
   }"

definition scaleUpControlPlane ::
  "'x ext_scheme \<Rightarrow> json_codec \<Rightarrow> 'r kenv_scheme \<Rightarrow> Cluster \<Rightarrow> ControlPlane \<Rightarrow> outcome kact" where
  "scaleUpControlPlane e json env cluster cp = do {
     c \<leftarrow> kread (view cp);
     let (result, err) = preflightChecks c [];
     (if err \<noteq> None \<or> \<not> Result_IsZero result then State_Monad.return (result, err)
      else do {
        err \<leftarrow> cloneConfigsAndGenerateMachine e json env cluster (JoinControlPlaneConfig c)
          (NextFailureDomainForScaleUp e json c);
        State_Monad.return
          (case err of Some err \<Rightarrow> failed_with err | None \<Rightarrow> done_with requeue_now)
      })
   }"

subsection \<open>Scaling down\<close>

definition selectMachineForScaleDown :: "'x ext_scheme \<Rightarrow> ControlPlane \<Rightarrow> Machines \<Rightarrow> error + Machine" where
  "selectMachineForScaleDown e c outdatedMachines =
     (let machines = CP_Machines c
      in MachineInFailureDomainWithMostMachines e c
           (if Len (MachineWithDeleteAnnotation outdatedMachines) > 0
            then MachineWithDeleteAnnotation outdatedMachines
            else if Len (MachineWithDeleteAnnotation machines) > 0
            then MachineWithDeleteAnnotation machines
            else if Len outdatedMachines > 0 then outdatedMachines
            else machines))"

text \<open>
  A list of calls that only return an error, each with what the caller makes of the error: they run in
  order up to the first error.
\<close>

fun run_calls :: "'r kenv_scheme \<Rightarrow> (kcall \<times> (error \<Rightarrow> error)) list \<Rightarrow> error option kact" where
  "run_calls env [] = State_Monad.return None"
| "run_calls env ((c, wrap) # cs) = do {
     err \<leftarrow> ecall_of env c;
     (case err of
        Some err \<Rightarrow> State_Monad.return (Some (wrap err))
      | None \<Rightarrow> run_calls env cs)
   }"

text \<open>The calls, and when they all succeed what comes after them.\<close>

definition all_then :: "'r kenv_scheme \<Rightarrow> (kcall \<times> (error \<Rightarrow> error)) list \<Rightarrow> outcome kact \<Rightarrow> outcome kact" where
  "all_then env cs k = do {
     err \<leftarrow> run_calls env cs;
     (case err of Some err \<Rightarrow> State_Monad.return (failed_with err) | None \<Rightarrow> k)
   }"

text \<open>
  Once the machine is chosen: leadership of etcd moves to the newest machine, the member and the entry
  in the config map go, then the machine. A machine that is already gone is no error.
\<close>

definition etcd_calls :: "ControlPlane \<Rightarrow> Machine \<Rightarrow> (kcall \<times> (error \<Rightarrow> error)) list" where
  "etcd_calls c machineToDelete =
     (if IsEtcdManaged c then
        [(WorkloadCall (ForwardEtcdLeadershipCall machineToDelete (Newest (CP_Machines c))), id),
         (WorkloadCall (RemoveEtcdMemberForMachineCall machineToDelete), id)]
      else [])"

definition delete_machine :: "'r kenv_scheme \<Rightarrow> Machine \<Rightarrow> outcome kact" where
  "delete_machine env machineToDelete = do {
     err \<leftarrow> ecall_of env (DeleteMachineCall (mname machineToDelete));
     State_Monad.return
       (case err of
          Some err \<Rightarrow> if IsNotFound err then done_with requeue_now else failed_with err
        | None \<Rightarrow> done_with requeue_now)
   }"

definition unregister_machine :: "'x ext_scheme \<Rightarrow> 'r kenv_scheme \<Rightarrow> ControlPlane \<Rightarrow> Machine \<Rightarrow> outcome kact" where
  "unregister_machine e env c machineToDelete =
     (case ParseTolerant e (Spec_Version (KCP_Spec (KCP c))) of
        Inl err \<Rightarrow> State_Monad.return (failed_with (Wrap ''failed to parse kubernetes version'' err))
      | Inr parsedVersion \<Rightarrow>
          all_then env [(WorkloadCall (RemoveMachineFromOCNEConfigMapCall machineToDelete parsedVersion), id)]
            (delete_machine env machineToDelete))"

definition remove_machine :: "'x ext_scheme \<Rightarrow> 'r kenv_scheme \<Rightarrow> ControlPlane \<Rightarrow> Machine \<Rightarrow> outcome kact" where
  "remove_machine e env c machineToDelete =
     all_then env ((GetWorkloadClusterCall, Wrap ''failed to create client to workload cluster'') #
         etcd_calls c machineToDelete)
       (unregister_machine e env c machineToDelete)"

definition scaleDownControlPlane ::
  "'x ext_scheme \<Rightarrow> 'r kenv_scheme \<Rightarrow> ControlPlane \<Rightarrow> Machines \<Rightarrow> outcome kact" where
  "scaleDownControlPlane e env cp outdatedMachines = do {
     c \<leftarrow> kread (view cp);
     (case selectMachineForScaleDown e c outdatedMachines of
        Inl err \<Rightarrow> State_Monad.return (failed_with (Wrap ''failed to select machine for scale down'' err))
      | Inr machineToDelete \<Rightarrow>
          (let (result, err) = preflightChecks c [machineToDelete]
           in if err \<noteq> None \<or> \<not> Result_IsZero result then State_Monad.return (result, err)
              else remove_machine e env c machineToDelete))
   }"

subsection \<open>Rolling out\<close>

text \<open>
  \<open>strconv.Atoi\<close>, which clamps a number out of range and gives 0 for a string that is no number, and
  \<open>IntOrString.IntValue\<close>, which ignores the error.
\<close>

definition decimal :: "string \<Rightarrow> int" where
  "decimal s = foldl (\<lambda>n c. 10 * n + (int (of_char c) - 48)) 0 s"

definition Atoi_value :: "string \<Rightarrow> int" where
  "Atoi_value s =
     (let neg = s \<noteq> [] \<and> hd s = CHR ''-'';
          digits = (if s \<noteq> [] \<and> (hd s = CHR ''-'' \<or> hd s = CHR ''+'') then tl s else s);
          n = (if neg then - decimal digits else decimal digits)
      in if digits = [] \<or> \<not> list_all (\<lambda>c. c \<in> set ''0123456789'') digits then 0
         else max (- (2 ^ 63)) (min (2 ^ 63 - 1) n))"

fun IntValue :: "IntOrString \<Rightarrow> int" where
  "IntValue (FromInt n) = n"
| "IntValue (FromString s) = Atoi_value s"

text \<open>The calls of a rollout to the workload cluster before and after the version is parsed again.\<close>

definition rollout_calls :: "semver \<Rightarrow> (kcall \<times> (error \<Rightarrow> error)) list" where
  "rollout_calls v =
     [(WorkloadCall (ReconcileKubeletRBACRoleCall v), Wrap ''failed to reconcile the remote kubelet RBAC role''),
      (WorkloadCall (ReconcileKubeletRBACBindingCall v), Wrap ''failed to reconcile the remote kubelet RBAC binding''),
      (WorkloadCall AllowBootstrapTokensToGetNodesCall, Wrap ''failed to set role and role binding for kubeadm''),
      (WorkloadCall (UpdateKubernetesVersionInOCNEConfigMapCall v),
       Wrap ''failed to update the kubernetes version in the kubeadm config map'')]"

definition config_calls :: "string \<Rightarrow> ClusterConfiguration \<Rightarrow> semver \<Rightarrow> (kcall \<times> (error \<Rightarrow> error)) list" where
  "config_calls imageRepository cc v =
     [(WorkloadCall (UpdateImageRepositoryInOCNEConfigMapCall imageRepository v),
       Wrap ''failed to update the image repository in the kubeadm config map'')] @
     (case Etcd_Local (ClusterConfiguration_Etcd cc) of
        None \<Rightarrow> []
      | Some local \<Rightarrow>
          [(WorkloadCall (UpdateEtcdVersionInOCNEConfigMapCall (ImageMeta_ImageRepository (LocalEtcd_ImageMeta local))
              (ImageMeta_ImageTag (LocalEtcd_ImageMeta local)) v),
            Wrap ''failed to update the etcd version in the kubeadm config map''),
           (WorkloadCall (UpdateEtcdExtraArgsInOCNEConfigMapCall (LocalEtcd_ExtraArgs local) v),
            Wrap ''failed to update the etcd extra args in the kubeadm config map'')]) @
     [(WorkloadCall (UpdateAPIServerInOCNEConfigMapCall (ClusterConfiguration_APIServer cc) v),
       Wrap ''failed to update api server in the kubeadm config map''),
      (WorkloadCall (UpdateControllerManagerInOCNEConfigMapCall (ClusterConfiguration_ControllerManager cc) v),
       Wrap ''failed to update controller manager in the kubeadm config map''),
      (WorkloadCall (UpdateSchedulerInOCNEConfigMapCall (ClusterConfiguration_Scheduler cc) v),
       Wrap ''failed to update scheduler in the kubeadm config map'')]"

definition kubelet_call :: "semver \<Rightarrow> kcall \<times> (error \<Rightarrow> error)" where
  "kubelet_call v = (WorkloadCall (UpdateKubeletConfigMapCall v), Wrap ''failed to upgrade kubelet config map'')"

text \<open>The calls after the version is written: none of them for the configuration when there is none.\<close>

definition configuration_calls ::
  "'x ext_scheme \<Rightarrow> OCNEControlPlane \<Rightarrow> semver \<Rightarrow> error + (kcall \<times> (error \<Rightarrow> error)) list" where
  "configuration_calls e ocnecp v =
     (case OCNEConfigSpec_ClusterConfiguration (Spec_ControlPlaneConfig (KCP_Spec ocnecp)) of
        None \<Rightarrow> Inr [kubelet_call v]
      | Some cc \<Rightarrow>
          (case ParseMajorMinorPatchTolerant (Spec_Version (KCP_Spec ocnecp)) of
             Inl err \<Rightarrow> Inl (Wrap ''failed to parse kubernetes version'' err)
           | Inr parsedVersionTolerant \<Rightarrow>
               Inr (config_calls (ImageRepositoryFromClusterConfig e (Some cc) parsedVersionTolerant) cc v
                 @ [kubelet_call v])))"

definition maxNodes :: "OCNEControlPlane \<Rightarrow> RollingUpdate \<Rightarrow> error + int" where
  "maxNodes ocnecp rolling =
     (case (Spec_Replicas (KCP_Spec ocnecp), MaxSurge rolling) of
        (Some replicas, Some surge) \<Rightarrow> Inr (to_int32 (replicas + to_int32 (IntValue surge)))
      | _ \<Rightarrow> Inl (Panic ''nil pointer dereference''))"

definition roll_machines ::
  "'x ext_scheme \<Rightarrow> json_codec \<Rightarrow> 'r kenv_scheme \<Rightarrow> Cluster \<Rightarrow> ControlPlane \<Rightarrow> Machines \<Rightarrow> RolloutStrategy \<Rightarrow>
   RollingUpdate \<Rightarrow> outcome kact" where
  "roll_machines e json env cluster cp machinesRequireUpgrade strategy rolling =
     (if RolloutStrategy_Type strategy = RollingUpdateStrategyType then do {
        c \<leftarrow> kread (view cp);
        (case maxNodes (KCP c) rolling of
           Inl err \<Rightarrow> State_Monad.return (failed_with err)
         | Inr n \<Rightarrow>
             (if to_int32 (int (Len (CP_Machines c))) < n
              then scaleUpControlPlane e json env cluster cp
              else scaleDownControlPlane e env cp machinesRequireUpgrade))
      }
      else State_Monad.return (done_with no_result))"

definition upgrade_with ::
  "'x ext_scheme \<Rightarrow> json_codec \<Rightarrow> 'r kenv_scheme \<Rightarrow> Cluster \<Rightarrow> ControlPlane \<Rightarrow> Machines \<Rightarrow> RolloutStrategy \<Rightarrow>
   RollingUpdate \<Rightarrow> OCNEControlPlane \<Rightarrow> semver \<Rightarrow> outcome kact" where
  "upgrade_with e json env cluster cp machinesRequireUpgrade strategy rolling ocnecp parsedVersion =
     all_then env (rollout_calls parsedVersion)
       (case configuration_calls e ocnecp parsedVersion of
          Inl err \<Rightarrow> State_Monad.return (failed_with err)
        | Inr cs \<Rightarrow>
            all_then env cs (roll_machines e json env cluster cp machinesRequireUpgrade strategy rolling))"

definition upgradeControlPlane ::
  "'x ext_scheme \<Rightarrow> json_codec \<Rightarrow> 'r kenv_scheme \<Rightarrow> Cluster \<Rightarrow> ControlPlane \<Rightarrow> Machines \<Rightarrow> outcome kact" where
  "upgradeControlPlane e json env cluster cp machinesRequireUpgrade = do {
     ocnecp \<leftarrow> kread k_kcp;
     (case Spec_RolloutStrategy (KCP_Spec ocnecp) of
        None \<Rightarrow> State_Monad.return (failed_with (Err ''rolloutStrategy is not set''))
      | Some strategy \<Rightarrow>
     (case RolloutStrategy_RollingUpdate strategy of
        None \<Rightarrow> State_Monad.return (failed_with (Err ''rolloutStrategy is not set''))
      | Some rolling \<Rightarrow>
          all_then env [(GetWorkloadClusterCall, id)]
            (case ParseTolerant e (Spec_Version (KCP_Spec ocnecp)) of
               Inl err \<Rightarrow> State_Monad.return (failed_with (Wrap ''failed to parse kubernetes version'' err))
             | Inr parsedVersion \<Rightarrow>
                 upgrade_with e json env cluster cp machinesRequireUpgrade strategy rolling ocnecp parsedVersion)))
   }"

subsection \<open>Calls in order\<close>

text \<open>\<open>succeeded env t cs\<close>: the calls, made in this order after the trace, all succeed.\<close>

definition succeeded :: "'r kenv_scheme \<Rightarrow> kcall list \<Rightarrow> kcall list \<Rightarrow> bool" where
  "succeeded env t cs \<longleftrightarrow> (\<forall>i<length cs. reply_Error env (cs ! i) (t @ take i cs) = None)"

lemma succeeded_Nil [simp]: "succeeded env t []"
  by (simp add: succeeded_def)

lemma succeeded_Cons [simp]:
  "succeeded env t (c # cs) \<longleftrightarrow> reply_Error env c t = None \<and> succeeded env (t @ [c]) cs"
  by (auto simp: succeeded_def nth_Cons less_Suc_eq_0_disj split: nat.split)

lemma succeeded_append [simp]:
  "succeeded env t (cs @ ds) \<longleftrightarrow> succeeded env t cs \<and> succeeded env (t @ cs) ds"
  by (induction cs arbitrary: t) auto

text \<open>
  \<open>in_order env t plan new\<close>: the calls \<open>new\<close> are the first calls of the plan, and each is made only after
  the calls before it succeeded.
\<close>

definition in_order :: "'r kenv_scheme \<Rightarrow> kcall list \<Rightarrow> kcall list \<Rightarrow> kcall list \<Rightarrow> bool" where
  "in_order env t plan new \<longleftrightarrow> prefix new plan \<and> succeeded env t (butlast new)"

lemma in_order_Nil [simp]: "in_order env t plan []"
  by (simp add: in_order_def)

lemma in_order_first [simp]: "in_order env t (c # plan) [c]"
  by (simp add: in_order_def)

lemma in_order_more: "in_order env t plan new \<Longrightarrow> in_order env t (plan @ rest) new"
  by (auto simp: in_order_def intro: prefix_prefix)

lemma in_order_append:
  assumes "succeeded env t plan" "in_order env (t @ plan) rest new"
  shows "in_order env t (plan @ rest) (plan @ new)"
  using assms by (cases plan rule: rev_cases) (auto simp: in_order_def butlast_append)

text \<open>What a list of calls does.\<close>

definition made :: "'r kenv_scheme \<Rightarrow> kcall list \<Rightarrow> kst \<Rightarrow> error option \<Rightarrow> kst \<Rightarrow> bool" where
  "made env plan s r s' \<longleftrightarrow> (\<exists>new. s' = s\<lparr>k_trace := k_trace s @ new\<rparr> \<and> in_order env (k_trace s) plan new \<and>
     (r = None \<longrightarrow> new = plan \<and> succeeded env (k_trace s) plan))"

lemma made_step:
  assumes "reply_Error env c (k_trace s) = None" "made env plan (s\<lparr>k_trace := k_trace s @ [c]\<rparr>) r s'"
  shows "made env (c # plan) s r s'"
  using assms in_order_append [of env "k_trace s" "[c]" plan]
  by (fastforce simp: made_def)

lemma run_calls_wp:
  fixes env :: "'r kenv_scheme"
  shows "wp (run_calls env cs) (made env (map fst cs) s) s"
proof (induction cs arbitrary: s)
  case Nil
  show ?case by (simp add: wp_simps made_def)
next
  case (Cons c cs)
  show ?case
  proof (cases "reply_Error env (fst c) (k_trace s)")
    case None
    then show ?thesis
      using wp_mono [OF Cons.IH made_step] by (cases c) (simp add: wp_simps)
  next
    case (Some err)
    then show ?thesis
      by (cases c) (auto simp: wp_simps made_def intro!: exI [of _ "[fst c]"])
  qed
qed


subsection \<open>What scaling down does\<close>

definition scale_down_plan :: "'x ext_scheme \<Rightarrow> ControlPlane \<Rightarrow> Machine \<Rightarrow> kcall list" where
  "scale_down_plan e c m =
     GetWorkloadClusterCall #
     (if IsEtcdManaged c then
        [WorkloadCall (ForwardEtcdLeadershipCall m (Newest (CP_Machines c))),
         WorkloadCall (RemoveEtcdMemberForMachineCall m)]
      else []) @
     (case ParseTolerant e (Spec_Version (KCP_Spec (KCP c))) of
        Inl _ \<Rightarrow> []
      | Inr v \<Rightarrow> [WorkloadCall (RemoveMachineFromOCNEConfigMapCall m v), DeleteMachineCall (mname m)])"

definition removed :: "'x ext_scheme \<Rightarrow> 'r kenv_scheme \<Rightarrow> ControlPlane \<Rightarrow> Machine \<Rightarrow> kst \<Rightarrow> outcome \<Rightarrow> kst \<Rightarrow> bool" where
  "removed e env c m s r s' \<longleftrightarrow>
     (\<exists>new. s' = s\<lparr>k_trace := k_trace s @ new\<rparr> \<and> in_order env (k_trace s) (scale_down_plan e c m) new \<and>
       (snd r = None \<longrightarrow> new = scale_down_plan e c m \<and> last new = DeleteMachineCall (mname m)))"

lemma delete_machine_wp:
  fixes env :: "'r kenv_scheme"
  shows "wp (delete_machine env m) (\<lambda>r s'. s' = s\<lparr>k_trace := k_trace s @ [DeleteMachineCall (mname m)]\<rparr>) s"
  by (simp add: delete_machine_def wp_simps)

lemma all_then_wp:
  fixes env :: "'r kenv_scheme"
  assumes "\<And>err new. in_order env (k_trace s) (map fst cs) new \<Longrightarrow> Q (failed_with err) (s\<lparr>k_trace := k_trace s @ new\<rparr>)"
    and "succeeded env (k_trace s) (map fst cs) \<Longrightarrow> wp k Q (s\<lparr>k_trace := k_trace s @ map fst cs\<rparr>)"
  shows "wp (all_then env cs k) Q s"
  unfolding all_then_def wp_bind
  by (rule wp_mono [OF run_calls_wp])
    (use assms in \<open>auto simp: made_def wp_simps split: option.split\<close>)

lemma removedI:
  assumes "in_order env (k_trace s) (scale_down_plan e c m) new"
    "snd r = None \<Longrightarrow> new = scale_down_plan e c m \<and> last new = DeleteMachineCall (mname m)"
  shows "removed e env c m s r (s\<lparr>k_trace := k_trace s @ new\<rparr>)"
  using assms by (auto simp: removed_def)

lemma unregister_machine_wp:
  fixes env :: "'r kenv_scheme" and e :: "'x ext_scheme"
  assumes "succeeded env (k_trace s) (GetWorkloadClusterCall # map fst (etcd_calls c m))"
  shows "wp (unregister_machine e env c m) (removed e env c m s)
    (s\<lparr>k_trace := k_trace s @ GetWorkloadClusterCall # map fst (etcd_calls c m)\<rparr>)"
proof (cases "ParseTolerant e (Spec_Version (KCP_Spec (KCP c)))")
  case (Inl err)
  then have plan: "scale_down_plan e c m = GetWorkloadClusterCall # map fst (etcd_calls c m)"
    by (simp add: scale_down_plan_def etcd_calls_def)
  then show ?thesis
    using assms in_order_append [OF assms, of "[]" "[]"]
    by (auto simp: unregister_machine_def Inl wp_simps failed_with_def intro!: removedI)
next
  case (Inr v)
  let ?first = "GetWorkloadClusterCall # map fst (etcd_calls c m)"
  let ?unregister = "WorkloadCall (RemoveMachineFromOCNEConfigMapCall m v)"
  have plan: "scale_down_plan e c m = ?first @ [?unregister, DeleteMachineCall (mname m)]"
    using Inr by (simp add: scale_down_plan_def etcd_calls_def)
  show ?thesis
    unfolding unregister_machine_def Inr sum.case
  proof (rule all_then_wp, goal_cases)
    case (1 err new)
    then have "in_order env (k_trace s @ ?first) [?unregister, DeleteMachineCall (mname m)] new"
      using in_order_more [of env "k_trace s @ ?first" "[?unregister]" new "[DeleteMachineCall (mname m)]"] by simp
    from in_order_append [OF assms this] show ?case
      using removedI [of env s e c m "?first @ new" "failed_with err"] by (simp add: plan failed_with_def)
  next
    case 2
    then have "in_order env (k_trace s @ ?first) [?unregister, DeleteMachineCall (mname m)]
        [?unregister, DeleteMachineCall (mname m)]"
      by (simp add: in_order_def)
    from in_order_append [OF assms this] show ?case
      using removedI [of env s e c m "?first @ [?unregister, DeleteMachineCall (mname m)]"]
      by (intro wp_mono [OF delete_machine_wp]) (simp add: plan)
  qed
qed


lemma remove_machine_wp:
  fixes env :: "'r kenv_scheme" and e :: "'x ext_scheme"
  shows "wp (remove_machine e env c m) (removed e env c m s) s"
  unfolding remove_machine_def
proof (rule all_then_wp, goal_cases)
  case (1 err new)
  then show ?case
    using in_order_more [OF 1, of "case ParseTolerant e (Spec_Version (KCP_Spec (KCP c))) of Inl _ \<Rightarrow> []
      | Inr v \<Rightarrow> [WorkloadCall (RemoveMachineFromOCNEConfigMapCall m v), DeleteMachineCall (mname m)]"]
    by (intro removedI) (auto simp: failed_with_def scale_down_plan_def etcd_calls_def split: if_splits)
next
  case 2
  then show ?case
    using unregister_machine_wp [of env s c m e] by simp
qed

lemma Result_IsZero_iff: "Result_IsZero r \<longleftrightarrow> r = no_result"
  by (cases r) (auto simp: Result_IsZero_def no_result_def)

lemma preflight_no_error: "snd (preflightChecks c excluded) = None"
  by (simp add: preflightChecks_def done_with_def)

text \<open>What one call of \<open>scaleDownControlPlane\<close> may do.\<close>

definition scaled_down ::
  "'x ext_scheme \<Rightarrow> 'r kenv_scheme \<Rightarrow> ControlPlane \<Rightarrow> Machines \<Rightarrow> kst \<Rightarrow> outcome \<Rightarrow> kst \<Rightarrow> bool" where
  "scaled_down e env c outdated s r s' \<longleftrightarrow>
     s' = s \<and> (snd r = None \<longrightarrow> fst r \<noteq> no_result) \<or>
     (\<exists>m. selectMachineForScaleDown e c outdated = Inr m \<and> preflightChecks c [m] = done_with no_result \<and>
       removed e env c m s r s')"

lemma scaleDownControlPlane_wp:
  fixes env :: "'r kenv_scheme" and e :: "'x ext_scheme"
  shows "wp (scaleDownControlPlane e env cp outdated) (scaled_down e env (view cp s) outdated s) s"
proof (cases "selectMachineForScaleDown e (view cp s) outdated")
  case (Inl err)
  then show ?thesis
    by (simp add: scaleDownControlPlane_def wp_simps scaled_down_def failed_with_def)
next
  case (Inr m)
  obtain result where pre: "preflightChecks (view cp s) [m] = (result, None)"
    using preflight_no_error by (metis prod.collapse)
  have "wp (remove_machine e env (view cp s) m) (scaled_down e env (view cp s) outdated s) s" if "result = no_result"
    using that pre Inr
    by (intro wp_mono [OF remove_machine_wp]) (auto simp: scaled_down_def done_with_def)
  then show ?thesis
    using pre by (auto simp: scaleDownControlPlane_def wp_simps Inr Result_IsZero_iff scaled_down_def)
qed

text \<open>
  C1. Scaling down removes at most one machine, the one it selects, and only when the other machines
  pass the preflight checks. The steps are the leadership of etcd, the etcd member, the entry in the
  configuration of the cluster and the machine object, in this order, and each step is taken only after
  the steps before it succeeded: the machine is never deleted while its etcd member may still be in the
  cluster. Without an error, either all steps were taken or the result asks for another reconciliation.
\<close>

theorem scaleDownControlPlane_ordered:
  "case run_state (scaleDownControlPlane e env cp outdated) s of
     (r, s') \<Rightarrow> scaled_down e env (view cp s) outdated s r s'"
  using scaleDownControlPlane_wp [of e env cp outdated s] by (simp add: wp_def)


subsection \<open>Changes of the set of machines\<close>

definition changes_machines :: "kcall \<Rightarrow> bool" where
  "changes_machines c \<longleftrightarrow> creates_machine c \<or> deletes_machine c"

lemma changes_machines_simps [simp]:
  "changes_machines (CreateMachineCall m)" "changes_machines (DeleteMachineCall n)"
  "\<not> changes_machines (WorkloadCall w)" "\<not> changes_machines GetWorkloadClusterCall"
  "\<not> changes_machines (CreateFromTemplateCall inp)" "\<not> changes_machines (CreateConfigCall cfg)"
  "\<not> changes_machines (DeleteObjectCall ref)" "\<not> changes_machines (ListMachinesCall b)"
  by (simp_all add: changes_machines_def)

lemma only_deletes:
  assumes "filter changes_machines new = [] \<or> filter changes_machines new = [DeleteMachineCall n]"
  shows "\<not> list_ex creates_machine new"
proof
  assume "list_ex creates_machine new"
  then obtain x where "x \<in> set (filter changes_machines new)" "creates_machine x"
    by (auto simp: list_ex_iff changes_machines_def)
  with assms show False by (elim disjE) (simp_all del: set_filter)
qed

lemma generation_changes:
  assumes "generation env enc t new r"
  shows "length (filter changes_machines new) \<le> 1 \<and> (\<forall>c\<in>set new. \<not> deletes_machine c)"
  using assms by cases auto

lemma scale_down_plan_changes:
  assumes "prefix new (scale_down_plan e c m)"
  shows "filter changes_machines new = [] \<or> filter changes_machines new = [DeleteMachineCall (mname m)]"
proof -
  obtain rest where "scale_down_plan e c m = new @ rest"
    using assms by (auto simp: prefix_def)
  then have "filter changes_machines new @ filter changes_machines rest =
      filter changes_machines (scale_down_plan e c m)"
    by simp
  also have "\<dots> = [] \<or> \<dots> = [DeleteMachineCall (mname m)]"
    by (auto simp: scale_down_plan_def split: sum.split)
  finally show ?thesis
    by (auto simp: append_eq_Cons_conv)
qed

text \<open>The calls of a rollout to the workload cluster, and the limit on the number of machines.\<close>

definition rollout_plan :: "'x ext_scheme \<Rightarrow> OCNEControlPlane \<Rightarrow> kcall list option" where
  "rollout_plan e k =
     (case ParseTolerant e (Spec_Version (KCP_Spec k)) of
        Inl _ \<Rightarrow> None
      | Inr v \<Rightarrow>
          (case configuration_calls e k v of
             Inl _ \<Rightarrow> None
           | Inr cs \<Rightarrow> Some (GetWorkloadClusterCall # map fst (rollout_calls v) @ map fst cs)))"

definition surge_limit :: "OCNEControlPlane \<Rightarrow> int option" where
  "surge_limit k =
     Option.bind (Spec_RolloutStrategy (KCP_Spec k)) (\<lambda>strategy.
     Option.bind (RolloutStrategy_RollingUpdate strategy) (\<lambda>rolling.
     case maxNodes k rolling of Inl _ \<Rightarrow> None | Inr n \<Rightarrow> Some n))"

definition below_surge :: "OCNEControlPlane \<Rightarrow> Machines \<Rightarrow> bool" where
  "below_surge k ms \<longleftrightarrow> (\<exists>n. surge_limit k = Some n \<and> to_int32 (int (Len ms)) < n)"

text \<open>What one call of \<open>upgradeControlPlane\<close> may do.\<close>

definition rolled ::
  "'x ext_scheme \<Rightarrow> 'r kenv_scheme \<Rightarrow> ControlPlane \<Rightarrow> Machines \<Rightarrow> kst \<Rightarrow> kcall list \<Rightarrow> bool" where
  "rolled e env c outdated s new \<longleftrightarrow>
     length (filter changes_machines new) \<le> 1 \<and>
     (list_ex creates_machine new \<longrightarrow> below_surge (KCP c) (CP_Machines c) \<and> preflightChecks c [] = done_with no_result) \<and>
     (list_ex deletes_machine new \<longrightarrow> \<not> below_surge (KCP c) (CP_Machines c) \<and>
       (\<exists>m. selectMachineForScaleDown e c outdated = Inr m \<and> preflightChecks c [m] = done_with no_result \<and>
          filter changes_machines new = [DeleteMachineCall (mname m)])) \<and>
     (list_ex changes_machines new \<longrightarrow>
       (\<exists>plan. rollout_plan e (KCP c) = Some plan \<and> prefix plan new \<and> succeeded env (k_trace s) plan))"

lemma rolled_quiet: "\<forall>c\<in>set new. \<not> changes_machines c \<Longrightarrow> rolled e env c outdated s new"
  by (auto simp: rolled_def list_ex_iff changes_machines_def)

text \<open>Scaling up.\<close>

definition scaled_up :: "json_codec \<Rightarrow> 'r kenv_scheme \<Rightarrow> ControlPlane \<Rightarrow> kst \<Rightarrow> outcome \<Rightarrow> kst \<Rightarrow> bool" where
  "scaled_up json env c s r s' \<longleftrightarrow>
     s' = s \<and> snd r = None \<and> fst r \<noteq> no_result \<or>
     preflightChecks c [] = done_with no_result \<and> generated json env s (snd r) s'"

lemma scaleUpControlPlane_wp:
  fixes env :: "'r kenv_scheme" and e :: "'x ext_scheme"
  shows "wp (scaleUpControlPlane e json env cluster cp) (scaled_up json env (view cp s) s) s"
proof -
  obtain result where pre: "preflightChecks (view cp s) [] = (result, None)"
    using preflight_no_error by (metis prod.collapse)
  have "wp (cloneConfigsAndGenerateMachine e json env cluster spec fd)
      (\<lambda>err. scaled_up json env (view cp s) s (case err of Some err \<Rightarrow> failed_with err | None \<Rightarrow> done_with requeue_now)) s"
    if "result = no_result" for spec fd
    using that pre
    by (intro wp_mono [OF cloneConfigsAndGenerateMachine_wp])
      (auto simp: scaled_up_def done_with_def failed_with_def split: option.split)
  moreover have "scaled_up json env (view cp s) s (result, None) s" if "result \<noteq> no_result"
    using that by (simp add: scaled_up_def)
  ultimately show ?thesis
    using pre by (auto simp: scaleUpControlPlane_def wp_simps Result_IsZero_iff Let_def)
qed

definition upgraded ::
  "'x ext_scheme \<Rightarrow> 'r kenv_scheme \<Rightarrow> ControlPlane \<Rightarrow> Machines \<Rightarrow> kst \<Rightarrow> kst \<Rightarrow> bool" where
  "upgraded e env c outdated s s' \<longleftrightarrow> same_objects s s' \<and>
     (\<exists>new. k_trace s' = k_trace s @ new \<and> rolled e env c outdated s new)"

lemma upgraded_quiet:
  "\<forall>c\<in>set new. \<not> changes_machines c \<Longrightarrow> upgraded e env c outdated s (s\<lparr>k_trace := k_trace s @ new\<rparr>)"
  by (auto simp: upgraded_def same_objects_def intro: rolled_quiet)

lemma upgraded_up:
  assumes plan: "rollout_plan e (KCP c) = Some plan" "succeeded env (k_trace s) plan"
    and quiet: "\<forall>c\<in>set plan. \<not> changes_machines c" and below: "below_surge (KCP c) (CP_Machines c)"
    and up: "scaled_up json env c (s\<lparr>k_trace := k_trace s @ plan\<rparr>) r s'"
  shows "upgraded e env c outdated s s'"
proof (cases "s' = s\<lparr>k_trace := k_trace s @ plan\<rparr>")
  case True
  then show ?thesis using upgraded_quiet [OF quiet] by simp
next
  case False
  then obtain new where new: "k_trace s' = k_trace s @ plan @ new" 
      "generation env (encoding json (s\<lparr>k_trace := k_trace s @ plan\<rparr>)) (k_trace s @ plan) new (snd r)"
      "same_objects s s'" and pre: "preflightChecks c [] = done_with no_result"
    using up by (auto simp: scaled_up_def generated_def same_objects_def)
  have "filter changes_machines plan = []"
    using quiet by (simp add: filter_empty_conv)
  then have "rolled e env c outdated s (plan @ new)"
    using generation_changes [OF new(2)] plan below pre quiet
    by (auto simp: rolled_def list_ex_iff changes_machines_def)
  then show ?thesis using new by (auto simp: upgraded_def)
qed

lemma upgraded_down:
  assumes plan: "rollout_plan e (KCP c) = Some plan" "succeeded env (k_trace s) plan"
    and quiet: "\<forall>c\<in>set plan. \<not> changes_machines c" and below: "\<not> below_surge (KCP c) (CP_Machines c)"
    and down: "scaled_down e env c outdated (s\<lparr>k_trace := k_trace s @ plan\<rparr>) r s'"
  shows "upgraded e env c outdated s s'"
proof (cases "s' = s\<lparr>k_trace := k_trace s @ plan\<rparr>")
  case True
  then show ?thesis using upgraded_quiet [OF quiet] by simp
next
  case False
  then obtain m new where m: "selectMachineForScaleDown e c outdated = Inr m" "preflightChecks c [m] = done_with no_result"
      and new: "s' = s\<lparr>k_trace := k_trace s @ plan @ new\<rparr>" "prefix new (scale_down_plan e c m)"
    using down by (auto simp: scaled_down_def removed_def in_order_def)
  note changes = scale_down_plan_changes [OF new(2)]
  have "filter changes_machines plan = []"
    using quiet by (simp add: filter_empty_conv)
  moreover have "\<not> list_ex creates_machine new"
    by (rule only_deletes [OF changes])
  moreover have "list_ex changes_machines new \<Longrightarrow> filter changes_machines new \<noteq> []"
    by (auto simp: list_ex_iff filter_empty_conv)
  moreover have "list_ex deletes_machine new \<Longrightarrow> list_ex changes_machines new"
    by (auto simp: list_ex_iff changes_machines_def)
  moreover have "\<not> list_ex creates_machine plan" "\<not> list_ex deletes_machine plan" "\<not> list_ex changes_machines plan"
    using quiet by (auto simp: list_ex_iff changes_machines_def)
  ultimately have "rolled e env c outdated s (plan @ new)"
    using changes m plan below
    unfolding rolled_def by (auto simp: list_ex_append)
  then show ?thesis using new by (auto simp: upgraded_def same_objects_def)
qed


lemma roll_machines_wp:
  fixes env :: "'r kenv_scheme" and e :: "'x ext_scheme"
  assumes plan: "rollout_plan e (k_kcp s) = Some plan" "succeeded env (k_trace s) plan"
    and quiet: "\<forall>c\<in>set plan. \<not> changes_machines c"
    and strategy: "Spec_RolloutStrategy (KCP_Spec (k_kcp s)) = Some strategy"
      "RolloutStrategy_RollingUpdate strategy = Some rolling"
  shows "wp (roll_machines e json env cluster cp outdated strategy rolling)
    (\<lambda>r. upgraded e env (view cp s) outdated s) (s\<lparr>k_trace := k_trace s @ plan\<rparr>)"
proof (cases "RolloutStrategy_Type strategy = RollingUpdateStrategyType")
  case False
  then show ?thesis
    by (simp add: roll_machines_def wp_simps upgraded_quiet [OF quiet])
next
  case True
  let ?s = "s\<lparr>k_trace := k_trace s @ plan\<rparr>"
  show ?thesis
  proof (cases "maxNodes (k_kcp s) rolling")
    case (Inl err)
    then show ?thesis
      by (simp add: roll_machines_def wp_simps True upgraded_quiet [OF quiet])
  next
    case (Inr n)
    then have "below_surge (k_kcp s) (k_machines s) \<longleftrightarrow> to_int32 (int (Len (k_machines s))) < n"
      by (simp add: below_surge_def surge_limit_def strategy)
    moreover have "wp (scaleUpControlPlane e json env cluster cp) (\<lambda>r. upgraded e env (view cp s) outdated s) ?s"
      if "below_surge (k_kcp s) (k_machines s)"
      by (rule wp_mono [OF scaleUpControlPlane_wp])
        (use upgraded_up [of e "view cp s" plan env s] plan quiet that in auto)
    moreover have "wp (scaleDownControlPlane e env cp outdated) (\<lambda>r. upgraded e env (view cp s) outdated s) ?s"
      if "\<not> below_surge (k_kcp s) (k_machines s)"
      by (rule wp_mono [OF scaleDownControlPlane_wp])
        (use upgraded_down [of e "view cp s" plan env s] plan quiet that in auto)
    ultimately show ?thesis
      by (simp add: roll_machines_def wp_simps True Inr)
  qed
qed

lemma rollout_calls_quiet: "x \<in> fst ` set (rollout_calls v) \<Longrightarrow> \<not> changes_machines x"
  by (auto simp: rollout_calls_def)

lemma configuration_calls_quiet:
  "configuration_calls e k v = Inr cs \<Longrightarrow> x \<in> fst ` set cs \<Longrightarrow> \<not> changes_machines x"
  by (auto simp: configuration_calls_def config_calls_def kubelet_call_def
      split: option.splits sum.splits if_splits)

lemma in_order_quiet:
  "in_order env t plan new \<Longrightarrow> \<forall>c\<in>set plan. \<not> changes_machines c \<Longrightarrow> \<forall>c\<in>set new. \<not> changes_machines c"
  by (auto simp: in_order_def dest: set_mono_prefix)

lemma upgrade_with_wp:
  fixes env :: "'r kenv_scheme" and e :: "'x ext_scheme"
  assumes version: "ParseTolerant e (Spec_Version (KCP_Spec (k_kcp s))) = Inr v"
    and got: "reply_Error env GetWorkloadClusterCall (k_trace s) = None"
    and strategy: "Spec_RolloutStrategy (KCP_Spec (k_kcp s)) = Some strategy"
      "RolloutStrategy_RollingUpdate strategy = Some rolling"
  shows "wp (upgrade_with e json env cluster cp outdated strategy rolling (k_kcp s) v)
    (\<lambda>r. upgraded e env (view cp s) outdated s) (s\<lparr>k_trace := k_trace s @ [GetWorkloadClusterCall]\<rparr>)"
  unfolding upgrade_with_def
proof (rule all_then_wp, goal_cases)
  case (1 err new)
  then have "\<forall>c\<in>set (GetWorkloadClusterCall # new). \<not> changes_machines c"
    using in_order_quiet [OF 1] rollout_calls_quiet by auto
  from upgraded_quiet [OF this, of e env "view cp s" outdated s] show ?case by simp
next
  case 2
  let ?first = "GetWorkloadClusterCall # map fst (rollout_calls v)"
  have first: "\<forall>c\<in>set ?first. \<not> changes_machines c"
    using rollout_calls_quiet by auto
  show ?case
  proof (cases "configuration_calls e (k_kcp s) v")
    case (Inl err)
    then show ?thesis
      using upgraded_quiet [OF first, of e env "view cp s" outdated s] by (simp add: wp_simps)
  next
    case (Inr cs)
    note quiet = configuration_calls_quiet [OF Inr]
    show ?thesis
      unfolding Inr sum.case
    proof (rule all_then_wp, goal_cases)
      case (1 err new)
      then have "\<forall>c\<in>set (?first @ new). \<not> changes_machines c"
        using in_order_quiet [OF 1] first quiet by auto
      from upgraded_quiet [OF this, of e env "view cp s" outdated s] show ?case by simp
    next
      case c: 2
      show ?case
        using roll_machines_wp [of e s "?first @ map fst cs" env strategy rolling json cluster cp outdated] 2 c
          first quiet got strategy
        by (auto simp: rollout_plan_def version Inr)
    qed
  qed
qed


lemma upgradeControlPlane_wp:
  fixes env :: "'r kenv_scheme" and e :: "'x ext_scheme"
  shows "wp (upgradeControlPlane e json env cluster cp outdated) (\<lambda>r. upgraded e env (view cp s) outdated s) s"
proof (cases "Option.bind (Spec_RolloutStrategy (KCP_Spec (k_kcp s))) RolloutStrategy_RollingUpdate")
  case None
  then show ?thesis
    using upgraded_quiet [of "[]" e env "view cp s" outdated s]
    by (auto simp: upgradeControlPlane_def wp_simps bind_eq_None_conv split: option.splits)
next
  case (Some rolling)
  then obtain strategy where strategy: "Spec_RolloutStrategy (KCP_Spec (k_kcp s)) = Some strategy"
      "RolloutStrategy_RollingUpdate strategy = Some rolling"
    by (auto simp: bind_eq_Some_conv)
  have "wp (all_then env [(GetWorkloadClusterCall, id)]
      (case ParseTolerant e (Spec_Version (KCP_Spec (k_kcp s))) of
         Inl err \<Rightarrow> State_Monad.return (failed_with (Wrap ''failed to parse kubernetes version'' err))
       | Inr v \<Rightarrow> upgrade_with e json env cluster cp outdated strategy rolling (k_kcp s) v))
      (\<lambda>r. upgraded e env (view cp s) outdated s) s"
  proof (rule all_then_wp, goal_cases)
    case (1 err new)
    show ?case by (rule upgraded_quiet, rule in_order_quiet [OF 1]) simp
  next
    case 2
    then show ?case
      using upgraded_quiet [of "[GetWorkloadClusterCall]" e env "view cp s" outdated s]
        upgrade_with_wp [OF _ _ strategy, of e _ env json cluster cp outdated]
      by (auto simp: wp_simps split: sum.split)
  qed
  then show ?thesis
    by (simp add: upgradeControlPlane_def wp_simps strategy)
qed

text \<open>
  C3. One pass of a rollout changes at most one machine. It creates one only while the control plane
  has fewer machines than the replicas and the surge allow, and deletes one, the selected one, only
  once it has that many; in both cases the preflight checks passed and all updates of the workload
  cluster, of its roles, versions and configurations, were made before and succeeded.
\<close>

theorem upgradeControlPlane_surge:
  "case run_state (upgradeControlPlane e json env cluster cp outdated) s of
     (r, s') \<Rightarrow> upgraded e env (view cp s) outdated s s'"
  using upgradeControlPlane_wp [of e json env cluster cp outdated s] by (simp add: wp_def)


text \<open>What \<open>initializeControlPlane\<close> may do after its uncached read.\<close>

definition initialized :: "'x ext_scheme \<Rightarrow> json_codec \<Rightarrow> 'r kenv_scheme \<Rightarrow> kst \<Rightarrow> outcome \<Rightarrow> kst \<Rightarrow> bool" where
  "initialized e json env s r s' \<longleftrightarrow>
     (let listed = s\<lparr>k_trace := k_trace s @ [ListMachinesCall True]\<rparr>
      in case GetFilteredMachinesForCluster (reply_Machines env True (k_trace s)) [OwnedMachines e (kcp_object (k_kcp s))] of
           Inl err \<Rightarrow> r = failed_with err \<and> s' = listed
         | Inr owned \<Rightarrow>
             (if owned = [] then generated json env listed (snd r) s' else snd r \<noteq> None \<and> s' = listed))"

lemma initializeControlPlane_wp:
  fixes env :: "'r kenv_scheme" and e :: "'x ext_scheme"
  shows "wp (initializeControlPlane e json env cluster cp) (initialized e json env s) s"
proof -
  have "wp (cloneConfigsAndGenerateMachine e json env cluster spec fd)
      (\<lambda>err. generated json env s (snd (case err of Some err \<Rightarrow> failed_with err | None \<Rightarrow> done_with requeue_now))) s"
    for s spec fd
    by (rule wp_mono [OF cloneConfigsAndGenerateMachine_wp])
      (auto simp: done_with_def failed_with_def split: option.split)
  then show ?thesis
    by (auto simp: initializeControlPlane_def wp_simps initialized_def failed_with_def Let_def split: sum.split)
qed

text \<open>
  C20. The first control plane machine is created at most once. The controller reads the machines past
  its cache; when the read fails or shows a machine that the control plane owns, it reports an error
  and makes no other call. Otherwise it makes one attempt to create a machine.
\<close>

theorem initializeControlPlane_once:
  "case run_state (initializeControlPlane e json env cluster cp) s of (r, s') \<Rightarrow> initialized e json env s r s'"
  using initializeControlPlane_wp [of e json env cluster cp s] by (simp add: wp_def)


subsection \<open>Preflight checks and the choice of the machine\<close>

text \<open>Healthy for the preflight checks: every health condition is there and neither false nor unknown.\<close>

definition preflight_healthy :: "ControlPlane \<Rightarrow> Machine \<Rightarrow> bool" where
  "preflight_healthy c m \<longleftrightarrow>
     (\<forall>t\<in>{MachineAPIServerPodHealthyCondition, MachineControllerManagerPodHealthyCondition, MachineSchedulerPodHealthyCondition} \<union>
        (if IsEtcdManaged c then {MachineEtcdPodHealthyCondition, MachineEtcdMemberHealthyCondition} else {}).
        \<exists>cond. Get (Machine_Status_Conditions m) t = Some cond \<and>
        Status cond \<noteq> ConditionFalse \<and> Status cond \<noteq> ConditionUnknown)"

definition preflight_ok :: "ControlPlane \<Rightarrow> Machine list \<Rightarrow> bool" where
  "preflight_ok c excluded \<longleftrightarrow>
     CP_Machines c = [] \<or>
     \<not> HasDeletingMachine c \<and>
     (\<forall>m\<in>elems (CP_Machines c). mname m \<in> mname ` set excluded \<or> preflight_healthy c m)"

lemma preflightCheckCondition_None:
  "preflightCheckCondition kind name conds t = None \<longleftrightarrow>
     (\<exists>cond. Get conds t = Some cond \<and> Status cond \<noteq> ConditionFalse \<and> Status cond \<noteq> ConditionUnknown)"
  by (auto simp: preflightCheckCondition_def split: option.split)

lemma map_filter_Nil: "List.map_filter f xs = [] \<longleftrightarrow> (\<forall>x\<in>set xs. f x = None)"
  by (induction xs) (auto simp: List.map_filter_simps split: option.split)

lemma preflight_healthy_alt:
  "preflight_healthy c m \<longleftrightarrow> (\<forall>t\<in>set (allMachineHealthConditions c). \<exists>cond. Get (Machine_Status_Conditions m) t = Some cond \<and>
     Status cond \<noteq> ConditionFalse \<and> Status cond \<noteq> ConditionUnknown)"
  by (cases "IsEtcdManaged c") (auto simp: preflight_healthy_def allMachineHealthConditions_def)

lemma preflight_machine_Nil:
  "preflight_machine c excluded m = [] \<longleftrightarrow> mname m \<in> mname ` set excluded \<or> preflight_healthy c m"
  by (auto simp: preflight_machine_def list_ex_iff map_filter_Nil preflightCheckCondition_None
      preflight_healthy_alt)

text \<open>
  C34. The preflight checks let an operation proceed exactly when the control plane has no machines, or
  none of them is being deleted and each that is not excluded by its name has all the health conditions,
  those of etcd only when etcd is managed, neither false nor unknown. They never report an error. The conditions of the
  control plane itself, which the comment of the function also asks to be true, play no part: the outcome is the same
  whatever its status is.
\<close>

theorem preflightChecks_iff:
  "snd (preflightChecks c excluded) = None \<and>
   (preflightChecks c excluded = done_with no_result \<longleftrightarrow> preflight_ok c excluded) \<and>
   (\<forall>status. preflightChecks (c\<lparr>KCP := (KCP c)\<lparr>KCP_Status := status\<rparr>\<rparr>) excluded = preflightChecks c excluded)"
proof -
  have "no_result \<noteq> requeue_after deleteRequeueAfter" "no_result \<noteq> requeue_after preflightFailedRequeueAfter"
    by (simp_all add: no_result_def requeue_after_def deleteRequeueAfter_def preflightFailedRequeueAfter_def second_def)
  moreover have "concat (map (preflight_machine c excluded \<circ> snd) (CP_Machines c)) = [] \<longleftrightarrow>
      (\<forall>m\<in>elems (CP_Machines c). mname m \<in> mname ` set excluded \<or> preflight_healthy c m)"
    by (simp add: elems_def preflight_machine_Nil)
  moreover have "preflight_machine (c\<lparr>KCP := (KCP c)\<lparr>KCP_Status := status\<rparr>\<rparr>) = preflight_machine c" for status
    by (simp add: preflight_machine_def fun_eq_iff allMachineHealthConditions_def IsEtcdManaged_def)
  ultimately show ?thesis
    by (auto simp: preflightChecks_def done_with_def Len_def preflight_ok_def HasDeletingMachine_def)
qed

text \<open>The machines from which the one to delete is chosen.\<close>

definition delete_candidates :: "Machine set \<Rightarrow> Machine set \<Rightarrow> Machine set" where
  "delete_candidates machines outdated =
     (let marked = {m. HasAnnotationKey DeleteMachineAnnotation (Some m)}
      in if outdated \<inter> marked \<noteq> {} then outdated \<inter> marked
         else if machines \<inter> marked \<noteq> {} then machines \<inter> marked
         else if outdated \<noteq> {} then outdated
         else machines)"

text \<open>
  Choosing the machine to delete succeeds whenever the control plane has a machine. The choice is
  among the outdated machines that are marked for deletion; when there are none, among all the marked
  ones; then among the outdated ones; then among all. Of the candidates in its failure domain it is the
  oldest.
\<close>

lemma selectMachineForScaleDown_picks:
  assumes "ext_laws e" "wf_map (CP_FailureDomains c)" "wf_machines (CP_Machines c)" "wf_machines outdated"
    and "elems (CP_Machines c) \<noteq> {}"
  shows "\<exists>m. selectMachineForScaleDown e c outdated = Inr m \<and>
    m \<in> delete_candidates (elems (CP_Machines c)) (elems outdated) \<and>
    (\<forall>x\<in>delete_candidates (elems (CP_Machines c)) (elems outdated).
       Machine_Spec_FailureDomain x = Machine_Spec_FailureDomain m \<longrightarrow>
       CreationTimestamp (Machine_ObjectMeta m) \<le> CreationTimestamp (Machine_ObjectMeta x))"
proof -
  let ?marked = "\<lambda>ms. MachineWithDeleteAnnotation ms"
  define ms where "ms =
    (if Len (?marked outdated) > 0 then ?marked outdated
     else if Len (?marked (CP_Machines c)) > 0 then ?marked (CP_Machines c)
     else if Len outdated > 0 then outdated else CP_Machines c)"
  have wf: "wf_machines (?marked x)" for x
    unfolding MachineWithDeleteAnnotation_def by (rule mc.inv_filt)
  have marked: "elems (?marked x) = elems x \<inter> {m. HasAnnotationKey DeleteMachineAnnotation (Some m)}"
    if "wf_machines x" for x
    using that by (auto simp: MachineWithDeleteAnnotation_def mc.els_filt)
  have "elems ms = delete_candidates (elems (CP_Machines c)) (elems outdated)"
    using assms(3,4) by (simp add: ms_def delete_candidates_def Let_def mc.size_pos wf marked)
  moreover have "wf_machines ms"
    using assms(3,4) wf by (simp add: ms_def)
  moreover have "delete_candidates (elems (CP_Machines c)) (elems outdated) \<noteq> {}"
    using assms(5) by (auto simp: delete_candidates_def Let_def)
  moreover have "selectMachineForScaleDown e c outdated = MachineInFailureDomainWithMostMachines e c ms"
    by (simp add: selectMachineForScaleDown_def ms_def Let_def)
  ultimately show ?thesis
    using MostMachines_picks [OF assms(1,2), of ms] by auto
qed

lemma selectMachineForScaleDown_picks_witness:
  "\<exists>m. selectMachineForScaleDown std_ext example_cp example_machines = Inr m \<and>
     m \<in> delete_candidates (elems (CP_Machines example_cp)) (elems example_machines)"
  using selectMachineForScaleDown_picks [OF std_ext_laws, of example_cp example_machines] example_cp_wf by auto

end
