(* ===== verification/Remediation.thy ===== *)
theory Remediation
  imports Scale
begin

text \<open>
  Remediation of unhealthy machines: \<open>remediation.go\<close> of the control plane controllers. The machine
  objects are shared with the control plane in memory, so marking a condition changes the machine in
  the state. The deferred patch of the machine runs on every way out of the function.
\<close>

text \<open>Reasons of the condition that says whether the owner of a machine remediated it.\<close>

definition WaitingForRemediationReason :: string where "WaitingForRemediationReason = ''WaitingForRemediation''"
definition RemediationFailedReason :: string where "RemediationFailedReason = ''RemediationFailed''"
definition RemediationInProgressReason :: string where "RemediationInProgressReason = ''RemediationInProgress''"

subsection \<open>The machine in memory\<close>

definition update_machine :: "string \<Rightarrow> (Machine \<Rightarrow> Machine) \<Rightarrow> Machines \<Rightarrow> Machines" where
  "update_machine name f ms = map (\<lambda>(k, m). (k, if k = name then f m else m)) ms"

definition on_conditions :: "(Conditions \<Rightarrow> Conditions) \<Rightarrow> Machine \<Rightarrow> Machine" where
  "on_conditions f m = m\<lparr>Machine_Status_Conditions := f (Machine_Status_Conditions m)\<rparr>"

definition mark_remediated :: "'r kenv_scheme \<Rightarrow> string \<Rightarrow> string \<Rightarrow> ConditionSeverity \<Rightarrow> string \<Rightarrow> unit kact" where
  "mark_remediated env name reason severity msg =
     kmodify (\<lambda>s. s\<lparr>k_machines := update_machine name (on_conditions (\<lambda>cs.
       MarkFalse (Now env (k_trace s)) cs MachineOwnerRemediatedCondition reason severity msg)) (k_machines s)\<rparr>)"

definition patch_machine :: "'r kenv_scheme \<Rightarrow> string \<Rightarrow> error option kact" where
  "patch_machine env name = do {
     ms \<leftarrow> kread k_machines;
     (case map_of ms name of
        None \<Rightarrow> State_Monad.return None
      | Some m \<Rightarrow> ecall_of env (PatchMachineCall m))
   }"

subsection \<open>Clean-up of remediations that are no longer needed\<close>

definition remediation_obsolete :: "Machine \<Rightarrow> bool" where
  "remediation_obsolete m \<longleftrightarrow>
     IsTrue (Machine_Status_Conditions m) MachineHealthCheckSucceededCondition \<and>
     IsFalse (Machine_Status_Conditions m) MachineOwnerRemediatedCondition \<and>
     Time_IsZero (DeletionTimestamp (Machine_ObjectMeta m))"

definition clear_remediation :: "'r kenv_scheme \<Rightarrow> string \<Rightarrow> error option kact" where
  "clear_remediation env name = do {
     err \<leftarrow> ecall_of env (NewMachineHelperCall name);
     (case err of
        Some err \<Rightarrow> State_Monad.return (Some (Wrap ''failed to get PatchHelper for machine'' err))
      | None \<Rightarrow> do {
          kmodify (\<lambda>s. s\<lparr>k_machines := update_machine name
            (on_conditions (\<lambda>cs. Delete cs MachineOwnerRemediatedCondition)) (k_machines s)\<rparr>);
          err \<leftarrow> patch_machine env name;
          State_Monad.return (map_option (Wrap ''failed to patch machine'') err)
        })
   }"

fun clear_remediations :: "'r kenv_scheme \<Rightarrow> Machines \<Rightarrow> error list kact" where
  "clear_remediations env [] = State_Monad.return []"
| "clear_remediations env ((name, m) # ms) =
     (if remediation_obsolete m then do {
        err \<leftarrow> clear_remediation env name;
        errs \<leftarrow> clear_remediations env ms;
        State_Monad.return ((case err of None \<Rightarrow> [] | Some err \<Rightarrow> [err]) @ errs)
      }
      else clear_remediations env ms)"

subsection \<open>The quorum of etcd\<close>

text \<open>The machine of an etcd member, and whether the member counts as unhealthy.\<close>

definition hosts_member :: "string \<Rightarrow> Machine \<Rightarrow> bool" where
  "hosts_member etcdMember m \<longleftrightarrow>
     (case Machine_Status_NodeRef m of None \<Rightarrow> False | Some ref \<Rightarrow> ObjectReference_Name ref = etcdMember)"

definition unhealthy_member :: "Machines \<Rightarrow> string \<Rightarrow> bool" where
  "unhealthy_member machines etcdMember \<longleftrightarrow>
     (case find (hosts_member etcdMember) (map snd machines) of
        None \<Rightarrow> True
      | Some machine \<Rightarrow> \<not> IsTrue (Machine_Status_Conditions machine) MachineEtcdMemberHealthyCondition)"

definition count_members :: "Machines \<Rightarrow> Machine \<Rightarrow> string list \<Rightarrow> nat \<times> nat" where
  "count_members machines machineToBeRemediated etcdMembers =
     foldl (\<lambda>(targetTotalMembers, targetUnhealthyMembers) etcdMember.
       if hosts_member etcdMember machineToBeRemediated then (targetTotalMembers, targetUnhealthyMembers)
       else (targetTotalMembers + 1,
         if unhealthy_member machines etcdMember then targetUnhealthyMembers + 1 else targetUnhealthyMembers))
     (0, 0) etcdMembers"

definition canSafelyRemediate :: "Machines \<Rightarrow> Machine \<Rightarrow> string list \<Rightarrow> bool" where
  "canSafelyRemediate machines machineToBeRemediated etcdMembers =
     (case count_members machines machineToBeRemediated etcdMembers of
        (targetTotalMembers, targetUnhealthyMembers) \<Rightarrow>
          (let targetQuorum = targetTotalMembers div 2 + 1
           in int targetTotalMembers - int targetUnhealthyMembers \<ge> int targetQuorum))"

definition canSafelyRemoveEtcdMember :: "'r kenv_scheme \<Rightarrow> Machine \<Rightarrow> (error + bool) kact" where
  "canSafelyRemoveEtcdMember env machineToBeRemediated = do {
     err \<leftarrow> ecall_of env GetWorkloadClusterCall;
     (case err of
        Some err \<Rightarrow> State_Monad.return (Inl (Wrap ''failed to get client for workload cluster'' err))
      | None \<Rightarrow> do {
          members \<leftarrow> kcall (WorkloadCall EtcdMembersCall) (reply_Names env EtcdMembersCall);
          machines \<leftarrow> kread k_machines;
          State_Monad.return
            (case members of
               Inl err \<Rightarrow> Inl (Wrap ''failed to get etcdStatus for workload cluster'' err)
             | Inr etcdMembers \<Rightarrow> Inr (canSafelyRemediate machines machineToBeRemediated etcdMembers))
        })
   }"

subsection \<open>Remediation\<close>

text \<open>
  Calls in order up to the first error; the flag says whether the error is also put on the machine's
  condition.
\<close>

fun marked_calls ::
  "'r kenv_scheme \<Rightarrow> string \<Rightarrow> (kcall \<times> bool \<times> (error \<Rightarrow> error)) list \<Rightarrow> error option kact" where
  "marked_calls env name [] = State_Monad.return None"
| "marked_calls env name ((c, surface, wrap) # cs) = do {
     err \<leftarrow> ecall_of env c;
     (case err of
        Some err \<Rightarrow>
          (if surface then do {
             mark_remediated env name RemediationFailedReason SeverityError (Sprintf0 (Error_text env err));
             State_Monad.return (Some (wrap err))
           }
           else State_Monad.return (Some (wrap err)))
      | None \<Rightarrow> marked_calls env name cs)
   }"

definition marked_then ::
  "'r kenv_scheme \<Rightarrow> string \<Rightarrow> (kcall \<times> bool \<times> (error \<Rightarrow> error)) list \<Rightarrow> outcome kact \<Rightarrow> outcome kact" where
  "marked_then env name cs k = do {
     err \<leftarrow> marked_calls env name cs;
     (case err of Some err \<Rightarrow> State_Monad.return (failed_with err) | None \<Rightarrow> k)
   }"

definition skip_remediation :: "'r kenv_scheme \<Rightarrow> string \<Rightarrow> string \<Rightarrow> string \<Rightarrow> outcome kact" where
  "skip_remediation env name reason msg = do {
     mark_remediated env name reason SeverityWarning msg;
     State_Monad.return (done_with no_result)
   }"

definition delete_unhealthy :: "'x ext_scheme \<Rightarrow> 'r kenv_scheme \<Rightarrow> ControlPlane \<Rightarrow> Machine \<Rightarrow> outcome kact" where
  "delete_unhealthy e env c m =
     (case ParseTolerant e (Spec_Version (KCP_Spec (KCP c))) of
        Inl err \<Rightarrow> State_Monad.return (failed_with (Wrap ''failed to parse kubernetes version'' err))
      | Inr parsedVersion \<Rightarrow>
          marked_then env (mname m)
            [(WorkloadCall (RemoveMachineFromOCNEConfigMapCall m parsedVersion), False, id),
             (DeleteMachineCall (mname m), True, Wrap ''failed to delete unhealthy machine'')]
            (do {
               mark_remediated env (mname m) RemediationInProgressReason SeverityWarning [];
               State_Monad.return (done_with requeue_now)
             }))"

definition remove_unhealthy :: "'x ext_scheme \<Rightarrow> 'r kenv_scheme \<Rightarrow> ControlPlane \<Rightarrow> Machine \<Rightarrow> outcome kact" where
  "remove_unhealthy e env c m =
     marked_then env (mname m)
       [(GetWorkloadClusterCall, False, Wrap ''failed to create client to workload cluster'')]
       (if IsEtcdManaged c then
          (case Newest (HealthyMachines c) of
             None \<Rightarrow> skip_remediation env (mname m) RemediationFailedReason
               ''A control plane machine needs remediation, but there is no healthy machine to forward etcd leadership to. Skipping remediation''
           | Some etcdLeaderCandidate \<Rightarrow>
               marked_then env (mname m)
                 [(WorkloadCall (ForwardEtcdLeadershipCall m (Some etcdLeaderCandidate)), True, id),
                  (WorkloadCall (RemoveEtcdMemberForMachineCall m), True, id)]
                 (delete_unhealthy e env c m))
        else delete_unhealthy e env c m)"

definition remediate :: "'x ext_scheme \<Rightarrow> 'r kenv_scheme \<Rightarrow> ControlPlane \<Rightarrow> Machine \<Rightarrow> outcome kact" where
  "remediate e env c m =
     (case Spec_Replicas (KCP_Spec (KCP c)) of
        None \<Rightarrow> State_Monad.return (failed_with (Panic ''nil pointer dereference''))
      | Some desiredReplicas \<Rightarrow>
          (if Len (CP_Machines c) \<le> 1 then
             skip_remediation env (mname m) WaitingForRemediationReason
               ''KCP can't remediate if current replicas are less or equal to 1''
           else if int (Len (CP_Machines c)) < desiredReplicas then
             skip_remediation env (mname m) WaitingForRemediationReason
               (''KCP waiting for having at least '' @ show_int desiredReplicas @
                '' control plane machines before triggering remediation'')
           else if HasDeletingMachine c then
             skip_remediation env (mname m) WaitingForRemediationReason
               ''KCP waiting for control plane machine deletion to complete before triggering remediation''
           else if IsEtcdManaged c then do {
             safe \<leftarrow> canSafelyRemoveEtcdMember env m;
             (case safe of
                Inl err \<Rightarrow> do {
                  mark_remediated env (mname m) RemediationFailedReason SeverityError (Sprintf0 (Error_text env err));
                  State_Monad.return (failed_with err)
                }
              | Inr False \<Rightarrow>
                  skip_remediation env (mname m) WaitingForRemediationReason
                    ''KCP can't remediate this machine because this could result in etcd loosing quorum''
              | Inr True \<Rightarrow> remove_unhealthy e env c m)
           }
           else remove_unhealthy e env c m))"

definition and_patch :: "'r kenv_scheme \<Rightarrow> string \<Rightarrow> outcome kact \<Rightarrow> outcome kact" where
  "and_patch env name act = do {
     (ret, retErr) \<leftarrow> act;
     err \<leftarrow> patch_machine env name;
     State_Monad.return
       (ret, case (err, retErr) of
               (Some err, None) \<Rightarrow> Some (Wrap ''failed to patch control plane Machine'' err)
             | _ \<Rightarrow> retErr)
   }"

definition remediate_oldest :: "'x ext_scheme \<Rightarrow> 'r kenv_scheme \<Rightarrow> ControlPlane \<Rightarrow> outcome kact" where
  "remediate_oldest e env cp = do {
     c \<leftarrow> kread (view cp);
     (case Oldest (UnhealthyMachines c) of
        None \<Rightarrow> State_Monad.return (done_with no_result)
      | Some machineToBeRemediated \<Rightarrow>
          (if \<not> Time_IsZero (DeletionTimestamp (Machine_ObjectMeta machineToBeRemediated))
           then State_Monad.return (done_with no_result)
           else do {
             err \<leftarrow> ecall_of env (NewMachineHelperCall (mname machineToBeRemediated));
             (case err of
                Some err \<Rightarrow> State_Monad.return (failed_with err)
              | None \<Rightarrow> and_patch env (mname machineToBeRemediated) (remediate e env c machineToBeRemediated))
           }))
   }"

definition reconcileUnhealthyMachines ::
  "'x ext_scheme \<Rightarrow> 'r kenv_scheme \<Rightarrow> ControlPlane \<Rightarrow> outcome kact" where
  "reconcileUnhealthyMachines e env cp = do {
     c \<leftarrow> kread (view cp);
     errList \<leftarrow> clear_remediations env (HealthyMachines c);
     (case NewAggregate errList of
        Some err \<Rightarrow> State_Monad.return (failed_with err)
      | None \<Rightarrow> remediate_oldest e env cp)
   }"

subsection \<open>The quorum is kept\<close>

definition other_members :: "Machine \<Rightarrow> string list \<Rightarrow> string list" where
  "other_members m members = filter (\<lambda>x. \<not> hosts_member x m) members"

lemma count_members_eq:
  "count_members ms m members =
     (length (other_members m members), length (filter (unhealthy_member ms) (other_members m members)))"
proof -
  have "foldl (\<lambda>(total, unhealthy) x. if hosts_member x m then (total, unhealthy)
      else (total + 1, if unhealthy_member ms x then unhealthy + 1 else unhealthy)) (a, b) members =
    (a + length (other_members m members), b + length (filter (unhealthy_member ms) (other_members m members)))"
    for a b :: nat
    by (induction members arbitrary: a b) (auto simp: other_members_def)
  then show ?thesis
    by (simp add: count_members_def)
qed

lemma canSafelyRemediate_iff:
  "canSafelyRemediate ms m members \<longleftrightarrow>
     length (other_members m members) <
     2 * length (filter (\<lambda>x. \<not> unhealthy_member ms x) (other_members m members))"
proof -
  let ?others = "other_members m members"
  have "length ?others = length (filter (unhealthy_member ms) ?others) +
      length (filter (\<lambda>x. \<not> unhealthy_member ms x) ?others)"
    by (rule sum_length_filter_compl [symmetric])
  then show ?thesis
    by (simp add: canSafelyRemediate_def count_members_eq Let_def) presburger
qed

subsection \<open>What remediation changes\<close>

definition keeps_machines :: "kcall list \<Rightarrow> bool" where
  "keeps_machines new \<longleftrightarrow> list_all (\<lambda>c. \<not> changes_machines c) new"

lemma keeps_machines_simps [simp]:
  "keeps_machines []" "keeps_machines (c # cs) \<longleftrightarrow> \<not> changes_machines c \<and> keeps_machines cs"
  "keeps_machines (cs @ ds) \<longleftrightarrow> keeps_machines cs \<and> keeps_machines ds"
  "\<not> changes_machines (NewMachineHelperCall n)" "\<not> changes_machines (PatchMachineCall m)"
  by (simp_all add: keeps_machines_def changes_machines_def)

lemma keeps_machines_in_order:
  "in_order env t plan new \<Longrightarrow> keeps_machines plan \<Longrightarrow> keeps_machines new"
  by (auto simp: in_order_def keeps_machines_def list_all_iff dest: set_mono_prefix)

text \<open>The control plane object, the configurations and the names of the machines stay.\<close>

definition framed :: "kst \<Rightarrow> kst \<Rightarrow> bool" where
  "framed s s' \<longleftrightarrow> k_kcp s' = k_kcp s \<and> k_configs s' = k_configs s \<and>
     map fst (k_machines s') = map fst (k_machines s)"

lemma framed_refl [simp]: "framed s s" "framed s (s\<lparr>k_trace := t\<rparr>)"
  by (simp_all add: framed_def)

lemma framed_trans: "framed a b \<Longrightarrow> framed b c \<Longrightarrow> framed a c"
  by (simp add: framed_def)

lemma map_fst_update_machine [simp]: "map fst (update_machine name f ms) = map fst ms"
  by (simp add: update_machine_def split_def o_def)

lemma framed_update_machine [simp]:
  "framed s (s\<lparr>k_machines := update_machine name f (k_machines s)\<rparr>)"
  "framed s (s\<lparr>k_trace := t, k_machines := update_machine name f (k_machines s)\<rparr>)"
  by (simp_all add: framed_def)

text \<open>The clean-up only drops the remediation condition of some machines.\<close>

definition cleared :: "Machines \<Rightarrow> Machines \<Rightarrow> bool" where
  "cleared = list_all2 (\<lambda>km km'. fst km' = fst km \<and>
     (snd km' = snd km \<or> snd km' = on_conditions (\<lambda>cs. Delete cs MachineOwnerRemediatedCondition) (snd km)))"

lemma Delete_Delete [simp]: "Delete (Delete cs t) t = Delete cs t"
  by (simp add: Delete_def)

lemma cleared_refl [simp]: "cleared ms ms"
  by (simp add: cleared_def list_all2_refl)

lemma cleared_trans:
  assumes "cleared a b" "cleared b c"
  shows "cleared a c"
  unfolding cleared_def
  by (rule list_all2_trans [OF _ assms [unfolded cleared_def]]) (auto simp: on_conditions_def)

lemma cleared_update [simp]:
  "cleared ms (update_machine name (on_conditions (\<lambda>cs. Delete cs MachineOwnerRemediatedCondition)) ms)"
  by (induction ms) (auto simp: cleared_def update_machine_def)

definition tidied :: "kst \<Rightarrow> kst \<Rightarrow> bool" where
  "tidied s s' \<longleftrightarrow> framed s s' \<and> cleared (k_machines s) (k_machines s') \<and>
     (\<exists>new. k_trace s' = k_trace s @ new \<and> keeps_machines new)"

lemma tidied_refl [simp]: "tidied s s"
  by (simp add: tidied_def)

lemma tidied_trans: "tidied a b \<Longrightarrow> tidied b c \<Longrightarrow> tidied a c"
  by (auto simp: tidied_def intro: framed_trans cleared_trans)

lemma patch_machine_wp:
  fixes env :: "'r kenv_scheme"
  shows "wp (patch_machine env name) (\<lambda>r s'. \<exists>new. s' = s\<lparr>k_trace := k_trace s @ new\<rparr> \<and> keeps_machines new) s"
  by (auto simp: patch_machine_def wp_simps split: option.split intro: exI [of _ "[]"])

lemma clear_remediation_wp:
  fixes env :: "'r kenv_scheme"
  shows "wp (clear_remediation env name) (\<lambda>r. tidied s) s"
proof -
  let ?s = "s\<lparr>k_trace := k_trace s @ [NewMachineHelperCall name], k_machines := update_machine name
    (on_conditions (\<lambda>cs. Delete cs MachineOwnerRemediatedCondition)) (k_machines s)\<rparr>"
  have "wp (patch_machine env name) (\<lambda>r. tidied s) ?s"
    by (rule wp_mono [OF patch_machine_wp]) (auto simp: tidied_def framed_def)
  moreover have "tidied s (s\<lparr>k_trace := k_trace s @ [NewMachineHelperCall name]\<rparr>)"
    by (simp add: tidied_def)
  ultimately show ?thesis
    by (simp add: clear_remediation_def wp_simps split: option.split)
qed

lemma clear_remediations_wp:
  fixes env :: "'r kenv_scheme"
  shows "tidied s s1 \<Longrightarrow> wp (clear_remediations env ms) (\<lambda>r. tidied s) s1"
proof (induction ms arbitrary: s1)
  case Nil
  then show ?case by (simp add: wp_simps)
next
  case (Cons km ms)
  have "wp (clear_remediation env (fst km)) (\<lambda>r. wp (clear_remediations env ms) (\<lambda>r. tidied s)) s1"
    by (rule wp_mono [OF clear_remediation_wp]) (use Cons tidied_trans in blast)
  then show ?case
    using Cons by (cases km) (simp add: wp_simps)
qed


subsection \<open>When a machine is deleted\<close>

text \<open>The conditions under which the controller removes the machine.\<close>

definition remediation_allowed :: "ControlPlane \<Rightarrow> Machine \<Rightarrow> bool" where
  "remediation_allowed c m \<longleftrightarrow>
     Oldest (UnhealthyMachines c) = Some m \<and>
     1 < Len (CP_Machines c) \<and>
     (\<exists>n. Spec_Replicas (KCP_Spec (KCP c)) = Some n \<and> n \<le> int (Len (CP_Machines c))) \<and>
     \<not> HasDeletingMachine c"

definition remediation_plan :: "'x ext_scheme \<Rightarrow> ControlPlane \<Rightarrow> Machine \<Rightarrow> kcall list" where
  "remediation_plan e c m =
     GetWorkloadClusterCall #
     (if IsEtcdManaged c then
        [WorkloadCall (ForwardEtcdLeadershipCall m (Newest (HealthyMachines c))),
         WorkloadCall (RemoveEtcdMemberForMachineCall m)]
      else []) @
     (case ParseTolerant e (Spec_Version (KCP_Spec (KCP c))) of
        Inl _ \<Rightarrow> []
      | Inr v \<Rightarrow> [WorkloadCall (RemoveMachineFromOCNEConfigMapCall m v), DeleteMachineCall (mname m)])"

text \<open>
  With a managed etcd the members were listed just before, and those that stay keep a healthy majority.
\<close>

definition quorum_checked :: "'r kenv_scheme \<Rightarrow> kcall list \<Rightarrow> ControlPlane \<Rightarrow> Machine \<Rightarrow> kcall list \<Rightarrow> bool" where
  "quorum_checked env t c m pre \<longleftrightarrow>
     (if IsEtcdManaged c then
        pre = [GetWorkloadClusterCall, WorkloadCall EtcdMembersCall] \<and>
        (\<exists>members. reply_Names env EtcdMembersCall (t @ [GetWorkloadClusterCall]) = Inr members \<and>
           length (other_members m members) <
           2 * length (filter (\<lambda>x. \<not> unhealthy_member (CP_Machines c) x) (other_members m members)))
      else pre = [])"

definition removed_safely ::
  "'x ext_scheme \<Rightarrow> 'r kenv_scheme \<Rightarrow> ControlPlane \<Rightarrow> Machine \<Rightarrow> kcall list \<Rightarrow> kcall list \<Rightarrow> bool" where
  "removed_safely e env c m t new \<longleftrightarrow>
     keeps_machines new \<or>
     remediation_allowed c m \<and>
     (\<exists>pre. quorum_checked env t c m pre \<and> new = pre @ remediation_plan e c m \<and>
        succeeded env (t @ pre) (butlast (remediation_plan e c m)))"

definition remediating ::
  "'x ext_scheme \<Rightarrow> 'r kenv_scheme \<Rightarrow> ControlPlane \<Rightarrow> Machine \<Rightarrow> kst \<Rightarrow> outcome \<Rightarrow> kst \<Rightarrow> bool" where
  "remediating e env c m s r s' \<longleftrightarrow> framed s s' \<and>
     (\<exists>new. k_trace s' = k_trace s @ new \<and> removed_safely e env c m (k_trace s) new \<and>
        (r = done_with no_result \<longrightarrow> keeps_machines new))"

lemma remediating_keeps:
  "framed s s' \<Longrightarrow> k_trace s' = k_trace s @ new \<Longrightarrow> keeps_machines new \<Longrightarrow> remediating e env c m s r s'"
  by (auto simp: remediating_def removed_safely_def)

lemma failed_not_done: "failed_with err \<noteq> done_with r"
  by (simp add: failed_with_def done_with_def)

lemma requeue_not_done: "done_with requeue_now \<noteq> done_with no_result"
  by (simp add: done_with_def requeue_now_def no_result_def)

text \<open>Calls in order.\<close>

definition made_marked :: "'r kenv_scheme \<Rightarrow> kcall list \<Rightarrow> kst \<Rightarrow> error option \<Rightarrow> kst \<Rightarrow> bool" where
  "made_marked env plan s r s' \<longleftrightarrow> framed s s' \<and>
     (\<exists>new. k_trace s' = k_trace s @ new \<and> in_order env (k_trace s) plan new \<and>
        (r = None \<longrightarrow> new = plan \<and> succeeded env (k_trace s) plan \<and> s' = s\<lparr>k_trace := k_trace s @ plan\<rparr>))"

lemma made_marked_step:
  assumes "reply_Error env c (k_trace s) = None" "made_marked env plan (s\<lparr>k_trace := k_trace s @ [c]\<rparr>) r s'"
  shows "made_marked env (c # plan) s r s'"
  using assms in_order_append [of env "k_trace s" "[c]" plan]
  by (fastforce simp: made_marked_def framed_def)

lemma wp_mark_remediated [wp_simps]:
  "wp (mark_remediated env name reason severity msg) Q = (\<lambda>s. Q () (s\<lparr>k_machines := update_machine name
     (on_conditions (\<lambda>cs. MarkFalse (Now env (k_trace s)) cs MachineOwnerRemediatedCondition reason severity msg))
     (k_machines s)\<rparr>))"
  by (simp add: mark_remediated_def wp_simps)

lemma marked_calls_wp:
  fixes env :: "'r kenv_scheme"
  shows "wp (marked_calls env name cs) (made_marked env (map fst cs) s) s"
proof (induction cs arbitrary: s)
  case Nil
  show ?case by (simp add: wp_simps made_marked_def)
next
  case (Cons c cs)
  obtain call surface wrap where c: "c = (call, surface, wrap)"
    by (cases c) auto
  show ?case
  proof (cases "reply_Error env call (k_trace s)")
    case None
    then show ?thesis
      using wp_mono [OF Cons.IH made_marked_step] by (simp add: c wp_simps)
  next
    case (Some err)
    then show ?thesis
      by (auto simp: c wp_simps made_marked_def framed_def)
  qed
qed

lemma marked_then_wp:
  fixes env :: "'r kenv_scheme"
  assumes "\<And>err new s'. framed s s' \<Longrightarrow> k_trace s' = k_trace s @ new \<Longrightarrow>
      in_order env (k_trace s) (map fst cs) new \<Longrightarrow> Q (failed_with err) s'"
    and "succeeded env (k_trace s) (map fst cs) \<Longrightarrow> wp k Q (s\<lparr>k_trace := k_trace s @ map fst cs\<rparr>)"
  shows "wp (marked_then env name cs k) Q s"
  unfolding marked_then_def wp_bind
  by (rule wp_mono [OF marked_calls_wp])
    (use assms in \<open>auto simp: made_marked_def wp_simps split: option.split\<close>)

lemma skip_remediation_wp:
  fixes env :: "'r kenv_scheme"
  assumes "framed s s1" "k_trace s1 = k_trace s @ new" "keeps_machines new"
  shows "wp (skip_remediation env name reason msg) (remediating e env c m s) s1"
  using assms
  by (auto simp: skip_remediation_def wp_simps framed_def intro!: remediating_keeps)


definition etcd_steps :: "ControlPlane \<Rightarrow> Machine \<Rightarrow> kcall list" where
  "etcd_steps c m = GetWorkloadClusterCall #
     (if IsEtcdManaged c then
        [WorkloadCall (ForwardEtcdLeadershipCall m (Newest (HealthyMachines c))),
         WorkloadCall (RemoveEtcdMemberForMachineCall m)]
      else [])"

lemma keeps_etcd_steps [simp]: "keeps_machines (etcd_steps c m)"
  by (simp add: etcd_steps_def)

lemma keeps_quorum_checked: "quorum_checked env t c m pre \<Longrightarrow> keeps_machines pre"
  by (auto simp: quorum_checked_def split: if_splits)

lemma delete_unhealthy_wp:
  fixes env :: "'r kenv_scheme" and e :: "'x ext_scheme"
  assumes allowed: "remediation_allowed c m" and quorum: "quorum_checked env (k_trace s) c m pre"
    and steps: "succeeded env (k_trace s @ pre) (etcd_steps c m)"
  shows "wp (delete_unhealthy e env c m) (remediating e env c m s)
    (s\<lparr>k_trace := k_trace s @ pre @ etcd_steps c m\<rparr>)"
proof (cases "ParseTolerant e (Spec_Version (KCP_Spec (KCP c)))")
  case (Inl err)
  then show ?thesis
    using keeps_quorum_checked [OF quorum]
    by (auto simp: delete_unhealthy_def wp_simps intro!: remediating_keeps)
next
  case (Inr v)
  let ?unregister = "WorkloadCall (RemoveMachineFromOCNEConfigMapCall m v)"
  have plan: "remediation_plan e c m = etcd_steps c m @ [?unregister, DeleteMachineCall (mname m)]"
    by (simp add: remediation_plan_def etcd_steps_def Inr)
  have safe: "remediating e env c m s r s'"
    if "r \<noteq> done_with no_result" "framed s s'" "k_trace s' = k_trace s @ pre @ etcd_steps c m @ [?unregister, DeleteMachineCall (mname m)]"
      "reply_Error env ?unregister (k_trace s @ pre @ etcd_steps c m) = None" for r s'
    using that allowed quorum steps
    by (auto simp: remediating_def removed_safely_def plan butlast_append)
  show ?thesis
    unfolding delete_unhealthy_def Inr sum.case
  proof (rule marked_then_wp, goal_cases)
    case (1 err new s')
    then have framed: "framed s s'"
      by (simp add: framed_def)
    from 1(3) have "prefix new [?unregister, DeleteMachineCall (mname m)]"
      and ok: "succeeded env (k_trace s @ pre @ etcd_steps c m) (butlast new)"
      by (simp_all add: in_order_def)
    then have "new = [?unregister, DeleteMachineCall (mname m)] \<or> new = [] \<or> new = [?unregister]"
      by (auto simp: prefix_Cons)
    then show ?case
      using framed 1(2) ok safe [OF failed_not_done] keeps_quorum_checked [OF quorum]
      by (elim disjE) (auto intro!: remediating_keeps)
  next
    case 2
    then show ?case
      by (auto simp: wp_simps framed_def requeue_not_done intro!: safe)
  qed
qed

lemma remove_unhealthy_wp:
  fixes env :: "'r kenv_scheme" and e :: "'x ext_scheme"
  assumes allowed: "remediation_allowed c m" and quorum: "quorum_checked env (k_trace s) c m pre"
  shows "wp (remove_unhealthy e env c m) (remediating e env c m s) (s\<lparr>k_trace := k_trace s @ pre\<rparr>)"
  unfolding remove_unhealthy_def
proof (rule marked_then_wp, goal_cases)
  case (1 err new s')
  then show ?case
    using keeps_quorum_checked [OF quorum] keeps_machines_in_order [OF 1(3)]
    by (intro remediating_keeps [of _ _ "pre @ new"]) (auto simp: framed_def)
next
  case got: 2
  show ?case
  proof (cases "IsEtcdManaged c")
    case False
    then show ?thesis
      using delete_unhealthy_wp [OF allowed quorum, of e] got by (simp add: etcd_steps_def)
  next
    case True
    show ?thesis
    proof (cases "Newest (HealthyMachines c)")
      case None
      show ?thesis
        unfolding None option.case if_P [OF True]
        by (rule skip_remediation_wp [of _ _ "pre @ [GetWorkloadClusterCall]"])
          (use keeps_quorum_checked [OF quorum] in auto)
    next
      case (Some candidate)
      have "wp (marked_then env (mname m)
          [(WorkloadCall (ForwardEtcdLeadershipCall m (Some candidate)), True, id),
           (WorkloadCall (RemoveEtcdMemberForMachineCall m), True, id)] (delete_unhealthy e env c m))
          (remediating e env c m s) (s\<lparr>k_trace := k_trace s @ pre @ [GetWorkloadClusterCall]\<rparr>)"
      proof (rule marked_then_wp, goal_cases)
        case (1 err new s')
        then show ?case
          using keeps_quorum_checked [OF quorum] keeps_machines_in_order [OF 1(3)]
          by (intro remediating_keeps [of _ _ "pre @ [GetWorkloadClusterCall] @ new"]) (auto simp: framed_def)
      next
        case 2
        then show ?case
          using delete_unhealthy_wp [OF allowed quorum, of e] got by (simp add: etcd_steps_def True Some)
      qed
      then show ?thesis
        by (simp add: True Some)
    qed
  qed
qed


lemma canSafelyRemoveEtcdMember_wp:
  fixes env :: "'r kenv_scheme"
  assumes "k_machines s = CP_Machines c" "IsEtcdManaged c"
  shows "wp (canSafelyRemoveEtcdMember env m)
    (\<lambda>r s'. \<exists>pre. s' = s\<lparr>k_trace := k_trace s @ pre\<rparr> \<and> keeps_machines pre \<and>
       (r = Inr True \<longrightarrow> quorum_checked env (k_trace s) c m pre)) s"
  using assms
  by (auto simp: canSafelyRemoveEtcdMember_def wp_simps quorum_checked_def canSafelyRemediate_iff
      split: option.split sum.split)

lemma remediate_wp:
  fixes env :: "'r kenv_scheme" and e :: "'x ext_scheme"
  assumes machines: "k_machines s = CP_Machines c" and oldest: "Oldest (UnhealthyMachines c) = Some m"
  shows "wp (remediate e env c m) (remediating e env c m s) s"
proof (cases "Spec_Replicas (KCP_Spec (KCP c))")
  case None
  then show ?thesis
    by (auto simp: remediate_def wp_simps intro!: remediating_keeps)
next
  case (Some n)
  have skip: "wp (skip_remediation env name reason msg) (remediating e env c m s) s" for name reason msg
    by (rule skip_remediation_wp [of _ _ "[]"]) auto
  show ?thesis
  proof (cases "Len (CP_Machines c) \<le> 1 \<or> int (Len (CP_Machines c)) < n \<or> HasDeletingMachine c")
    case True
    then show ?thesis
      by (auto simp: remediate_def Some skip)
  next
    case False
    then have allowed: "remediation_allowed c m"
      by (auto simp: remediation_allowed_def Some oldest)
    have "wp (do {
        safe \<leftarrow> canSafelyRemoveEtcdMember env m;
        (case safe of
           Inl err \<Rightarrow> do {
             mark_remediated env (mname m) RemediationFailedReason SeverityError (Sprintf0 (Error_text env err));
             State_Monad.return (failed_with err)
           }
         | Inr False \<Rightarrow> skip_remediation env (mname m) WaitingForRemediationReason msg
         | Inr True \<Rightarrow> remove_unhealthy e env c m)
      }) (remediating e env c m s) s" if "IsEtcdManaged c" for msg
      unfolding wp_bind
    proof (rule wp_mono [OF canSafelyRemoveEtcdMember_wp [OF machines that]], elim exE conjE, goal_cases)
      case (1 r s' pre)
      then show ?case
        using remove_unhealthy_wp [OF allowed, of env s pre e] skip_remediation_wp [of s s' pre env _ _ _ e]
        by (auto simp: wp_simps framed_def intro!: remediating_keeps split: sum.split bool.split)
    qed
    moreover have "wp (remove_unhealthy e env c m) (remediating e env c m s) s" if "\<not> IsEtcdManaged c"
      using remove_unhealthy_wp [OF allowed, of env s "[]" e] that by (simp add: quorum_checked_def)
    ultimately show ?thesis
      using False by (auto simp: remediate_def Some)
  qed
qed

text \<open>What one call of \<open>reconcileUnhealthyMachines\<close> may do.\<close>

definition remediation_safe ::
  "'x ext_scheme \<Rightarrow> 'r kenv_scheme \<Rightarrow> ControlPlane \<Rightarrow> kst \<Rightarrow> outcome \<Rightarrow> kst \<Rightarrow> bool" where
  "remediation_safe e env cp s r s' \<longleftrightarrow> framed s s' \<and>
     (\<exists>new. k_trace s' = k_trace s @ new \<and>
       (r = done_with no_result \<longrightarrow> keeps_machines new) \<and>
       (keeps_machines new \<or>
        (\<exists>ms c m pre mid post.
           cleared (k_machines s) ms \<and> c = (view cp s)\<lparr>CP_Machines := ms\<rparr> \<and>
           new = pre @ mid @ remediation_plan e c m @ post \<and> keeps_machines pre \<and> keeps_machines post \<and>
           remediation_allowed c m \<and> quorum_checked env (k_trace s @ pre) c m mid \<and>
           succeeded env (k_trace s @ pre @ mid) (butlast (remediation_plan e c m)))))"

lemma tidied_safe: "tidied s s' \<Longrightarrow> remediation_safe e env cp s r s'"
  by (auto simp: tidied_def remediation_safe_def)

lemma remediating_safe:
  assumes tidied: "tidied s s1" and call: "\<not> changes_machines x"
    and rem: "remediating e env (view cp s1) m (s1\<lparr>k_trace := k_trace s1 @ [x]\<rparr>) r0 s2"
    and same: "r = done_with no_result \<Longrightarrow> r0 = done_with no_result"
    and post: "s' = s2\<lparr>k_trace := k_trace s2 @ post\<rparr>" "keeps_machines post"
  shows "remediation_safe e env cp s r s'"
proof -
  obtain pre where pre: "k_trace s1 = k_trace s @ pre" "keeps_machines pre"
    and framed: "framed s s1" and cleared: "cleared (k_machines s) (k_machines s1)"
    using tidied by (auto simp: tidied_def)
  have c: "view cp s1 = (view cp s)\<lparr>CP_Machines := k_machines s1\<rparr>"
    using framed by (simp add: view_def framed_def)
  obtain new where new: "k_trace s' = k_trace s @ (pre @ [x]) @ new @ post" and "framed s s'"
    and safe: "removed_safely e env (view cp s1) m (k_trace s @ pre @ [x]) new"
    and quiet: "r = done_with no_result \<Longrightarrow> keeps_machines new"
    using rem framed pre post same by (auto simp: remediating_def framed_def)
  from safe show ?thesis
    unfolding removed_safely_def
  proof (elim disjE conjE exE, goal_cases)
    case 1
    then show ?case
      using new \<open>framed s s'\<close> pre call post by (auto simp: remediation_safe_def)
  next
    case (2 mid)
    have "keeps_machines (pre @ [x])"
      using pre call by simp
    then show ?case
      using 2 new \<open>framed s s'\<close> post(2) cleared c quiet unfolding remediation_safe_def
      by (intro conjI exI [of _ "(pre @ [x]) @ new @ post"] disjI2 exI [of _ "k_machines s1"]
          exI [of _ "view cp s1"] exI [of _ m] exI [of _ "pre @ [x]"] exI [of _ mid] exI [of _ post]) simp_all
  qed
qed

lemma reconcileUnhealthyMachines_wp:
  fixes env :: "'r kenv_scheme" and e :: "'x ext_scheme"
  shows "wp (reconcileUnhealthyMachines e env cp) (remediation_safe e env cp s) s"
proof -
  have "wp (and_patch env (mname m) (remediate e env (view cp s1) m)) (remediation_safe e env cp s)
      (s1\<lparr>k_trace := k_trace s1 @ [NewMachineHelperCall (mname m)]\<rparr>)"
    if "tidied s s1" "Oldest (UnhealthyMachines (view cp s1)) = Some m" for s1 m
    unfolding and_patch_def wp_bind split_def
    by (rule wp_mono [OF remediate_wp], simp, rule that(2), rule wp_mono [OF patch_machine_wp])
      (use that(1) in \<open>auto simp: wp_simps done_with_def split: option.splits
        intro!: remediating_safe [of s s1 "NewMachineHelperCall (mname m)" e env cp m]\<close>)
  moreover have "tidied s (s1\<lparr>k_trace := k_trace s1 @ [NewMachineHelperCall n]\<rparr>)" if "tidied s s1" for s1 n
    using that by (auto simp: tidied_def framed_def)
  ultimately have "wp (remediate_oldest e env cp) (remediation_safe e env cp s) s1" if "tidied s s1" for s1
    using that by (auto simp: remediate_oldest_def wp_simps tidied_safe split: option.split)
  then have "wp (case NewAggregate errList of Some err \<Rightarrow> State_Monad.return (failed_with err)
      | None \<Rightarrow> remediate_oldest e env cp) (remediation_safe e env cp s) s1" if "tidied s s1" for errList s1
    using that by (auto simp: wp_simps tidied_safe split: option.split)
  then show ?thesis
    unfolding reconcileUnhealthyMachines_def wp_bind wp_kread
    by (intro wp_mono [OF clear_remediations_wp [of s s]]) simp_all
qed

text \<open>
  C2. Remediation deletes at most one machine, the oldest unhealthy one. It does so only when the
  control plane has at least two machines and no fewer than desired, none of them is being deleted,
  and, with a managed etcd, the members listed just before keep a healthy majority without the
  machine's member. Leadership of etcd, the member and the entry in the configuration go before the
  machine, each only after the steps before it succeeded. The control plane object and the
  configurations in memory are not touched.
\<close>

theorem reconcileUnhealthyMachines_safe:
  "case run_state (reconcileUnhealthyMachines e env cp) s of (r, s') \<Rightarrow> remediation_safe e env cp s r s'"
  using reconcileUnhealthyMachines_wp [of e env cp s] by (simp add: wp_def)

text \<open>
  C26. A member may be removed exactly when more than half of the other members are healthy, where a
  member without a machine counts as unhealthy.
\<close>

theorem canSafelyRemediate_majority:
  "canSafelyRemediate ms m members \<longleftrightarrow>
     length (other_members m members) <
     2 * length (filter (\<lambda>x. \<not> unhealthy_member ms x) (other_members m members))"
  by (rule canSafelyRemediate_iff)

end
