(* ===== verification/Ownership.thy ===== *)
theory Ownership
  imports Remediation
begin

text \<open>
  Owner references and adoption in the control plane controller: the kubeconfig secret, the secrets of
  the certificates, machines that the control plane takes over, and the infrastructure template
  (\<open>helpers.go\<close> and the adoption part of \<open>controller.go\<close>).
\<close>

definition cluster_GroupVersion :: string where "cluster_GroupVersion = ''cluster.x-k8s.io/v1beta1''"

definition cluster_object :: "Cluster \<Rightarrow> string \<times> string \<times> string" where
  "cluster_object cluster = (''cluster.x-k8s.io'', ''Cluster'', Name (Cluster_ObjectMeta cluster))"

definition cluster_owner :: "Cluster \<Rightarrow> OwnerReference" where
  "cluster_owner cluster =
     \<lparr>APIVersion = cluster_GroupVersion, Kind = ''Cluster'', OwnerReference_Name = Name (Cluster_ObjectMeta cluster),
      OwnerReference_UID = UID (Cluster_ObjectMeta cluster), Controller = None, BlockOwnerDeletion = None\<rparr>"

definition kcp_controller :: "'x ext_scheme \<Rightarrow> OCNEControlPlane \<Rightarrow> OwnerReference" where
  "kcp_controller e k = NewControllerRef e (KCP_ObjectMeta k) controlplane_GroupVersion ''OCNEControlPlane''"

text \<open>The owner cluster of an object (\<open>GetOwnerCluster\<close> and \<open>GetClusterByName\<close> in \<open>util/util.go\<close>).\<close>

fun GetOwnerCluster ::
  "'x ext_scheme \<Rightarrow> 'r kenv_scheme \<Rightarrow> string \<Rightarrow> OwnerReference list \<Rightarrow> (error + Cluster option) kact" where
  "GetOwnerCluster e env ns [] = State_Monad.return (Inr None)"
| "GetOwnerCluster e env ns (ref # refs) =
     (if Kind ref \<noteq> ''Cluster'' then GetOwnerCluster e env ns refs
      else (case ParseGroupVersion e (APIVersion ref) of
              Inl err \<Rightarrow> State_Monad.return (Inl err)
            | Inr gv \<Rightarrow>
                (if fst gv = ''cluster.x-k8s.io'' then do {
                   r \<leftarrow> kcall (GetClusterCall ns (OwnerReference_Name ref))
                     (reply_Cluster env ns (OwnerReference_Name ref));
                   State_Monad.return
                     (map_sum (Wrap (''failed to get Cluster/'' @ OwnerReference_Name ref)) Some r)
                 }
                 else GetOwnerCluster e env ns refs)))"

subsection \<open>The kubeconfig secret\<close>

text \<open>
  The owner references after adoption: the references to the cluster and to the previous controller go,
  the control plane becomes the controller.
\<close>

definition adopted_refs :: "'x ext_scheme \<Rightarrow> Cluster \<Rightarrow> OCNEControlPlane \<Rightarrow> OwnerReference list \<Rightarrow> OwnerReference list" where
  "adopted_refs e cluster k refs =
     (let refs1 = (if IsOwnedByObject e refs (cluster_object cluster)
                   then RemoveOwnerRef e refs (cluster_owner cluster) else refs);
          refs2 = (case GetControllerOf e refs of
                     None \<Rightarrow> refs1 | Some controller \<Rightarrow> RemoveOwnerRef e refs1 controller)
      in EnsureOwnerRef e refs2 (kcp_controller e k))"

definition with_owners :: "OwnerReference list \<Rightarrow> Secret \<Rightarrow> Secret" where
  "with_owners refs s = s\<lparr>Secret_ObjectMeta := (Secret_ObjectMeta s)\<lparr>OwnerReferences := refs\<rparr>\<rparr>"

abbreviation secret_owners :: "Secret \<Rightarrow> OwnerReference list" where
  "secret_owners s \<equiv> OwnerReferences (Secret_ObjectMeta s)"

definition adoptKubeconfigSecret ::
  "'x ext_scheme \<Rightarrow> 'r kenv_scheme \<Rightarrow> Cluster \<Rightarrow> Secret \<Rightarrow> (error + Secret) kact" where
  "adoptKubeconfigSecret e env cluster configSecret = do {
     ocnecp \<leftarrow> kread k_kcp;
     (if Secret_Type configSecret \<noteq> ClusterSecretType then State_Monad.return (Inr configSecret)
      else if map_option Kind (GetControllerOf e (secret_owners configSecret)) = Some ''OCNEControlPlane''
      then State_Monad.return (Inr configSecret)
      else do {
        err \<leftarrow> ecall_of env (NewSecretHelperCall (Name (Secret_ObjectMeta configSecret)));
        (case err of
           Some err \<Rightarrow> State_Monad.return (Inl (Wrap ''failed to create patch helper for the kubeconfig secret'' err))
         | None \<Rightarrow> do {
             let configSecret = with_owners (adopted_refs e cluster ocnecp (secret_owners configSecret)) configSecret;
             err \<leftarrow> ecall_of env (PatchSecretCall configSecret);
             State_Monad.return
               (case err of
                  Some err \<Rightarrow> Inl (Wrap ''failed to patch the kubeconfig secret'' err)
                | None \<Rightarrow> Inr configSecret)
           })
      })
   }"

definition rotate_kubeconfig :: "'x ext_scheme \<Rightarrow> 'r kenv_scheme \<Rightarrow> Secret \<Rightarrow> outcome kact" where
  "rotate_kubeconfig e env configSecret = do {
     ocnecp \<leftarrow> kread k_kcp;
     (if \<not> IsControlledBy e (secret_owners configSecret) (kcp_object ocnecp)
      then State_Monad.return (done_with no_result)
      else do {
        needsRotation \<leftarrow> kcall NeedsClientCertRotationCall (reply_Bool env);
        (case needsRotation of
           Inl err \<Rightarrow> State_Monad.return (failed_with err)
         | Inr False \<Rightarrow> State_Monad.return (done_with no_result)
         | Inr True \<Rightarrow>
             all_then env [(RegenerateKubeconfigCall, Wrap ''failed to regenerate kubeconfig'')]
               (State_Monad.return (done_with no_result)))
      })
   }"

definition create_kubeconfig :: "'r kenv_scheme \<Rightarrow> outcome kact" where
  "create_kubeconfig env = do {
     createErr \<leftarrow> ecall_of env CreateKubeconfigCall;
     State_Monad.return
       (if createErr \<noteq> None \<and> errors_Is (the createErr) ErrDependentCertificateNotFound
        then done_with (requeue_after dependentCertRequeueAfter)
        else (no_result, createErr))
   }"

definition reconcileKubeconfig :: "'x ext_scheme \<Rightarrow> 'r kenv_scheme \<Rightarrow> Cluster \<Rightarrow> outcome kact" where
  "reconcileKubeconfig e env cluster =
     (if endpoint_IsZero cluster then State_Monad.return (done_with no_result)
      else do {
        let name = secret_Name (Name (Cluster_ObjectMeta cluster)) Kubeconfig;
        let ns = Namespace (Cluster_ObjectMeta cluster);
        configSecret \<leftarrow> kcall (GetSecretCall ns name) (reply_Secret env ns name);
        (case configSecret of
           Inl err \<Rightarrow>
             (if IsNotFound err then create_kubeconfig env
              else State_Monad.return (failed_with (Wrap ''failed to retrieve kubeconfig Secret'' err)))
         | Inr configSecret \<Rightarrow> do {
             adopted \<leftarrow> adoptKubeconfigSecret e env cluster configSecret;
             (case adopted of
                Inl err \<Rightarrow> State_Monad.return (failed_with err)
              | Inr configSecret \<Rightarrow> rotate_kubeconfig e env configSecret)
           })
      })"

subsection \<open>The secrets of the certificates\<close>

definition kube_client :: "'r kenv_scheme \<Rightarrow> kst cert_client" where
  "kube_client env =
     \<lparr>client_Get = \<lambda>ns name. kcall (GetSecretCall ns name) (reply_Secret env ns name),
      client_Create = \<lambda>s. ecall_of env (CreateSecretCall s),
      generateCACert = kcall (GenerateKeysCall ClusterCA) (reply_KeyPair env ClusterCA),
      generateServiceAccountKeys = kcall (GenerateKeysCall ServiceAccount) (reply_KeyPair env ServiceAccount)\<rparr>"

definition certificate_refs :: "'x ext_scheme \<Rightarrow> OwnerReference \<Rightarrow> OwnerReference list \<Rightarrow> OwnerReference list" where
  "certificate_refs e owner refs =
     EnsureOwnerRef e
       (case GetControllerOf e refs of None \<Rightarrow> refs | Some controller \<Rightarrow> RemoveOwnerRef e refs controller) owner"

fun ensureCertificatesOwnerRef ::
  "'x ext_scheme \<Rightarrow> 'r kenv_scheme \<Rightarrow> string \<Rightarrow> string \<Rightarrow> Certificate list \<Rightarrow> OwnerReference \<Rightarrow> error option kact" where
  "ensureCertificatesOwnerRef e env ns clusterName [] owner = State_Monad.return None"
| "ensureCertificatesOwnerRef e env ns clusterName (c # cs) owner = do {
     let name = secret_Name clusterName (Cert_Purpose c);
     s \<leftarrow> kcall (GetSecretCall ns name) (reply_Secret env ns name);
     (case s of
        Inl err \<Rightarrow> State_Monad.return (Some (Wrap (''failed to get Secret '' @ name) err))
      | Inr s \<Rightarrow>
          (if Secret_Type s \<noteq> ClusterSecretType then ensureCertificatesOwnerRef e env ns clusterName cs owner
           else do {
             err \<leftarrow> run_calls env
               [(NewSecretHelperCall name, Wrap (''failed to create patchHelper for Secret '' @ name)),
                (PatchSecretCall (with_owners (certificate_refs e owner (secret_owners s)) s),
                 Wrap (''failed to patch Secret '' @ name))];
             (case err of
                Some err \<Rightarrow> State_Monad.return (Some err)
              | None \<Rightarrow> ensureCertificatesOwnerRef e env ns clusterName cs owner)
           }))
   }"

subsection \<open>Adopting machines\<close>

fun adopt_secrets ::
  "'x ext_scheme \<Rightarrow> 'r kenv_scheme \<Rightarrow> OCNEControlPlane \<Rightarrow> OCNEConfig \<Rightarrow> Secret list \<Rightarrow> error option kact" where
  "adopt_secrets e env ocnecp currentOwner [] = State_Monad.return None"
| "adopt_secrets e env ocnecp currentOwner (s # secrets) =
     (if \<not> IsOwnedByObject e (secret_owners s)
           (''bootstrap.cluster.x-k8s.io'', ''OCNEConfig'', Name (OCNEConfig_ObjectMeta currentOwner))
      then adopt_secrets e env ocnecp currentOwner secrets
      else if OCNEConfigStatus_DataSecretName (OCNEConfig_Status currentOwner) = Some (Name (Secret_ObjectMeta s))
      then adopt_secrets e env ocnecp currentOwner secrets
      else do {
        err \<leftarrow> ecall_of env (UpdateSecretCall (with_owners
          (ReplaceOwnerRef (secret_owners s) (UID (OCNEConfig_ObjectMeta currentOwner))
             ((kcp_owner ocnecp)\<lparr>Controller := Some True, BlockOwnerDeletion := Some True\<rparr>)) s));
        (case err of
           Some err \<Rightarrow> State_Monad.return (Some (Wrap ''error changing secret ownership'' err))
         | None \<Rightarrow> adopt_secrets e env ocnecp currentOwner secrets)
      })"

definition adoptOwnedSecrets ::
  "'x ext_scheme \<Rightarrow> 'r kenv_scheme \<Rightarrow> OCNEControlPlane \<Rightarrow> OCNEConfig \<Rightarrow> string \<Rightarrow> error option kact" where
  "adoptOwnedSecrets e env ocnecp currentOwner clusterName = do {
     secrets \<leftarrow> kcall (ListSecretsCall clusterName) (reply_Secrets env);
     (case secrets of
        Inl err \<Rightarrow> State_Monad.return (Some (Wrap ''error finding secrets for adoption'' err))
      | Inr secrets \<Rightarrow> adopt_secrets e env ocnecp currentOwner secrets)
   }"

text \<open>
  The checks before adoption. \<open>Some r\<close> ends the adoption with the result \<open>r\<close>: an unsupported version
  ends it without an error.
\<close>

fun check_adoptable ::
  "'x ext_scheme \<Rightarrow> OCNEControlPlane \<Rightarrow> semver \<Rightarrow> Machine list \<Rightarrow> error option option" where
  "check_adoptable e ocnecp ocnecpVersion [] = None"
| "check_adoptable e ocnecp ocnecpVersion (m # ms) =
     (case Machine_Spec_Bootstrap_ConfigRef m of
        None \<Rightarrow> Some (Some (Err ''unable to adopt Machine: expected a ConfigRef of kind OCNEConfig''))
      | Some ref \<Rightarrow>
          (if ObjectReference_Kind ref \<noteq> ''OCNEConfig''
           then Some (Some (Err ''unable to adopt Machine: expected a ConfigRef of kind OCNEConfig''))
           else if ObjectReference_Namespace ref \<noteq> [] \<and> ObjectReference_Namespace ref \<noteq> Namespace (KCP_ObjectMeta ocnecp)
           then Some (Some (Err ''could not adopt resources from OCNEConfig: cannot adopt across namespaces''))
           else (case Machine_Spec_Version m of
                   None \<Rightarrow> check_adoptable e ocnecp ocnecpVersion ms
                 | Some version \<Rightarrow>
                     (case ParseTolerant e version of
                        Inl err \<Rightarrow> Some (Some (Wrap ''failed to parse kubernetes version'' err))
                      | Inr machineVersion \<Rightarrow>
                          (if \<not> IsSupportedVersionSkew ocnecpVersion machineVersion then Some None
                           else check_adoptable e ocnecp ocnecpVersion ms)))))"

definition adopt_machine ::
  "'x ext_scheme \<Rightarrow> 'r kenv_scheme \<Rightarrow> OCNEControlPlane \<Rightarrow> Cluster \<Rightarrow> Machine \<Rightarrow> error option kact" where
  "adopt_machine e env ocnecp cluster m =
     (case Machine_Spec_Bootstrap_ConfigRef m of
        None \<Rightarrow> State_Monad.return (Some (Panic ''nil pointer dereference''))
      | Some ref \<Rightarrow> do {
          cfg \<leftarrow> kcall (GetConfigCall (ObjectReference_Name ref)) (reply_Config env (ObjectReference_Name ref));
          (case cfg of
             Inl err \<Rightarrow> State_Monad.return (Some err)
           | Inr cfg \<Rightarrow> do {
               err \<leftarrow> adoptOwnedSecrets e env ocnecp cfg (Name (Cluster_ObjectMeta cluster));
               (case err of
                  Some err \<Rightarrow> State_Monad.return (Some err)
                | None \<Rightarrow> do {
                    err \<leftarrow> ecall_of env (NewMachineHelperCall (mname m));
                    (case (err, SetControllerReference env ocnecp m) of
                       (Some err, _) \<Rightarrow> State_Monad.return (Some err)
                     | (None, Inl err) \<Rightarrow> State_Monad.return (Some err)
                     | (None, Inr m') \<Rightarrow> ecall_of env (PatchMachineCall m'))
                  })
             })
        })"

fun adopt_all ::
  "'x ext_scheme \<Rightarrow> 'r kenv_scheme \<Rightarrow> OCNEControlPlane \<Rightarrow> Cluster \<Rightarrow> Machine list \<Rightarrow> error option kact" where
  "adopt_all e env ocnecp cluster [] = State_Monad.return None"
| "adopt_all e env ocnecp cluster (m # ms) = do {
     err \<leftarrow> adopt_machine e env ocnecp cluster m;
     (case err of
        Some err \<Rightarrow> State_Monad.return (Some err)
      | None \<Rightarrow> adopt_all e env ocnecp cluster ms)
   }"

definition adoptMachines ::
  "'x ext_scheme \<Rightarrow> 'r kenv_scheme \<Rightarrow> Machines \<Rightarrow> Cluster \<Rightarrow> error option kact" where
  "adoptMachines e env machines cluster = do {
     ocnecp \<leftarrow> kread k_kcp;
     uncached \<leftarrow> kcall GetUncachedKCPCall (reply_KCP env GetUncachedKCPCall);
     (case uncached of
        Inl err \<Rightarrow> State_Monad.return (Some (Wrap ''failed to check whether the control plane was deleted before adoption'' err))
      | Inr uncached \<Rightarrow>
          (if \<not> Time_IsZero (DeletionTimestamp (KCP_ObjectMeta uncached))
           then State_Monad.return (Some (Err ''the control plane has just been deleted''))
           else (case ParseTolerant e (Spec_Version (KCP_Spec ocnecp)) of
                   Inl err \<Rightarrow> State_Monad.return (Some (Wrap ''failed to parse kubernetes version'' err))
                 | Inr ocnecpVersion \<Rightarrow>
                     (case check_adoptable e ocnecp ocnecpVersion (map snd machines) of
                        Some r \<Rightarrow> State_Monad.return r
                      | None \<Rightarrow> adopt_all e env ocnecp cluster (map snd machines)))))
   }"

subsection \<open>The infrastructure template\<close>

definition set_infrastructure_ref :: "ObjectReference \<Rightarrow> OCNEControlPlane \<Rightarrow> OCNEControlPlane" where
  "set_infrastructure_ref ref k = k\<lparr>KCP_Spec := (KCP_Spec k)\<lparr>Spec_MachineTemplate :=
     (Spec_MachineTemplate (KCP_Spec k))\<lparr>MachineTemplate_InfrastructureRef := ref\<rparr>\<rparr>\<rparr>"

definition reconcileExternalReference :: "'x ext_scheme \<Rightarrow> 'r kenv_scheme \<Rightarrow> Cluster \<Rightarrow> error option kact" where
  "reconcileExternalReference e env cluster = do {
     ref \<leftarrow> kread (\<lambda>s. MachineTemplate_InfrastructureRef (Spec_MachineTemplate (KCP_Spec (k_kcp s))));
     (if \<not> suffix ''Template'' (ObjectReference_Kind ref) then State_Monad.return None
      else do {
        updated \<leftarrow> kcall (UpdateReferenceAPIContractCall ref) (reply_Contract env ref);
        (case updated of
           Inl err \<Rightarrow> State_Monad.return (Some err)
         | Inr ref \<Rightarrow> do {
             kmodify (\<lambda>s. s\<lparr>k_kcp := set_infrastructure_ref ref (k_kcp s)\<rparr>);
             obj \<leftarrow> kcall (GetTemplateCall ref) (reply_TemplateMeta env);
             (case obj of
                Inl err \<Rightarrow> State_Monad.return (Some err)
              | Inr obj \<Rightarrow>
                  run_calls env
                    [(NewTemplateHelperCall, id),
                     (PatchTemplateCall (obj\<lparr>OwnerReferences :=
                        EnsureOwnerRef e (OwnerReferences obj) (cluster_owner cluster)\<rparr>), id)])
           })
      })
   }"

end
