(* ===== verification/Reconcile.thy ===== *)
theory Reconcile
  imports Ownership
begin

text \<open>
  The reconciliation of an \<open>OCNEControlPlane\<close>: \<open>controller.go\<close> and \<open>status.go\<close> of the control plane
  controllers. \<open>Reconcile\<close> reads the object, guards the run (owner, pause, finalizer) and defers the
  update of the status; \<open>reconcile\<close> is the normal run and \<open>reconcileDelete\<close> the run of an object that
  is being deleted.

  A panic ends the run with the error \<open>Panic\<close>. Comparing a machine with the specification rewrites
  the cached configuration of the machine to its normal form; the rewrite is not seen by any later
  step of a run, so the configurations in the state stay as they were read.
\<close>

subsection \<open>Status\<close>

definition on_status :: "(OCNEControlPlaneStatus \<Rightarrow> OCNEControlPlaneStatus) \<Rightarrow> unit kact" where
  "on_status f = kmodify (\<lambda>s. s\<lparr>k_kcp := (k_kcp s)\<lparr>KCP_Status := f (KCP_Status (k_kcp s))\<rparr>\<rparr>)"

definition mark_true :: "'r kenv_scheme \<Rightarrow> ConditionType \<Rightarrow> unit kact" where
  "mark_true env t = mark env (\<lambda>now to. MarkTrue now to t)"

definition mark_false :: "'r kenv_scheme \<Rightarrow> ConditionType \<Rightarrow> string \<Rightarrow> ConditionSeverity \<Rightarrow> string \<Rightarrow> unit kact" where
  "mark_false env t reason severity message = mark env (\<lambda>now to. MarkFalse now to t reason severity message)"

definition resize_condition :: "'r kenv_scheme \<Rightarrow> int \<Rightarrow> int \<Rightarrow> Machines \<Rightarrow> unit kact" where
  "resize_condition env replicas desiredReplicas ownedMachines =
     (if replicas < desiredReplicas
      then mark_false env ResizedCondition ScalingUpReason SeverityWarning
        (''Scaling up control plane to '' @ show_int desiredReplicas @ '' replicas (actual '' @ show_int replicas @ '')'')
      else if replicas > desiredReplicas then do {
        mark_false env ResizedCondition ScalingDownReason SeverityWarning
          (''Scaling down control plane to '' @ show_int desiredReplicas @ '' replicas (actual '' @ show_int replicas @ '')'');
        mark_true env MachinesCreatedCondition
      }
      else do {
        (if to_int32 (int (length (Filter ownedMachines [IsReady]))) = replicas
         then mark_true env ResizedCondition else State_Monad.return ());
        mark_true env MachinesCreatedCondition
      })"

definition workload_status :: "'r kenv_scheme \<Rightarrow> int \<Rightarrow> error option kact" where
  "workload_status env replicas = do {
     err \<leftarrow> ecall_of env GetWorkloadClusterCall;
     (case err of
        Some err \<Rightarrow> State_Monad.return (Some (Wrap ''failed to create remote cluster client'' err))
      | None \<Rightarrow> do {
          status \<leftarrow> kcall (WorkloadCall ClusterStatusCall) (reply_WorkloadStatus env);
          (case status of
             Inl err \<Rightarrow> State_Monad.return (Some err)
           | Inr status \<Rightarrow> do {
               on_status (\<lambda>st. st\<lparr>Status_ReadyReplicas := WorkloadStatus_ReadyNodes status,
                 Status_UnavailableReplicas := to_int32 (replicas - WorkloadStatus_ReadyNodes status)\<rparr>);
               (if WorkloadStatus_HasOCNEConfig status then do {
                  on_status (\<lambda>st. st\<lparr>Status_Initialized := True\<rparr>);
                  mark_true env AvailableCondition
                } else State_Monad.return ());
               on_status (\<lambda>st. if Status_ReadyReplicas st > 0 then st\<lparr>Status_Ready := True\<rparr> else st);
               State_Monad.return None
             })
        })
   }"

definition status_of_machines ::
  "'x ext_scheme \<Rightarrow> json_codec \<Rightarrow> 'r kenv_scheme \<Rightarrow> ControlPlane \<Rightarrow> Machines \<Rightarrow> error option kact" where
  "status_of_machines e json env controlPlane ownedMachines = do {
     on_status (\<lambda>st. st\<lparr>Status_UpdatedReplicas := to_int32 (int (length (UpToDateMachines e json controlPlane)))\<rparr>);
     ocnecp \<leftarrow> kread k_kcp;
     (case Spec_Replicas (KCP_Spec ocnecp) of
        None \<Rightarrow> State_Monad.return (Some (Panic ''nil pointer dereference''))
      | Some desiredReplicas \<Rightarrow> do {
          let replicas = to_int32 (int (length ownedMachines));
          on_status (\<lambda>st. st\<lparr>Status_Replicas := replicas, Status_ReadyReplicas := 0,
            Status_UnavailableReplicas := replicas\<rparr>);
          (if \<not> Time_IsZero (DeletionTimestamp (KCP_ObjectMeta ocnecp)) then State_Monad.return None
           else do {
             (case LowestVersion e (Filter ownedMachines [HealthyAPIServer]) of
                None \<Rightarrow> State_Monad.return ()
              | Some v \<Rightarrow> on_status (\<lambda>st. st\<lparr>Status_Version := Some v\<rparr>));
             resize_condition env replicas desiredReplicas ownedMachines;
             workload_status env replicas
           })
        })
   }"

definition updateStatus ::
  "'x ext_scheme \<Rightarrow> json_codec \<Rightarrow> 'r kenv_scheme \<Rightarrow> Cluster \<Rightarrow> error option kact" where
  "updateStatus e json env cluster =
     (case ControlPlaneSelectorForCluster e (Name (Cluster_ObjectMeta cluster)) of
        None \<Rightarrow> State_Monad.return (Some (Panic ''invalid label value''))
      | Some selector \<Rightarrow> do {
          on_status (\<lambda>st. st\<lparr>Status_Selector := Selector_String env selector\<rparr>);
          ocnecp \<leftarrow> kread k_kcp;
          ml \<leftarrow> kcall (ListMachinesCall False) (reply_Machines env False);
          (case GetFilteredMachinesForCluster ml [OwnedMachines e (kcp_object ocnecp)] of
             Inl err \<Rightarrow> State_Monad.return (Some (Wrap ''failed to get list of owned machines'' err))
           | Inr ownedMachines \<Rightarrow> do {
               reads \<leftarrow> kcall ReadObjectsCall (reply_Reads env);
               now \<leftarrow> kread (\<lambda>s. Now env (k_trace s));
               (case NewControlPlane reads now cluster ocnecp ownedMachines of
                  Inl err \<Rightarrow> State_Monad.return (Some err)
                | Inr controlPlane \<Rightarrow> status_of_machines e json env controlPlane ownedMachines)
             })
        })"

text \<open>The patch at the end of a run, after the summary of the conditions.\<close>

definition summary_conditions :: "ConditionType list" where
  "summary_conditions =
     [MachinesCreatedCondition, MachinesSpecUpToDateCondition, ResizedCondition, MachinesReadyCondition,
      AvailableCondition, CertificatesAvailableCondition, ModuleOperatorDeploy, VerrazzanoPlatformOperatorDeploy]"

definition patchOCNEControlPlane :: "'r kenv_scheme \<Rightarrow> error option kact" where
  "patchOCNEControlPlane env = do {
     ocnecp \<leftarrow> kread k_kcp;
     mark env (\<lambda>now to. SetSummary now
       \<lparr>GetKind = ''OCNEControlPlane'', GetName = Name (KCP_ObjectMeta ocnecp), GetConditions = to\<rparr>
       [WithConditions summary_conditions]);
     ocnecp \<leftarrow> kread k_kcp;
     ecall_of env (PatchKCPCall ocnecp)
   }"

subsection \<open>Conditions and etcd members\<close>

text \<open>The workload cluster updates the conditions of the control plane object and of the machines.\<close>

definition update_conditions :: "'r kenv_scheme \<Rightarrow> wcall \<Rightarrow> unit kact" where
  "update_conditions env w = do {
     f \<leftarrow> kcall (WorkloadCall w) (reply_Conditions env w);
     kmodify (\<lambda>s. case f (kcp_conditions (k_kcp s), k_machines s) of (conds, f) \<Rightarrow>
       s\<lparr>k_kcp := with_conditions (\<lambda>_. conds) (k_kcp s),
         k_machines := map (map_prod id (\<lambda>m. m\<lparr>Machine_Status_Conditions := f m\<rparr>)) (k_machines s)\<rparr>)
   }"

text \<open>\<open>PatchMachines\<close> of the control plane, with the machines as they are in the state.\<close>

fun patch_machines :: "'r kenv_scheme \<Rightarrow> ControlPlane \<Rightarrow> Machine list \<Rightarrow> error list kact" where
  "patch_machines env cp [] = State_Monad.return []"
| "patch_machines env cp (machine # ms) =
     (case map_of (machinesPatchHelpers cp) (mname machine) of
        None \<Rightarrow> do {
          errs \<leftarrow> patch_machines env cp ms;
          State_Monad.return (Err (''failed to get patch helper for machine '' @ mname machine) # errs)
        }
      | Some helper \<Rightarrow> do {
          err \<leftarrow> ecall_of env (PatchMachineCall machine);
          errs \<leftarrow> patch_machines env cp ms;
          State_Monad.return
            (case err of Some err \<Rightarrow> Wrap (''failed to patch machine '' @ mname machine) err # errs | None \<Rightarrow> errs)
        })"

definition reconcileControlPlaneConditions :: "'r kenv_scheme \<Rightarrow> ControlPlane \<Rightarrow> outcome kact" where
  "reconcileControlPlaneConditions env cp = do {
     ocnecp \<leftarrow> kread k_kcp;
     (if \<not> Status_Initialized (KCP_Status ocnecp) then State_Monad.return (done_with no_result)
      else all_then env [(GetWorkloadClusterCall, Wrap ''cannot get remote client to workload cluster'')] (do {
        update_conditions env UpdateStaticPodConditionsCall;
        update_conditions env UpdateEtcdConditionsCall;
        machines \<leftarrow> kread k_machines;
        errs \<leftarrow> patch_machines env cp (map snd machines);
        State_Monad.return
          (case NewAggregate errs of Some err \<Rightarrow> failed_with err | None \<Rightarrow> done_with no_result)
      }))
   }"

definition remove_stale_members ::
  "'x ext_scheme \<Rightarrow> 'r kenv_scheme \<Rightarrow> OCNEControlPlane \<Rightarrow> string list \<Rightarrow> outcome kact" where
  "remove_stale_members e env ocnecp nodeNames =
     all_then env [(GetWorkloadClusterCall, Wrap ''cannot get remote client to workload cluster'')]
       (case ParseTolerant e (Spec_Version (KCP_Spec ocnecp)) of
          Inl err \<Rightarrow> State_Monad.return (failed_with (Wrap ''failed to parse kubernetes version'' err))
        | Inr parsedVersion \<Rightarrow> do {
            removedMembers \<leftarrow> kcall (WorkloadCall (ReconcileEtcdMembersCall nodeNames parsedVersion))
              (reply_Names env (ReconcileEtcdMembersCall nodeNames parsedVersion));
            State_Monad.return
              (case removedMembers of
                 Inl err \<Rightarrow> failed_with (Wrap ''failed attempt to reconcile etcd members'' err)
               | Inr _ \<Rightarrow> done_with no_result)
          })"

definition reconcileEtcdMembers :: "'x ext_scheme \<Rightarrow> 'r kenv_scheme \<Rightarrow> ControlPlane \<Rightarrow> outcome kact" where
  "reconcileEtcdMembers e env cp = do {
     c \<leftarrow> kread (view cp);
     let nodeRefs = map (Machine_Status_NodeRef \<circ> snd) (CP_Machines c);
     (if \<not> IsEtcdManaged c \<or> Len (CP_Machines c) = 0 \<or> None \<in> set nodeRefs \<or>
         IsTrue (kcp_conditions (KCP c)) EtcdClusterHealthyCondition
      then State_Monad.return (done_with no_result)
      else remove_stale_members e env (KCP c) (map (ObjectReference_Name \<circ> the) nodeRefs))
   }"

subsection \<open>Expiry of the certificates\<close>

definition MachineCertificatesExpiryDateAnnotation :: string where
  "MachineCertificatesExpiryDateAnnotation = ''machine.cluster.x-k8s.io/certificates-expiry''"

definition with_expiry :: "string \<Rightarrow> OCNEConfig \<Rightarrow> OCNEConfig" where
  "with_expiry expiry cfg = cfg\<lparr>OCNEConfig_ObjectMeta := (OCNEConfig_ObjectMeta cfg)\<lparr>Annotations :=
     AList.update MachineCertificatesExpiryDateAnnotation expiry (Annotations (OCNEConfig_ObjectMeta cfg))\<rparr>\<rparr>"

definition annotate_expiry :: "'r kenv_scheme \<Rightarrow> string \<Rightarrow> OCNEConfig \<Rightarrow> string \<Rightarrow> error option kact" where
  "annotate_expiry env machineName cfg nodeName = do {
     r \<leftarrow> kcall (WorkloadCall (GetAPIServerCertificateExpiryCall nodeName)) (reply_Expiry env);
     (case r of
        Inl err \<Rightarrow> State_Monad.return (Some (Wrap (''failed to reconcile certificate expiry for Machine/'' @ machineName) err))
      | Inr expiry \<Rightarrow> do {
          err \<leftarrow> ecall_of env (NewConfigHelperCall (Name (OCNEConfig_ObjectMeta cfg)));
          (case err of
             Some err \<Rightarrow> State_Monad.return (Some (Wrap (''failed to reconcile certificate expiry for Machine/'' @
               machineName @ '': failed to create PatchHelper'') err))
           | None \<Rightarrow> do {
               kmodify (\<lambda>s. s\<lparr>k_configs := AList.update machineName (with_expiry expiry cfg) (k_configs s)\<rparr>);
               err \<leftarrow> ecall_of env (PatchConfigCall (with_expiry expiry cfg));
               State_Monad.return (map_option (Wrap (''failed to reconcile certificate expiry for Machine/'' @
                 machineName @ '': failed to patch OCNEConfig'')) err)
             })
        })
   }"

fun annotate_expiries :: "'r kenv_scheme \<Rightarrow> Machine list \<Rightarrow> outcome kact" where
  "annotate_expiries env [] = State_Monad.return (done_with no_result)"
| "annotate_expiries env (m # ms) = do {
     configs \<leftarrow> kread k_configs;
     (case (map_of configs (mname m), Machine_Status_NodeRef m) of
        (Some cfg, Some ref) \<Rightarrow>
          (if map_of (Annotations (OCNEConfig_ObjectMeta cfg)) MachineCertificatesExpiryDateAnnotation \<noteq> None
           then annotate_expiries env ms
           else do {
             err \<leftarrow> annotate_expiry env (mname m) cfg (ObjectReference_Name ref);
             (case err of
                Some err \<Rightarrow> State_Monad.return (failed_with err)
              | None \<Rightarrow> annotate_expiries env ms)
           })
      | _ \<Rightarrow> annotate_expiries env ms)
   }"

definition reconcileCertificateExpiries :: "'r kenv_scheme \<Rightarrow> outcome kact" where
  "reconcileCertificateExpiries env = do {
     machines \<leftarrow> kread k_machines;
     ocnecp \<leftarrow> kread k_kcp;
     (if Len machines = 0 \<or> \<not> Status_Initialized (KCP_Status ocnecp)
      then State_Monad.return (done_with no_result)
      else all_then env [(GetWorkloadClusterCall,
          Wrap ''failed to reconcile certificate expiries: cannot get remote client to workload cluster'')]
        (annotate_expiries env (map snd (Filter machines [Not HasDeletionTimestamp]))))
   }"

subsection \<open>Operators\<close>

text \<open>
  The two operators are reconciled alike. An error of the kubeconfig, of an installation that returns
  a release, or of an uninstallation is collected in a variable that is never returned. The log
  message of a failed installation reads the name of the release, which may be nil.
\<close>

definition reconcile_operator ::
  "'r kenv_scheme \<Rightarrow> string \<Rightarrow> bool \<Rightarrow> ConditionType \<Rightarrow> string \<Rightarrow> outcome kact" where
  "reconcile_operator env chart enabled deployed uninstalled = do {
     _ \<leftarrow> ecall_of env GetKubeconfigCall;
     err \<leftarrow> ecall_of env (GetAddonsCall chart);
     (case err of
        Some err \<Rightarrow> State_Monad.return (failed_with err)
      | None \<Rightarrow>
          (if enabled then do {
             r \<leftarrow> kcall (InstallOrUpgradeCall chart) (reply_Release env chart);
             (if snd r \<noteq> None \<and> fst r = None
              then State_Monad.return (failed_with (Panic ''nil pointer dereference''))
              else do {
                ocnecp \<leftarrow> kread k_kcp;
                (if \<not> IsTrue (kcp_conditions ocnecp) deployed then mark_true env deployed else State_Monad.return ());
                State_Monad.return (done_with no_result)
              })
           }
           else do {
             err \<leftarrow> ecall_of env (GetReleaseCall chart);
             _ \<leftarrow> (if err = None then ecall_of env (UninstallCall chart) else State_Monad.return None);
             ocnecp \<leftarrow> kread k_kcp;
             (if IsTrue (kcp_conditions ocnecp) deployed then mark_false env deployed uninstalled SeverityInfo []
              else State_Monad.return ());
             State_Monad.return (done_with no_result)
           }))
   }"

definition moduleOperatorChartName :: string where "moduleOperatorChartName = ''verrazzano-module-operator''"
definition verrazzanoPlatformOperatorChartName :: string where
  "verrazzanoPlatformOperatorChartName = ''verrazzano-platform-operator''"

definition reconcileOCNEModuleOperator :: "'r kenv_scheme \<Rightarrow> ModuleOperator \<Rightarrow> outcome kact" where
  "reconcileOCNEModuleOperator env spec =
     reconcile_operator env moduleOperatorChartName (ModuleOperator_Enabled spec)
       ModuleOperatorDeploy ModuleOperatorUninstalled"

definition reconcileVerrazzanoPlatformOperator :: "'r kenv_scheme \<Rightarrow> VerrazzanoPlatformOperator \<Rightarrow> outcome kact" where
  "reconcileVerrazzanoPlatformOperator env spec =
     reconcile_operator env verrazzanoPlatformOperatorChartName (VerrazzanoPlatformOperator_Enabled spec)
       VerrazzanoPlatformOperatorDeploy VerrazzanoPlatformOperatorUninstalled"

definition reconcile_operators :: "'r kenv_scheme \<Rightarrow> outcome kact" where
  "reconcile_operators env = do {
     ocnecp \<leftarrow> kread k_kcp;
     r \<leftarrow> (case Spec_ModuleOperator (KCP_Spec ocnecp) of
            Some spec \<Rightarrow>
              (if IsTrue (kcp_conditions ocnecp) AvailableCondition then reconcileOCNEModuleOperator env spec
               else State_Monad.return (done_with no_result))
          | None \<Rightarrow> State_Monad.return (done_with no_result));
     (if snd r \<noteq> None then State_Monad.return r
      else do {
        ocnecp \<leftarrow> kread k_kcp;
        r \<leftarrow> (case Spec_VerrazzanoPlatformOperator (KCP_Spec ocnecp) of
               Some spec \<Rightarrow>
                 (if IsTrue (kcp_conditions ocnecp) AvailableCondition then reconcileVerrazzanoPlatformOperator env spec
                  else State_Monad.return (done_with no_result))
             | None \<Rightarrow> State_Monad.return (done_with no_result));
        (if snd r \<noteq> None then State_Monad.return r else State_Monad.return (done_with no_result))
      })
   }"

subsection \<open>The normal run\<close>

text \<open>A step whose result ends the run unless it is empty.\<close>

definition then_continue :: "outcome kact \<Rightarrow> outcome kact \<Rightarrow> outcome kact" where
  "then_continue step rest = do {
     r \<leftarrow> step;
     (if snd r \<noteq> None \<or> \<not> Result_IsZero (fst r) then State_Monad.return r else rest)
   }"

definition reconcile_workload :: "'x ext_scheme \<Rightarrow> 'r kenv_scheme \<Rightarrow> outcome kact" where
  "reconcile_workload e env = do {
     err \<leftarrow> ecall_of env GetWorkloadClusterCall;
     (if err \<noteq> None then State_Monad.return (done_with requeue_now)
      else do {
        ocnecp \<leftarrow> kread k_kcp;
        all_then env [(WorkloadCall AllowBootstrapTokensToGetNodesCall,
            Wrap ''failed to set role and role binding for kubeadm'')]
          (case ParseMajorMinorPatchTolerant (Spec_Version (KCP_Spec ocnecp)) of
             Inl err \<Rightarrow> State_Monad.return (failed_with (Wrap ''failed to parse kubernetes version'' err))
           | Inr parsedVersion \<Rightarrow>
               all_then env
                 [(WorkloadCall (UpdateKubeProxyImageInfoCall parsedVersion), id),
                  (WorkloadCall (UpdateCoreDNSCall parsedVersion), Wrap ''failed to update CoreDNS deployment'')]
                 (reconcile_operators env))
      })
   }"

definition reconcile_replicas ::
  "'x ext_scheme \<Rightarrow> json_codec \<Rightarrow> 'r kenv_scheme \<Rightarrow> Cluster \<Rightarrow> ControlPlane \<Rightarrow> outcome kact" where
  "reconcile_replicas e json env cluster cp = do {
     c \<leftarrow> kread (view cp);
     let needRollout = MachinesNeedingRollout e json c;
     (if length needRollout > 0 then do {
        mark_false env MachinesSpecUpToDateCondition RollingUpdateInProgressReason SeverityWarning
          (''Rolling '' @ show_int (int (length needRollout)) @ '' replicas with outdated spec ('' @
           show_int (int (length (CP_Machines c)) - int (length needRollout)) @ '' replicas up to date)'');
        upgradeControlPlane e json env cluster cp needRollout
      }
      else do {
        (if Has (kcp_conditions (KCP c)) MachinesSpecUpToDateCondition
         then mark_true env MachinesSpecUpToDateCondition else State_Monad.return ());
        let numMachines = int (length (CP_Machines c));
        (case Spec_Replicas (KCP_Spec (KCP c)) of
           None \<Rightarrow> State_Monad.return (failed_with (Panic ''nil pointer dereference''))
         | Some desiredReplicas \<Rightarrow>
             (if numMachines < desiredReplicas \<and> numMachines = 0 then do {
                mark_false env AvailableCondition WaitingForOCNEInitReason SeverityInfo [];
                initializeControlPlane e json env cluster cp
              }
              else if numMachines < desiredReplicas \<and> numMachines > 0
              then scaleUpControlPlane e json env cluster cp
              else if numMachines > desiredReplicas then scaleDownControlPlane e env cp []
              else reconcile_workload e env))
      })
   }"

definition reconcile_control_plane ::
  "'x ext_scheme \<Rightarrow> json_codec \<Rightarrow> 'r kenv_scheme \<Rightarrow> Cluster \<Rightarrow> ControlPlane \<Rightarrow> outcome kact" where
  "reconcile_control_plane e json env cluster cp =
     then_continue (reconcileControlPlaneConditions env cp)
       (then_continue (reconcileEtcdMembers e env cp)
         (then_continue (reconcileUnhealthyMachines e env cp)
           (then_continue (reconcileCertificateExpiries env)
             (reconcile_replicas e json env cluster cp))))"

definition label_machine :: "'x ext_scheme \<Rightarrow> OCNEControlPlane \<Rightarrow> Machine \<Rightarrow> Machine" where
  "label_machine e ocnecp machine =
     (if case map_of (Labels (Machine_ObjectMeta machine)) MachineControlPlaneNameLabel of
           None \<Rightarrow> True | Some value \<Rightarrow> \<not> MustEqualValue e (Name (KCP_ObjectMeta ocnecp)) value
      then machine\<lparr>Machine_ObjectMeta := (Machine_ObjectMeta machine)\<lparr>Labels :=
        AList.update MachineControlPlaneNameLabel (MustFormatValue e (Name (KCP_ObjectMeta ocnecp)))
          (Labels (Machine_ObjectMeta machine))\<rparr>\<rparr>
      else machine)"

text \<open>The internal control plane object is built and becomes the state of the run.\<close>

definition load_control_plane ::
  "'r kenv_scheme \<Rightarrow> Cluster \<Rightarrow> Machines \<Rightarrow> (error + ControlPlane) kact" where
  "load_control_plane env cluster ownedMachines = do {
     ocnecp \<leftarrow> kread k_kcp;
     reads \<leftarrow> kcall ReadObjectsCall (reply_Reads env);
     now \<leftarrow> kread (\<lambda>s. Now env (k_trace s));
     (case NewControlPlane reads now cluster ocnecp ownedMachines of
        Inl err \<Rightarrow> State_Monad.return (Inl err)
      | Inr cp \<Rightarrow> do {
          kmodify (\<lambda>s. s\<lparr>k_machines := ownedMachines, k_configs := ocneConfigs cp\<rparr>);
          State_Monad.return (Inr cp)
        })
   }"

definition aggregate_machines :: "'r kenv_scheme \<Rightarrow> unit kact" where
  "aggregate_machines env = do {
     ownedMachines \<leftarrow> kread k_machines;
     mark env (\<lambda>now to. SetAggregate now to MachinesReadyCondition (ConditionGetters ownedMachines)
       [AddSourceRef, WithStepCounterIf False])
   }"

definition reconcile_owned ::
  "'x ext_scheme \<Rightarrow> json_codec \<Rightarrow> 'r kenv_scheme \<Rightarrow> Cluster \<Rightarrow> Machines \<Rightarrow> outcome kact" where
  "reconcile_owned e json env cluster ownedMachines = do {
     r \<leftarrow> load_control_plane env cluster ownedMachines;
     (case r of
        Inl err \<Rightarrow> State_Monad.return (failed_with err)
      | Inr cp \<Rightarrow> do {
          aggregate_machines env;
          kmodify (\<lambda>s. s\<lparr>k_machines := map (map_prod id (label_machine e (k_kcp s))) (k_machines s)\<rparr>);
          reconcile_control_plane e json env cluster cp
        })
   }"

definition reconcile_machines ::
  "'x ext_scheme \<Rightarrow> json_codec \<Rightarrow> 'r kenv_scheme \<Rightarrow> Cluster \<Rightarrow> Certificate list \<Rightarrow> OwnerReference \<Rightarrow> Func \<Rightarrow>
   Machines \<Rightarrow> outcome kact" where
  "reconcile_machines e json env cluster certificates controllerRef adoptable controlPlaneMachines =
     (if length (Filter controlPlaneMachines [adoptable]) > 0 then do {
        err \<leftarrow> adoptMachines e env (Filter controlPlaneMachines [adoptable]) cluster;
        State_Monad.return (no_result, err)
      }
      else do {
        err \<leftarrow> ensureCertificatesOwnerRef e env (Namespace (Cluster_ObjectMeta cluster))
          (Name (Cluster_ObjectMeta cluster)) certificates controllerRef;
        (case err of
           Some err \<Rightarrow> State_Monad.return (failed_with err)
         | None \<Rightarrow> do {
             ocnecp \<leftarrow> kread k_kcp;
             let ownedMachines = Filter controlPlaneMachines [OwnedMachines e (kcp_object ocnecp)];
             (if length ownedMachines \<noteq> length controlPlaneMachines then State_Monad.return (done_with no_result)
              else reconcile_owned e json env cluster ownedMachines)
           })
      })"

text \<open>From the kubeconfig on, once the certificates are there.\<close>

definition reconcile_cluster ::
  "'x ext_scheme \<Rightarrow> json_codec \<Rightarrow> 'r kenv_scheme \<Rightarrow> Cluster \<Rightarrow> Certificate list \<Rightarrow> OwnerReference \<Rightarrow> outcome kact" where
  "reconcile_cluster e json env cluster certificates controllerRef =
     (if \<not> endpoint_IsValid cluster then State_Monad.return (done_with no_result)
      else then_continue (reconcileKubeconfig e env cluster)
        (case (ControlPlaneMachines e (Name (Cluster_ObjectMeta cluster)),
               AdoptableControlPlaneMachines e (Name (Cluster_ObjectMeta cluster))) of
           (Some controlPlane, Some adoptable) \<Rightarrow> do {
             ml \<leftarrow> kcall (ListMachinesCall True) (reply_Machines env True);
             (case GetFilteredMachinesForCluster ml [controlPlane] of
                Inl err \<Rightarrow> State_Monad.return (failed_with err)
              | Inr controlPlaneMachines \<Rightarrow>
                  reconcile_machines e json env cluster certificates controllerRef adoptable controlPlaneMachines)
           }
         | _ \<Rightarrow> State_Monad.return (failed_with (Panic ''invalid label value''))))"

definition reconcile ::
  "'x ext_scheme \<Rightarrow> json_codec \<Rightarrow> 'r kenv_scheme \<Rightarrow> Cluster \<Rightarrow> outcome kact" where
  "reconcile e json env cluster = do {
     err \<leftarrow> reconcileExternalReference e env cluster;
     (case err of
        Some err \<Rightarrow> State_Monad.return (failed_with err)
      | None \<Rightarrow>
          (if \<not> Cluster_Status_InfrastructureReady cluster then State_Monad.return (done_with no_result)
           else do {
             ocnecp \<leftarrow> kread k_kcp;
             let config = (case OCNEConfigSpec_ClusterConfiguration (Spec_ControlPlaneConfig (KCP_Spec ocnecp)) of
                             None \<Rightarrow> zero_ClusterConfiguration | Some c \<Rightarrow> c);
             let controllerRef = kcp_controller e ocnecp;
             certificates \<leftarrow> LookupOrGenerate (kube_client env) (Namespace (Cluster_ObjectMeta cluster))
               (Name (Cluster_ObjectMeta cluster)) controllerRef (NewCertificatesForInitialControlPlane (Some config));
             (case certificates of
                Inl err \<Rightarrow> do {
                  mark_false env CertificatesAvailableCondition CertificatesGenerationFailedReason SeverityWarning
                    (Sprintf0 (Error_text env err));
                  State_Monad.return (failed_with err)
                }
              | Inr certificates \<Rightarrow> do {
                  mark_true env CertificatesAvailableCondition;
                  reconcile_cluster e json env cluster certificates controllerRef
                })
           }))
   }"

subsection \<open>Deletion\<close>

definition DeletingReason :: string where "DeletingReason = ''Deleting''"

fun delete_machines :: "'r kenv_scheme \<Rightarrow> Machine list \<Rightarrow> error list kact" where
  "delete_machines env [] = State_Monad.return []"
| "delete_machines env (m # ms) = do {
     err \<leftarrow> ecall_of env (DeleteMachineCall (mname m));
     errs \<leftarrow> delete_machines env ms;
     State_Monad.return
       (case err of Some err \<Rightarrow> if IsNotFound err then errs else err # errs | None \<Rightarrow> errs)
   }"

definition set_finalizers :: "string list \<Rightarrow> OCNEControlPlane \<Rightarrow> OCNEControlPlane" where
  "set_finalizers fs k = k\<lparr>KCP_ObjectMeta := (KCP_ObjectMeta k)\<lparr>Finalizers := fs\<rparr>\<rparr>"

abbreviation kcp_finalizers :: "OCNEControlPlane \<Rightarrow> string list" where
  "kcp_finalizers k \<equiv> Finalizers (KCP_ObjectMeta k)"

definition RemoveFinalizer :: "unit kact" where
  "RemoveFinalizer = kmodify (\<lambda>s. s\<lparr>k_kcp :=
     set_finalizers (filter (\<lambda>f. f \<noteq> OCNEControlPlaneFinalizer) (kcp_finalizers (k_kcp s))) (k_kcp s)\<rparr>)"

definition delete_owned :: "'r kenv_scheme \<Rightarrow> Machines \<Rightarrow> Machines \<Rightarrow> nat \<Rightarrow> outcome kact" where
  "delete_owned env allMachines ownedMachines machinePools =
     (if length allMachines \<noteq> length ownedMachines \<or> machinePools \<noteq> 0 then do {
        mark_false env ResizedCondition DeletingReason SeverityInfo ''Waiting for worker nodes to be deleted first'';
        State_Monad.return (done_with (requeue_after deleteRequeueAfter))
      }
      else do {
        errs \<leftarrow> delete_machines env (map snd (Filter ownedMachines [Not HasDeletionTimestamp]));
        (case NewAggregate errs of
           Some err \<Rightarrow> State_Monad.return (failed_with err)
         | None \<Rightarrow> do {
             mark_false env ResizedCondition DeletingReason SeverityInfo [];
             State_Monad.return (done_with (requeue_after deleteRequeueAfter))
           })
      })"

text \<open>The machines in the state may have new conditions after the refresh; the code deletes these.\<close>

definition delete_control_plane :: "'r kenv_scheme \<Rightarrow> Machines \<Rightarrow> ControlPlane \<Rightarrow> outcome kact" where
  "delete_control_plane env allMachines cp = do {
     _ \<leftarrow> reconcileControlPlaneConditions env cp;
     aggregate_machines env;
     ownedMachines \<leftarrow> kread k_machines;
     (if MachinePool_enabled env then do {
        pools \<leftarrow> kcall ListMachinePoolsCall (reply_MachinePools env);
        (case pools of
           Inl err \<Rightarrow> State_Monad.return (failed_with err)
         | Inr machinePools \<Rightarrow> delete_owned env allMachines ownedMachines machinePools)
      }
      else delete_owned env allMachines ownedMachines 0)
   }"

definition reconcileDelete :: "'x ext_scheme \<Rightarrow> 'r kenv_scheme \<Rightarrow> Cluster \<Rightarrow> outcome kact" where
  "reconcileDelete e env cluster = do {
     ml \<leftarrow> kcall (ListMachinesCall False) (reply_Machines env False);
     (case GetFilteredMachinesForCluster ml [] of
        Inl err \<Rightarrow> State_Monad.return (failed_with err)
      | Inr allMachines \<Rightarrow> do {
          ocnecp \<leftarrow> kread k_kcp;
          let ownedMachines = Filter allMachines [OwnedMachines e (kcp_object ocnecp)];
          (if length ownedMachines = 0 then do {
             RemoveFinalizer;
             State_Monad.return (done_with no_result)
           }
           else do {
             r \<leftarrow> load_control_plane env cluster ownedMachines;
             (case r of
                Inl err \<Rightarrow> State_Monad.return (failed_with err)
              | Inr cp \<Rightarrow> delete_control_plane env allMachines cp)
           })
        })
   }"

subsection \<open>Reconcile\<close>

text \<open>\<open>errors.As\<close> for a \<open>RemoteClusterConnectionError\<close>; an aggregate has no \<open>Unwrap\<close>.\<close>

fun is_connFailure :: "error \<Rightarrow> bool" where
  "is_connFailure (RemoteClusterConnectionError _ _) = True"
| "is_connFailure (Wrap _ e) = is_connFailure e"
| "is_connFailure _ = False"

definition add_error :: "error option \<Rightarrow> error \<Rightarrow> error option" where
  "add_error reterr err = NewAggregate ((case reterr of None \<Rightarrow> [] | Some e \<Rightarrow> [e]) @ [err])"

text \<open>
  The deferred function. A panic of \<open>updateStatus\<close> leaves it before the patch. After a panic of the
  reconciliation it runs with a nil \<open>reterr\<close>, and the panic then continues.
\<close>

definition finish ::
  "'x ext_scheme \<Rightarrow> json_codec \<Rightarrow> 'r kenv_scheme \<Rightarrow> Cluster \<Rightarrow> outcome \<Rightarrow> outcome kact" where
  "finish e json env cluster r = do {
     err \<leftarrow> updateStatus e json env cluster;
     (if panics err then State_Monad.return (fst r, err)
      else do {
        let reterr = (case err of
                        None \<Rightarrow> snd r
                      | Some err \<Rightarrow> if is_connFailure err then snd r else add_error (snd r) err);
        err \<leftarrow> patchOCNEControlPlane env;
        let reterr = (case err of None \<Rightarrow> reterr | Some err \<Rightarrow> add_error reterr err);
        ocnecp \<leftarrow> kread k_kcp;
        State_Monad.return
          (if panics (snd r) then r
           else if reterr = None \<and> \<not> Requeue (fst r) \<and> RequeueAfter (fst r) \<le> 0 \<and>
              Time_IsZero (DeletionTimestamp (KCP_ObjectMeta ocnecp)) \<and> \<not> Status_Ready (KCP_Status ocnecp)
           then done_with (requeue_after (20 * second))
           else (fst r, reterr))
      })
   }"

definition requeue_if_locked :: "outcome \<Rightarrow> outcome" where
  "requeue_if_locked r =
     (if snd r \<noteq> None \<and> errors_Is (the (snd r)) ErrClusterLocked then done_with requeue_now else r)"

definition run_reconcile ::
  "'x ext_scheme \<Rightarrow> json_codec \<Rightarrow> 'r kenv_scheme \<Rightarrow> Cluster \<Rightarrow> outcome kact" where
  "run_reconcile e json env cluster = do {
     ocnecp \<leftarrow> kread k_kcp;
     r \<leftarrow> (if \<not> Time_IsZero (DeletionTimestamp (KCP_ObjectMeta ocnecp)) then reconcileDelete e env cluster
          else reconcile e json env cluster);
     finish e json env cluster (requeue_if_locked r)
   }"

definition guard_finalizer ::
  "'x ext_scheme \<Rightarrow> json_codec \<Rightarrow> 'r kenv_scheme \<Rightarrow> Cluster \<Rightarrow> outcome kact" where
  "guard_finalizer e json env cluster = do {
     ocnecp \<leftarrow> kread k_kcp;
     (if OCNEControlPlaneFinalizer \<notin> set (kcp_finalizers ocnecp) then do {
        kmodify (\<lambda>s. s\<lparr>k_kcp := set_finalizers (kcp_finalizers (k_kcp s) @ [OCNEControlPlaneFinalizer]) (k_kcp s)\<rparr>);
        ocnecp \<leftarrow> kread k_kcp;
        err \<leftarrow> ecall_of env (PatchKCPCall ocnecp);
        State_Monad.return (no_result, err)
      }
      else run_reconcile e json env cluster)
   }"

definition guard_paused ::
  "'x ext_scheme \<Rightarrow> json_codec \<Rightarrow> 'r kenv_scheme \<Rightarrow> Cluster \<Rightarrow> outcome kact" where
  "guard_paused e json env cluster = do {
     ocnecp \<leftarrow> kread k_kcp;
     (if IsPaused (Cluster_Spec_Paused cluster) (KCP_ObjectMeta ocnecp) then State_Monad.return (done_with no_result)
      else do {
        err \<leftarrow> ecall_of env NewKCPHelperCall;
        (if err \<noteq> None then State_Monad.return (done_with requeue_now)
         else guard_finalizer e json env cluster)
      })
   }"

definition Reconcile :: "'x ext_scheme \<Rightarrow> json_codec \<Rightarrow> 'r kenv_scheme \<Rightarrow> outcome kact" where
  "Reconcile e json env = do {
     r \<leftarrow> kcall GetKCPCall (reply_KCP env GetKCPCall);
     (case r of
        Inl err \<Rightarrow>
          State_Monad.return (if IsNotFound err then done_with no_result else done_with requeue_now)
      | Inr ocnecp \<Rightarrow> do {
          kmodify (\<lambda>s. s\<lparr>k_kcp := ocnecp\<rparr>);
          cluster \<leftarrow> GetOwnerCluster e env (Namespace (KCP_ObjectMeta ocnecp)) (OwnerReferences (KCP_ObjectMeta ocnecp));
          (case cluster of
             Inl err \<Rightarrow> State_Monad.return (failed_with err)
           | Inr None \<Rightarrow> State_Monad.return (done_with no_result)
           | Inr (Some cluster) \<Rightarrow> guard_paused e json env cluster)
        })
   }"

text \<open>The event of a cluster triggers the reconciliation of its control plane.\<close>

definition ClusterToKubeadmControlPlane :: "Cluster \<Rightarrow> (string \<times> string) list" where
  "ClusterToKubeadmControlPlane c =
     (case Cluster_Spec_ControlPlaneRef c of
        None \<Rightarrow> []
      | Some ref \<Rightarrow>
          (if ObjectReference_Kind ref = ''OCNEControlPlane''
           then [(ObjectReference_Namespace ref, ObjectReference_Name ref)] else []))"

end
