(* ===== verification/Passes.thy ===== *)
theory Passes
  imports Reconcile
begin

text \<open>
  What one reconciliation of a control plane does to its machines. \<open>within P k act\<close> bounds the number
  of calls of a kind that an action adds to the trace. The rules in \<open>within_intros\<close> follow the
  structure of the actions, so the bound of a whole run is found from the bounds of its parts.
\<close>

named_theorems within_intros \<open>rules for the number of calls of an action\<close>

definition adds :: "(kcall \<Rightarrow> bool) \<Rightarrow> nat \<Rightarrow> kst \<Rightarrow> kst \<Rightarrow> bool" where
  "adds P k s s' \<longleftrightarrow> (\<exists>new. k_trace s' = k_trace s @ new \<and> length (filter P new) \<le> k)"

definition within :: "(kcall \<Rightarrow> bool) \<Rightarrow> nat \<Rightarrow> 'a kact \<Rightarrow> bool" where
  "within P k act \<longleftrightarrow> (\<forall>s. wp act (\<lambda>_. adds P k s) s)"

lemma adds_refl [simp]: "adds P k s s"
  by (simp add: adds_def)

lemma adds_trans: "adds P i s s1 \<Longrightarrow> adds P j s1 s2 \<Longrightarrow> adds P (i + j) s s2"
  by (auto simp: adds_def)

lemma adds_mono: "adds P i s s' \<Longrightarrow> i \<le> j \<Longrightarrow> adds P j s s'"
  by (auto simp: adds_def)

lemma adds_weaken: "adds P k s s' \<Longrightarrow> (\<And>c. Q c \<Longrightarrow> P c) \<Longrightarrow> adds Q k s s'"
  unfolding adds_def by (metis (mono_tags, lifting) dual_order.trans filter_filter filter_cong length_filter_le)

lemma withinD: "within P k act \<Longrightarrow> wp act (\<lambda>_. adds P k s) s"
  by (simp add: within_def)

lemma within_bind_sum:
  assumes "within P i m" "\<And>a. within P j (f a)"
  shows "within P (i + j) (State_Monad.bind m f)"
  unfolding within_def wp_bind
proof
  fix s
  show "wp m (\<lambda>a. wp (f a) (\<lambda>_. adds P (i + j) s)) s"
    by (rule wp_mono [OF withinD [OF assms(1)]])
      (metis (mono_tags, lifting) adds_trans wp_mono [OF withinD [OF assms(2)]])
qed

lemma within_bind [within_intros]:
  "within P 0 m \<Longrightarrow> (\<And>a. within P k (f a)) \<Longrightarrow> within P k (State_Monad.bind m f)"
  using within_bind_sum [of P 0 m k f] by simp

lemma within_basic [within_intros]:
  "within P k (State_Monad.return a)" "within P k (kread f)"
  "\<not> P c \<Longrightarrow> within P k (kcall c reply)" "\<not> P c \<Longrightarrow> within P k (ecall_of env c)"
  "within P k (mark env g)" "within P k (on_status h)" "within P k RemoveFinalizer"
  "(\<And>s. k_trace (u s) = k_trace s) \<Longrightarrow> within P k (kmodify u)"
  by (simp_all add: within_def wp_simps adds_def on_status_def RemoveFinalizer_def)

lemma within_split [within_intros]:
  "(b \<Longrightarrow> within P k m) \<Longrightarrow> (\<not> b \<Longrightarrow> within P k n) \<Longrightarrow> within P k (if b then m else n)"
  "within P k n \<Longrightarrow> (\<And>x. within P k (f x)) \<Longrightarrow> within P k (case opt of None \<Rightarrow> n | Some x \<Rightarrow> f x)"
  "(\<And>x. within P k (g x)) \<Longrightarrow> (\<And>y. within P k (h y)) \<Longrightarrow> within P k (case sm of Inl x \<Rightarrow> g x | Inr y \<Rightarrow> h y)"
  "(\<And>x y. within P k (f2 x y)) \<Longrightarrow> within P k (case pr of (x, y) \<Rightarrow> f2 x y)"
  "within P k m \<Longrightarrow> within P k n \<Longrightarrow> within P k (case b of True \<Rightarrow> m | False \<Rightarrow> n)"
  by (simp_all split: option.split sum.split prod.split bool.split)

lemma within_marks [within_intros]:
  "within P k (mark_true env t)" "within P k (mark_false env t reason severity message)"
  by (simp_all add: mark_true_def mark_false_def within_basic)

lemma within_run_calls [within_intros]:
  fixes env :: "'r kenv_scheme"
  shows "list_all (\<lambda>(c, w). \<not> P c) cs \<Longrightarrow> within P k (run_calls env cs)"
proof (induction cs)
  case (Cons cw cs)
  then show ?case
    by (cases cw) (auto intro!: within_intros)
qed (simp add: within_intros)

lemma within_all_then [within_intros]:
  fixes env :: "'r kenv_scheme"
  shows "list_all (\<lambda>(c, w). \<not> P c) cs \<Longrightarrow> within P k m \<Longrightarrow> within P k (all_then env cs m)"
  unfolding all_then_def by (intro within_intros)

text \<open>A step that makes such a call only when its result ends the run.\<close>

definition exclusive :: "(kcall \<Rightarrow> bool) \<Rightarrow> nat \<Rightarrow> outcome kact \<Rightarrow> bool" where
  "exclusive P k act \<longleftrightarrow>
     (\<forall>s. wp act (\<lambda>r s'. adds P k s s' \<and> (r = done_with no_result \<longrightarrow> adds P 0 s s')) s)"

lemma within_then_continue:
  assumes "exclusive P k step" "within P k rest"
  shows "within P k (then_continue step rest)"
proof -
  have "wp rest (\<lambda>_. adds P k s) s'" if "adds P 0 s s'" for s s'
    by (rule wp_mono [OF withinD [OF assms(2)]]) (use adds_trans [OF that] in auto)
  then have "wp (if snd r \<noteq> None \<or> \<not> Result_IsZero (fst r) then State_Monad.return r else rest) (\<lambda>_. adds P k s) s'"
    if "adds P k s s'" "r = done_with no_result \<longrightarrow> adds P 0 s s'" for r s s'
    using that by (auto simp: wp_simps Result_IsZero_iff done_with_def prod_eq_iff)
  then show ?thesis
    using assms(1) unfolding within_def then_continue_def wp_bind exclusive_def
    by (blast intro: wp_mono)
qed

lemma within_then_continue_quiet [within_intros]:
  assumes "within P 0 step" "within P k rest"
  shows "within P k (then_continue step rest)"
proof (rule within_then_continue [OF _ assms(2)])
  show "exclusive P k step"
    using assms(1) by (auto simp: exclusive_def within_def intro: wp_mono adds_mono)
qed

subsection \<open>The parts of a run\<close>

lemma changes_machines_more [simp]:
  "\<not> changes_machines GetKCPCall" "\<not> changes_machines GetUncachedKCPCall" "\<not> changes_machines (GetClusterCall ns n)"
  "\<not> changes_machines NewKCPHelperCall" "\<not> changes_machines (PatchKCPCall k)" "\<not> changes_machines ListMachinePoolsCall"
  "\<not> changes_machines ReadObjectsCall" "\<not> changes_machines (NewConfigHelperCall n)"
  "\<not> changes_machines (PatchConfigCall cfg)" "\<not> changes_machines (GetConfigCall n)"
  "\<not> changes_machines (UpdateReferenceAPIContractCall ref)" "\<not> changes_machines (GetTemplateCall ref)"
  "\<not> changes_machines NewTemplateHelperCall" "\<not> changes_machines (PatchTemplateCall om)"
  "\<not> changes_machines (GetSecretCall ns n)" "\<not> changes_machines (CreateSecretCall sec)"
  "\<not> changes_machines (GenerateKeysCall p)" "\<not> changes_machines (ListSecretsCall n)"
  "\<not> changes_machines (NewSecretHelperCall n)" "\<not> changes_machines (PatchSecretCall sec)"
  "\<not> changes_machines (UpdateSecretCall sec)" "\<not> changes_machines CreateKubeconfigCall"
  "\<not> changes_machines NeedsClientCertRotationCall" "\<not> changes_machines RegenerateKubeconfigCall"
  "\<not> changes_machines GetKubeconfigCall" "\<not> changes_machines (GetAddonsCall n)"
  "\<not> changes_machines (InstallOrUpgradeCall n)" "\<not> changes_machines (GetReleaseCall n)"
  "\<not> changes_machines (UninstallCall n)"
  by (simp_all add: changes_machines_def)

abbreviation quiet :: "'a kact \<Rightarrow> bool" where
  "quiet act \<equiv> within changes_machines 0 act"

lemma quiet_status [within_intros]:
  fixes env :: "'r kenv_scheme" and e :: "'x ext_scheme"
  shows "quiet (updateStatus e json env cluster)" "quiet (patchOCNEControlPlane env)"
  unfolding updateStatus_def status_of_machines_def resize_condition_def workload_status_def
    patchOCNEControlPlane_def Let_def
  by (intro within_intros; simp)+

lemma quiet_patch_machines [within_intros]:
  fixes env :: "'r kenv_scheme"
  shows "quiet (patch_machines env cp ms)"
  by (induction ms) (auto intro!: within_intros split: option.split)

lemma quiet_update_conditions [within_intros]:
  fixes env :: "'r kenv_scheme"
  shows "quiet (update_conditions env w)"
  unfolding update_conditions_def by (intro within_intros) (auto split: prod.split)

lemma quiet_conditions [within_intros]:
  fixes env :: "'r kenv_scheme" and e :: "'x ext_scheme"
  shows "quiet (reconcileControlPlaneConditions env cp)" "quiet (reconcileEtcdMembers e env cp)"
  unfolding reconcileControlPlaneConditions_def reconcileEtcdMembers_def remove_stale_members_def Let_def
  by (intro within_intros; simp)+

lemma quiet_annotate_expiries [within_intros]:
  fixes env :: "'r kenv_scheme"
  shows "quiet (annotate_expiries env ms)"
proof (induction ms)
  case (Cons m ms)
  have "quiet (annotate_expiry env n cfg node)" for n cfg node
    unfolding annotate_expiry_def by (intro within_intros; simp)
  with Cons show ?case
    unfolding annotate_expiries.simps by (intro within_intros; simp)
qed (simp add: within_intros)

lemma quiet_expiries [within_intros]:
  fixes env :: "'r kenv_scheme"
  shows "quiet (reconcileCertificateExpiries env)"
  unfolding reconcileCertificateExpiries_def by (intro within_intros; simp)

lemma quiet_workload [within_intros]:
  fixes env :: "'r kenv_scheme" and e :: "'x ext_scheme"
  shows "quiet (reconcile_workload e env)"
  unfolding reconcile_workload_def reconcile_operators_def reconcileOCNEModuleOperator_def
    reconcileVerrazzanoPlatformOperator_def reconcile_operator_def
  by (intro within_intros; simp)

subsection \<open>Secrets and adoption\<close>

interpretation kc: steady_client "adds changes_machines 0" "kube_client env"
  for env :: "'r kenv_scheme"
  by unfold_locales (auto simp: kube_client_def wp_simps adds_def)

lemma quiet_LookupOrGenerate [within_intros]:
  fixes env :: "'r kenv_scheme"
  shows "quiet (LookupOrGenerate (kube_client env) ns clusterName owner cs)"
  by (simp add: within_def kc.steadyD [OF kc.steady_LookupOrGenerate])

lemma quiet_kubeconfig [within_intros]:
  fixes env :: "'r kenv_scheme" and e :: "'x ext_scheme"
  shows "quiet (reconcileKubeconfig e env cluster)"
  unfolding reconcileKubeconfig_def create_kubeconfig_def adoptKubeconfigSecret_def rotate_kubeconfig_def Let_def
  by (intro within_intros; simp)

lemma quiet_certificate_owners [within_intros]:
  fixes env :: "'r kenv_scheme" and e :: "'x ext_scheme"
  shows "quiet (ensureCertificatesOwnerRef e env ns clusterName cs owner)"
  by (induction cs) (auto simp: Let_def intro!: within_intros)

lemma quiet_adopt_secrets [within_intros]:
  fixes env :: "'r kenv_scheme" and e :: "'x ext_scheme"
  shows "quiet (adopt_secrets e env k cfg secrets)"
  by (induction secrets) (auto intro!: within_intros)

lemma quiet_adopt_all [within_intros]:
  fixes env :: "'r kenv_scheme" and e :: "'x ext_scheme"
  shows "quiet (adopt_all e env k cluster ms)"
proof (induction ms)
  case (Cons m ms)
  have "quiet (adopt_machine e env k cluster m)"
    unfolding adopt_machine_def adoptOwnedSecrets_def by (intro within_intros; simp)
  with Cons show ?case
    unfolding adopt_all.simps by (intro within_intros; simp)
qed (simp add: within_intros)

lemma quiet_adopt [within_intros]:
  fixes env :: "'r kenv_scheme" and e :: "'x ext_scheme"
  shows "quiet (adoptMachines e env ms cluster)" "quiet (reconcileExternalReference e env cluster)"
  unfolding adoptMachines_def reconcileExternalReference_def by (intro within_intros; simp)+

lemma quiet_load [within_intros]:
  fixes env :: "'r kenv_scheme"
  shows "quiet (load_control_plane env cluster ms)" "quiet (aggregate_machines env)"
  unfolding load_control_plane_def aggregate_machines_def by (intro within_intros; simp)+

subsection \<open>Steps that change the machines\<close>

lemma generated_adds: "generated json env s err s' \<Longrightarrow> adds changes_machines (Suc 0) s s'"
  unfolding generated_def adds_def using generation_changes by fastforce

lemma one_scaleUp:
  fixes env :: "'r kenv_scheme" and e :: "'x ext_scheme"
  shows "within changes_machines (Suc 0) (scaleUpControlPlane e json env cluster cp)"
  unfolding within_def
  by (auto intro!: wp_mono [OF scaleUpControlPlane_wp] simp: scaled_up_def generated_adds)

lemma one_initialize:
  fixes env :: "'r kenv_scheme" and e :: "'x ext_scheme"
  shows "within changes_machines (Suc 0) (initializeControlPlane e json env cluster cp)"
  unfolding within_def
proof
  fix s :: kst
  let ?s = "s\<lparr>k_trace := k_trace s @ [ListMachinesCall True]\<rparr>"
  have "adds changes_machines 0 s ?s"
    by (simp add: adds_def)
  then show "wp (initializeControlPlane e json env cluster cp) (\<lambda>_. adds changes_machines (Suc 0) s) s"
    by (intro wp_mono [OF initializeControlPlane_wp])
      (auto simp: initialized_def Let_def split: sum.splits if_splits intro: adds_mono
        dest: generated_adds adds_trans)
qed

lemma one_scaleDown:
  fixes env :: "'r kenv_scheme" and e :: "'x ext_scheme"
  shows "within changes_machines (Suc 0) (scaleDownControlPlane e env cp outdated)"
proof -
  have "adds changes_machines (Suc 0) s s'" if "removed e env c m s r s'" for c m r s s'
    using that scale_down_plan_changes by (fastforce simp: removed_def in_order_def adds_def)
  then show ?thesis
    unfolding within_def by (auto intro!: wp_mono [OF scaleDownControlPlane_wp] simp: scaled_down_def)
qed

lemma one_upgrade:
  fixes env :: "'r kenv_scheme" and e :: "'x ext_scheme"
  shows "within changes_machines (Suc 0) (upgradeControlPlane e json env cluster cp outdated)"
  unfolding within_def
  by (auto intro!: wp_mono [OF upgradeControlPlane_wp] simp: upgraded_def rolled_def adds_def)

lemma keeps_machines_filter: "keeps_machines new \<longleftrightarrow> filter changes_machines new = []"
  by (auto simp: keeps_machines_def list_all_iff filter_empty_conv)

lemma one_remediation:
  fixes env :: "'r kenv_scheme" and e :: "'x ext_scheme"
  shows "exclusive changes_machines (Suc 0) (reconcileUnhealthyMachines e env cp)"
proof -
  have plan: "length (filter changes_machines (remediation_plan e c m)) \<le> Suc 0" for c m
    by (simp add: remediation_plan_def split: sum.split)
  have "adds changes_machines (Suc 0) s s' \<and> (r = done_with no_result \<longrightarrow> adds changes_machines 0 s s')"
    if safe: "remediation_safe e env cp s r s'" for r s s'
  proof -
    obtain new where new: "k_trace s' = k_trace s @ new" "r = done_with no_result \<longrightarrow> keeps_machines new"
      "keeps_machines new \<or> (\<exists>c m t pre mid post. new = pre @ mid @ remediation_plan e c m @ post \<and>
         keeps_machines pre \<and> keeps_machines post \<and> quorum_checked env t c m mid)"
      using safe unfolding remediation_safe_def by blast
    from new(3) have "length (filter changes_machines new) \<le> Suc 0"
      using plan by (auto dest!: keeps_quorum_checked simp: keeps_machines_filter)
    with new(1,2) show ?thesis
      by (auto simp: adds_def keeps_machines_filter)
  qed
  then show ?thesis
    unfolding exclusive_def by (auto intro!: wp_mono [OF reconcileUnhealthyMachines_wp])
qed

lemma within_more: "within P 0 m \<Longrightarrow> within P k m"
  by (auto simp: within_def intro: wp_mono adds_mono)

lemma one_replicas:
  fixes env :: "'r kenv_scheme" and e :: "'x ext_scheme"
  shows "within changes_machines (Suc 0) (reconcile_replicas e json env cluster cp)"
  unfolding reconcile_replicas_def Let_def
  by (intro within_intros one_upgrade one_initialize one_scaleUp one_scaleDown within_more [OF quiet_workload])

lemma one_control_plane:
  fixes env :: "'r kenv_scheme" and e :: "'x ext_scheme"
  shows "within changes_machines (Suc 0) (reconcile_control_plane e json env cluster cp)"
  unfolding reconcile_control_plane_def
  by (intro within_then_continue_quiet within_then_continue [OF one_remediation] quiet_conditions quiet_expiries
      one_replicas)

lemma one_reconcile:
  fixes env :: "'r kenv_scheme" and e :: "'x ext_scheme"
  shows "within changes_machines (Suc 0) (reconcile e json env cluster)"
  unfolding reconcile_def reconcile_cluster_def reconcile_machines_def reconcile_owned_def Let_def
  by (intro within_intros one_control_plane) simp_all

lemma quiet_finish [within_intros]:
  fixes env :: "'r kenv_scheme" and e :: "'x ext_scheme"
  shows "quiet (finish e json env cluster r)"
  unfolding finish_def Let_def by (intro within_intros)

subsection \<open>Deletion\<close>

text \<open>A refresh changes conditions only.\<close>

definition bare :: "Machine \<Rightarrow> Machine" where
  "bare m = m\<lparr>Machine_Status_Conditions := []\<rparr>"

definition refreshed :: "kst \<Rightarrow> kst \<Rightarrow> bool" where
  "refreshed s s' \<longleftrightarrow> adds changes_machines 0 s s' \<and>
     KCP_ObjectMeta (k_kcp s') = KCP_ObjectMeta (k_kcp s) \<and> KCP_Spec (k_kcp s') = KCP_Spec (k_kcp s) \<and>
     map (map_prod id bare) (k_machines s') = map (map_prod id bare) (k_machines s)"

interpretation rf: chained refreshed
  by unfold_locales (auto simp: refreshed_def dest: adds_trans)

lemma refreshed_basic:
  fixes env :: "'r kenv_scheme"
  shows "rf.steady (kread f)" "\<not> changes_machines c \<Longrightarrow> rf.steady (kcall c reply)"
    "\<not> changes_machines c \<Longrightarrow> rf.steady (ecall_of env c)" "rf.steady (mark env g)" "rf.steady (mark_true env t)"
    "rf.steady (mark_false env t reason severity message)" "rf.steady (on_status h)" "rf.steady (update_conditions env w)"
  by (auto simp: rf.steady_def refreshed_def adds_def wp_simps on_status_def mark_true_def mark_false_def
      update_conditions_def comp_def map_prod_def bare_def split: prod.split)

lemma refreshed_patch_machines: 
  fixes env :: "'r kenv_scheme"
  shows "rf.steady (patch_machines env cp ms)"
  by (induction ms) (auto intro!: rf.steady_intros refreshed_basic)

lemma refreshed_conditions:
  fixes env :: "'r kenv_scheme"
  shows "rf.steady (reconcileControlPlaneConditions env cp)" "rf.steady (aggregate_machines env)"
  unfolding reconcileControlPlaneConditions_def aggregate_machines_def all_then_def run_calls.simps
  by (intro rf.steady_intros refreshed_basic refreshed_patch_machines; simp)+

definition delete_calls :: "Machines \<Rightarrow> kcall list" where
  "delete_calls ms = map (DeleteMachineCall \<circ> mname \<circ> snd) (Filter ms [Not HasDeletionTimestamp])"

lemma bare_simps [simp]: "mname (bare m) = mname m" "HasDeletionTimestamp (Some (bare m)) = HasDeletionTimestamp (Some m)"
  by (simp_all add: bare_def HasDeletionTimestamp_def)

lemma wf_bare: "wf_machines (map (map_prod id bare) ms) \<longleftrightarrow> wf_machines ms"
  by (auto simp: wf_machines_def wf_map_def comp_def)

lemma delete_calls_bare:
  assumes "wf_machines ms"
  shows "delete_calls (map (map_prod id bare) ms) = delete_calls ms"
  by (simp add: delete_calls_def Filter_eq [OF assms] Filter_eq [OF wf_bare [THEN iffD2, OF assms]] filter_map
      comp_def Not_def split_def)

lemma delete_calls_refreshed:
  "map (map_prod id bare) ms' = map (map_prod id bare) ms \<Longrightarrow> wf_machines ms \<Longrightarrow> delete_calls ms' = delete_calls ms"
  by (metis delete_calls_bare wf_bare)

lemma delete_machines_wp:
  fixes env :: "'r kenv_scheme"
  shows "wp (delete_machines env ms)
    (\<lambda>_ s'. s' = s\<lparr>k_trace := k_trace s @ map (DeleteMachineCall \<circ> mname) ms\<rparr>) s"
proof (induction ms arbitrary: s)
  case (Cons m ms)
  show ?case
    by (simp add: wp_simps, rule wp_mono [OF Cons.IH]) simp
qed (simp add: wp_simps)

lemma delete_owned_wp:
  fixes env :: "'r kenv_scheme"
  shows "wp (delete_owned env allMachines ownedMachines pools)
    (\<lambda>_ s'. KCP_ObjectMeta (k_kcp s') = KCP_ObjectMeta (k_kcp s) \<and>
       k_trace s' = k_trace s @
         (if length allMachines = length ownedMachines \<and> pools = 0 then delete_calls ownedMachines else [])) s"
  by (auto simp: delete_owned_def delete_calls_def comp_def wp_simps mark_false_def split: option.split
      intro!: wp_mono [OF delete_machines_wp])

text \<open>What the run of a control plane that is being deleted may do.\<close>

definition deleted_safely :: "'x ext_scheme \<Rightarrow> 'r kenv_scheme \<Rightarrow> kst \<Rightarrow> kst \<Rightarrow> bool" where
  "deleted_safely e env s s' \<longleftrightarrow>
     (\<exists>new. k_trace s' = k_trace s @ new \<and>
        (filter changes_machines new = [] \<or>
         (\<exists>ml pre. reply_Machines env False (k_trace s) = Inr ml \<and>
            (\<forall>m\<in>elems (FromMachineList ml). OwnedMachines e (kcp_object (k_kcp s)) (Some m)) \<and>
            new = pre @ delete_calls (FromMachineList ml) \<and> filter changes_machines pre = [] \<and>
            (MachinePool_enabled env \<longrightarrow> reply_MachinePools env (butlast (k_trace s @ pre)) = Inr 0)))) \<and>
     (OCNEControlPlaneFinalizer \<in> set (kcp_finalizers (k_kcp s)) \<longrightarrow>
        OCNEControlPlaneFinalizer \<in> set (kcp_finalizers (k_kcp s')) \<or>
        (\<exists>ml. reply_Machines env False (k_trace s) = Inr ml \<and>
           (\<forall>m\<in>elems (FromMachineList ml). \<not> OwnedMachines e (kcp_object (k_kcp s)) (Some m))))"

definition delete_pass :: "'r kenv_scheme \<Rightarrow> Machines \<Rightarrow> kst \<Rightarrow> kst \<Rightarrow> bool" where
  "delete_pass env allMachines s s' \<longleftrightarrow> KCP_ObjectMeta (k_kcp s') = KCP_ObjectMeta (k_kcp s) \<and>
     (\<exists>pre cs. k_trace s' = k_trace s @ pre @ cs \<and> filter changes_machines pre = [] \<and>
        (cs = [] \<or> cs = delete_calls (k_machines s) \<and> length allMachines = length (k_machines s) \<and>
           (MachinePool_enabled env \<longrightarrow> pre \<noteq> [] \<and> reply_MachinePools env (k_trace s @ butlast pre) = Inr 0)))"

lemma delete_passI:
  assumes "KCP_ObjectMeta (k_kcp s') = KCP_ObjectMeta (k_kcp s)" "k_trace s' = k_trace s @ pre @ cs"
    "filter changes_machines pre = []"
    "cs \<noteq> [] \<Longrightarrow> cs = delete_calls (k_machines s) \<and> length allMachines = length (k_machines s) \<and>
       (MachinePool_enabled env \<longrightarrow> pre \<noteq> [] \<and> reply_MachinePools env (k_trace s @ butlast pre) = Inr 0)"
  shows "delete_pass env allMachines s s'"
  using assms unfolding delete_pass_def by blast

lemma delete_control_plane_wp:
  fixes env :: "'r kenv_scheme"
  assumes wf: "wf_machines (k_machines s)"
  shows "wp (delete_control_plane env allMachines cp) (\<lambda>_. delete_pass env allMachines s) s"
proof -
  have pools: "wp (delete_owned env allMachines (k_machines s1) n) (\<lambda>_. delete_pass env allMachines s)
      (s1\<lparr>k_trace := k_trace s1 @ t\<rparr>)"
    if fresh: "refreshed s s1" and t: "filter changes_machines t = []"
      "MachinePool_enabled env \<Longrightarrow> t = [ListMachinePoolsCall] \<and> reply_MachinePools env (k_trace s1) = Inr n" for s1 n t
  proof -
    obtain pre where pre: "k_trace s1 = k_trace s @ pre" "filter changes_machines pre = []"
      using fresh by (auto simp: refreshed_def adds_def)
    have same: "map (map_prod id bare) (k_machines s1) = map (map_prod id bare) (k_machines s)"
      using fresh by (simp add: refreshed_def)
    note delete_calls_refreshed [OF same wf] map_eq_imp_length_eq [OF same]
    moreover have "KCP_ObjectMeta (k_kcp s1) = KCP_ObjectMeta (k_kcp s)"
      using fresh by (simp add: refreshed_def)
    ultimately show ?thesis
      using pre t
      by (intro wp_mono [OF delete_owned_wp] delete_passI [of _ s "pre @ t" "if length allMachines =
          length (k_machines s) \<and> n = 0 then delete_calls (k_machines s) else []"])
        (auto simp: butlast_append split: if_splits)
  qed
  have quiet: "delete_pass env allMachines s (s1\<lparr>k_trace := k_trace s1 @ [ListMachinePoolsCall]\<rparr>)"
    if fresh: "refreshed s s1" for s1
  proof -
    obtain pre where "k_trace s1 = k_trace s @ pre" "filter changes_machines pre = []"
        "KCP_ObjectMeta (k_kcp s1) = KCP_ObjectMeta (k_kcp s)"
      using fresh by (auto simp: refreshed_def adds_def)
    then show ?thesis
      by (intro delete_passI [of _ s "pre @ [ListMachinePoolsCall]" "[]"]) simp_all
  qed
  show ?thesis
    unfolding delete_control_plane_def wp_bind
    using pools [of _ "[]"] pools [of _ "[ListMachinePoolsCall]"] quiet
    by (intro wp_mono [OF rf.steadyD [OF refreshed_conditions(1)]] wp_mono [OF rf.steady_then [OF refreshed_conditions(2)]])
      (auto simp: wp_simps split: sum.split)
qed

lemma Filter_Nil: "wf_machines ms \<Longrightarrow> Filter ms [] = ms"
  by (simp add: Filter_eq)

lemma delete_pass_safe:
  assumes ml: "reply_Machines env False (k_trace s) = Inr ml"
    and s1: "k_trace s1 = k_trace s @ [ListMachinesCall False, ReadObjectsCall]" "KCP_ObjectMeta (k_kcp s1) = KCP_ObjectMeta (k_kcp s)"
      "k_machines s1 = Filter (FromMachineList ml) [OwnedMachines e (kcp_object (k_kcp s))]"
    and pass: "delete_pass env (FromMachineList ml) s1 s'"
  shows "deleted_safely e env s s'"
proof -
  let ?ms = "FromMachineList ml" and ?f = "OwnedMachines e (kcp_object (k_kcp s))"
  obtain pre cs where pre: "k_trace s' = k_trace s1 @ pre @ cs" "filter changes_machines pre = []"
    and cs: "cs = [] \<or> cs = delete_calls (k_machines s1) \<and> length ?ms = length (k_machines s1) \<and>
      (MachinePool_enabled env \<longrightarrow> pre \<noteq> [] \<and> reply_MachinePools env (k_trace s1 @ butlast pre) = Inr 0)"
    using pass unfolding delete_pass_def by blast
  have all: "k_machines s1 = ?ms \<and> (\<forall>m\<in>elems ?ms. ?f (Some m))" if "length ?ms = length (k_machines s1)"
    using that filter_id_conv [of "\<lambda>(_, m). ?f (Some m)" ?ms] length_filter_less [of _ ?ms "\<lambda>(_, m). ?f (Some m)"]
    by (auto simp: s1(3) Filter_eq [OF wf_FromMachineList] elems_def)
  let ?pre = "[ListMachinesCall False, ReadObjectsCall] @ pre"
  have quiet: "filter changes_machines ?pre = []"
    using pre(2) by simp
  have meta: "KCP_ObjectMeta (k_kcp s') = KCP_ObjectMeta (k_kcp s)"
    using pass s1(2) by (simp add: delete_pass_def)
  show ?thesis
  proof (cases "cs = []")
    case True
    then show ?thesis
      using pre quiet meta s1(1) by (auto simp: deleted_safely_def)
  next
    case False
    with cs have "cs = delete_calls ?ms" "\<forall>m\<in>elems ?ms. ?f (Some m)"
      "MachinePool_enabled env \<longrightarrow> reply_MachinePools env (butlast (k_trace s @ ?pre)) = Inr 0"
      using all s1(1) by (auto simp: butlast_append)
    then show ?thesis
      using pre(1) quiet meta s1(1) ml unfolding deleted_safely_def
      by (intro conjI exI [of _ "?pre @ cs"] disjI2 exI [of _ ml] exI [of _ ?pre]) simp_all
  qed
qed

lemma reconcileDelete_wp:
  fixes env :: "'r kenv_scheme" and e :: "'x ext_scheme"
  shows "wp (reconcileDelete e env cluster) (\<lambda>_. deleted_safely e env s) s"
proof (cases "reply_Machines env False (k_trace s)")
  case (Inl err)
  then show ?thesis
    by (simp add: reconcileDelete_def wp_simps GetFilteredMachinesForCluster_def deleted_safely_def)
next
  case (Inr ml)
  let ?owned = "Filter (FromMachineList ml) [OwnedMachines e (kcp_object (k_kcp s))]"
  have load: "wp (delete_control_plane env (FromMachineList ml) cp) (\<lambda>_. deleted_safely e env s)
      (s\<lparr>k_trace := k_trace s @ [ListMachinesCall False, ReadObjectsCall], k_machines := ?owned, k_configs := cfgs\<rparr>)"
    for cp cfgs
    by (rule wp_mono [OF delete_control_plane_wp])
      (simp add: Filter_def wf_newFiltered, erule delete_pass_safe [OF Inr, rotated 3], simp_all)
  have none: "deleted_safely e env s (s\<lparr>k_trace := k_trace s @ [ListMachinesCall False], k_kcp := k\<rparr>)"
    if "?owned = []" for k
    using that Inr by (auto simp: deleted_safely_def Filter_eq [OF wf_FromMachineList] filter_empty_conv elems_def)
  have failed: "deleted_safely e env s (s\<lparr>k_trace := k_trace s @ [ListMachinesCall False, ReadObjectsCall]\<rparr>)"
    by (simp add: deleted_safely_def)
  show ?thesis
    using load none failed
    by (auto simp: reconcileDelete_def load_control_plane_def RemoveFinalizer_def wp_simps Inr
        GetFilteredMachinesForCluster_def Filter_Nil [OF wf_FromMachineList] Let_def split: sum.split)
qed

text \<open>
  C5. The run of a control plane that is being deleted creates no machine. It deletes machines only when
  the control plane owns every machine that the listing of the cluster shows and, where machine pools
  are enabled, when the listing of the pools just before the first deletion is empty. Then it deletes
  every machine that is not being deleted yet, in one pass, whatever the replies are. It drops its
  finalizer only when the listing shows no machine of its own.
\<close>

theorem reconcileDelete_safe:
  "case run_state (reconcileDelete e env cluster) s of (r, s') \<Rightarrow> deleted_safely e env s s'"
  using reconcileDelete_wp [of e env cluster s] by (simp add: wp_def)

subsection \<open>One reconciliation\<close>

text \<open>The calls that only read the object and its owner.\<close>

fun guard_call :: "kcall \<Rightarrow> bool" where
  "guard_call GetKCPCall = True"
| "guard_call (GetClusterCall _ _) = True"
| "guard_call NewKCPHelperCall = True"
| "guard_call _ = False"

text \<open>
  What a run needs before it does anything else: the control plane, which the first of its owner references to a cluster of
  the Cluster API names a cluster for, and that cluster, read in the namespace of the control plane;
  neither is paused, and the patch helper could be made. \<open>may_run\<close> gives the reads that show it, one after the other.
\<close>

definition cluster_ref :: "'x ext_scheme \<Rightarrow> OwnerReference \<Rightarrow> bool" where
  "cluster_ref e ref \<longleftrightarrow>
     Kind ref = ''Cluster'' \<and> (\<exists>v. ParseGroupVersion e (APIVersion ref) = Inr (''cluster.x-k8s.io'', v))"

definition may_run :: "'x ext_scheme \<Rightarrow> 'r kenv_scheme \<Rightarrow> kcall list \<Rightarrow> kcall list \<Rightarrow> OCNEControlPlane \<Rightarrow> bool" where
  "may_run e env t pre ocnecp \<longleftrightarrow>
     (\<exists>ref cluster.
        reply_KCP env GetKCPCall t = Inr ocnecp \<and>
        find (cluster_ref e) (OwnerReferences (KCP_ObjectMeta ocnecp)) = Some ref \<and>
        reply_Cluster env (Namespace (KCP_ObjectMeta ocnecp)) (OwnerReference_Name ref) (t @ [GetKCPCall]) = Inr cluster \<and>
        \<not> IsPaused (Cluster_Spec_Paused cluster) (KCP_ObjectMeta ocnecp) \<and>
        pre = [GetKCPCall, GetClusterCall (Namespace (KCP_ObjectMeta ocnecp)) (OwnerReference_Name ref), NewKCPHelperCall] \<and>
        reply_Error env NewKCPHelperCall (t @ butlast pre) = None)"

definition guarded_pass :: "'x ext_scheme \<Rightarrow> 'r kenv_scheme \<Rightarrow> kst \<Rightarrow> kst \<Rightarrow> bool" where
  "guarded_pass e env s s' \<longleftrightarrow>
     (\<exists>pre rest. k_trace s' = k_trace s @ pre @ rest \<and> list_all guard_call pre \<and>
        (rest = [] \<or>
         (\<exists>k. may_run e env (k_trace s) pre k \<and>
            (if OCNEControlPlaneFinalizer \<notin> set (kcp_finalizers k)
             then rest = [PatchKCPCall (set_finalizers (kcp_finalizers k @ [OCNEControlPlaneFinalizer]) k)]
             else if Time_IsZero (DeletionTimestamp (KCP_ObjectMeta k))
             then length (filter changes_machines rest) \<le> 1
             else filter creates_machine rest = []))))"

lemma guard_quiet: "list_all guard_call pre \<Longrightarrow> filter changes_machines pre = []"
proof -
  have "guard_call c \<Longrightarrow> \<not> changes_machines c" for c
    by (cases c) simp_all
  then show "list_all guard_call pre \<Longrightarrow> filter changes_machines pre = []"
    by (auto simp: list_all_iff filter_empty_conv)
qed

definition owner_read ::
  "'x ext_scheme \<Rightarrow> 'r kenv_scheme \<Rightarrow> string \<Rightarrow> OwnerReference list \<Rightarrow> kst \<Rightarrow> error + Cluster option \<Rightarrow> kst \<Rightarrow> bool" where
  "owner_read e env ns refs s r s' \<longleftrightarrow>
     (\<exists>pre. s' = s\<lparr>k_trace := k_trace s @ pre\<rparr> \<and> list_all guard_call pre \<and>
        (\<forall>cluster. r = Inr (Some cluster) \<longrightarrow>
           (\<exists>ref. find (cluster_ref e) refs = Some ref \<and> pre = [GetClusterCall ns (OwnerReference_Name ref)] \<and>
              reply_Cluster env ns (OwnerReference_Name ref) (k_trace s) = Inr cluster)))"

lemma GetOwnerCluster_wp:
  fixes env :: "'r kenv_scheme" and e :: "'x ext_scheme"
  shows "wp (GetOwnerCluster e env ns refs) (owner_read e env ns refs s) s"
proof (induction refs)
  case Nil
  show ?case by (auto simp: wp_simps owner_read_def intro!: exI [of _ "[]"])
next
  case (Cons ref refs)
  have skip: "owner_read e env ns (ref # refs) s r s'" if "owner_read e env ns refs s r s'" "\<not> cluster_ref e ref" for r s'
    using that by (simp add: owner_read_def)
  have failed: "owner_read e env ns (ref # refs) s (Inl err) s" for err
    by (auto simp: owner_read_def intro!: exI [of _ "[]"])
  have found: "owner_read e env ns (ref # refs) s (map_sum f Some (reply_Cluster env ns (OwnerReference_Name ref) (k_trace s)))
      (s\<lparr>k_trace := k_trace s @ [GetClusterCall ns (OwnerReference_Name ref)]\<rparr>)" if "cluster_ref e ref" for f
    using that by (auto simp: owner_read_def dest!: map_sum_InrD)
  show ?case
  proof (cases "Kind ref = ''Cluster''")
    case False
    then have "\<not> cluster_ref e ref" by (simp add: cluster_ref_def)
    then show ?thesis using False Cons skip by (auto intro: wp_mono)
  next
    case True
    show ?thesis
    proof (cases "ParseGroupVersion e (APIVersion ref)")
      case (Inl err)
      then show ?thesis using True failed by (simp add: wp_simps)
    next
      case (Inr gv)
      show ?thesis
      proof (cases "fst gv = ''cluster.x-k8s.io''")
        case T: True
        then have "cluster_ref e ref"
          using True Inr by (cases gv) (simp add: cluster_ref_def)
        then show ?thesis using True Inr T found by (simp add: wp_simps)
      next
        case False
        then have "\<not> cluster_ref e ref" using Inr by (auto simp: cluster_ref_def)
        then show ?thesis using True Inr False Cons skip by (auto intro: wp_mono)
      qed
    qed
  qed
qed

lemma deleted_safely_adds: "deleted_safely e env s s' \<Longrightarrow> adds creates_machine 0 s s'"
proof -
  have "filter creates_machine (delete_calls ms) = []" for ms
    by (auto simp: delete_calls_def filter_empty_conv)
  moreover have "filter changes_machines new = [] \<Longrightarrow> filter creates_machine new = []" for new
    by (auto simp: filter_empty_conv changes_machines_def)
  ultimately show "deleted_safely e env s s' \<Longrightarrow> adds creates_machine 0 s s'"
    by (fastforce simp: deleted_safely_def adds_def)
qed

definition run_pass :: "kst \<Rightarrow> kst \<Rightarrow> bool" where
  "run_pass s s' \<longleftrightarrow>
     (if Time_IsZero (DeletionTimestamp (KCP_ObjectMeta (k_kcp s))) then adds changes_machines (Suc 0) s s'
      else adds creates_machine 0 s s')"

lemma run_reconcile_wp:
  fixes env :: "'r kenv_scheme" and e :: "'x ext_scheme"
  shows "wp (run_reconcile e json env cluster) (\<lambda>_. run_pass s) s"
proof (cases "Time_IsZero (DeletionTimestamp (KCP_ObjectMeta (k_kcp s)))")
  case True
  have fin: "wp (finish e json env cluster r) (\<lambda>_. run_pass s) s1" if "adds changes_machines (Suc 0) s s1" for r s1
    by (rule wp_mono [OF withinD [OF quiet_finish]]) (use adds_trans [OF that] True in \<open>auto simp: run_pass_def\<close>)
  show ?thesis
    by (simp add: run_reconcile_def wp_simps True) (rule wp_mono [OF withinD [OF one_reconcile]], rule fin)
next
  case False
  have fin: "wp (finish e json env cluster r) (\<lambda>_. run_pass s) s1" if "adds creates_machine 0 s s1" for r s1
    by (rule wp_mono [OF withinD [OF quiet_finish]])
      (use adds_trans [OF that] False adds_weaken [of changes_machines 0 _ _ creates_machine]
       in \<open>fastforce simp: run_pass_def changes_machines_def\<close>)
  show ?thesis
    by (simp add: run_reconcile_def wp_simps False)
      (rule wp_mono [OF reconcileDelete_wp], rule fin [OF deleted_safely_adds])
qed

lemma guard_finalizer_wp:
  fixes env :: "'r kenv_scheme" and e :: "'x ext_scheme"
  assumes "may_run e env (k_trace s) pre (k_kcp s1)" "k_trace s1 = k_trace s @ pre"
  shows "wp (guard_finalizer e json env cluster) (\<lambda>_. guarded_pass e env s) s1"
proof -
  have pre: "list_all guard_call pre"
    using assms(1) by (auto simp: may_run_def)
  have "guarded_pass e env s s'" if "run_pass s1 s'" "OCNEControlPlaneFinalizer \<in> set (kcp_finalizers (k_kcp s1))" for s'
    using that assms pre unfolding guarded_pass_def run_pass_def adds_def by (auto split: if_splits)
  moreover have "guarded_pass e env s (s1\<lparr>k_kcp := k', k_trace := k_trace s1 @ [PatchKCPCall k']\<rparr>)"
    if "k' = set_finalizers (kcp_finalizers (k_kcp s1) @ [OCNEControlPlaneFinalizer]) (k_kcp s1)"
      "OCNEControlPlaneFinalizer \<notin> set (kcp_finalizers (k_kcp s1))" for k'
    using that assms pre unfolding guarded_pass_def by auto
  ultimately show ?thesis
    by (auto simp: guard_finalizer_def wp_simps intro: wp_mono [OF run_reconcile_wp])
qed

lemma guarded_pass_reads: "k_trace s' = k_trace s @ pre \<Longrightarrow> list_all guard_call pre \<Longrightarrow> guarded_pass e env s s'"
  by (auto simp: guarded_pass_def)

lemma guard_paused_wp:
  fixes env :: "'r kenv_scheme" and e :: "'x ext_scheme"
  assumes get: "reply_KCP env GetKCPCall (k_trace s) = Inr k" "find (cluster_ref e) (OwnerReferences (KCP_ObjectMeta k)) = Some ref"
    and owner: "reply_Cluster env (Namespace (KCP_ObjectMeta k)) (OwnerReference_Name ref) (k_trace s @ [GetKCPCall]) = Inr cluster"
    and s1: "k_kcp s1 = k" "k_trace s1 = k_trace s @ [GetKCPCall, GetClusterCall (Namespace (KCP_ObjectMeta k)) (OwnerReference_Name ref)]"
  shows "wp (guard_paused e json env cluster) (\<lambda>_. guarded_pass e env s) s1"
proof -
  let ?s2 = "s1\<lparr>k_trace := k_trace s1 @ [NewKCPHelperCall]\<rparr>"
  have "guarded_pass e env s s1" "guarded_pass e env s ?s2"
    using s1 by (auto intro: guarded_pass_reads)
  moreover have "wp (guard_finalizer e json env cluster) (\<lambda>_. guarded_pass e env s) ?s2"
    if "\<not> IsPaused (Cluster_Spec_Paused cluster) (KCP_ObjectMeta k)" "reply_Error env NewKCPHelperCall (k_trace s1) = None"
    by (rule guard_finalizer_wp [where pre = "[GetKCPCall, GetClusterCall (Namespace (KCP_ObjectMeta k)) (OwnerReference_Name ref),
          NewKCPHelperCall]"])
      (use that get owner s1 in \<open>simp_all add: may_run_def\<close>)
  ultimately show ?thesis
    using s1(1) by (auto simp: guard_paused_def wp_simps)
qed

lemma Reconcile_wp:
  fixes env :: "'r kenv_scheme" and e :: "'x ext_scheme"
  shows "wp (Reconcile e json env) (\<lambda>_. guarded_pass e env s) s"
proof (cases "reply_KCP env GetKCPCall (k_trace s)")
  case (Inl err)
  then show ?thesis
    by (auto simp: Reconcile_def wp_simps intro: guarded_pass_reads)
next
  case (Inr k)
  let ?s1 = "s\<lparr>k_trace := k_trace s @ [GetKCPCall], k_kcp := k\<rparr>"
  have "wp (GetOwnerCluster e env (Namespace (KCP_ObjectMeta k)) (OwnerReferences (KCP_ObjectMeta k)))
      (\<lambda>r. wp (case r of Inl err \<Rightarrow> State_Monad.return (failed_with err)
         | Inr None \<Rightarrow> State_Monad.return (done_with no_result)
         | Inr (Some cluster) \<Rightarrow> guard_paused e json env cluster) (\<lambda>_. guarded_pass e env s)) ?s1"
  proof (rule wp_mono [OF GetOwnerCluster_wp], goal_cases)
    case (1 r s2)
    then obtain pre where pre: "s2 = ?s1\<lparr>k_trace := k_trace s @ GetKCPCall # pre\<rparr>" "list_all guard_call pre"
      by (auto simp: owner_read_def)
    have reads: "guarded_pass e env s s2"
      by (rule guarded_pass_reads [of _ _ "GetKCPCall # pre"]) (use pre in simp_all)
    show ?case
    proof (cases "\<exists>cluster. r = Inr (Some cluster)")
      case True
      then obtain cluster ref where "r = Inr (Some cluster)"
          "find (cluster_ref e) (OwnerReferences (KCP_ObjectMeta k)) = Some ref"
          "reply_Cluster env (Namespace (KCP_ObjectMeta k)) (OwnerReference_Name ref) (k_trace s @ [GetKCPCall]) = Inr cluster"
          "k_trace s2 = k_trace s @ [GetKCPCall, GetClusterCall (Namespace (KCP_ObjectMeta k)) (OwnerReference_Name ref)]"
        using 1 by (auto simp: owner_read_def)
      then show ?thesis
        using pre(1) by (auto intro!: guard_paused_wp [OF Inr])
    next
      case False
      then show ?thesis
        using reads by (auto simp: wp_simps split: sum.split option.split)
    qed
  qed
  then show ?thesis
    unfolding Reconcile_def by (simp add: wp_simps Inr)
qed

text \<open>
  C4. One reconciliation, from the request to the patch of the status. Besides reading the object and its
  owner it makes no call unless the object exists, the cluster that its owner references name exists in its namespace, and neither
  is paused. An object without the finalizer gets it, and that patch is the only other call of the run. With the
  finalizer, the run of an object that is not being deleted creates or deletes at most one machine in all. The run of an object that
  is being deleted creates none; which machines it deletes is the subject of \<open>reconcileDelete\<close>.
\<close>

theorem Reconcile_guarded:
  "case run_state (Reconcile e json env) s of (r, s') \<Rightarrow> guarded_pass e env s s'"
  using Reconcile_wp [of e json env s] by (simp add: wp_def)

subsection \<open>Status\<close>





lemma with_conditions_status [simp]:
  "KCP_Status (with_conditions f k) = (KCP_Status k)\<lparr>Status_Conditions := f (kcp_conditions k)\<rparr>"
  by (simp add: with_conditions_def)





lemma to_int32_idem [simp]: "to_int32 (to_int32 n) = to_int32 n"
  using to_int32_range [of n] by (simp add: to_int32_id)




text \<open>A run that ends without an error and without asking for another one.\<close>

definition comes_back :: "outcome \<Rightarrow> kst \<Rightarrow> bool" where
  "comes_back r s' \<longleftrightarrow> snd r \<noteq> None \<or> Requeue (fst r) \<or> 0 < RequeueAfter (fst r) \<or>
     Status_Ready (KCP_Status (k_kcp s')) \<or> \<not> Time_IsZero (DeletionTimestamp (KCP_ObjectMeta (k_kcp s')))"

lemma finish_wp:
  fixes env :: "'r kenv_scheme" and e :: "'x ext_scheme"
  shows "wp (finish e json env cluster r) (\<lambda>r' s'. comes_back r' s' \<and> (snd r \<noteq> None \<longrightarrow> snd r' \<noteq> None)) s"
  unfolding finish_def wp_bind
  by (rule wpI) (auto simp: wp_simps Let_def comes_back_def done_with_def requeue_after_def second_def add_error_def panics_def
      patchOCNEControlPlane_def split: option.splits intro!: wpI)

text \<open>
  C25. A control plane that is not ready is not forgotten. A run that got as far as its deferred function
  ends with an error, asks for another run, leaves the control plane ready, or the object is being
  deleted. So a not ready control plane is looked at again without any event.
\<close>

theorem run_reconcile_comes_back:
  "case run_state (run_reconcile e json env cluster) s of (r, s') \<Rightarrow> comes_back r s'"
proof -
  have fin: "wp (finish e json env cluster r) comes_back s1" for r s1
    by (rule wp_mono [OF finish_wp]) simp
  have "wp (run_reconcile e json env cluster) comes_back s"
    unfolding run_reconcile_def wp_bind wp_kread by (rule wpI) (rule fin)
  then show ?thesis
    by (simp add: wp_def)
qed

subsection \<open>Operators\<close>

text \<open>What is reported of the installation of an operator, given the replies.\<close>

definition deploy_reported :: "'r kenv_scheme \<Rightarrow> string \<Rightarrow> ConditionType \<Rightarrow> kst \<Rightarrow> outcome \<Rightarrow> kst \<Rightarrow> bool" where
  "deploy_reported env chart deployed s r s' \<longleftrightarrow>
     (let t = k_trace s @ [GetKubeconfigCall]
      in case reply_Error env (GetAddonsCall chart) t of
           Some err \<Rightarrow> r = failed_with err
         | None \<Rightarrow>
             (case reply_Release env chart (t @ [GetAddonsCall chart]) of
                (None, Some err) \<Rightarrow> r = failed_with (Panic ''nil pointer dereference'')
              | _ \<Rightarrow> r = done_with no_result \<and>
                  (distinct_types (kcp_conditions (k_kcp s)) \<longrightarrow> IsTrue (kcp_conditions (k_kcp s')) deployed)))"

lemma reconcile_operator_wp:
  fixes env :: "'r kenv_scheme"
  shows "wp (reconcile_operator env chart True deployed uninstalled) (deploy_reported env chart deployed s) s"
  by (auto simp: reconcile_operator_def deploy_reported_def wp_simps Let_def mark_true_def Mark_status
      split: option.split prod.split)

text \<open>
  C36. An installation of the module operator that fails is not reported. When the addons are found, an
  error of the kubeconfig is dropped, an error of the installation that comes with a release is dropped
  too and the operator is marked as deployed, and an error without a release ends in a panic at the log
  message that reads the release's name.
\<close>

theorem reconcileOCNEModuleOperator_unreported:
  "case run_state (reconcileOCNEModuleOperator env (spec\<lparr>ModuleOperator_Enabled := True\<rparr>)) s of
     (r, s') \<Rightarrow> deploy_reported env moduleOperatorChartName ModuleOperatorDeploy s r s'"
  using reconcile_operator_wp [of env moduleOperatorChartName ModuleOperatorDeploy ModuleOperatorUninstalled s]
  by (simp add: wp_def reconcileOCNEModuleOperator_def)

end
