(* ===== verification/OcneMeta.thy ===== *)
theory OcneMeta
  imports Images
begin

text \<open>
  The metadata of the supported Kubernetes versions (\<open>util/ocne/semver.go\<close>, \<open>util/ocne/versions.go\<close>)
  and the shell commands a node runs before it joins (\<open>GetOCNEOverrides\<close> in
  \<open>internal/util/ocne/ocne.go\<close>). Reading and writing the config map that holds the metadata, with its
  YAML text, is the reply of a call; the definitions here work on the decoded map.
\<close>

subsection \<open>Semantic versions\<close>

record SemVersion =
  Sem_Major :: int
  Sem_Minor :: int
  Sem_Patch :: int
  Sem_Prerelease :: string
  Sem_Build :: string

fun split_on :: "char \<Rightarrow> string \<Rightarrow> string list" where
  "split_on d [] = [[]]"
| "split_on d (c # cs) =
     (if c = d then [] # split_on d cs
      else (case split_on d cs of [] \<Rightarrow> [[c]] | w # ws \<Rightarrow> (c # w) # ws))"

text \<open>The pieces of \<open>semverRegex\<close>.\<close>

definition numeric_identifier :: "string \<Rightarrow> bool" where
  "numeric_identifier s \<longleftrightarrow> s \<noteq> [] \<and> list_all is_digit s \<and> (s = ''0'' \<or> hd s \<noteq> CHR ''0'')"

definition identifier_char :: "char \<Rightarrow> bool" where
  "identifier_char c \<longleftrightarrow> is_alnum c \<or> c = CHR ''-''"

definition build_identifier :: "string \<Rightarrow> bool" where
  "build_identifier s \<longleftrightarrow> s \<noteq> [] \<and> list_all identifier_char s"

definition prerelease_identifier :: "string \<Rightarrow> bool" where
  "prerelease_identifier s \<longleftrightarrow> build_identifier s \<and> (list_all is_digit s \<longrightarrow> numeric_identifier s)"

text \<open>
  The submatches of the regular expression after the first character: the three numbers, the
  prerelease and the build, each empty when absent.
\<close>

definition cut_at :: "char \<Rightarrow> string \<Rightarrow> string \<times> string option" where
  "cut_at d s =
     (case dropWhile (\<lambda>c. c \<noteq> d) s of
        [] \<Rightarrow> (s, None)
      | _ # rest \<Rightarrow> (takeWhile (\<lambda>c. c \<noteq> d) s, Some rest))"

definition match_semver :: "string \<Rightarrow> (string \<times> string \<times> string \<times> string \<times> string) option" where
  "match_semver s =
     (let (front, build) = cut_at (CHR ''+'') s;
          (core, prerelease) = cut_at (CHR ''-'') front
      in case split_on (CHR ''.'') core of
           [major, minor, patch] \<Rightarrow>
             (if list_all numeric_identifier [major, minor, patch] \<and>
                 (case prerelease of None \<Rightarrow> True
                  | Some p \<Rightarrow> list_all prerelease_identifier (split_on (CHR ''.'') p)) \<and>
                 (case build of None \<Rightarrow> True
                  | Some b \<Rightarrow> list_all build_identifier (split_on (CHR ''.'') b))
              then Some (major, minor, patch, case_option [] id prerelease, case_option [] id build)
              else None)
         | _ \<Rightarrow> None)"

definition invalidVersionError :: "string \<Rightarrow> error" where
  "invalidVersionError version =
     Err (''Invalid version string: '' @ version @ '' (valid format is vn.n.n or n.n.n)'')"

text \<open>\<open>strconv.ParseInt\<close> of a string of digits, for 64 bits.\<close>

definition ParseInt_digits :: "string \<Rightarrow> error + int" where
  "ParseInt_digits s =
     (if 2 ^ 63 \<le> int (digits_val s) then Inl (Err ''value out of range'') else Inr (int (digits_val s)))"

definition NewSemVersion :: "string \<Rightarrow> error + SemVersion" where
  "NewSemVersion version =
     (if version = [] then Inl (Err ''SemVersion string cannot be empty'')
      else if hd version \<noteq> CHR ''v'' \<and> hd version \<noteq> CHR ''V'' \<and> \<not> is_digit (hd version)
      then Inl (invalidVersionError version)
      else
        (let v = (if hd version = CHR ''v'' \<or> hd version = CHR ''V'' then version else CHR ''v'' # version)
         in case match_semver (tl v) of
              None \<Rightarrow> Inl (invalidVersionError version)
            | Some (major, minor, patch, prerelease, build) \<Rightarrow>
                (case ParseInt_digits major of Inl err \<Rightarrow> Inl err | Inr majorVer \<Rightarrow>
                (case ParseInt_digits minor of Inl err \<Rightarrow> Inl err | Inr minorVer \<Rightarrow>
                (case ParseInt_digits patch of Inl err \<Rightarrow> Inl err | Inr patchVer \<Rightarrow>
                   Inr \<lparr>Sem_Major = majorVer, Sem_Minor = minorVer, Sem_Patch = patchVer,
                     Sem_Prerelease = prerelease, Sem_Build = build\<rparr>)))))"

definition compareVersion :: "int \<Rightarrow> int \<Rightarrow> int" where
  "compareVersion v1 v2 = (if v1 < v2 then 1 else if v1 > v2 then - 1 else 0)"

definition compareVersionSubstring :: "string \<Rightarrow> string \<Rightarrow> int" where
  "compareVersionSubstring v1 v2 = (if v1 = v2 then 0 else 1)"

definition CompareTo :: "SemVersion \<Rightarrow> SemVersion \<Rightarrow> int" where
  "CompareTo v from =
     (if compareVersion (Sem_Major from) (Sem_Major v) \<noteq> 0 then compareVersion (Sem_Major from) (Sem_Major v)
      else if compareVersion (Sem_Minor from) (Sem_Minor v) \<noteq> 0 then compareVersion (Sem_Minor from) (Sem_Minor v)
      else if compareVersion (Sem_Patch from) (Sem_Patch v) \<noteq> 0 then compareVersion (Sem_Patch from) (Sem_Patch v)
      else if compareVersionSubstring (Sem_Prerelease from) (Sem_Prerelease v) \<noteq> 0
      then compareVersionSubstring (Sem_Prerelease from) (Sem_Prerelease v)
      else compareVersionSubstring (Sem_Build from) (Sem_Build v))"

definition IsEqualTo :: "SemVersion \<Rightarrow> SemVersion \<Rightarrow> bool" where "IsEqualTo v from \<longleftrightarrow> CompareTo v from = 0"
definition IsGreatherThan :: "SemVersion \<Rightarrow> SemVersion \<Rightarrow> bool" where "IsGreatherThan v from \<longleftrightarrow> CompareTo v from > 0"
definition IsLessThan :: "SemVersion \<Rightarrow> SemVersion \<Rightarrow> bool" where "IsLessThan v from \<longleftrightarrow> CompareTo v from < 0"

definition IsGreaterThanOrEqualTo :: "SemVersion \<Rightarrow> SemVersion \<Rightarrow> bool" where
  "IsGreaterThanOrEqualTo v from \<longleftrightarrow> IsGreatherThan v from \<or> IsEqualTo v from"

definition IsEqualToOrPatchVersionOf :: "SemVersion \<Rightarrow> SemVersion \<Rightarrow> bool" where
  "IsEqualToOrPatchVersionOf v from \<longleftrightarrow>
     IsEqualTo v from \<or> Sem_Patch from = 0 \<and> Sem_Major v = Sem_Major from \<and> Sem_Minor v = Sem_Minor from"

definition SemVersion_ToString :: "SemVersion \<Rightarrow> string" where
  "SemVersion_ToString v =
     (let core = show_int (Sem_Major v) @ ''.'' @ show_int (Sem_Minor v) @ ''.'' @ show_int (Sem_Patch v)
      in if Sem_Build v \<noteq> [] \<and> Sem_Prerelease v \<noteq> [] then core @ ''-'' @ Sem_Prerelease v @ ''+'' @ Sem_Build v
         else if Sem_Build v = [] \<and> Sem_Prerelease v \<noteq> [] then core @ ''-'' @ Sem_Prerelease v
         else if Sem_Build v \<noteq> [] \<and> Sem_Prerelease v = [] then core @ ''+'' @ Sem_Build v
         else core)"

subsection \<open>Metadata\<close>

record OCNEImages =
  Images_ETCD :: string
  Images_CoreDNS :: string
  Images_TigeraOperator :: string
  Images_Calico :: string
  Images_Pause :: string
  Images_KubeControllerManager :: string
  Images_KubeScheduler :: string
  Images_KubeApiServer :: string
  Images_KubeProxy :: string
  Images_ModuleOperator :: string

record OCNEPackages =
  Packages_Kubeadm :: string
  Packages_Kubectl :: string
  Packages_Kubelet :: string
  Packages_Helm :: string

record OCNEMetadata =
  Metadata_Images :: OCNEImages
  Metadata_Packages :: OCNEPackages
  Metadata_Release :: string

definition zero_OCNEMetadata :: OCNEMetadata where
  "zero_OCNEMetadata =
     \<lparr>Metadata_Images = \<lparr>Images_ETCD = [], Images_CoreDNS = [], Images_TigeraOperator = [], Images_Calico = [],
        Images_Pause = [], Images_KubeControllerManager = [], Images_KubeScheduler = [], Images_KubeApiServer = [],
        Images_KubeProxy = [], Images_ModuleOperator = []\<rparr>,
      Metadata_Packages = \<lparr>Packages_Kubeadm = [], Packages_Kubectl = [], Packages_Kubelet = [], Packages_Helm = []\<rparr>,
      Metadata_Release = []\<rparr>"

type_synonym ocne_mapping = "(string, OCNEMetadata) go_map"

text \<open>Reading a key that is not in the map gives the zero value.\<close>

definition metadata_of :: "ocne_mapping \<Rightarrow> string \<Rightarrow> OCNEMetadata" where
  "metadata_of m k = (case map_of m k of None \<Rightarrow> zero_OCNEMetadata | Some meta \<Rightarrow> meta)"

definition defaultTigeraOperatorTag :: string where "defaultTigeraOperatorTag = ''v1.29.0''"
definition defaultCalicoTag :: string where "defaultCalicoTag = ''v3.25.0''"
definition minOCNEVersion :: string where "minOCNEVersion = ''v1.25.7''"
definition defaultModuleOperatorTag :: string where
  "defaultModuleOperatorTag = ''v0.1.0-20230613163219-eb4a2b94''"

definition k8s_ocne_version_maping :: "(string, string) go_map" where
  "k8s_ocne_version_maping =
     [(''v1.26.6'', ''1.7''), (''v1.25.11'', ''1.6''), (''v1.25.7'', ''1.6''), (''v1.24.8'', ''1.5''),
      (''v1.24.5'', ''1.5''), (''v1.23.14'', ''1.5''), (''v1.23.11'', ''1.5''), (''v1.23.7'', ''1.5''),
      (''v1.22.16'', ''1.5''), (''v1.22.14'', ''1.5''), (''v1.22.8'', ''1.5'')]"

definition isSupported :: "string \<Rightarrow> SemVersion \<Rightarrow> error + bool" where
  "isSupported version minVersion = map_sum id (\<lambda>v. IsGreaterThanOrEqualTo v minVersion) (NewSemVersion version)"

definition mapping_key :: "string \<Rightarrow> string" where
  "mapping_key version = (if hd version \<noteq> CHR ''v'' then CHR ''v'' # version else version)"

definition complete_metadata :: "string \<Rightarrow> OCNEMetadata \<Rightarrow> OCNEMetadata" where
  "complete_metadata version meta =
     (let i = Metadata_Images meta;
          i1 = (if Images_TigeraOperator i = [] then i\<lparr>Images_TigeraOperator := defaultTigeraOperatorTag\<rparr> else i);
          i2 = (if Images_Calico i1 = [] then i1\<lparr>Images_Calico := defaultCalicoTag\<rparr> else i1);
          i3 = (if Images_ModuleOperator i2 = [] then i2\<lparr>Images_ModuleOperator := defaultModuleOperatorTag\<rparr> else i2);
          meta1 = meta\<lparr>Metadata_Images := i3\<rparr>
      in if Metadata_Release meta1 = []
         then (case map_of k8s_ocne_version_maping version of
                 Some ocneVersion \<Rightarrow> meta1\<lparr>Metadata_Release := ocneVersion\<rparr>
               | None \<Rightarrow> meta1)
         else meta1)"

text \<open>The entries are visited in the order of the list; Go leaves the order open.\<close>

definition add_mapping :: "SemVersion \<Rightarrow> string \<times> OCNEMetadata \<Rightarrow> ocne_mapping \<Rightarrow> ocne_mapping" where
  "add_mapping minSupportedVersion vm result =
     (if isSupported (fst vm) minSupportedVersion = Inr True
      then AList.update (mapping_key (fst vm)) (complete_metadata (mapping_key (fst vm)) (snd vm)) result
      else result)"

definition buildMapping :: "ocne_mapping \<Rightarrow> error + ocne_mapping" where
  "buildMapping rawMapping =
     (case NewSemVersion minOCNEVersion of
        Inl err \<Rightarrow> Inl err
      | Inr minSupportedVersion \<Rightarrow> Inr (fold (add_mapping minSupportedVersion) rawMapping []))"

subsection \<open>The config map of the metadata\<close>

text \<open>
  The replies of the operating system, of the YAML package and of the API server, and what is written.
\<close>

record 'a meta_world =
  os_Stat :: "error option"
  os_ReadFile :: "error + string"
  yaml_Unmarshal :: "string \<Rightarrow> error + 'a"
  yaml_Marshal :: "'a \<Rightarrow> error + string"
  os_LookupEnv :: "string option" \<comment> \<open>\<open>POD_NAMESPACE\<close>\<close>
  getCoreV1Func :: "error option"
  configMap_Get :: "error option"
  configMap_Create :: "error option"
  configMap_Update :: "error option"

datatype cm_write =
    CreateConfigMapWrite string string "(string, string) go_map"
  | UpdateConfigMapWrite string string "(string, string) go_map"

definition write_configmap :: "('a, 'r) meta_world_scheme \<Rightarrow> string \<Rightarrow> (string, string) go_map \<Rightarrow> error option \<times> cm_write list" where
  "write_configmap w name cmData =
     (let namespace = (case os_LookupEnv w of None \<Rightarrow> ''default'' | Some ns \<Rightarrow> ns)
      in case getCoreV1Func w of
           Some err \<Rightarrow> (Some err, [])
         | None \<Rightarrow>
             (case configMap_Get w of
                Some getErr \<Rightarrow>
                  (if IsNotFound getErr then (configMap_Create w, [CreateConfigMapWrite namespace name cmData])
                   else (Some getErr, []))
              | None \<Rightarrow> (configMap_Update w, [UpdateConfigMapWrite namespace name cmData])))"

definition CreateOCNEMetadataConfigMap :: "(ocne_mapping, 'r) meta_world_scheme \<Rightarrow> error option \<times> cm_write list" where
  "CreateOCNEMetadataConfigMap w =
     (if os_Stat w \<noteq> None then (None, [])
      else case os_ReadFile w of
             Inl err \<Rightarrow> (Some err, [])
           | Inr data \<Rightarrow>
               (case yaml_Unmarshal w data of
                  Inl err \<Rightarrow> (Some err, [])
                | Inr rawMapping \<Rightarrow>
                    (case buildMapping rawMapping of
                       Inl err \<Rightarrow> (None, [])
                     | Inr mapping \<Rightarrow>
                         (case yaml_Marshal w mapping of
                            Inl err \<Rightarrow> (Some err, [])
                          | Inr mappingBytes \<Rightarrow>
                              write_configmap w ''ocne-metadata'' [(''mapping'', mappingBytes)]))))"

definition GetMetaDataContents :: "(ocne_mapping, 'r) meta_world_scheme \<Rightarrow> error + (string, string) go_map" where
  "GetMetaDataContents w =
     (case os_Stat w of
        Some err \<Rightarrow> Inl err
      | None \<Rightarrow>
     (case os_ReadFile w of
        Inl err \<Rightarrow> Inl err
      | Inr data \<Rightarrow>
     (case yaml_Unmarshal w data of
        Inl err \<Rightarrow> Inl err
      | Inr rawMapping \<Rightarrow>
     (case buildMapping rawMapping of
        Inl err \<Rightarrow> Inl err
      | Inr mapping \<Rightarrow>
          map_sum id (\<lambda>mappingBytes. [(''mapping'', mappingBytes)]) (yaml_Marshal w mapping)))))"

text \<open>The charts of the index file stand for themselves.\<close>

definition CreateModuleMetadataConfigMap :: "('a, 'r) meta_world_scheme \<Rightarrow> error option \<times> cm_write list" where
  "CreateModuleMetadataConfigMap w =
     (if os_Stat w \<noteq> None then (None, [])
      else case os_ReadFile w of
             Inl err \<Rightarrow> (Some err, [])
           | Inr data \<Rightarrow>
               (case yaml_Unmarshal w data of
                  Inl err \<Rightarrow> (Some err, [])
                | Inr entries \<Rightarrow>
                    (case yaml_Marshal w entries of
                       Inl err \<Rightarrow> (Some err, [])
                     | Inr chartBytes \<Rightarrow> write_configmap w ''module-metadata'' [(''entries'', chartBytes)])))"

text \<open>Where the metadata is read: \<open>namespace\<close> is the value of \<open>POD_NAMESPACE\<close>, empty when unset.\<close>

definition GetOCNEMetaNamespace :: "string \<Rightarrow> string" where
  "GetOCNEMetaNamespace namespace =
     (if namespace = ''capi-ocne-bootstrap-system'' then ''capi-ocne-control-plane-system'' else namespace)"

text \<open>The replies of the API server and of the YAML packages when the metadata is read.\<close>

record meta_reader =
  GetCoreV1Func :: "error option"
  metadata_Get :: "string \<Rightarrow> error + (string, string) go_map"
  apiyaml_ToJSON :: "string \<Rightarrow> error + string"
  Unmarshal_mapping :: "string \<Rightarrow> error + ocne_mapping"
  os_Getenv :: string \<comment> \<open>\<open>POD_NAMESPACE\<close>\<close>

definition GetOCNEMetadata :: "'r meta_reader_scheme \<Rightarrow> error + ocne_mapping" where
  "GetOCNEMetadata r =
     (case GetCoreV1Func r of
        Some err \<Rightarrow> Inl err
      | None \<Rightarrow>
     (case metadata_Get r (GetOCNEMetaNamespace (os_Getenv r)) of
        Inl err \<Rightarrow> Inl err
      | Inr cm_Data \<Rightarrow>
     (case apiyaml_ToJSON r (case map_of cm_Data ''mapping'' of None \<Rightarrow> [] | Some v \<Rightarrow> v) of
        Inl err \<Rightarrow> Inl err
      | Inr data \<Rightarrow> Unmarshal_mapping r data)))"

subsection \<open>Commands before the join\<close>

text \<open>
  The commands hold quotes and backslashes, written here as \<open>$\<close> (double quote), \<open>@\<close> (single quote) and
  \<open>~\<close> (backslash).
\<close>

definition shell :: "string \<Rightarrow> string" where
  "shell s = map (\<lambda>c. if c = CHR ''$'' then CHR 0x22 else if c = CHR ''@'' then CHR 0x27
     else if c = CHR ''~'' then CHR 0x5C else c) s"

record OCNEOverrideData =
  Override_KubernetesVersion :: string
  Override_OCNEImageRepository :: string
  Override_Proxy :: "ProxySpec option"
  Override_PodSubnet :: string
  Override_ServiceSubnet :: string
  Override_SkipInstall :: bool

definition K8sVersionOneTwoFiveSeven :: string where "K8sVersionOneTwoFiveSeven = ''v1.25.7''"

definition yumOrdnfProxyOverrides :: "ProxySpec \<Rightarrow> string list" where
  "yumOrdnfProxyOverrides proxy =
     [shell ''echo $proxy='' @ ProxySpec_HttpProxy proxy @
        shell ''$| sudo tee -a /etc/yum.conf'',
      shell ''echo $proxy='' @ ProxySpec_HttpProxy proxy @
        shell ''$| sudo tee -a /etc/dnf/dnf.conf'']"

definition crioProxyOverrides :: "ProxySpec \<Rightarrow> string \<Rightarrow> string \<Rightarrow> string list" where
  "crioProxyOverrides proxy podSubnet serviceSubnet =
     [shell (''mkdir -p /etc/systemd/system/crio.service.d && sudo touch '' @
          ''/etc/systemd/system/crio.service.d/proxy.conf''),
      shell ''echo -e $[Service]~nEnvironment=$HTTP_PROXY='' @ ProxySpec_HttpProxy proxy @
        shell ''$~nEnvironment=$HTTPS_PROXY='' @ ProxySpec_HttpsProxy proxy @
        shell ''$~nEnvironment=$NO_PROXY='' @ constructNoProxy (ProxySpec_NoProxy proxy) podSubnet serviceSubnet @
        shell ''$$| sudo tee /etc/systemd/system/crio.service.d/proxy.conf'']"

definition ocneBasicConfig :: "string list" where
  "ocneBasicConfig =
     [shell ''sudo dd iflag=direct if=/dev/oracleoci/oraclevda of=/dev/null count=1'',
      shell (''echo 1 | sudo tee /sys/class/block/`readlink /dev/oracleoci/oraclevda | cut -d@/@ -f '' @
          ''2`/device/rescan''),
      shell ''sudo /usr/libexec/oci-growfs -y'',
      shell ''sed -ri @/~sswap~s/s/^#?/#/@ /etc/fstab'',
      shell ''swapoff -a'',
      shell ''sudo modprobe overlay && sudo modprobe br_netfilter'',
      shell ''sudo sh -c @echo $br_netfilter$ > /etc/modules-load.d/br_netfilter.conf@'',
      shell ''sudo sh -c @echo -e $overlay~nbr_netfilter$ | sudo tee /etc/modules-load.d/k8s.conf@'',
      shell (''sudo sh -c @echo -e $net.bridge.bridge-nf-call-iptables  = 1~n'' @
          ''net.bridge.bridge-nf-call-ip6tables = 1~nnet.ipv4.ip_forward = 1$ | sudo tee '' @
          ''/etc/sysctl.d/k8s.conf@''),
      shell ''sudo sysctl --system'']"

definition ocneDependenciesInstall :: "string \<Rightarrow> OCNEMetadata \<Rightarrow> string list" where
  "ocneDependenciesInstall repository meta =
     [shell ''sudo dnf install -y oracle-olcne-release-el8'',
      shell (''sudo dnf config-manager --enable ol8_olcne17 ol8_olcne16 ol8_olcne15 ol8_addons '' @
          ''ol8_baseos_latest ol8_appstream ol8_UEKR6''),
      shell ''sudo dnf config-manager --disable ol8_olcne14 ol8_olcne13 ol8_olcne12 ol8_developer'',
      shell ''sudo dnf install -y kubelet-'' @ Packages_Kubelet (Metadata_Packages meta) @
        shell ''.el8 kubeadm-'' @ Packages_Kubeadm (Metadata_Packages meta) @
        shell ''.el8 kubectl-'' @ Packages_Kubectl (Metadata_Packages meta) @
        shell ''.el8 helm-'' @ Packages_Helm (Metadata_Packages meta) @
        shell ''.el8'',
      shell (''sudo dnf install -y oraclelinux-developer-release-el8 python36-oci-cli olcnectl '' @
          ''olcne-api-server olcne-utils''),
      shell ''sudo sh -c @echo -e $[ crio ]~n[ crio.api ]~n[ crio.image ]~npause_image = ~$'' @ repository @
        shell ''/pause:'' @ Images_Pause (Metadata_Images meta) @
        shell ''~$~npause_image_auth_file = ~$/run/containers/0/auth.json~$~nregistries = [~$docker.io~$, ~$'' @ repository @
        shell (''~$]~n[ crio.metrics ]~n[ crio.network ]~nplugin_dirs = [~$/opt/cni/bin~$]~n[crio.runtime]~n'' @
          ''cgroup_manager = ~$systemd~$~nconmon = ~$/usr/bin/conmon~$~nconmon_cgroup = ~$system.slice~$~n'' @
          ''manage_network_ns_lifecycle = true~nmanage_ns_lifecycle = true~nselinux = false~n[ '' @
          ''crio.runtime.runtimes ]~n[ crio.runtime.runtimes.kata ]~nruntime_path = '' @
          ''~$/usr/bin/kata-runtime~$~nruntime_type = ~$oci~$~n[ crio.runtime.runtimes.runc ]~n'' @
          ''allowed_annotations = [~$io.containers.trace-syscall~$]~nmonitor_cgroup = ~$system.slice~$~n'' @
          ''monitor_env = [~$PATH=/usr/local/sbin:/usr/local/bin:/usr/sbin:/usr/bin:/sbin:/bin~$]~n'' @
          ''monitor_exec_cgroup = ~$~$~nmonitor_path = ~$/usr/bin/conmon~$~n'' @
          ''privileged_without_host_devices = false~nruntime_config_path = ~$~$~nruntime_path = ~$~$~n'' @
          ''runtime_root = ~$/run/runc~$~nruntime_type = ~$oci~$~n[ crio.stats ]~n[ crio.tracing ]~n$| '' @
          ''sudo tee /etc/crio/crio.conf@'')]"

definition ocneServicesStart :: "string list" where
  "ocneServicesStart =
     [shell (''sudo rm -rf /etc/cni/net.d/100-crio-bridge.conf && sudo systemctl enable crio && sudo '' @
          ''systemctl restart crio && sudo systemctl enable kubelet''),
      shell ''sudo systemctl disable firewalld && sudo systemctl stop firewalld'',
      shell ''sudo echo $(allow iscsid_t self (capability (dac_override)))$ > /tmp/dac_override.cil'',
      shell ''sudo semodule -i /tmp/dac_override.cil'',
      shell ''sudo systemctl restart iscsid.service'',
      shell ''sudo rm -rf /tmp/dac_override.cil'']"

definition uses_proxy :: "OCNEOverrideData \<Rightarrow> ProxySpec option" where
  "uses_proxy userData =
     (case Override_Proxy userData of
        None \<Rightarrow> None
      | Some proxy \<Rightarrow>
          (if ProxySpec_HttpProxy proxy \<noteq> [] \<or> ProxySpec_HttpsProxy proxy \<noteq> [] then Some proxy else None))"

text \<open>The version of the data defaults to 1.25.7; a version without packages is refused.\<close>

definition GetOCNEOverrides :: "'r meta_reader_scheme \<Rightarrow> OCNEOverrideData \<Rightarrow> error + string list" where
  "GetOCNEOverrides r data =
     (let userData = (if Override_KubernetesVersion data = []
                      then data\<lparr>Override_KubernetesVersion := K8sVersionOneTwoFiveSeven\<rparr> else data)
      in case GetOCNEMetadata r of
           Inl err \<Rightarrow> Inl err
         | Inr ocneMeta \<Rightarrow>
             (let meta = metadata_of ocneMeta (Override_KubernetesVersion userData)
              in if Packages_Kubeadm (Metadata_Packages meta) = []
                 then Inl (Err (''k8s version '' @ Override_KubernetesVersion userData @ '' not supported with ocne provider.''))
                 else Inr
                   ((case uses_proxy userData of None \<Rightarrow> [] | Some proxy \<Rightarrow> yumOrdnfProxyOverrides proxy) @
                    ocneBasicConfig @
                    (if \<not> Override_SkipInstall userData
                     then ocneDependenciesInstall (Override_OCNEImageRepository userData) meta else []) @
                    (case uses_proxy userData of
                       None \<Rightarrow> []
                     | Some proxy \<Rightarrow>
                         crioProxyOverrides proxy (Override_PodSubnet userData) (Override_ServiceSubnet userData)) @
                    ocneServicesStart)))"

subsection \<open>Versions are printed and parsed back\<close>

lemma split_on_noteq_Nil [simp]: "split_on d s \<noteq> []"
  by (induction s) (auto split: list.split)

lemma split_on_plain: "d \<notin> set a \<Longrightarrow> split_on d a = [a]"
  by (induction a) auto

lemma split_on_append: "d \<notin> set a \<Longrightarrow> split_on d (a @ d # b) = a # split_on d b"
  by (induction a) auto

lemma split_on_set: "c \<in> set s \<Longrightarrow> c \<noteq> d \<Longrightarrow> \<exists>w\<in>set (split_on d s). c \<in> set w"
  by (induction s) (fastforce split: list.split)+

lemma cut_at_append: "d \<notin> set a \<Longrightarrow> cut_at d (a @ d # b) = (a, Some b)"
  by (auto simp: cut_at_def dropWhile_append takeWhile_append)

lemma cut_at_plain:
  assumes "d \<notin> set a"
  shows "cut_at d a = (a, None)"
proof -
  have none: "dropWhile (\<lambda>c. c \<noteq> d) a = []"
    using assms by (auto simp: dropWhile_eq_Nil_conv)
  show ?thesis
    unfolding cut_at_def none by simp
qed

definition wf_SemVersion :: "SemVersion \<Rightarrow> bool" where
  "wf_SemVersion v \<longleftrightarrow>
     list_all (\<lambda>n. 0 \<le> n \<and> n < 2 ^ 63) [Sem_Major v, Sem_Minor v, Sem_Patch v] \<and>
     (Sem_Prerelease v \<noteq> [] \<longrightarrow> list_all prerelease_identifier (split_on (CHR ''.'') (Sem_Prerelease v))) \<and>
     (Sem_Build v \<noteq> [] \<longrightarrow> list_all build_identifier (split_on (CHR ''.'') (Sem_Build v)))"

lemma prerelease_no_plus:
  assumes "list_all prerelease_identifier (split_on (CHR ''.'') p)"
  shows "CHR ''+'' \<notin> set p"
proof
  assume "CHR ''+'' \<in> set p"
  then obtain w where "w \<in> set (split_on (CHR ''.'') p)" "CHR ''+'' \<in> set w"
    using split_on_set [of "CHR ''+''" p "CHR ''.''"] by auto
  then have "identifier_char (CHR ''+'')"
    using assms by (auto simp: list_all_iff prerelease_identifier_def build_identifier_def)
  then show False
    by (simp add: identifier_char_def is_alnum_def is_digit_def)
qed

lemma show_nat_numeric: "numeric_identifier (show_nat n)"
  using show_nat_head [of n] show_nat_digits [of n]
  by (cases "n = 0") (auto simp: numeric_identifier_def show_nat_0 is_nonzero_digit_def)

lemma show_nat_plain: "\<not> is_digit c \<Longrightarrow> c \<notin> set (show_nat n)"
  using show_nat_digits [of n] by (auto simp: list_all_iff)

lemma match_core:
  fixes a b c :: nat
  defines "core \<equiv> show_nat a @ ''.'' @ show_nat b @ ''.'' @ show_nat c"
  shows "split_on (CHR ''.'') core = [show_nat a, show_nat b, show_nat c]"
    and "CHR ''-'' \<notin> set core" and "CHR ''+'' \<notin> set core"
  unfolding core_def
  by (simp_all add: split_on_append split_on_plain show_nat_plain is_digit_def)

lemma match_printed:
  fixes a b c :: nat
  defines "core \<equiv> show_nat a @ ''.'' @ show_nat b @ ''.'' @ show_nat c"
  assumes p: "p \<noteq> [] \<Longrightarrow> list_all prerelease_identifier (split_on (CHR ''.'') p)"
    and b: "bd \<noteq> [] \<Longrightarrow> list_all build_identifier (split_on (CHR ''.'') bd)"
  shows "match_semver (core @ (if p = [] then [] else ''-'' @ p) @ (if bd = [] then [] else ''+'' @ bd)) =
    Some (show_nat a, show_nat b, show_nat c, p, bd)"
proof -
  let ?front = "core @ (if p = [] then [] else ''-'' @ p)"
  note core = match_core [of a b c, folded core_def]
  have "CHR ''+'' \<notin> set ?front"
    using core(3) prerelease_no_plus [OF p] by auto
  then have plus: "cut_at (CHR ''+'') (?front @ (if bd = [] then [] else ''+'' @ bd)) =
      (?front, if bd = [] then None else Some bd)"
    using cut_at_append [of "CHR ''+''" ?front bd] cut_at_plain [of "CHR ''+''" ?front] by simp
  have minus: "cut_at (CHR ''-'') ?front = (core, if p = [] then None else Some p)"
    using cut_at_append [OF core(2), of p] cut_at_plain [OF core(2)] by simp
  show ?thesis
    using plus minus core(1) p b by (simp add: match_semver_def Let_def show_nat_numeric)
qed

text \<open>
  Parsing a printed version gives it back, for versions whose numbers are 63-bit naturals and whose
  prerelease and build are lists of identifiers.
\<close>

lemma NewSemVersion_roundtrip:
  assumes "wf_SemVersion v"
  shows "NewSemVersion (SemVersion_ToString v) = Inr v"
proof -
  define a b c where abc: "a = nat (Sem_Major v)" "b = nat (Sem_Minor v)" "c = nat (Sem_Patch v)"
  have n: "Sem_Major v = int a" "Sem_Minor v = int b" "Sem_Patch v = int c" "int a < 2 ^ 63" "int b < 2 ^ 63" "int c < 2 ^ 63"
    using assms by (simp_all add: abc wf_SemVersion_def nat_less_iff)
  let ?core = "show_nat a @ ''.'' @ show_nat b @ ''.'' @ show_nat c"
  let ?str = "?core @ (if Sem_Prerelease v = [] then [] else ''-'' @ Sem_Prerelease v) @
    (if Sem_Build v = [] then [] else ''+'' @ Sem_Build v)"
  have str: "SemVersion_ToString v = ?str"
    by (simp add: SemVersion_ToString_def Let_def n show_int_def)
  have digit: "is_digit (hd ?str)"
    using show_nat_digits [of a] by (cases "show_nat a") auto
  then have hd: "hd ?str \<noteq> CHR ''v''" "hd ?str \<noteq> CHR ''V''"
    by (auto simp: is_digit_def)
  have "match_semver ?str = Some (show_nat a, show_nat b, show_nat c, Sem_Prerelease v, Sem_Build v)"
    by (rule match_printed) (use assms in \<open>simp_all add: wf_SemVersion_def\<close>)
  then show ?thesis
    using digit hd n by (simp add: str NewSemVersion_def Let_def ParseInt_digits_def)
qed

lemma NewSemVersion_roundtrip_witness:
  "NewSemVersion (SemVersion_ToString \<lparr>Sem_Major = 1, Sem_Minor = 26, Sem_Patch = 6,
     Sem_Prerelease = ''rc.1'', Sem_Build = ''el8''\<rparr>) =
   Inr \<lparr>Sem_Major = 1, Sem_Minor = 26, Sem_Patch = 6, Sem_Prerelease = ''rc.1'', Sem_Build = ''el8''\<rparr>"
  by (rule NewSemVersion_roundtrip) code_simp

subsection \<open>Supported versions\<close>

text \<open>The comparison of releases is the order of their numbers; any difference after them counts as greater.\<close>

definition core_less :: "SemVersion \<Rightarrow> SemVersion \<Rightarrow> bool" where
  "core_less v w \<longleftrightarrow> Sem_Major v < Sem_Major w \<or> Sem_Major v = Sem_Major w \<and>
     (Sem_Minor v < Sem_Minor w \<or> Sem_Minor v = Sem_Minor w \<and> Sem_Patch v < Sem_Patch w)"

lemma CompareTo_greater:
  "IsGreatherThan v w \<longleftrightarrow> core_less w v \<or> \<not> core_less v w \<and> v \<noteq> w"
proof (cases "core_less v w \<or> core_less w v")
  case False
  then have "Sem_Major v = Sem_Major w" "Sem_Minor v = Sem_Minor w" "Sem_Patch v = Sem_Patch w"
    by (auto simp: core_less_def not_less)
  then show ?thesis
    using False
    by (cases v; cases w) (simp add: IsGreatherThan_def CompareTo_def compareVersion_def compareVersionSubstring_def)
qed (auto simp: IsGreatherThan_def CompareTo_def compareVersion_def core_less_def not_less)

lemma CompareTo_equal: "IsEqualTo v w \<longleftrightarrow> v = w"
  by (cases v; cases w) (auto simp: IsEqualTo_def CompareTo_def compareVersion_def compareVersionSubstring_def)

text \<open>
  The comparison is no order on versions with the same numbers: of two different ones each is
  greater than the other, so a prerelease or a build of a version counts as greater than the version
  and the version as greater than it. On versions with different numbers it is the order of the numbers.
\<close>

lemma CompareTo_not_antisymmetric:
  "(IsGreatherThan v w \<and> IsGreatherThan w v \<longleftrightarrow> \<not> core_less v w \<and> \<not> core_less w v \<and> v \<noteq> w) \<and>
   (IsLessThan v w \<longleftrightarrow> core_less v w)"
proof -
  have "IsLessThan v w \<longleftrightarrow> core_less v w"
    by (auto simp: IsLessThan_def CompareTo_def compareVersion_def compareVersionSubstring_def core_less_def not_less)
  moreover have "core_less v w \<Longrightarrow> \<not> core_less w v"
    by (auto simp: core_less_def)
  ultimately show ?thesis
    by (auto simp: CompareTo_greater)
qed

definition supported :: "string \<Rightarrow> bool" where
  "supported version \<longleftrightarrow>
     (\<exists>v. NewSemVersion version = Inr v \<and>
        \<not> core_less v \<lparr>Sem_Major = 1, Sem_Minor = 25, Sem_Patch = 7, Sem_Prerelease = [], Sem_Build = []\<rparr>)"

lemma min_version:
  "NewSemVersion minOCNEVersion =
     Inr \<lparr>Sem_Major = 1, Sem_Minor = 25, Sem_Patch = 7, Sem_Prerelease = [], Sem_Build = []\<rparr>"
  by code_simp

lemma isSupported_iff:
  "isSupported version \<lparr>Sem_Major = 1, Sem_Minor = 25, Sem_Patch = 7, Sem_Prerelease = [], Sem_Build = []\<rparr> = Inr True
     \<longleftrightarrow> supported version"
  by (cases "NewSemVersion version")
    (auto simp: isSupported_def supported_def IsGreaterThanOrEqualTo_def CompareTo_greater CompareTo_equal core_less_def)

lemma fold_mapping:
  fixes f :: "string \<Rightarrow> string"
  assumes "distinct (map (f \<circ> fst) (filter (\<lambda>vm. P (fst vm)) raw))"
  shows "map_of (fold (\<lambda>vm r. if P (fst vm) then AList.update (f (fst vm)) (g vm) r else r) raw acc) k =
    (case find (\<lambda>vm. P (fst vm) \<and> f (fst vm) = k) raw of Some vm \<Rightarrow> Some (g vm) | None \<Rightarrow> map_of acc k)"
  using assms
proof (induction raw arbitrary: acc)
  case (Cons vm raw)
  show ?case
  proof (cases "P (fst vm) \<and> f (fst vm) = k")
    case True
    then have "k \<notin> (f \<circ> fst) ` set (filter (\<lambda>vm. P (fst vm)) raw)"
      using Cons.prems by auto
    then have "find (\<lambda>vm. P (fst vm) \<and> f (fst vm) = k) raw = None"
      unfolding find_None_iff image_iff by auto
    then show ?thesis
      using True Cons by (simp add: update_conv')
  next
    case False
    then show ?thesis
      using Cons by (auto simp: update_conv' split: option.split)
  qed
qed simp

definition unambiguous :: "ocne_mapping \<Rightarrow> bool" where
  "unambiguous raw \<longleftrightarrow> distinct (map (mapping_key \<circ> fst) (filter (\<lambda>vm. supported (fst vm)) raw))"

text \<open>
  C37. The mapping built from the metadata file has exactly the supported versions (those whose numbers
  are at least 1.25.7), each under its key with the leading v and with its metadata completed; versions
  that do not parse are left out. This needs that no two supported versions of the file have the same
  key; otherwise Go's map order decides which of them is kept.
\<close>

theorem buildMapping_spec:
  assumes "unambiguous raw"
  shows "\<exists>m. buildMapping raw = Inr m \<and>
    (\<forall>k. map_of m k =
       map_option (\<lambda>vm. complete_metadata k (snd vm)) (find (\<lambda>vm. supported (fst vm) \<and> mapping_key (fst vm) = k) raw))"
proof -
  let ?min = "\<lparr>Sem_Major = 1, Sem_Minor = 25, Sem_Patch = 7, Sem_Prerelease = [], Sem_Build = []\<rparr>"
  have add: "add_mapping ?min = (\<lambda>vm r. if supported (fst vm)
      then AList.update (mapping_key (fst vm)) (complete_metadata (mapping_key (fst vm)) (snd vm)) r else r)"
    by (simp add: fun_eq_iff add_mapping_def isSupported_iff)
  have key: "find (\<lambda>vm. supported (fst vm) \<and> mapping_key (fst vm) = k) raw = Some vm \<Longrightarrow> mapping_key (fst vm) = k"
    for k and vm :: "string \<times> OCNEMetadata"
    by (auto simp: find_Some_iff)
  have "map_of (fold (add_mapping ?min) raw []) k =
      map_option (\<lambda>vm. complete_metadata k (snd vm)) (find (\<lambda>vm. supported (fst vm) \<and> mapping_key (fst vm) = k) raw)"
    for k
    unfolding add using fold_mapping [OF assms [unfolded unambiguous_def],
        of "\<lambda>vm. complete_metadata (mapping_key (fst vm)) (snd vm)" "[]" k] key [of k]
    by (cases "find (\<lambda>vm. supported (fst vm) \<and> mapping_key (fst vm) = k) raw") simp_all
  then show ?thesis
    by (simp add: buildMapping_def min_version)
qed

theorem buildMapping_spec_witness:
  "\<exists>m. buildMapping [(''1.26.6'', zero_OCNEMetadata)] = Inr m \<and>
     (\<forall>k. map_of m k =
        map_option (\<lambda>vm. complete_metadata k (snd vm))
          (find (\<lambda>vm. supported (fst vm) \<and> mapping_key (fst vm) = k) [(''1.26.6'', zero_OCNEMetadata)]))"
  by (rule buildMapping_spec) (simp add: unambiguous_def)

end
