(* ===== verification/CloudInit.thy ===== *)
theory CloudInit
  imports OcneMeta Certificates
begin

text \<open>
  The user data of a machine (\<open>bootstrap/ocne/internal/cloudinit\<close>). The Go templates are functions
  to strings, with the white space trimmed as their markers say: a template is a text whose lines are
  joined by newlines, where an optional part brings its own newline in front. A condition on a pointer
  tests that it is not nil, as in \<open>text/template\<close>, whatever it points to.
\<close>

subsection \<open>Text\<close>

definition newline :: string where "newline = [CHR 0x0A]"

text \<open>Lines of a template, each after a newline; \<open>shell\<close> writes the quotes.\<close>

definition block :: "string list \<Rightarrow> string" where
  "block ls = concat (map (\<lambda>l. newline @ shell l) ls)"

definition templateYAMLIndent :: "nat \<Rightarrow> string \<Rightarrow> string" where
  "templateYAMLIndent i input =
     replicate i (CHR '' '') @ strings_Join (newline @ replicate i (CHR '' '')) (split_on (CHR 0x0A) input)"

text \<open>The verb q of the package \<open>fmt\<close>; bytes beyond ASCII belong to printable characters.\<close>

definition hex_digit :: "nat \<Rightarrow> char" where
  "hex_digit n = (if n < 10 then char_of (48 + n) else char_of (87 + n))"

definition quote_char :: "char \<Rightarrow> string" where
  "quote_char c =
     (let n = of_char c :: nat
      in if c = CHR 0x22 \<or> c = CHR 0x5C then [CHR 0x5C, c]
         else if c = CHR 0x07 then [CHR 0x5C, CHR ''a'']
         else if c = CHR 0x08 then [CHR 0x5C, CHR ''b'']
         else if c = CHR 0x0C then [CHR 0x5C, CHR ''f'']
         else if c = CHR 0x0A then [CHR 0x5C, CHR ''n'']
         else if c = CHR 0x0D then [CHR 0x5C, CHR ''r'']
         else if c = CHR 0x09 then [CHR 0x5C, CHR ''t'']
         else if c = CHR 0x0B then [CHR 0x5C, CHR ''v'']
         else if n < 32 \<or> n = 127 then [CHR 0x5C, CHR ''x'', hex_digit (n div 16), hex_digit (n mod 16)]
         else [c])"

definition Quote :: "string \<Rightarrow> string" where
  "Quote s = [CHR 0x22] @ concat (map quote_char s) @ [CHR 0x22]"

definition show_bool :: "bool \<Rightarrow> string" where
  "show_bool b = (if b then ''true'' else ''false'')"

text \<open>A line that is written when the pointer is not nil.\<close>

definition when_set :: "string \<Rightarrow> ('a \<Rightarrow> string) \<Rightarrow> 'a option \<Rightarrow> string" where
  "when_set key show p = (case p of None \<Rightarrow> [] | Some x \<Rightarrow> newline @ key @ show x)"

definition list_items :: "string \<Rightarrow> string list \<Rightarrow> string" where
  "list_items mark xs = concat (map (\<lambda>x. newline @ mark @ x) xs)"

subsection \<open>The templates\<close>

text \<open>The entries of a file; each optional entry ends the line and indents the next one.\<close>

definition file_entry :: "string \<Rightarrow> string \<Rightarrow> string \<Rightarrow> string" where
  "file_entry key value quote =
     (if value = [] then [] else key @ quote @ value @ quote @ newline @ ''    '')"

definition fileTemplate :: "File \<Rightarrow> string" where
  "fileTemplate f =
     newline @ ''-   path: '' @ File_Path f @ newline @ ''    '' @
     file_entry ''encoding: '' (File_Encoding f) [CHR 0x22] @
     file_entry ''owner: '' (File_Owner f) [] @
     file_entry ''permissions: '' (File_Permissions f) [CHR 0x27] @
     (if File_Append f then ''append: true'' @ newline @ ''    '' else []) @
     ''content: |'' @ newline @ templateYAMLIndent 6 (File_Content f)"

definition filesTemplate :: "File list \<Rightarrow> string" where
  "filesTemplate files = ''write_files:'' @ concat (map fileTemplate files)"

definition commandsTemplate :: "string list \<Rightarrow> string" where
  "commandsTemplate commands = list_items ''  - '' (map Quote commands)"

definition ntpTemplate :: "NTP option \<Rightarrow> string" where
  "ntpTemplate ntp =
     (case ntp of
        None \<Rightarrow> []
      | Some n \<Rightarrow>
          newline @ ''ntp:'' @ newline @ ''  '' @
          (if NTP_Enabled n \<noteq> None then ''enabled: true'' @ newline @ ''  '' else []) @
          ''servers:'' @ list_items ''    - '' (items (NTP_Servers n)))"

definition userTemplate :: "User \<Rightarrow> string" where
  "userTemplate u =
     newline @ ''  - name: '' @ User_Name u @
     when_set ''    passwd: '' id (User_Passwd u) @
     when_set ''    gecos: '' id (User_Gecos u) @
     when_set ''    groups: '' id (User_Groups u) @
     when_set ''    homedir: '' id (User_HomeDir u) @
     when_set ''    inactive: true'' (\<lambda>_. []) (User_Inactive u) @
     when_set ''    lock_passwd: '' show_bool (User_LockPassword u) @
     when_set ''    shell: '' id (User_Shell u) @
     when_set ''    primary_group: '' id (User_PrimaryGroup u) @
     when_set ''    sudo: '' id (User_Sudo u) @
     (if items (User_SSHAuthorizedKeys u) = [] then []
      else newline @ ''    ssh_authorized_keys:'' @ list_items ''      - '' (items (User_SSHAuthorizedKeys u)))"

definition usersTemplate :: "User list \<Rightarrow> string" where
  "usersTemplate users =
     (if users = [] then [] else newline @ ''users:'' @ concat (map userTemplate users))"

definition partitionTemplate :: "Partition \<Rightarrow> string" where
  "partitionTemplate p =
     newline @ ''  '' @ Partition_Device p @ '':'' @
     when_set ''    table_type: '' id (Partition_TableType p) @
     newline @ ''    layout: '' @ show_bool (Partition_Layout p) @
     when_set ''    overwrite: '' show_bool (Partition_Overwrite p)"

definition diskSetupTemplate :: "DiskSetup option \<Rightarrow> string" where
  "diskSetupTemplate d =
     (case d of
        None \<Rightarrow> []
      | Some d \<Rightarrow> newline @ ''disk_setup:'' @ concat (map partitionTemplate (items (DiskSetup_Partitions d))))"

definition filesystemTemplate :: "Filesystem \<Rightarrow> string" where
  "filesystemTemplate f =
     newline @ ''  - label: '' @ Filesystem_Label f @
     newline @ ''    filesystem: '' @ Filesystem_Filesystem f @
     newline @ ''    device: '' @ Filesystem_Device f @
     when_set ''    partition: '' id (Filesystem_Partition f) @
     when_set ''    overwrite: '' show_bool (Filesystem_Overwrite f) @
     when_set ''    replace_fs: '' id (Filesystem_ReplaceFS f) @
     (if items (Filesystem_ExtraOpts f) = [] then []
      else newline @ ''    extra_opts:'' @ list_items ''      - '' (items (Filesystem_ExtraOpts f)))"

definition fsSetupTemplate :: "DiskSetup option \<Rightarrow> string" where
  "fsSetupTemplate d =
     (case d of
        None \<Rightarrow> []
      | Some d \<Rightarrow> newline @ ''fs_setup:'' @ concat (map filesystemTemplate (items (DiskSetup_Filesystems d))))"

definition mountTemplate :: "string list \<Rightarrow> string" where
  "mountTemplate points = newline @ ''  - '' @ concat (map (\<lambda>m. ''- '' @ m @ newline @ ''    '') points)"

definition mountsTemplate :: "string slice list \<Rightarrow> string" where
  "mountsTemplate mounts =
     (if mounts = [] then [] else newline @ ''mounts:'' @ concat (map (mountTemplate \<circ> items) mounts))"

subsection \<open>The script that joins with retries\<close>

text \<open>
  \<open>kubeadm-bootstrap-script.sh\<close>; a caret stands for a double quote and a percent sign for a single
  quote. The parts for control planes are in comments, which keep their lines.
\<close>

definition script_line :: "string \<Rightarrow> string" where
  "script_line l = map (\<lambda>c. if c = CHR ''^'' then CHR 0x22 else if c = CHR ''%'' then CHR 0x27 else c) l"

definition script_lines :: "string list \<Rightarrow> string" where
  "script_lines ls = concat (map (\<lambda>l. script_line l @ newline) ls)"

definition script_part :: "string \<Rightarrow> bool \<Rightarrow> string \<Rightarrow> string" where
  "script_part mark b body = mark @ newline @ (if b then body @ mark @ newline else [])"

text \<open>The line of the script that runs kubeadm.\<close>

definition script_run :: "string \<Rightarrow> string \<Rightarrow> string" where
  "script_run indent verbosity =
     script_line (indent @ ''^$@^ --config=/run/kubeadm/kubeadm-join-config.yaml '') @ verbosity @ newline"

definition kubeadmBootstrapScript :: "bool \<Rightarrow> string \<Rightarrow> string" where
  "kubeadmBootstrapScript controlPlane verbosity =
     script_lines
        [''#!/bin/bash'', ''# Copyright 2020 The Kubernetes Authors.'', ''#'',
         ''# Licensed under the Apache License, Version 2.0 (the ^License^);'',
         ''# you may not use this file except in compliance with the License.'',
         ''# You may obtain a copy of the License at'', ''#'',
         ''#     http://www.apache.org/licenses/LICENSE-2.0'', ''#'',
         ''# Unless required by applicable law or agreed to in writing, software'',
         ''# distributed under the License is distributed on an ^AS IS^ BASIS,'',
         ''# WITHOUT WARRANTIES OR CONDITIONS OF ANY KIND, either express or implied.'',
         ''# See the License for the specific language governing permissions and'',
         ''# limitations under the License.'', '''',
         ''# This file from the cluster-api community (https://github.com/kubernetes-sigs/cluster-api) has been modified by Oracle.'',
         '''', '''', ''# Log an error and exit.'', ''# Args:'', ''#   $1 Message to log with the error'',
         ''#   $2 The error code to return'', ''log::error_exit() {'', ''  local message=^${1}^'',
         ''  local code=^${2}^'', '''', ''  log::error ^${message}^''] @
     script_part ''  # '' controlPlane (script_lines
        [''  log::info ^Removing member from cluster status^'',
         ''  kubeadm reset -f update-cluster-status || true'', ''  log::info ^Removing etcd member^'',
         ''  kubeadm reset -f remove-etcd-member || true'']) @
     script_lines
        [''  log::info ^Resetting kubeadm^'', ''  kubeadm reset -f || true'',
         ''  log::error ^cluster.x-k8s.io kubeadm bootstrap script $0 exiting with status ${code}^'',
         ''  exit ^${code}^'', ''}'', '''', ''log::success_exit() {'',
         ''  log::info ^cluster.x-k8s.io kubeadm bootstrap script $0 finished^'', ''  exit 0'', ''}'', '''',
         ''# Log an error but keep going.'', ''log::error() {'', ''  local message=^${1}^'',
         ''  timestamp=$(date --iso-8601=seconds)'', ''  echo ^!!! [${timestamp}] ${1}^ >&2'', ''  shift'',
         ''  for message; do'', ''    echo ^    ${message}^ >&2'', ''  done'', ''}'', '''',
         ''# Print a status line.  Formatted to show up in a stream of output.'', ''log::info() {'',
         ''  timestamp=$(date --iso-8601=seconds)'', ''  echo ^+++ [${timestamp}] ${1}^'', ''  shift'',
         ''  for message; do'', ''    echo ^    ${message}^'', ''  done'', ''}'', '''',
         ''check_kubeadm_command() {'', ''  local command=^${1}^'', ''  local code=^${2}^'',
         ''  case ${code} in'', ''  ^0^)'',
         ''    log::info ^kubeadm reported successful execution for ${command}^'', ''    ;;'', ''  ^1^)'',
         ''    log::error ^kubeadm reported failed action(s) for ${command}^'', ''    ;;'', ''  ^2^)'',
         ''    log::error ^kubeadm reported preflight check error during ${command}^'', ''    ;;'', ''  ^3^)'',
         ''    log::error_exit ^kubeadm reported validation error for ${command}^ ^${code}^'', ''    ;;'',
         ''  *)'', ''    log::error ^kubeadm reported unknown error ${code} for ${command}^'', ''    ;;'',
         ''  esac'', ''}'', '''', ''function retry-command() {'', ''  n=0'', ''  local kubeadm_return'',
         ''  until [ $n -ge 5 ]; do'', ''    log::info ^running %$*%^'', ''    # shellcheck disable=SC1083''] @
     script_run ''    '' verbosity @
     script_lines
        [''    kubeadm_return=$?'', ''    check_kubeadm_command ^%$*%^ ^${kubeadm_return}^'',
         ''    if [ ${kubeadm_return} -eq 0 ]; then'', ''      break'', ''    fi'',
         ''    # We allow preflight errors to pass'', ''    if [ ${kubeadm_return} -eq 2 ]; then'',
         ''      break'', ''    fi'', ''    n=$((n + 1))'', ''    sleep 15'', ''  done'',
         ''  if [ ${kubeadm_return} -ne 0 ]; then'',
         ''    log::error_exit ^too many errors, exiting^ ^${kubeadm_return}^'', ''  fi'', ''}'', ''''] @
     script_part ''# '' controlPlane
       (script_lines
        [''function try-or-die-command() {'', ''  local kubeadm_return'', ''  log::info ^running %$*%^'',
         ''  # shellcheck disable=SC1083''] @
        script_run ''  '' verbosity @
        script_lines
        [''  kubeadm_return=$?'', ''  check_kubeadm_command ^%$*%^ ^${kubeadm_return}^'',
         ''  if [ ${kubeadm_return} -ne 0 ]; then'',
         ''    log::error_exit ^fatal error, exiting^ ^${kubeadm_return}^'', ''  fi'', ''}'']) @
     script_lines
        ['''',
         ''retry-command kubeadm join phase preflight --ignore-preflight-errors=DirAvailable--etc-kubernetes-manifests''] @
     script_part ''# '' controlPlane (script_lines
        [''retry-command kubeadm join phase control-plane-prepare download-certs'',
         ''retry-command kubeadm join phase control-plane-prepare certs'',
         ''retry-command kubeadm join phase control-plane-prepare kubeconfig'',
         ''retry-command kubeadm join phase control-plane-prepare control-plane'']) @
     script_lines
        [''retry-command kubeadm join phase kubelet-start''] @
     script_part ''# '' controlPlane (script_lines
        [''try-or-die-command kubeadm join phase control-plane-join etcd'',
         ''retry-command kubeadm join phase control-plane-join update-status'',
         ''retry-command kubeadm join phase control-plane-join mark-control-plane'']) @
     script_lines
        ['''', ''log::success_exit'']"

subsection \<open>User data\<close>

record BaseUserData =
  Header :: string
  PreOCNECommands :: "string slice"
  PostOCNECommands :: "string slice"
  OCNEOverrides :: "string list"
  AdditionalFiles :: "File list"
  WriteFiles :: "File list"
  Base_Users :: "User list"
  Base_NTP :: "NTP option"
  Base_DiskSetup :: "DiskSetup option"
  Base_Mounts :: "string slice slice"
  Base_ControlPlane :: bool
  UseExperimentalRetry :: bool
  OCNECommand :: string
  OCNEVerbosity :: string
  SentinelFileCommand :: string
  Base_KubernetesVersion :: string
  Base_OCNEImageRepository :: string
  Base_Proxy :: "ProxySpec option"
  Base_PodSubnet :: string
  Base_ServiceSubnet :: string
  KubeadmVerbosity :: string
  SkipInstall :: bool

record ControlPlaneInput = BaseUserData +
  Input_Certificates :: "Certificate list"
  Input_ClusterConfiguration :: string
  Input_InitConfiguration :: string

record ControlPlaneJoinInput = BaseUserData +
  Join_Certificates :: "Certificate list"
  Join_BootstrapToken :: string
  Join_JoinConfiguration :: string

record NodeInput = BaseUserData +
  Node_JoinConfiguration :: string

definition cloudConfigHeader :: string where
  "cloudConfigHeader = ''## template: jinja'' @ newline @ ''#cloud-config'' @ newline"

definition sentinelFileCommand :: string where
  "sentinelFileCommand = ''echo success > /run/cluster-api/bootstrap-success.complete''"

definition retriableJoinScriptName :: string where
  "retriableJoinScriptName = ''/usr/local/bin/kubeadm-bootstrap-script''"

definition override_data :: "'a BaseUserData_scheme \<Rightarrow> OCNEOverrideData" where
  "override_data input =
     \<lparr>Override_KubernetesVersion = Base_KubernetesVersion input,
      Override_OCNEImageRepository = Base_OCNEImageRepository input,
      Override_Proxy = Base_Proxy input, Override_PodSubnet = Base_PodSubnet input,
      Override_ServiceSubnet = Base_ServiceSubnet input, Override_SkipInstall = SkipInstall input\<rparr>"

definition generateBootstrapScript :: "'a BaseUserData_scheme \<Rightarrow> File" where
  "generateBootstrapScript input =
     \<lparr>File_Path = retriableJoinScriptName, File_Owner = ''root'', File_Permissions = ''0755'', File_Encoding = [],
      File_Append = False,
      File_Content = kubeadmBootstrapScript (Base_ControlPlane input) (KubeadmVerbosity input),
      File_ContentFrom = None\<rparr>"

definition prepare :: "'r meta_reader_scheme \<Rightarrow> 'a BaseUserData_scheme \<Rightarrow> error + 'a BaseUserData_scheme" where
  "prepare r input =
     (case GetOCNEOverrides r (override_data input) of
        Inl err \<Rightarrow> Inl err
      | Inr ocneCommands \<Rightarrow>
          (let input1 = input
                 \<lparr>OCNEOverrides := ocneCommands,
                  Header := cloudConfigHeader,
                  WriteFiles := WriteFiles input @ AdditionalFiles input,
                  OCNECommand := ''kubeadm join --config /run/kubeadm/kubeadm-join-config.yaml '' @ OCNEVerbosity input\<rparr>;
               input2 = (if UseExperimentalRetry input
                 then input1\<lparr>OCNECommand := retriableJoinScriptName,
                             WriteFiles := WriteFiles input1 @ [generateBootstrapScript input1]\<rparr>
                 else input1)
           in Inr (input2\<lparr>SentinelFileCommand := sentinelFileCommand\<rparr>)))"

text \<open>
  The three documents differ in the files of kubeadm and in the command that runs it. Parsing and
  executing the templates does not fail.
\<close>

definition placeholder :: string where
  "placeholder = block
     [''-   path: /run/cluster-api/placeholder'', ''    owner: root:root'', ''    permissions: @0640@'',
      ''    content: $This placeholder file is used to create the /run/cluster-api sub directory in a way that is compatible with both Linux and Windows (mkdir -p /run/cluster-api does not work with Windows)$'']"

definition user_data :: "'a BaseUserData_scheme \<Rightarrow> string \<Rightarrow> string \<Rightarrow> string" where
  "user_data input entries command =
     Header input @ newline @ filesTemplate (WriteFiles input) @ entries @ placeholder @
     newline @ ''runcmd:'' @
     commandsTemplate (OCNEOverrides input) @
     commandsTemplate (items (PreOCNECommands input)) @
     newline @ ''  - '' @ command @
     commandsTemplate (items (PostOCNECommands input)) @
     ntpTemplate (Base_NTP input) @ usersTemplate (Base_Users input) @
     diskSetupTemplate (Base_DiskSetup input) @ fsSetupTemplate (Base_DiskSetup input) @
     mountsTemplate (items (Base_Mounts input)) @ newline"

definition controlPlaneCloudInit :: "'a ControlPlaneInput_scheme \<Rightarrow> string" where
  "controlPlaneCloudInit input =
     user_data input
       (block [''-   path: /run/kubeadm/kubeadm.yaml'', ''    owner: root:root'', ''    permissions: @0640@'',
               ''    content: |'', ''      ---''] @
        newline @ templateYAMLIndent 6 (Input_ClusterConfiguration input) @
        block [''      ---''] @
        newline @ templateYAMLIndent 6 (Input_InitConfiguration input))
       (shell ''@kubeadm init --config /run/kubeadm/kubeadm.yaml '' @ OCNEVerbosity input @ '' && '' @
        SentinelFileCommand input @ shell ''@'')"

definition NewInitControlPlane :: "'r meta_reader_scheme \<Rightarrow> 'a ControlPlaneInput_scheme \<Rightarrow> error + string" where
  "NewInitControlPlane r input =
     (case GetOCNEOverrides r (override_data input) of
        Inl err \<Rightarrow> Inl err
      | Inr ocneCommands \<Rightarrow>
          (case Certificates_AsFiles (Input_Certificates input) of
             Inl err \<Rightarrow> Inl err
           | Inr files \<Rightarrow>
               Inr (controlPlaneCloudInit
                 (input\<lparr>OCNEOverrides := ocneCommands, Header := cloudConfigHeader,
                        WriteFiles := files @ AdditionalFiles input, SentinelFileCommand := sentinelFileCommand\<rparr>))))"

definition join_entries :: "string list \<Rightarrow> string \<Rightarrow> string" where
  "join_entries mark config =
     block ([''-   path: /run/kubeadm/kubeadm-join-config.yaml'', ''    owner: root:root'',
             ''    permissions: @0640@'', ''    content: |''] @ mark) @
     newline @ templateYAMLIndent 6 config"

definition join_command :: "'a BaseUserData_scheme \<Rightarrow> string" where
  "join_command input = OCNECommand input @ '' && '' @ SentinelFileCommand input"

definition controlPlaneJoinCloudInit :: "'a ControlPlaneJoinInput_scheme \<Rightarrow> string" where
  "controlPlaneJoinCloudInit input =
     user_data input (join_entries [] (Join_JoinConfiguration input)) (join_command input)"

text \<open>The commands are determined twice, with a reading of the metadata each time.\<close>

definition NewJoinControlPlane ::
  "'r meta_reader_scheme \<Rightarrow> 'r meta_reader_scheme \<Rightarrow> 'a ControlPlaneJoinInput_scheme \<Rightarrow> error + string" where
  "NewJoinControlPlane r r' input =
     (case GetOCNEOverrides r (override_data input) of
        Inl err \<Rightarrow> Inl err
      | Inr ocneCommands \<Rightarrow>
          (case Certificates_AsFiles (Join_Certificates input) of
             Inl err \<Rightarrow> Inl err
           | Inr files \<Rightarrow>
               map_sum id controlPlaneJoinCloudInit
                 (prepare r' (input\<lparr>OCNEOverrides := ocneCommands, WriteFiles := files, Base_ControlPlane := True\<rparr>))))"

definition nodeCloudInit :: "'a NodeInput_scheme \<Rightarrow> string" where
  "nodeCloudInit input =
     user_data input (join_entries [''      ---''] (Node_JoinConfiguration input)) (join_command input)"

definition NewNode :: "'r meta_reader_scheme \<Rightarrow> 'a NodeInput_scheme \<Rightarrow> error + string" where
  "NewNode r input =
     map_sum id (\<lambda>input. nodeCloudInit (input\<lparr>Header := cloudConfigHeader\<rparr>)) (prepare r input)"

subsection \<open>Lines\<close>

definition top_line :: "string \<Rightarrow> bool" where
  "top_line l \<longleftrightarrow> l = [] \<or> hd l \<noteq> CHR '' ''"

text \<open>The lines of a document that are not indented.\<close>

definition top_lines :: "string \<Rightarrow> string list" where
  "top_lines s = filter top_line (split_on (CHR 0x0A) s)"

definition plain :: "string \<Rightarrow> bool" where
  "plain s \<longleftrightarrow> CHR 0x0A \<notin> set s"

text \<open>Appending the segment to a document adds these lines to those that are not indented.\<close>

definition adds_lines :: "string \<Rightarrow> string list \<Rightarrow> bool" where
  "adds_lines seg T \<longleftrightarrow> (\<forall>s. top_lines (s @ seg) = top_lines s @ T)"

lemma plain_simps [simp]:
  "plain []" "plain (c # s) \<longleftrightarrow> c \<noteq> CHR 0x0A \<and> plain s" "plain (s @ t) \<longleftrightarrow> plain s \<and> plain t"
  by (auto simp: plain_def)

lemma plain_concat [simp]: "plain (concat ss) \<longleftrightarrow> list_all plain ss"
  by (induction ss) auto

lemma split_on_sep: "split_on d (s @ d # t) = split_on d s @ split_on d t"
  by (induction s) (auto split: list.split)

lemma top_lines_newline: "top_lines (s @ newline @ t) = top_lines s @ top_lines t"
  by (simp add: top_lines_def newline_def split_on_sep)

lemma top_lines_plain: "plain s \<Longrightarrow> top_lines s = (if top_line s then [s] else [])"
  by (simp add: top_lines_def plain_def split_on_plain)

lemma adds_Nil: "adds_lines [] []"
  by (simp add: adds_lines_def)

lemma adds_append: "adds_lines a S \<Longrightarrow> adds_lines b T \<Longrightarrow> adds_lines (a @ b) (S @ T)"
  by (simp add: adds_lines_def flip: append_assoc)

lemma adds_silent: "adds_lines a [] \<Longrightarrow> adds_lines b T \<Longrightarrow> adds_lines (a @ b) T"
  using adds_append [of a "[]" b T] by simp

lemma adds_newline: "top_lines l = T \<Longrightarrow> adds_lines (newline @ l) T"
  by (simp add: adds_lines_def top_lines_newline)

lemma adds_concat:
  assumes "\<And>x. x \<in> set xs \<Longrightarrow> adds_lines (f x) (g x)"
  shows "adds_lines (concat (map f xs)) (concat (map g xs))"
  using assms by (induction xs) (auto simp: adds_Nil adds_append)

lemma adds_concat_silent:
  assumes "\<And>x. x \<in> set xs \<Longrightarrow> adds_lines (f x) []"
  shows "adds_lines (concat (map f xs)) []"
  using assms by (induction xs) (auto intro: adds_Nil adds_silent)

text \<open>A line at the margin and an indented one, before more lines.\<close>

lemma adds_top:
  assumes "plain l" "top_line l" "adds_lines rest T"
  shows "adds_lines (newline @ l @ rest) (l # T)"
  using adds_append [OF adds_newline [of l "[l]"] assms(3)] assms(1,2) by (simp add: top_lines_plain)

lemma adds_indented:
  assumes "plain l" "adds_lines rest T"
  shows "adds_lines (newline @ CHR '' '' # l @ rest) T"
  using adds_append [OF adds_newline [of "CHR '' '' # l" "[]"] assms(2)] assms(1)
  by (simp add: top_lines_plain top_line_def)

lemma adds_indented2:
  assumes "plain l" "plain m" "adds_lines rest T"
  shows "adds_lines (newline @ CHR '' '' # l @ m @ rest) T"
  using adds_indented [of "l @ m" rest T] assms by simp

lemma adds_last:
  assumes "plain l"
  shows "adds_lines (newline @ CHR '' '' # l) []"
  using adds_indented [OF assms adds_Nil] by simp

lemma adds_when_set:
  assumes "\<And>x. p = Some x \<Longrightarrow> plain (show x)" "plain key"
  shows "adds_lines (when_set (CHR '' '' # key) show p) []"
  using assms by (auto simp: when_set_def adds_Nil split: option.split intro: adds_last)

lemma adds_list_items:
  assumes "list_all plain xs" "plain mark"
  shows "adds_lines (list_items (CHR '' '' # mark) xs) []"
  unfolding list_items_def
  by (rule adds_concat_silent) (use assms in \<open>auto simp: list_all_iff intro!: adds_last [of "mark @ _", simplified]\<close>)

lemma plain_show_bool [simp]: "plain (show_bool b)"
  by (simp add: show_bool_def)

lemma Join_spaces:
  "top_lines (CHR '' '' # a @ strings_Join (newline @ CHR '' '' # a) ls) = []"
  if "plain a" "list_all plain ls"
  using that
proof (induction "newline @ CHR '' '' # a" ls rule: strings_Join.induct)
  case 1
  then show ?case by (simp add: top_lines_plain top_line_def)
next
  case (2 x)
  then show ?case by (simp add: top_lines_plain top_line_def)
next
  case (3 x y ys)
  have "top_lines ((CHR '' '' # a @ x) @ newline @ (CHR '' '' # a @ strings_Join (newline @ CHR '' '' # a) (y # ys))) = []"
    unfolding top_lines_newline using 3 by (simp add: top_lines_plain top_line_def)
  then show ?case by simp
qed

lemma split_on_no_sep: "w \<in> set (split_on d s) \<Longrightarrow> d \<notin> set w"
  by (induction s arbitrary: w) (auto split: list.splits if_splits)

lemma top_lines_Indent: "top_lines (templateYAMLIndent (Suc i) s) = []"
proof -
  have "plain (replicate i (CHR '' ''))"
    by (induction i) auto
  moreover have "list_all plain (split_on (CHR 0x0A) s)"
    by (auto simp: list_all_iff plain_def split_on_no_sep)
  ultimately show ?thesis
    using Join_spaces by (simp add: templateYAMLIndent_def)
qed

lemma adds_Indent: "adds_lines (newline @ templateYAMLIndent 6 s) []"
  using adds_newline [OF top_lines_Indent [of 5 s]] by (simp add: eval_nat_numeral)

lemma plain_quote_char: "plain (quote_char c)"
proof -
  have hex: "hex_digit k \<noteq> CHR 0x0A" if "k < 16" for k
  proof
    assume "hex_digit k = CHR 0x0A"
    then have "(of_char (hex_digit k) :: nat) = 10"
      by simp
    then show False
      using that by (auto simp: hex_digit_def split: if_splits)
  qed
  have "(of_char c :: nat) < 256"
    using of_char_mod_256 [of c, where ?'a = nat] mod_less_divisor [of 256 "of_char c"] by linarith
  then have "(of_char c :: nat) div 16 < 16"
    by (intro less_mult_imp_div_less) simp
  then show ?thesis
    using hex by (simp add: quote_char_def Let_def)
qed

lemma plain_Quote: "plain (Quote s)"
  by (simp add: Quote_def list_all_iff plain_quote_char)

subsection \<open>What is not indented in user data\<close>

text \<open>The values that the templates insert as they are have no newline.\<close>

definition plain_option :: "string option \<Rightarrow> bool" where
  "plain_option p \<longleftrightarrow> (case p of None \<Rightarrow> True | Some s \<Rightarrow> plain s)"

definition plain_file :: "File \<Rightarrow> bool" where
  "plain_file f \<longleftrightarrow> list_all plain [File_Path f, File_Encoding f, File_Owner f, File_Permissions f]"

definition plain_user :: "User \<Rightarrow> bool" where
  "plain_user u \<longleftrightarrow> plain (User_Name u) \<and>
     list_all plain_option [User_Passwd u, User_Gecos u, User_Groups u, User_HomeDir u, User_Shell u,
       User_PrimaryGroup u, User_Sudo u] \<and> list_all plain (items (User_SSHAuthorizedKeys u))"

definition plain_partition :: "Partition \<Rightarrow> bool" where
  "plain_partition p \<longleftrightarrow> plain (Partition_Device p) \<and> plain_option (Partition_TableType p)"

definition plain_filesystem :: "Filesystem \<Rightarrow> bool" where
  "plain_filesystem f \<longleftrightarrow>
     list_all plain [Filesystem_Label f, Filesystem_Filesystem f, Filesystem_Device f] \<and>
     list_all plain_option [Filesystem_Partition f, Filesystem_ReplaceFS f] \<and>
     list_all plain (items (Filesystem_ExtraOpts f))"

definition plain_base :: "'a BaseUserData_scheme \<Rightarrow> bool" where
  "plain_base input \<longleftrightarrow>
     list_all plain_file (AdditionalFiles input) \<and> list_all plain_user (Base_Users input) \<and>
     (case Base_NTP input of None \<Rightarrow> True | Some n \<Rightarrow> list_all plain (items (NTP_Servers n))) \<and>
     (case Base_DiskSetup input of
        None \<Rightarrow> True
      | Some d \<Rightarrow> list_all plain_partition (items (DiskSetup_Partitions d)) \<and>
          list_all plain_filesystem (items (DiskSetup_Filesystems d))) \<and>
     list_all (\<lambda>m. list_all plain (items m)) (items (Base_Mounts input)) \<and> plain (OCNEVerbosity input)"

lemma plain_option_simps [simp]: "plain_option None" "plain_option (Some s) \<longleftrightarrow> plain s"
  by (simp_all add: plain_option_def)

lemma adds_option:
  "plain_option p \<Longrightarrow> plain key \<Longrightarrow> adds_lines (when_set (CHR '' '' # key) id p) []"
  by (rule adds_when_set) auto

lemma adds_key:
  assumes "\<not> top_line key" "plain key" "plain m" "adds_lines rest T"
  shows "adds_lines (newline @ key @ m @ rest) T"
  using adds_indented [of "tl key @ m" rest T] assms by (cases key) (auto simp: top_line_def)

lemma adds_option_then:
  "plain_option p \<Longrightarrow> plain key \<Longrightarrow> adds_lines rest T \<Longrightarrow> adds_lines (when_set (CHR '' '' # key) id p @ rest) T"
  by (rule adds_silent [OF adds_option])

lemma adds_show_then:
  "(\<And>x. plain (show x)) \<Longrightarrow> plain key \<Longrightarrow> adds_lines rest T \<Longrightarrow>
    adds_lines (when_set (CHR '' '' # key) show p @ rest) T"
  by (rule adds_silent [OF adds_when_set])

lemma adds_optional_items:
  assumes "list_all plain xs" "plain key" "plain mark" "\<not> top_line key"
  shows "adds_lines (if xs = [] then [] else newline @ key @ list_items (CHR '' '' # mark) xs) []"
  using adds_key [OF assms(4,2), of "[]"] adds_list_items [OF assms(1,3)] by (simp add: adds_Nil)

lemma adds_file_entry:
  assumes "adds_lines (newline @ ''    '' @ rest) T" "plain (key @ quote @ value)"
  shows "adds_lines (newline @ ''    '' @ file_entry key value quote @ rest) T"
  using assms adds_indented [of "''   '' @ key @ quote @ value @ quote" "newline @ ''    '' @ rest" T]
  by (simp add: file_entry_def)

lemma adds_file:
  assumes "plain_file f"
  shows "adds_lines (fileTemplate f) [''-   path: '' @ File_Path f]"
proof -
  let ?content = "''content: |'' @ newline @ templateYAMLIndent 6 (File_Content f)"
  have "adds_lines (newline @ ''    '' @ ?content) []"
    using adds_indented [OF _ adds_Indent, of "''   content: |''" "File_Content f"] by simp
  then have "adds_lines (newline @ ''    '' @ (if File_Append f then ''append: true'' @ newline @ ''    '' else []) @ ?content) []"
    using adds_indented [of "''   append: true''" "newline @ ''    '' @ ?content" "[]"] by simp
  then have "adds_lines (newline @ ''    '' @ file_entry ''encoding: '' (File_Encoding f) [CHR 0x22] @
      file_entry ''owner: '' (File_Owner f) [] @ file_entry ''permissions: '' (File_Permissions f) [CHR 0x27] @
      (if File_Append f then ''append: true'' @ newline @ ''    '' else []) @ ?content) []"
    by (intro adds_file_entry) (use assms in \<open>simp_all add: plain_file_def\<close>)
  then show ?thesis
    unfolding fileTemplate_def
    using adds_top [of "''-   path: '' @ File_Path f" _ "[]"] assms
    by (simp add: plain_file_def top_line_def)
qed

lemma adds_commands: "adds_lines (commandsTemplate cs) []"
  using adds_list_items [of "map Quote cs" "'' - ''"]
  by (simp add: commandsTemplate_def list_all_iff plain_Quote)

lemma adds_user: "plain_user u \<Longrightarrow> adds_lines (userTemplate u) []"
  unfolding userTemplate_def plain_user_def
  by (intro adds_key adds_option_then adds_show_then adds_optional_items) (auto simp: top_line_def)

lemma adds_partition:
  assumes "plain_partition p"
  shows "adds_lines (partitionTemplate p) []"
proof -
  have "adds_lines
     (when_set ''    table_type: '' id (Partition_TableType p) @
      newline @ ''    layout: '' @ show_bool (Partition_Layout p) @
      when_set ''    overwrite: '' show_bool (Partition_Overwrite p)) []"
    using assms unfolding plain_partition_def
    by (intro adds_option_then adds_key adds_when_set) (auto simp: top_line_def)
  then show ?thesis
    using adds_indented [of "'' '' @ Partition_Device p @ '':''"] assms
    by (simp add: partitionTemplate_def plain_partition_def)
qed

lemma adds_filesystem: "plain_filesystem f \<Longrightarrow> adds_lines (filesystemTemplate f) []"
  unfolding filesystemTemplate_def plain_filesystem_def
  by (intro adds_key adds_option_then adds_show_then adds_optional_items) (auto simp: top_line_def)

lemma adds_mount: "list_all plain m \<Longrightarrow> adds_lines (mountTemplate m) []"
proof -
  assume m: "list_all plain m"
  have "adds_lines (newline @ CHR '' '' # l @ concat (map (\<lambda>m. ''- '' @ m @ newline @ ''    '') m)) []"
    if "plain l" for l
    using that m
  proof (induction m arbitrary: l)
    case (Cons x m)
    then show ?case
      using adds_indented [of "l @ ''- '' @ x" "newline @ ''    '' @ concat (map (\<lambda>m. ''- '' @ m @ newline @ ''    '') m)" "[]"]
        Cons.IH [of "''   ''"] by simp
  qed (simp add: adds_last)
  from this [of "'' - ''"] show ?thesis
    by (simp add: mountTemplate_def)
qed

text \<open>The lines that are not indented, of user data with these files and with this file of kubeadm.\<close>

definition document_lines :: "File list \<Rightarrow> string \<Rightarrow> 'a BaseUserData_scheme \<Rightarrow> string list" where
  "document_lines files kubeadm_file input =
     [''## template: jinja'', ''#cloud-config'', [], ''write_files:''] @
     map (\<lambda>f. ''-   path: '' @ File_Path f) files @
     [kubeadm_file, ''-   path: /run/cluster-api/placeholder'', ''runcmd:''] @
     (if Base_NTP input = None then [] else [''ntp:'']) @
     (if Base_Users input = [] then [] else [''users:'']) @
     (if Base_DiskSetup input = None then [] else [''disk_setup:'', ''fs_setup:'']) @
     (if items (Base_Mounts input) = [] then [] else [''mounts:'']) @ [[]]"

lemma adds_ntp:
  assumes "case ntp of None \<Rightarrow> True | Some n \<Rightarrow> list_all plain (items (NTP_Servers n))"
  shows "adds_lines (ntpTemplate ntp) (if ntp = None then [] else [''ntp:''])"
proof (cases ntp)
  case (Some n)
  let ?servers = "list_items ''    - '' (items (NTP_Servers n))"
  have "adds_lines (newline @ ''  '' @ (''servers:'' @ ?servers)) []"
    using adds_indented [of "'' servers:''" ?servers "[]"] adds_list_items [of "items (NTP_Servers n)" "''   - ''"] assms Some
    by simp
  then have "adds_lines (newline @ ''  '' @
      (if NTP_Enabled n \<noteq> None then ''enabled: true'' @ newline @ ''  '' else []) @ ''servers:'' @ ?servers) []"
    using adds_indented [of "'' enabled: true''" "newline @ ''  '' @ ''servers:'' @ ?servers" "[]"] by simp
  then show ?thesis
    using adds_top [of "''ntp:''" _ "[]"] Some by (simp add: ntpTemplate_def top_line_def)
qed (simp add: ntpTemplate_def adds_Nil)

lemma adds_section:
  assumes "plain key" "top_line key" "\<And>x. x \<in> set xs \<Longrightarrow> adds_lines (f x) []"
  shows "adds_lines (newline @ key @ concat (map f xs)) [key]"
  using adds_top [OF assms(1,2) adds_concat_silent [of xs f]] assms(3) by simp

lemma adds_user_sections:
  assumes "plain_base input"
  shows "adds_lines (usersTemplate (Base_Users input)) (if Base_Users input = [] then [] else [''users:''])"
    and "adds_lines (diskSetupTemplate (Base_DiskSetup input) @ fsSetupTemplate (Base_DiskSetup input))
      (if Base_DiskSetup input = None then [] else [''disk_setup:'', ''fs_setup:''])"
    and "adds_lines (mountsTemplate (items (Base_Mounts input))) (if items (Base_Mounts input) = [] then [] else [''mounts:''])"
proof -
  show "adds_lines (usersTemplate (Base_Users input)) (if Base_Users input = [] then [] else [''users:''])"
    using adds_section [of "''users:''" "Base_Users input" userTemplate] assms
    by (auto simp: usersTemplate_def adds_Nil plain_base_def list_all_iff top_line_def adds_user)
  have "adds_lines (diskSetupTemplate (Some d) @ fsSetupTemplate (Some d)) ([''disk_setup:''] @ [''fs_setup:''])"
    if "Base_DiskSetup input = Some d" for d
    unfolding diskSetupTemplate_def fsSetupTemplate_def option.case
    by (intro adds_append adds_section)
      (use assms that in \<open>auto simp: plain_base_def list_all_iff top_line_def adds_partition adds_filesystem\<close>)
  then show "adds_lines (diskSetupTemplate (Base_DiskSetup input) @ fsSetupTemplate (Base_DiskSetup input))
      (if Base_DiskSetup input = None then [] else [''disk_setup:'', ''fs_setup:''])"
    by (cases "Base_DiskSetup input") (auto simp: diskSetupTemplate_def fsSetupTemplate_def adds_Nil)
  show "adds_lines (mountsTemplate (items (Base_Mounts input))) (if items (Base_Mounts input) = [] then [] else [''mounts:''])"
    using adds_section [of "''mounts:''" "items (Base_Mounts input)" "mountTemplate \<circ> items"] assms
    by (auto simp: mountsTemplate_def adds_Nil plain_base_def list_all_iff top_line_def adds_mount)
qed

lemma adds_block:
  assumes "list_all plain (map shell ls)" "filter top_line (map shell ls) = T"
  shows "adds_lines (block ls) T"
  using assms
proof (induction ls arbitrary: T)
  case (Cons l ls)
  have "adds_lines (newline @ shell l) (if top_line (shell l) then [shell l] else [])"
    using Cons.prems by (auto intro!: adds_newline simp: top_lines_plain)
  from adds_append [OF this Cons.IH [OF _ refl]] show ?case
    using Cons.prems by (auto simp: block_def)
qed (simp add: block_def adds_Nil)

lemma adds_placeholder: "adds_lines placeholder [''-   path: /run/cluster-api/placeholder'']"
  unfolding placeholder_def by (rule adds_block) (simp_all add: shell_def top_line_def)

lemma adds_files:
  assumes "list_all plain_file files"
  shows "adds_lines (newline @ filesTemplate files) (''write_files:'' # map (\<lambda>f. ''-   path: '' @ File_Path f) files)"
proof -
  have "adds_lines (concat (map fileTemplate files)) (concat (map (\<lambda>f. [''-   path: '' @ File_Path f]) files))"
    by (intro adds_concat adds_file) (use assms in \<open>simp add: list_all_iff\<close>)
  then have "adds_lines (concat (map fileTemplate files)) (map (\<lambda>f. ''-   path: '' @ File_Path f) files)"
    by simp
  from adds_top [OF _ _ this, of "''write_files:''"] show ?thesis
    by (simp add: filesTemplate_def top_line_def)
qed

lemma adds_runcmd:
  assumes "plain command"
  shows "adds_lines (newline @ ''runcmd:'' @ commandsTemplate a @ commandsTemplate b @
    newline @ ''  - '' @ command @ commandsTemplate c) [''runcmd:'']"
proof -
  have "adds_lines (newline @ ''  - '' @ command @ commandsTemplate c) []"
    by (rule adds_key) (use assms in \<open>auto simp: top_line_def adds_commands\<close>)
  then have "adds_lines (commandsTemplate a @ commandsTemplate b @ newline @ ''  - '' @ command @ commandsTemplate c) []"
    by (intro adds_silent [OF adds_commands])
  then show ?thesis
    using adds_top [of "''runcmd:''"] by (simp add: top_line_def)
qed

lemma user_data_lines:
  assumes "Header input = cloudConfigHeader" "list_all plain_file (WriteFiles input)" "plain_base input"
    and "adds_lines entries [path]" "plain command"
  shows "top_lines (user_data input entries command) = document_lines (WriteFiles input) path input"
proof -
  have ntp: "adds_lines (ntpTemplate (Base_NTP input)) (if Base_NTP input = None then [] else [''ntp:''])"
    using assms(3) by (intro adds_ntp) (simp add: plain_base_def)
  have last: "adds_lines newline [[]]"
    using adds_newline [of "[]" "[[]]"] by (simp add: top_lines_plain top_line_def)
  note segments = adds_append [OF adds_files [OF assms(2)] adds_append [OF assms(4) adds_append [OF adds_placeholder
    adds_append [OF adds_runcmd [OF assms(5)] adds_append [OF ntp adds_append [OF adds_user_sections(1) [OF assms(3)]
    adds_append [OF adds_user_sections(2) [OF assms(3)] adds_append [OF adds_user_sections(3) [OF assms(3)] last]]]]]]]]
  have "top_lines cloudConfigHeader = [''## template: jinja'', ''#cloud-config'', []]"
    unfolding cloudConfigHeader_def
    using top_lines_newline [of "''## template: jinja''" "''#cloud-config'' @ newline"]
      top_lines_newline [of "''#cloud-config''" "[]"]
    by (simp add: top_lines_plain top_line_def)
  then show ?thesis
    using segments [of "OCNEOverrides input" "items (PreOCNECommands input)" "items (PostOCNECommands input)"] assms(1)
    by (simp add: adds_lines_def user_data_def document_lines_def)
qed

subsection \<open>Correctness\<close>

lemma plain_entries:
  "adds_lines (join_entries [] config) [''-   path: /run/kubeadm/kubeadm-join-config.yaml'']"
  "adds_lines (join_entries [''      ---''] config) [''-   path: /run/kubeadm/kubeadm-join-config.yaml'']"
  "adds_lines
     (block [''-   path: /run/kubeadm/kubeadm.yaml'', ''    owner: root:root'', ''    permissions: @0640@'',
             ''    content: |'', ''      ---''] @
      newline @ templateYAMLIndent 6 a @ block [''      ---''] @ newline @ templateYAMLIndent 6 b)
     [''-   path: /run/kubeadm/kubeadm.yaml'']"
proof -
  have last: "adds_lines (block [''      ---''] @ newline @ templateYAMLIndent 6 b) []"
    by (rule adds_silent [OF adds_block adds_Indent]) (simp_all add: shell_def top_line_def)
  show "adds_lines (join_entries [] config) [''-   path: /run/kubeadm/kubeadm-join-config.yaml'']"
    "adds_lines (join_entries [''      ---''] config) [''-   path: /run/kubeadm/kubeadm-join-config.yaml'']"
    unfolding join_entries_def
    using adds_append [OF adds_block adds_Indent] by (simp_all add: shell_def top_line_def)
  have "adds_lines ((newline @ templateYAMLIndent 6 a) @ block [''      ---''] @ newline @ templateYAMLIndent 6 b) []"
    by (rule adds_silent [OF adds_Indent last])
  from adds_append [OF adds_block this] show "adds_lines
     (block [''-   path: /run/kubeadm/kubeadm.yaml'', ''    owner: root:root'', ''    permissions: @0640@'',
             ''    content: |'', ''      ---''] @
      newline @ templateYAMLIndent 6 a @ block [''      ---''] @ newline @ templateYAMLIndent 6 b)
     [''-   path: /run/kubeadm/kubeadm.yaml'']"
    by (simp add: shell_def top_line_def)
qed

text \<open>The files of the input, with the script when the join is retried.\<close>

definition extra_files :: "'a BaseUserData_scheme \<Rightarrow> File list" where
  "extra_files input =
     AdditionalFiles input @ (if UseExperimentalRetry input then [generateBootstrapScript input] else [])"

lemma plain_commands:
  "plain sentinelFileCommand" "plain retriableJoinScriptName" "plain_file (generateBootstrapScript input)"
  by (simp_all add: sentinelFileCommand_def retriableJoinScriptName_def plain_file_def generateBootstrapScript_def)

lemma prepared:
  assumes "prepare r input = Inr out"
  shows "Header out = cloudConfigHeader" "WriteFiles out = WriteFiles input @ extra_files input"
    "plain_base out \<longleftrightarrow> plain_base input" "plain_base input \<Longrightarrow> plain (join_command out)"
    "document_lines files path out = document_lines files path input"
  using assms
  by (auto simp: prepare_def Let_def extra_files_def generateBootstrapScript_def plain_base_def join_command_def
      document_lines_def plain_commands split: sum.splits if_splits)

lemma New_total:
  "\<exists>c. GetOCNEOverrides r (override_data ci) = Inr c \<Longrightarrow> Certificates_AsFiles (Input_Certificates ci) = Inr files \<Longrightarrow>
    \<exists>data. NewInitControlPlane r ci = Inr data"
  "\<exists>c. GetOCNEOverrides r (override_data cj) = Inr c \<Longrightarrow> \<exists>c. GetOCNEOverrides r' (override_data cj) = Inr c \<Longrightarrow>
    Certificates_AsFiles (Join_Certificates cj) = Inr files' \<Longrightarrow> \<exists>data. NewJoinControlPlane r r' cj = Inr data"
  "\<exists>c. GetOCNEOverrides r (override_data n) = Inr c \<Longrightarrow> \<exists>data. NewNode r n = Inr data"
  by (auto simp: NewInitControlPlane_def NewJoinControlPlane_def NewNode_def prepare_def override_data_def Let_def)

lemma updated_base [simp]:
  "plain_base (i\<lparr>OCNEOverrides := c, WriteFiles := files, Base_ControlPlane := b\<rparr>) = plain_base i"
  "document_lines fs path (i\<lparr>OCNEOverrides := c, WriteFiles := files, Base_ControlPlane := b\<rparr>) = document_lines fs path i"
  "extra_files (i\<lparr>OCNEOverrides := c, WriteFiles := files, Base_ControlPlane := b\<rparr>) = extra_files (i\<lparr>Base_ControlPlane := b\<rparr>)"
  "plain_base (i\<lparr>OCNEOverrides := c, WriteFiles := files\<rparr>) = plain_base i"
  "plain_base (i\<lparr>Base_ControlPlane := b\<rparr>) = plain_base i"
  "plain_base (i\<lparr>Header := h\<rparr>) = plain_base i"
  "document_lines fs path (i\<lparr>Header := h\<rparr>) = document_lines fs path i"
  "join_command (i\<lparr>Header := h\<rparr>) = join_command i"
  by (simp_all add: plain_base_def document_lines_def extra_files_def generateBootstrapScript_def join_command_def)

lemma plain_extra_files: "plain_base i \<Longrightarrow> list_all plain_file (extra_files i)"
  by (simp add: extra_files_def plain_commands) (simp add: plain_base_def)

definition example_reader :: meta_reader where
  "example_reader =
     \<lparr>GetCoreV1Func = None, metadata_Get = \<lambda>_. Inr [(''mapping'', [])], apiyaml_ToJSON = Inr,
      Unmarshal_mapping = \<lambda>_. Inr [(''v1.26.6'', zero_OCNEMetadata\<lparr>Metadata_Packages :=
        \<lparr>Packages_Kubeadm = ''1.26.6-1'', Packages_Kubectl = ''1.26.6-1'', Packages_Kubelet = ''1.26.6-1'',
         Packages_Helm = ''3.12.0-1''\<rparr>\<rparr>)],
      os_Getenv = ''capi''\<rparr>"

definition example_base :: BaseUserData where
  "example_base =
     \<lparr>Header = [], PreOCNECommands = Some [''first'' @ newline @ ''second:''], PostOCNECommands = None,
      OCNEOverrides = [],
      AdditionalFiles = [\<lparr>File_Path = ''/etc/motd'', File_Owner = ''root'', File_Permissions = [], File_Encoding = [],
        File_Append = True, File_Content = ''hello'' @ newline @ ''runcmd:'' @ newline, File_ContentFrom = None\<rparr>],
      WriteFiles = [], Base_Users = [], Base_NTP = Some \<lparr>NTP_Servers = Some [''ntp.example''], NTP_Enabled = None\<rparr>,
      Base_DiskSetup = None, Base_Mounts = Some [Some [''a'', ''b'']], Base_ControlPlane = False,
      UseExperimentalRetry = False, OCNECommand = [], OCNEVerbosity = ''--v 5'', SentinelFileCommand = [],
      Base_KubernetesVersion = ''v1.26.6'', Base_OCNEImageRepository = [], Base_Proxy = None, Base_PodSubnet = [],
      Base_ServiceSubnet = [], KubeadmVerbosity = [], SkipInstall = False\<rparr>"

lemma example_overrides:
  "Base_KubernetesVersion i = ''v1.26.6'' \<Longrightarrow> \<exists>c. GetOCNEOverrides example_reader (override_data i) = Inr c"
  by (simp add: GetOCNEOverrides_def GetOCNEMetadata_def example_reader_def override_data_def metadata_of_def Let_def)

definition example_init :: ControlPlaneInput where
  "example_init = BaseUserData.extend example_base (ControlPlaneInput.fields [] ''a'' ''b'')"

definition example_join :: ControlPlaneJoinInput where
  "example_join = BaseUserData.extend example_base (ControlPlaneJoinInput.fields [] [] (newline @ ''users:''))"

definition example_node :: NodeInput where
  "example_node = BaseUserData.extend example_base (NodeInput.fields ''c'')"

text \<open>
  C38. Whatever the contents of files, the commands and the configurations of kubeadm are, they stay inside their
  entries: the lines of the user data that are not indented are the header, the path of each file in
  order, and the sections that the input has. So no content can add a section or another file. This
  needs that the values inserted as they are, like paths, names and devices, have no newline.
\<close>

theorem user_data_contained:
  "(NewInitControlPlane r ci = Inr data \<and> plain_base ci \<and>
      Certificates_AsFiles (Input_Certificates ci) = Inr files \<and> list_all plain_file files \<longrightarrow>
    top_lines data = document_lines (files @ AdditionalFiles ci) ''-   path: /run/kubeadm/kubeadm.yaml'' ci) \<and>
   (NewJoinControlPlane r r' cj = Inr data' \<and> plain_base cj \<and>
      Certificates_AsFiles (Join_Certificates cj) = Inr files' \<and> list_all plain_file files' \<longrightarrow>
    top_lines data' = document_lines (files' @ extra_files (cj\<lparr>Base_ControlPlane := True\<rparr>))
      ''-   path: /run/kubeadm/kubeadm-join-config.yaml'' cj) \<and>
   (NewNode r n = Inr data'' \<and> plain_base n \<and> WriteFiles n = [] \<longrightarrow>
    top_lines data'' = document_lines (extra_files n) ''-   path: /run/kubeadm/kubeadm-join-config.yaml'' n)"
proof (intro conjI impI; elim conjE)
  assume init: "NewInitControlPlane r ci = Inr data" "plain_base ci"
    "Certificates_AsFiles (Input_Certificates ci) = Inr files" "list_all plain_file files"
  then obtain c where "data = controlPlaneCloudInit
      (ci\<lparr>OCNEOverrides := c, Header := cloudConfigHeader, WriteFiles := files @ AdditionalFiles ci,
         SentinelFileCommand := sentinelFileCommand\<rparr>)" (is "data = controlPlaneCloudInit ?out")
    by (auto simp: NewInitControlPlane_def split: sum.splits)
  moreover have "plain_base ?out" "document_lines fs path ?out = document_lines fs path ci"
    "list_all plain_file (WriteFiles ?out)" "plain (OCNEVerbosity ci)" for fs path
    using init by (simp_all add: plain_base_def document_lines_def)
  ultimately show "top_lines data = document_lines (files @ AdditionalFiles ci) ''-   path: /run/kubeadm/kubeadm.yaml'' ci"
    using user_data_lines [of ?out, OF _ _ _ plain_entries(3)]
    by (simp add: controlPlaneCloudInit_def plain_commands shell_def)
next
  assume join: "NewJoinControlPlane r r' cj = Inr data'" "plain_base cj"
    "Certificates_AsFiles (Join_Certificates cj) = Inr files'" "list_all plain_file files'"
  then obtain c out where out:
    "prepare r' (cj\<lparr>OCNEOverrides := c, WriteFiles := files', Base_ControlPlane := True\<rparr>) = Inr out"
    "data' = controlPlaneJoinCloudInit out"
    by (auto simp: NewJoinControlPlane_def dest!: map_sum_InrD split: sum.splits)
  note out_simps = prepared [OF out(1), simplified]
  show "top_lines data' = document_lines (files' @ extra_files (cj\<lparr>Base_ControlPlane := True\<rparr>))
      ''-   path: /run/kubeadm/kubeadm-join-config.yaml'' cj"
    using user_data_lines [of out, OF out_simps(1) _ _ plain_entries(1) out_simps(4)] join(2,4)
      plain_extra_files [of "cj\<lparr>Base_ControlPlane := True\<rparr>"]
    by (simp add: out(2) controlPlaneJoinCloudInit_def out_simps)
next
  assume node: "NewNode r n = Inr data''" "plain_base n" "WriteFiles n = []"
  then obtain out where out: "prepare r n = Inr out" "data'' = nodeCloudInit (out\<lparr>Header := cloudConfigHeader\<rparr>)"
    by (auto simp: NewNode_def dest!: map_sum_InrD)
  note out_simps = prepared [OF out(1)]
  show "top_lines data'' = document_lines (extra_files n) ''-   path: /run/kubeadm/kubeadm-join-config.yaml'' n"
    using user_data_lines [of "out\<lparr>Header := cloudConfigHeader\<rparr>", OF _ _ _ plain_entries(2), of "join_command out"]
      node(2,3) plain_extra_files [of n]
    by (simp add: out(2) nodeCloudInit_def out_simps)
qed

theorem user_data_contained_witness:
  "\<exists>data data' data''. NewInitControlPlane example_reader example_init = Inr data \<and>
     NewJoinControlPlane example_reader example_reader example_join = Inr data' \<and>
     NewNode example_reader example_node = Inr data'' \<and>
     top_lines data = document_lines (AdditionalFiles example_base) ''-   path: /run/kubeadm/kubeadm.yaml'' example_init \<and>
     top_lines data' =
       document_lines (AdditionalFiles example_base) ''-   path: /run/kubeadm/kubeadm-join-config.yaml'' example_join \<and>
     top_lines data'' =
       document_lines (AdditionalFiles example_base) ''-   path: /run/kubeadm/kubeadm-join-config.yaml'' example_node"
  (is "\<exists>data data' data''. ?P data data' data''")
proof -
  let ?ci = example_init and ?cj = example_join and ?n = example_node
  note inputs = example_init_def example_join_def example_node_def
    BaseUserData.defs ControlPlaneInput.defs ControlPlaneJoinInput.defs NodeInput.defs
  have plain: "plain_base ?ci" "plain_base ?cj" "plain_base ?n"
    by (simp_all add: inputs example_base_def plain_base_def plain_file_def)
  have certs: "Certificates_AsFiles (Input_Certificates ?ci) = Inr []" "Certificates_AsFiles (Join_Certificates ?cj) = Inr []"
    by (simp_all add: inputs Certificates_AsFiles_def GetByPurpose_def)
  have version: "Base_KubernetesVersion ?ci = ''v1.26.6''" "Base_KubernetesVersion ?cj = ''v1.26.6''"
    "Base_KubernetesVersion ?n = ''v1.26.6''"
    by (simp_all add: inputs example_base_def)
  note overrides = version [THEN example_overrides]
  obtain data data' data'' where data: "NewInitControlPlane example_reader ?ci = Inr data"
    and data': "NewJoinControlPlane example_reader example_reader ?cj = Inr data'"
    and data'': "NewNode example_reader ?n = Inr data''"
    using New_total(1) [OF overrides(1) certs(1)] New_total(2) [OF overrides(2,2) certs(2)] New_total(3) [OF overrides(3)]
    by blast
  have files: "AdditionalFiles ?ci = AdditionalFiles example_base" "WriteFiles ?n = []"
    "extra_files (?cj\<lparr>Base_ControlPlane := True\<rparr>) = AdditionalFiles example_base" "extra_files ?n = AdditionalFiles example_base"
    by (simp_all add: inputs example_base_def extra_files_def)
  note lines = user_data_contained [of example_reader ?ci data "[]" example_reader ?cj data' "[]" ?n data'']
  have "top_lines data = document_lines (AdditionalFiles example_base) ''-   path: /run/kubeadm/kubeadm.yaml'' ?ci"
    "top_lines data' = document_lines (AdditionalFiles example_base) ''-   path: /run/kubeadm/kubeadm-join-config.yaml'' ?cj"
    "top_lines data'' = document_lines (AdditionalFiles example_base) ''-   path: /run/kubeadm/kubeadm-join-config.yaml'' ?n"
    using lines data data' data'' plain certs unfolding files by simp_all
  with data data' data'' have "?P data data' data''"
    by (intro conjI)
  then show ?thesis
    by (intro exI)
qed

text \<open>
  Three settings of the user are lost. A user who is explicitly not inactive is written as inactive,
  time synchronisation that is explicitly disabled is written as enabled, and the verbosity of kubeadm
  has no influence on a join with retries.
\<close>

lemma settings_lost:
  "userTemplate (u\<lparr>User_Inactive := Some False\<rparr>) = userTemplate (u\<lparr>User_Inactive := Some True\<rparr>) \<and>
   ntpTemplate (Some (n\<lparr>NTP_Enabled := Some False\<rparr>)) = ntpTemplate (Some (n\<lparr>NTP_Enabled := Some True\<rparr>)) \<and>
   NewNode r (input\<lparr>UseExperimentalRetry := True, OCNEVerbosity := v\<rparr>) =
     NewNode r (input\<lparr>UseExperimentalRetry := True, OCNEVerbosity := w\<rparr>)"
proof (intro conjI)
  show "NewNode r (input\<lparr>UseExperimentalRetry := True, OCNEVerbosity := v\<rparr>) =
     NewNode r (input\<lparr>UseExperimentalRetry := True, OCNEVerbosity := w\<rparr>)"
    by (simp add: NewNode_def prepare_def override_data_def generateBootstrapScript_def nodeCloudInit_def user_data_def
        join_command_def Let_def split: sum.split)
qed (simp_all add: userTemplate_def ntpTemplate_def when_set_def)

end
