(* ===== verification/Bootstrap.thy ===== *)
theory Bootstrap
  imports CloudInit ControlPlaneApi "HOL-Library.Signed_Division"
begin

text \<open>
  The bootstrap controller (\<open>bootstrap/ocne/internal/controllers\<close>): the owner of a configuration
  (\<open>bootstrap/util/configowner.go\<close>), the bootstrap tokens, and the reconciliation of an \<open>OCNEConfig\<close>,
  which ends in a secret with the user data of a machine.

  The state is the trace of the calls and the configuration in memory. The environment gives the reply
  to every call as a function of the calls before it. Rendering of Ignition, marshalling of kubeadm's
  types, hashing of certificates, and formatting of times are functions of the environment.
\<close>

subsection \<open>The owner of a configuration\<close>

text \<open>
  An unstructured object is what can be read of it. A nested read fails, finds nothing, or gives the
  value, of slices and maps their length.
\<close>

record ConfigOwner =
  Owner_GetKind :: string
  Owner_GetName :: string
  Owner_GetNamespace :: string
  Owner_GetLabels :: "(string, string) go_map"
  NestedBool :: "string list \<Rightarrow> error + bool option"
  NestedInt64 :: "string list \<Rightarrow> error + int option"
  NestedSlice :: "string list \<Rightarrow> error + nat option"
  NestedMap :: "string list \<Rightarrow> error + nat option"
  NestedString :: "string list \<Rightarrow> error + string option"
  FromUnstructured :: "error + Machine"

definition found_or :: "'a \<Rightarrow> error + 'a option \<Rightarrow> 'a" where
  "found_or d r = (case r of Inr (Some v) \<Rightarrow> v | _ \<Rightarrow> d)"

definition IsInfrastructureReady :: "ConfigOwner \<Rightarrow> bool" where
  "IsInfrastructureReady co = found_or False (NestedBool co [''status'', ''infrastructureReady''])"

definition IsMachinePool :: "ConfigOwner \<Rightarrow> bool" where
  "IsMachinePool co \<longleftrightarrow> Owner_GetKind co = ''MachinePool''"

definition HasNodeRefs :: "ConfigOwner \<Rightarrow> bool" where
  "HasNodeRefs co =
     (if IsMachinePool co
      then (case NestedInt64 co [''spec'', ''replicas''] of
              Inl _ \<Rightarrow> False
            | Inr replicas \<Rightarrow>
                (let numExpectedNodes = (case replicas of None \<Rightarrow> 1 | Some n \<Rightarrow> n)
                 in case NestedSlice co [''status'', ''nodeRefs''] of
                      Inl _ \<Rightarrow> False
                    | Inr nodeRefs \<Rightarrow> int (case nodeRefs of None \<Rightarrow> 0 | Some n \<Rightarrow> n) = numExpectedNodes))
      else found_or 0 (NestedMap co [''status'', ''nodeRef'']) > 0)"

definition Owner_ClusterName :: "ConfigOwner \<Rightarrow> string" where
  "Owner_ClusterName co = found_or [] (NestedString co [''spec'', ''clusterName''])"

definition DataSecretName :: "ConfigOwner \<Rightarrow> string option" where
  "DataSecretName co =
     (case NestedString co [''spec'', ''bootstrap'', ''dataSecretName''] of Inl _ \<Rightarrow> None | Inr s \<Rightarrow> s)"

definition Owner_IsControlPlaneMachine :: "ConfigOwner \<Rightarrow> bool" where
  "Owner_IsControlPlaneMachine co \<longleftrightarrow>
     Owner_GetKind co = ''Machine'' \<and> map_of (Owner_GetLabels co) MachineControlPlaneLabelName \<noteq> None"

definition Owner_KubernetesVersion :: "ConfigOwner \<Rightarrow> string" where
  "Owner_KubernetesVersion co =
     found_or [] (NestedString co
       (if IsMachinePool co then [''spec'', ''template'', ''spec'', ''version''] else [''spec'', ''version'']))"

subsection \<open>Calls and replies\<close>

datatype bcall =
    BGetConfig
  | BAddOwners
  | BGetOwner ObjectReference
  | BGetCluster string string
  | BNewConfigHelper
  | BPatchConfig OCNEConfig bool \<comment> \<open>whether the observed generation is patched too\<close>
  | BGetSecret string string
  | BNewSecretHelper string
  | BPatchSecret Secret
  | BCreateSecret Secret
  | BUpdateSecret Secret
  | BGenerateKeys Purpose
  | BLock Machine
  | BUnlock
  | BRemoteClient
  | BGenerateToken
  | BGetTokenSecret string
  | BCreateTokenSecret Secret
  | BUpdateTokenSecret Secret
  | BReadMetadata

record benv =
  breply_Error :: "bcall \<Rightarrow> bcall list \<Rightarrow> error option" \<comment> \<open>of the calls that only return an error\<close>
  breply_Config :: "bcall list \<Rightarrow> error + OCNEConfig"
  breply_Owner :: "ObjectReference \<Rightarrow> bcall list \<Rightarrow> error + ConfigOwner"
  breply_Cluster :: "string \<Rightarrow> string \<Rightarrow> bcall list \<Rightarrow> error + Cluster"
  breply_Secret :: "bcall \<Rightarrow> bcall list \<Rightarrow> error + Secret"
  breply_KeyPair :: "Purpose \<Rightarrow> bcall list \<Rightarrow> error + KeyPair"
  breply_Lock :: "bcall \<Rightarrow> bcall list \<Rightarrow> bool"
  breply_Token :: "bcall list \<Rightarrow> error + string"
  breply_Metadata :: "bcall list \<Rightarrow> meta_reader"
  bNow :: "bcall list \<Rightarrow> time"
  bError_text :: "error \<Rightarrow> string"
  ParseCertsPEM :: "string \<Rightarrow> error + string list" \<comment> \<open>the public keys of the certificates\<close>
  sha256_hex :: "string \<Rightarrow> string"
  Endpoint_String :: "string \<Rightarrow> int \<Rightarrow> string"
  NetworkRanges_String :: "string slice \<Rightarrow> string"
  BootstrapTokenRegexp :: "string \<Rightarrow> (string \<times> string) option" \<comment> \<open>the identifier and the secret\<close>
  BootstrapTokenSecretName :: "string \<Rightarrow> string"
  Format_RFC3339 :: "time \<Rightarrow> string"
  Parse_RFC3339 :: "string \<Rightarrow> error + time"
  yaml_Init :: "string \<times> string \<Rightarrow> InitConfiguration \<Rightarrow> error + string"
  yaml_Cluster :: "string \<times> string \<Rightarrow> ClusterConfiguration \<Rightarrow> error + string"
  yaml_Join :: "string \<times> string \<Rightarrow> JoinConfiguration \<Rightarrow> error + string"
  clc_Render :: "BaseUserData \<Rightarrow> ContainerLinuxConfig \<Rightarrow> string \<Rightarrow> error + string"
  MachinePool_feature :: bool
  TokenTTL :: int

record bst =
  b_trace :: "bcall list"
  b_config :: OCNEConfig

type_synonym 'a bact = "(bst, 'a) state"
type_synonym boutcome = "Result \<times> error option"

definition bcall :: "bcall \<Rightarrow> (bcall list \<Rightarrow> 'a) \<Rightarrow> 'a bact" where
  "bcall c reply = State (\<lambda>s. (reply (b_trace s), s\<lparr>b_trace := b_trace s @ [c]\<rparr>))"

definition bmodify :: "(bst \<Rightarrow> bst) \<Rightarrow> unit bact" where
  "bmodify f = State (\<lambda>s. ((), f s))"

definition bread :: "(bst \<Rightarrow> 'a) \<Rightarrow> 'a bact" where
  "bread f = State (\<lambda>s. (f s, s))"

definition ecall_b :: "'r benv_scheme \<Rightarrow> bcall \<Rightarrow> error option bact" where
  "ecall_b env c = bcall c (breply_Error env c)"

definition on_config :: "(OCNEConfig \<Rightarrow> OCNEConfig) \<Rightarrow> unit bact" where
  "on_config f = bmodify (\<lambda>s. s\<lparr>b_config := f (b_config s)\<rparr>)"

definition on_config_status :: "(OCNEConfigStatus \<Rightarrow> OCNEConfigStatus) \<Rightarrow> OCNEConfig \<Rightarrow> OCNEConfig" where
  "on_config_status f c = c\<lparr>OCNEConfig_Status := f (OCNEConfig_Status c)\<rparr>"

definition on_config_spec :: "(OCNEConfigSpec \<Rightarrow> OCNEConfigSpec) \<Rightarrow> OCNEConfig \<Rightarrow> OCNEConfig" where
  "on_config_spec f c = c\<lparr>OCNEConfig_Spec := f (OCNEConfig_Spec c)\<rparr>"

abbreviation config_conditions :: "OCNEConfig \<Rightarrow> Conditions" where
  "config_conditions c \<equiv> OCNEConfigStatus_Conditions (OCNEConfig_Status c)"

definition bmark :: "'r benv_scheme \<Rightarrow> (time \<Rightarrow> Conditions \<Rightarrow> Conditions) \<Rightarrow> unit bact" where
  "bmark env f = bmodify (\<lambda>s. s\<lparr>b_config := on_config_status (\<lambda>st. st\<lparr>OCNEConfigStatus_Conditions :=
     f (bNow env (b_trace s)) (OCNEConfigStatus_Conditions st)\<rparr>) (b_config s)\<rparr>)"

abbreviation bfail :: "error \<Rightarrow> boutcome bact" where
  "bfail err \<equiv> State_Monad.return (no_result, Some err)"

abbreviation bdone :: "Result \<Rightarrow> boutcome bact" where
  "bdone res \<equiv> State_Monad.return (res, None)"

lemma wp_bcall [wp_simps]: "wp (bcall c reply) Q = (\<lambda>s. Q (reply (b_trace s)) (s\<lparr>b_trace := b_trace s @ [c]\<rparr>))"
  by (rule ext) (simp add: wp_def bcall_def)

lemma wp_bmodify [wp_simps]: "wp (bmodify f) Q = (\<lambda>s. Q () (f s))"
  by (rule ext) (simp add: wp_def bmodify_def)

lemma wp_bread [wp_simps]: "wp (bread f) Q = (\<lambda>s. Q (f s) s)"
  by (rule ext) (simp add: wp_def bread_def)

lemma wp_ecall_b [wp_simps]:
  "wp (ecall_b env c) Q = (\<lambda>s. Q (breply_Error env c (b_trace s)) (s\<lparr>b_trace := b_trace s @ [c]\<rparr>))"
  by (simp add: ecall_b_def wp_simps)

lemma wp_on_config [wp_simps]: "wp (on_config f) Q = (\<lambda>s. Q () (s\<lparr>b_config := f (b_config s)\<rparr>))"
  by (simp add: on_config_def wp_simps)

subsection \<open>Conditions\<close>

definition DataSecretAvailableCondition :: ConditionType where
  "DataSecretAvailableCondition = ''DataSecretAvailable''"
definition WaitingForClusterInfrastructureReason :: string where
  "WaitingForClusterInfrastructureReason = ''WaitingForClusterInfrastructure''"
definition DataSecretGenerationFailedReason :: string where
  "DataSecretGenerationFailedReason = ''DataSecretGenerationFailed''"
definition CertificatesCorruptedReason :: string where
  "CertificatesCorruptedReason = ''CertificatesCorrupted''"

definition bootstrap_GV :: string where "bootstrap_GV = ''bootstrap.cluster.x-k8s.io/v1alpha1''"

text \<open>Marking a condition false with the text of an error as the message, and failing with it.\<close>

definition fail_marked ::
  "'r benv_scheme \<Rightarrow> ConditionType \<Rightarrow> string \<Rightarrow> ConditionSeverity \<Rightarrow> error \<Rightarrow> boutcome bact" where
  "fail_marked env t reason severity err = do {
     bmark env (\<lambda>now to. MarkFalse now to t reason severity (Sprintf0 (bError_text env err)));
     bfail err
   }"

subsection \<open>The owner\<close>

fun owner_of_refs :: "'x ext_scheme \<Rightarrow> 'r benv_scheme \<Rightarrow> string \<Rightarrow> OwnerReference list \<Rightarrow> (error + ConfigOwner option) bact" where
  "owner_of_refs e env ns [] = State_Monad.return (Inr None)"
| "owner_of_refs e env ns (ref # refs) =
     (case ParseGroupVersion e (APIVersion ref) of
        Inl err \<Rightarrow> State_Monad.return (Inl (Wrap ''failed to parse GroupVersion'' err))
      | Inr (grp, version) \<Rightarrow>
          (if grp = ''cluster.x-k8s.io'' \<and> (Kind ref = ''Machine'' \<or> MachinePool_feature env \<and> Kind ref = ''MachinePool'')
           then (let objref = \<lparr>ObjectReference_Kind = Kind ref, ObjectReference_Namespace = ns,
                   ObjectReference_Name = OwnerReference_Name ref, ObjectReference_UID = [],
                   ObjectReference_APIVersion = APIVersion ref\<rparr>
                 in do {
                   r \<leftarrow> bcall (BGetOwner objref) (breply_Owner env objref);
                   State_Monad.return (map_sum id Some r)
                 })
           else owner_of_refs e env ns refs))"

definition GetConfigOwner :: "'x ext_scheme \<Rightarrow> 'r benv_scheme \<Rightarrow> ObjectMeta \<Rightarrow> (error + ConfigOwner option) bact" where
  "GetConfigOwner e env obj = owner_of_refs e env (Namespace obj) (OwnerReferences obj)"

subsection \<open>Bootstrap tokens\<close>

text \<open>An object read from the API server has nil as the map of its data exactly when there is none.\<close>

definition token_secret :: "'r benv_scheme \<Rightarrow> string \<Rightarrow> string \<Rightarrow> time \<Rightarrow> Secret" where
  "token_secret env tokenID tokenSecret expiration =
     \<lparr>Secret_ObjectMeta = empty_meta\<lparr>Name := BootstrapTokenSecretName env tokenID, Namespace := ''kube-system''\<rparr>,
      Secret_Type = ''bootstrap.kubernetes.io/token'',
      Secret_Data =
        [(''token-id'', tokenID), (''token-secret'', tokenSecret),
         (''expiration'', Format_RFC3339 env expiration),
         (''usage-bootstrap-signing'', ''true''), (''usage-bootstrap-authentication'', ''true''),
         (''auth-extra-groups'', ''system:bootstrappers:kubeadm:default-node-token''),
         (''description'', ''token generated by cluster-api-bootstrap-provider-kubeadm'')]\<rparr>"

definition createToken :: "'r benv_scheme \<Rightarrow> int \<Rightarrow> (error + string) bact" where
  "createToken env ttl = do {
     r \<leftarrow> bcall BGenerateToken (breply_Token env);
     (case r of
        Inl err \<Rightarrow> State_Monad.return (Inl (Wrap ''unable to generate bootstrap token'' err))
      | Inr token \<Rightarrow>
          (case BootstrapTokenRegexp env token of
             None \<Rightarrow> State_Monad.return (Inl (Err ''the bootstrap token was not of the form''))
           | Some (tokenID, tokenSecret) \<Rightarrow> do {
               now \<leftarrow> bread (\<lambda>s. bNow env (b_trace s));
               err \<leftarrow> ecall_b env (BCreateTokenSecret (token_secret env tokenID tokenSecret (now + ttl)));
               State_Monad.return (case err of Some err \<Rightarrow> Inl err | None \<Rightarrow> Inr token)
             }))
   }"

definition getToken :: "'r benv_scheme \<Rightarrow> string \<Rightarrow> (error + Secret) bact" where
  "getToken env token =
     (case BootstrapTokenRegexp env token of
        None \<Rightarrow> State_Monad.return (Inl (Err ''the bootstrap token was not of the form''))
      | Some (tokenID, _) \<Rightarrow> do {
          let call = BGetTokenSecret (BootstrapTokenSecretName env tokenID);
          r \<leftarrow> bcall call (breply_Secret env call);
          State_Monad.return (case r of
             Inl err \<Rightarrow> Inl err
           | Inr secret \<Rightarrow>
               (if Secret_Data secret = []
                then Inl (Err ''Invalid bootstrap secret, remove the token from the kubeadm config to re-create'')
                else Inr secret))
        })"

definition refreshToken :: "'r benv_scheme \<Rightarrow> string \<Rightarrow> int \<Rightarrow> error option bact" where
  "refreshToken env token ttl = do {
     r \<leftarrow> getToken env token;
     (case r of
        Inl err \<Rightarrow> State_Monad.return (Some err)
      | Inr secret \<Rightarrow> do {
          now \<leftarrow> bread (\<lambda>s. bNow env (b_trace s));
          ecall_b env (BUpdateTokenSecret
            (secret\<lparr>Secret_Data := AList.update ''expiration'' (Format_RFC3339 env (now + ttl)) (Secret_Data secret)\<rparr>))
        })
   }"

definition shouldRotate :: "'r benv_scheme \<Rightarrow> string \<Rightarrow> int \<Rightarrow> (error + bool) bact" where
  "shouldRotate env token ttl = do {
     r \<leftarrow> getToken env token;
     (case r of
        Inl err \<Rightarrow> State_Monad.return (if IsNotFound err then Inr True else Inl err)
      | Inr secret \<Rightarrow>
          (case Parse_RFC3339 env (case map_of (Secret_Data secret) ''expiration'' of None \<Rightarrow> [] | Some v \<Rightarrow> v) of
             Inl err \<Rightarrow> State_Monad.return (Inl err)
           | Inr expiration \<Rightarrow> do {
               now \<leftarrow> bread (\<lambda>s. bNow env (b_trace s));
               State_Monad.return (Inr (expiration < now + ttl sdiv 2))
             }))
   }"

definition refreshBootstrapToken :: "'r benv_scheme \<Rightarrow> string \<Rightarrow> boutcome bact" where
  "refreshBootstrapToken env token = do {
     err \<leftarrow> ecall_b env BRemoteClient;
     (case err of
        Some err \<Rightarrow> bfail err
      | None \<Rightarrow> do {
          err \<leftarrow> refreshToken env token (TokenTTL env);
          (case err of
             Some err \<Rightarrow> bfail (Wrap ''failed to refresh bootstrap token'' err)
           | None \<Rightarrow> bdone (requeue_after (TokenTTL env sdiv 2)))
        })
   }"

subsection \<open>Values from the cluster and defaults\<close>

text \<open>
  The cluster is read for its network, the machine for its version; values of the user are kept.
\<close>

definition or_else :: "string \<Rightarrow> string \<Rightarrow> string" where
  "or_else value fallback = (if value = [] then fallback else value)"

definition ranges_given :: "string slice option \<Rightarrow> bool" where
  "ranges_given r \<longleftrightarrow> (case r of None \<Rightarrow> False | Some blocks \<Rightarrow> items blocks \<noteq> [])"

definition network_settings :: "'r benv_scheme \<Rightarrow> ClusterNetwork \<Rightarrow> Networking \<Rightarrow> Networking" where
  "network_settings env network n =
     \<lparr>Networking_ServiceSubnet =
        (if Networking_ServiceSubnet n = [] \<and> ranges_given (Services_CIDRBlocks network)
         then NetworkRanges_String env (case Services_CIDRBlocks network of None \<Rightarrow> None | Some b \<Rightarrow> b)
         else Networking_ServiceSubnet n),
      Networking_PodSubnet =
        (if Networking_PodSubnet n = [] \<and> ranges_given (Pods_CIDRBlocks network)
         then NetworkRanges_String env (case Pods_CIDRBlocks network of None \<Rightarrow> None | Some b \<Rightarrow> b)
         else Networking_PodSubnet n),
      Networking_DNSDomain = or_else (Networking_DNSDomain n) (ServiceDomain network)\<rparr>"

definition reconcileTopLevelObjectSettings ::
  "'r benv_scheme \<Rightarrow> Cluster \<Rightarrow> Machine \<Rightarrow> ClusterConfiguration \<Rightarrow> ClusterConfiguration" where
  "reconcileTopLevelObjectSettings env cluster machine config =
     (let c1 = (if ClusterConfiguration_ControlPlaneEndpoint config = [] \<and> endpoint_IsValid cluster
                then config\<lparr>ClusterConfiguration_ControlPlaneEndpoint :=
                  Endpoint_String env (Cluster_Spec_ControlPlaneEndpoint_Host cluster)
                    (Cluster_Spec_ControlPlaneEndpoint_Port cluster)\<rparr>
                else config);
          c2 = (if ClusterConfiguration_ClusterName c1 = []
                then c1\<lparr>ClusterConfiguration_ClusterName := Name (Cluster_ObjectMeta cluster)\<rparr> else c1);
          c3 = (case Cluster_Spec_ClusterNetwork cluster of
                  None \<Rightarrow> c2
                | Some network \<Rightarrow>
                    c2\<lparr>ClusterConfiguration_Networking := network_settings env network (ClusterConfiguration_Networking c2)\<rparr>)
      in case Machine_Spec_Version machine of
           Some version \<Rightarrow>
             (if ClusterConfiguration_KubernetesVersion c3 = []
              then c3\<lparr>ClusterConfiguration_KubernetesVersion := version\<rparr> else c3)
         | None \<Rightarrow> c3)"

definition default_etcd :: "OCNEMetadata \<Rightarrow> LocalEtcd" where
  "default_etcd meta =
     \<lparr>LocalEtcd_ImageMeta = \<lparr>ImageMeta_ImageRepository = DefaultOCNEImageRepository,
        ImageMeta_ImageTag = Images_ETCD (Metadata_Images meta)\<rparr>,
      LocalEtcd_DataDir = [], LocalEtcd_ExtraArgs = None, LocalEtcd_ServerCertSANs = None, LocalEtcd_PeerCertSANs = None\<rparr>"

definition default_dns :: "OCNEMetadata \<Rightarrow> ImageMeta \<Rightarrow> ImageMeta" where
  "default_dns meta dns =
     \<lparr>ImageMeta_ImageRepository = or_else (ImageMeta_ImageRepository dns) DefaultOCNEImageRepository,
      ImageMeta_ImageTag =
        (if ImageMeta_ImageTag dns = [] then Images_CoreDNS (Metadata_Images meta)
         else if ImageMeta_ImageTag dns \<noteq> Images_CoreDNS (Metadata_Images meta)
           \<and> ImageMeta_ImageRepository dns = DefaultOCNEImageRepository
         then Images_CoreDNS (Metadata_Images meta)
         else ImageMeta_ImageTag dns)\<rparr>"

definition setOCNEControlPlaneClusterConfigurationDefaults ::
  "'m meta_reader_scheme \<Rightarrow> ClusterConfiguration \<Rightarrow> string \<Rightarrow> error + ClusterConfiguration" where
  "setOCNEControlPlaneClusterConfigurationDefaults r config k8sVersion =
     (case GetOCNEMetadata r of
        Inl err \<Rightarrow> Inl err
      | Inr ocneMeta \<Rightarrow>
          (let meta = metadata_of ocneMeta k8sVersion;
               etcd = ClusterConfiguration_Etcd config
           in Inr (config
             \<lparr>ClusterConfiguration_DNS := \<lparr>DNS_ImageMeta = default_dns meta (DNS_ImageMeta (ClusterConfiguration_DNS config))\<rparr>,
              ClusterConfiguration_Etcd := etcd\<lparr>Etcd_Local :=
                (case Etcd_Local etcd of
                   None \<Rightarrow> Some (default_etcd meta)
                 | Some loc \<Rightarrow>
                     (if ImageMeta_ImageRepository (LocalEtcd_ImageMeta loc) = DefaultOCNEImageRepository \<and>
                         ImageMeta_ImageTag (LocalEtcd_ImageMeta loc) \<noteq> Images_ETCD (Metadata_Images meta)
                      then Some (default_etcd meta) else Some loc))\<rparr>,
              ClusterConfiguration_ImageRepository :=
                or_else (ClusterConfiguration_ImageRepository config) DefaultOCNEImageRepository\<rparr>)))"

definition default_socket :: "NodeRegistrationOptions \<Rightarrow> NodeRegistrationOptions" where
  "default_socket n =
     n\<lparr>NodeRegistrationOptions_CRISocket := or_else (NodeRegistrationOptions_CRISocket n) DefaultOCNESocket\<rparr>"

definition setOCNEControlPlaneInitConfigurationDefaults :: "InitConfiguration \<Rightarrow> InitConfiguration" where
  "setOCNEControlPlaneInitConfigurationDefaults i =
     i\<lparr>InitConfiguration_NodeRegistration := default_socket (InitConfiguration_NodeRegistration i)\<rparr>"

definition setOCNEJoinConfigurationDefaults :: "JoinConfiguration \<Rightarrow> JoinConfiguration" where
  "setOCNEJoinConfigurationDefaults j =
     j\<lparr>JoinConfiguration_NodeRegistration := default_socket (JoinConfiguration_NodeRegistration j)\<rparr>"

definition marshalForVersion ::
  "'x semver_lib_scheme \<Rightarrow> semver \<Rightarrow> (string \<times> string \<Rightarrow> 'a \<Rightarrow> error + string) \<Rightarrow> 'a \<Rightarrow> error + string" where
  "marshalForVersion lib version yaml obj =
     (case KubeVersionToKubeadmAPIGroupVersion lib version of
        Inl err \<Rightarrow> Inl err
      | Inr gv \<Rightarrow> yaml gv obj)"

subsection \<open>Discovery\<close>

definition zero_BootstrapTokenDiscovery :: BootstrapTokenDiscovery where
  "zero_BootstrapTokenDiscovery =
     \<lparr>BootstrapTokenDiscovery_Token = [], BootstrapTokenDiscovery_APIServerEndpoint = [],
      BootstrapTokenDiscovery_CACertHashes = None, BootstrapTokenDiscovery_UnsafeSkipCAVerification = False\<rparr>"

definition hashCert :: "'r benv_scheme \<Rightarrow> string \<Rightarrow> string" where
  "hashCert env key = ''sha256:'' @ sha256_hex env key"

text \<open>Without the certificate or its key pair this is a nil pointer dereference.\<close>

definition Hashes :: "'r benv_scheme \<Rightarrow> Certificate option \<Rightarrow> error + string list" where
  "Hashes env c =
     (case Option.bind c Cert_KeyPair of
        None \<Rightarrow> Inl (Panic ''nil pointer dereference'')
      | Some kp \<Rightarrow> map_sum (Wrap ''unable to parse certificate'') (map (hashCert env)) (ParseCertsPEM env (KeyPair_Cert kp)))"

definition on_join :: "(JoinConfiguration \<Rightarrow> JoinConfiguration) \<Rightarrow> OCNEConfig \<Rightarrow> OCNEConfig" where
  "on_join f = on_config_spec (\<lambda>spec. spec\<lparr>OCNEConfigSpec_JoinConfiguration := map_option f (OCNEConfigSpec_JoinConfiguration spec)\<rparr>)"

definition set_token :: "BootstrapTokenDiscovery \<Rightarrow> unit bact" where
  "set_token t = on_config (on_join (\<lambda>j. j\<lparr>JoinConfiguration_Discovery :=
     (JoinConfiguration_Discovery j)\<lparr>Discovery_BootstrapToken := Some t\<rparr>\<rparr>))"

definition config_join :: "OCNEConfig \<Rightarrow> JoinConfiguration option" where
  "config_join c = OCNEConfigSpec_JoinConfiguration (OCNEConfig_Spec c)"

definition discovery_hashes ::
  "'r benv_scheme \<Rightarrow> Certificate list \<Rightarrow> BootstrapTokenDiscovery \<Rightarrow> error + BootstrapTokenDiscovery" where
  "discovery_hashes env certificates t =
     (if items (BootstrapTokenDiscovery_CACertHashes t) = []
      then map_sum id (\<lambda>hashes. t\<lparr>BootstrapTokenDiscovery_CACertHashes := Some hashes\<rparr>)
        (Hashes env (GetByPurpose certificates ClusterCA))
      else Inr t)"

definition discovery_token :: "'r benv_scheme \<Rightarrow> BootstrapTokenDiscovery \<Rightarrow> (error + BootstrapTokenDiscovery) bact" where
  "discovery_token env t =
     (if BootstrapTokenDiscovery_Token t = [] then do {
        err \<leftarrow> ecall_b env BRemoteClient;
        (case err of
           Some err \<Rightarrow> State_Monad.return (Inl err)
         | None \<Rightarrow> do {
             r \<leftarrow> createToken env (TokenTTL env);
             State_Monad.return (map_sum (Wrap ''failed to create new bootstrap token'')
               (\<lambda>token. t\<lparr>BootstrapTokenDiscovery_Token := token\<rparr>) r)
           })
      }
      else State_Monad.return (Inr t))"

definition discovery_endpoint :: "'r benv_scheme \<Rightarrow> Cluster \<Rightarrow> BootstrapTokenDiscovery \<Rightarrow> BootstrapTokenDiscovery option" where
  "discovery_endpoint env cluster t =
     (if BootstrapTokenDiscovery_APIServerEndpoint t = [] then
        (if \<not> endpoint_IsValid cluster then None
         else Some (t\<lparr>BootstrapTokenDiscovery_APIServerEndpoint :=
           Endpoint_String env (Cluster_Spec_ControlPlaneEndpoint_Host cluster) (Cluster_Spec_ControlPlaneEndpoint_Port cluster)\<rparr>))
      else Some t)"

definition complete_discovery :: "'r benv_scheme \<Rightarrow> BootstrapTokenDiscovery \<Rightarrow> boutcome bact" where
  "complete_discovery env t = do {
     r \<leftarrow> discovery_token env t;
     (case r of
        Inl err \<Rightarrow> bfail err
      | Inr t \<Rightarrow> do {
          set_token (if items (BootstrapTokenDiscovery_CACertHashes t) = []
            then t\<lparr>BootstrapTokenDiscovery_UnsafeSkipCAVerification := True\<rparr> else t);
          bdone no_result
        })
   }"

definition reconcile_token_discovery ::
  "'r benv_scheme \<Rightarrow> Cluster \<Rightarrow> Certificate list \<Rightarrow> BootstrapTokenDiscovery \<Rightarrow> boutcome bact" where
  "reconcile_token_discovery env cluster certificates t = do {
     set_token t;
     (case discovery_hashes env certificates t of
        Inl err \<Rightarrow> bfail err
      | Inr t \<Rightarrow> do {
          set_token t;
          (case discovery_endpoint env cluster t of
             None \<Rightarrow> bdone (requeue_after (10 * second))
           | Some t \<Rightarrow> do {
               set_token t;
               complete_discovery env t
             })
        })
   }"

definition reconcileDiscovery :: "'r benv_scheme \<Rightarrow> Cluster \<Rightarrow> Certificate list \<Rightarrow> boutcome bact" where
  "reconcileDiscovery env cluster certificates = do {
     join \<leftarrow> bread (config_join \<circ> b_config);
     (case join of
        None \<Rightarrow> bfail (Panic ''nil pointer dereference'')
      | Some j \<Rightarrow>
          (if Discovery_File (JoinConfiguration_Discovery j) \<noteq> None then bdone no_result
           else reconcile_token_discovery env cluster certificates
             (case Discovery_BootstrapToken (JoinConfiguration_Discovery j) of
                None \<Rightarrow> zero_BootstrapTokenDiscovery | Some t \<Rightarrow> t)))
   }"

subsection \<open>Files and users\<close>

definition secret_content :: "'r benv_scheme \<Rightarrow> string \<Rightarrow> string \<Rightarrow> string \<Rightarrow> (error + string) bact" where
  "secret_content env ns name key = do {
     r \<leftarrow> bcall (BGetSecret ns name) (breply_Secret env (BGetSecret ns name));
     State_Monad.return (case r of
        Inl err \<Rightarrow> Inl (Wrap (if IsNotFound err then ''secret not found'' else ''failed to retrieve Secret'') err)
      | Inr secret \<Rightarrow>
          (case map_of (Secret_Data secret) key of
             None \<Rightarrow> Inl (Err ''secret references non-existent secret key'')
           | Some data \<Rightarrow> Inr data))
   }"

definition resolveSecretFileContent :: "'r benv_scheme \<Rightarrow> string \<Rightarrow> FileSource \<Rightarrow> (error + string) bact" where
  "resolveSecretFileContent env ns source =
     secret_content env ns (SecretFileSource_Name (FileSource_Secret source)) (SecretFileSource_Key (FileSource_Secret source))"

definition resolveSecretPasswordContent :: "'r benv_scheme \<Rightarrow> string \<Rightarrow> PasswdSource \<Rightarrow> (error + string) bact" where
  "resolveSecretPasswordContent env ns source =
     secret_content env ns (SecretPasswdSource_Name (PasswdSource_Secret source)) (SecretPasswdSource_Key (PasswdSource_Secret source))"

fun resolveFiles :: "'r benv_scheme \<Rightarrow> string \<Rightarrow> File list \<Rightarrow> (error + File list) bact" where
  "resolveFiles env ns [] = State_Monad.return (Inr [])"
| "resolveFiles env ns (file # files) = do {
     r \<leftarrow> (case File_ContentFrom file of
            None \<Rightarrow> State_Monad.return (Inr file)
          | Some source \<Rightarrow> do {
              data \<leftarrow> resolveSecretFileContent env ns source;
              State_Monad.return (map_sum (Wrap ''failed to resolve file source'')
                (\<lambda>data. file\<lparr>File_ContentFrom := None, File_Content := data\<rparr>) data)
            });
     (case r of
        Inl err \<Rightarrow> State_Monad.return (Inl err)
      | Inr file \<Rightarrow> do {
          rest \<leftarrow> resolveFiles env ns files;
          State_Monad.return (map_sum id (\<lambda>rest. file # rest) rest)
        })
   }"

fun resolveUsers :: "'r benv_scheme \<Rightarrow> string \<Rightarrow> User list \<Rightarrow> (error + User list) bact" where
  "resolveUsers env ns [] = State_Monad.return (Inr [])"
| "resolveUsers env ns (user # users) = do {
     r \<leftarrow> (case User_PasswdFrom user of
            None \<Rightarrow> State_Monad.return (Inr user)
          | Some source \<Rightarrow> do {
              data \<leftarrow> resolveSecretPasswordContent env ns source;
              State_Monad.return (map_sum (Wrap ''failed to resolve passwd source'')
                (\<lambda>data. user\<lparr>User_PasswdFrom := None, User_Passwd := Some data\<rparr>) data)
            });
     (case r of
        Inl err \<Rightarrow> State_Monad.return (Inl err)
      | Inr user \<Rightarrow> do {
          rest \<leftarrow> resolveUsers env ns users;
          State_Monad.return (map_sum id (\<lambda>rest. user # rest) rest)
        })
   }"

subsection \<open>Ignition\<close>

definition ignition_render :: "'r benv_scheme \<Rightarrow> BaseUserData \<Rightarrow> IgnitionSpec option \<Rightarrow> string \<Rightarrow> error + string" where
  "ignition_render env input ignitionConfig ocneConfig =
     clc_Render env input
       (case Option.bind ignitionConfig IgnitionSpec_ContainerLinuxConfig of
          None \<Rightarrow> \<lparr>ContainerLinuxConfig_AdditionalConfig = [], ContainerLinuxConfig_Strict = False\<rparr>
        | Some config \<Rightarrow> config)
       ocneConfig"

definition ignition_command :: "string \<Rightarrow> BaseUserData \<Rightarrow> BaseUserData" where
  "ignition_command subcommand input =
     input\<lparr>OCNECommand := ''kubeadm '' @ subcommand @ '' --config /etc/kubeadm.yml '' @ OCNEVerbosity input\<rparr>"

definition ignition_NewNode :: "'r benv_scheme \<Rightarrow> NodeInput \<Rightarrow> IgnitionSpec option \<Rightarrow> error + string" where
  "ignition_NewNode env input ign =
     ignition_render env
       (ignition_command ''join'' (BaseUserData.truncate (input\<lparr>WriteFiles := WriteFiles input @ AdditionalFiles input\<rparr>)))
       ign (Node_JoinConfiguration input)"

definition ignition_NewJoinControlPlane ::
  "'r benv_scheme \<Rightarrow> ControlPlaneJoinInput \<Rightarrow> IgnitionSpec option \<Rightarrow> error + string" where
  "ignition_NewJoinControlPlane env input ign =
     (case Certificates_AsFiles (Join_Certificates input) of
        Inl err \<Rightarrow> Inl err
      | Inr files \<Rightarrow>
          ignition_render env
            (ignition_command ''join'' (BaseUserData.truncate (input\<lparr>WriteFiles := files @ AdditionalFiles input\<rparr>)))
            ign (Join_JoinConfiguration input))"

definition ignition_NewInitControlPlane ::
  "'r benv_scheme \<Rightarrow> ControlPlaneInput \<Rightarrow> IgnitionSpec option \<Rightarrow> error + string" where
  "ignition_NewInitControlPlane env input ign =
     (case Certificates_AsFiles (Input_Certificates input) of
        Inl err \<Rightarrow> Inl err
      | Inr files \<Rightarrow>
          ignition_render env
            (ignition_command ''init'' (BaseUserData.truncate (input\<lparr>WriteFiles := files @ AdditionalFiles input\<rparr>)))
            ign (Input_ClusterConfiguration input @ newline @ ''---'' @ newline @ Input_InitConfiguration input))"

subsection \<open>Storing the user data\<close>

record Scope =
  scope_ConfigOwner :: ConfigOwner
  scope_Cluster :: Cluster

abbreviation cluster_key :: "Scope \<Rightarrow> string \<times> string" where
  "cluster_key scope \<equiv> (Namespace (Cluster_ObjectMeta (scope_Cluster scope)), Name (Cluster_ObjectMeta (scope_Cluster scope)))"

definition config_owner :: "OCNEConfig \<Rightarrow> OwnerReference" where
  "config_owner config =
     \<lparr>APIVersion = bootstrap_GV, Kind = ''OCNEConfig'', OwnerReference_Name = Name (OCNEConfig_ObjectMeta config),
      OwnerReference_UID = UID (OCNEConfig_ObjectMeta config), Controller = Some True, BlockOwnerDeletion = None\<rparr>"

definition bootstrap_secret :: "Cluster \<Rightarrow> OCNEConfig \<Rightarrow> string \<Rightarrow> Secret" where
  "bootstrap_secret cluster config data =
     \<lparr>Secret_ObjectMeta = empty_meta
        \<lparr>Name := Name (OCNEConfig_ObjectMeta config), Namespace := Namespace (OCNEConfig_ObjectMeta config),
         Labels := [(ClusterLabelName, Name (Cluster_ObjectMeta cluster))],
         OwnerReferences := [config_owner config]\<rparr>,
      Secret_Type = ClusterSecretType,
      Secret_Data = [(''value'', data), (''format'', OCNEConfigSpec_Format (OCNEConfig_Spec config))]\<rparr>"

definition data_available :: "'r benv_scheme \<Rightarrow> string option \<Rightarrow> unit bact" where
  "data_available env secretName = do {
     on_config (on_config_status (\<lambda>st. st\<lparr>OCNEConfigStatus_DataSecretName := secretName, OCNEConfigStatus_Ready := True\<rparr>));
     bmark env (\<lambda>now to. MarkTrue now to DataSecretAvailableCondition)
   }"

definition storeBootstrapData :: "'r benv_scheme \<Rightarrow> Scope \<Rightarrow> string \<Rightarrow> error option bact" where
  "storeBootstrapData env scope data = do {
     config \<leftarrow> bread b_config;
     let secret = bootstrap_secret (scope_Cluster scope) config data;
     err \<leftarrow> ecall_b env (BCreateSecret secret);
     err \<leftarrow> (case err of
              None \<Rightarrow> State_Monad.return None
            | Some err \<Rightarrow>
                (if \<not> IsAlreadyExists err
                 then State_Monad.return (Some (Wrap ''failed to create bootstrap data secret for OCNEConfig'' err))
                 else do {
                   err \<leftarrow> ecall_b env (BUpdateSecret secret);
                   State_Monad.return (map_option (Wrap ''failed to update bootstrap data secret for OCNEConfig'') err)
                 }));
     (case err of
        Some err \<Rightarrow> State_Monad.return (Some err)
      | None \<Rightarrow> do {
          data_available env (Some (Name (Secret_ObjectMeta secret)));
          State_Monad.return None
        })
   }"

definition bootstrap_secret_owners :: "'x ext_scheme \<Rightarrow> OCNEConfig \<Rightarrow> OwnerReference list \<Rightarrow> OwnerReference list" where
  "bootstrap_secret_owners e config refs =
     EnsureOwnerRef e
       (case GetControllerOf e refs of
          Some c \<Rightarrow> (if Kind c \<noteq> ''OCNEConfig'' then RemoveOwnerRef e refs c else refs)
        | None \<Rightarrow> refs)
       (config_owner config)"

definition ensureBootstrapSecretOwnersRef :: "'x ext_scheme \<Rightarrow> 'r benv_scheme \<Rightarrow> error option bact" where
  "ensureBootstrapSecretOwnersRef e env = do {
     config \<leftarrow> bread b_config;
     let ns = Namespace (OCNEConfig_ObjectMeta config);
     let name = Name (OCNEConfig_ObjectMeta config);
     r \<leftarrow> bcall (BGetSecret ns name) (breply_Secret env (BGetSecret ns name));
     (case r of
        Inl err \<Rightarrow> State_Monad.return
          (if IsNotFound err then None else Some (Wrap ''failed to add OCNEConfig as ownerReference to bootstrap Secret'' err))
      | Inr secret \<Rightarrow> do {
          err \<leftarrow> ecall_b env (BNewSecretHelper name);
          (case err of
             Some err \<Rightarrow> State_Monad.return (Some (Wrap ''failed to add OCNEConfig as ownerReference to bootstrap Secret'' err))
           | None \<Rightarrow> do {
               let refs = bootstrap_secret_owners e config (OwnerReferences (Secret_ObjectMeta secret));
               err \<leftarrow> ecall_b env (BPatchSecret
                 (secret\<lparr>Secret_ObjectMeta := (Secret_ObjectMeta secret)\<lparr>OwnerReferences := refs\<rparr>\<rparr>));
               State_Monad.return (map_option (Wrap ''could not add OCNEConfig as ownerReference to bootstrap Secret'') err)
             })
        })
   }"

subsection \<open>The input of the user data\<close>

definition verbosityFlag :: "OCNEConfigSpec \<Rightarrow> string" where
  "verbosityFlag spec =
     (case OCNEConfigSpec_Verbosity spec of None \<Rightarrow> [] | Some v \<Rightarrow> ''--v '' @ show_int v)"

definition image_repository :: "OCNEConfigSpec \<Rightarrow> string" where
  "image_repository spec =
     (case OCNEConfigSpec_ClusterConfiguration spec of
        None \<Rightarrow> DefaultOCNEImageRepository
      | Some c \<Rightarrow> or_else (ClusterConfiguration_ImageRepository c) DefaultOCNEImageRepository)"

definition subnet :: "(ClusterNetwork \<Rightarrow> string slice option) \<Rightarrow> Cluster \<Rightarrow> string" where
  "subnet ranges cluster =
     (case Option.bind (Cluster_Spec_ClusterNetwork cluster) ranges of
        None \<Rightarrow> [] | Some blocks \<Rightarrow> strings_Join '','' (items blocks))"

definition base_input ::
  "Scope \<Rightarrow> OCNEConfigSpec \<Rightarrow> bool \<Rightarrow> File list \<Rightarrow> User list \<Rightarrow> BaseUserData" where
  "base_input scope spec retry files users =
     \<lparr>Header = [], PreOCNECommands = OCNEConfigSpec_PreOCNECommands spec,
      PostOCNECommands = OCNEConfigSpec_PostOCNECommands spec, OCNEOverrides = [],
      AdditionalFiles = files, WriteFiles = [], Base_Users = users, Base_NTP = OCNEConfigSpec_NTP spec,
      Base_DiskSetup = OCNEConfigSpec_DiskSetup spec, Base_Mounts = OCNEConfigSpec_Mounts spec,
      Base_ControlPlane = False, UseExperimentalRetry = retry, OCNECommand = [],
      OCNEVerbosity = verbosityFlag spec, SentinelFileCommand = [],
      Base_KubernetesVersion = Owner_KubernetesVersion (scope_ConfigOwner scope),
      Base_OCNEImageRepository = image_repository spec,
      Base_Proxy = Option.bind (OCNEConfigSpec_ImageConfiguration spec) ImageConfigurationSpec_Proxy,
      Base_PodSubnet = subnet Pods_CIDRBlocks (scope_Cluster scope),
      Base_ServiceSubnet = subnet Services_CIDRBlocks (scope_Cluster scope), KubeadmVerbosity = [],
      SkipInstall =
        (case Option.bind (OCNEConfigSpec_ImageConfiguration spec) ImageConfigurationSpec_Dependencies of
           None \<Rightarrow> False | Some d \<Rightarrow> DependencySpec_SkipInstall d)\<rparr>"

text \<open>
  Rendering in the format of the configuration. The metadata is read while the user data for
  cloud-init is rendered, twice for a joining control plane.
\<close>

definition render_init :: "'r benv_scheme \<Rightarrow> OCNEConfigSpec \<Rightarrow> ControlPlaneInput \<Rightarrow> (error + string) bact" where
  "render_init env spec input =
     (if OCNEConfigSpec_Format spec = Ignition
      then State_Monad.return (ignition_NewInitControlPlane env input (OCNEConfigSpec_Ignition spec))
      else do {
        r \<leftarrow> bcall BReadMetadata (breply_Metadata env);
        State_Monad.return (NewInitControlPlane r input)
      })"

definition render_join :: "'r benv_scheme \<Rightarrow> OCNEConfigSpec \<Rightarrow> ControlPlaneJoinInput \<Rightarrow> (error + string) bact" where
  "render_join env spec input =
     (if OCNEConfigSpec_Format spec = Ignition
      then State_Monad.return (ignition_NewJoinControlPlane env input (OCNEConfigSpec_Ignition spec))
      else do {
        r \<leftarrow> bcall BReadMetadata (breply_Metadata env);
        r' \<leftarrow> bcall BReadMetadata (breply_Metadata env);
        State_Monad.return (NewJoinControlPlane r r' input)
      })"

definition render_node :: "'r benv_scheme \<Rightarrow> OCNEConfigSpec \<Rightarrow> NodeInput \<Rightarrow> (error + string) bact" where
  "render_node env spec input =
     (if OCNEConfigSpec_Format spec = Ignition
      then State_Monad.return (ignition_NewNode env input (OCNEConfigSpec_Ignition spec))
      else do {
        r \<leftarrow> bcall BReadMetadata (breply_Metadata env);
        State_Monad.return (NewNode r input)
      })"

text \<open>The last steps of all three paths: resolve the references, render and store.\<close>

definition render_and_store ::
  "'r benv_scheme \<Rightarrow> Scope \<Rightarrow> bool \<Rightarrow> (OCNEConfigSpec \<Rightarrow> BaseUserData \<Rightarrow> (error + string) bact) \<Rightarrow> boutcome bact" where
  "render_and_store env scope retry render = do {
     config \<leftarrow> bread b_config;
     let spec = OCNEConfig_Spec config;
     let ns = Namespace (OCNEConfig_ObjectMeta config);
     files \<leftarrow> resolveFiles env ns (items (OCNEConfigSpec_Files spec));
     (case files of
        Inl err \<Rightarrow> fail_marked env DataSecretAvailableCondition DataSecretGenerationFailedReason SeverityWarning err
      | Inr files \<Rightarrow> do {
          users \<leftarrow> resolveUsers env ns (items (OCNEConfigSpec_Users spec));
          (case users of
             Inl err \<Rightarrow> fail_marked env DataSecretAvailableCondition DataSecretGenerationFailedReason SeverityWarning err
           | Inr users \<Rightarrow> do {
               data \<leftarrow> render spec (base_input scope spec (retry \<and> OCNEConfigSpec_UseExperimentalRetryJoin spec) files users);
               (case data of
                  Inl err \<Rightarrow> bfail err
                | Inr data \<Rightarrow> do {
                    err \<leftarrow> storeBootstrapData env scope data;
                    State_Monad.return (no_result, err)
                  })
             })
        })
   }"

subsection \<open>Joining\<close>

definition bclient :: "'r benv_scheme \<Rightarrow> bst cert_client" where
  "bclient env =
     \<lparr>client_Get = \<lambda>ns name. bcall (BGetSecret ns name) (breply_Secret env (BGetSecret ns name)),
      client_Create = \<lambda>s. ecall_b env (BCreateSecret s),
      generateCACert = bcall (BGenerateKeys ClusterCA) (breply_KeyPair env ClusterCA),
      generateServiceAccountKeys = bcall (BGenerateKeys ServiceAccount) (breply_KeyPair env ServiceAccount)\<rparr>"

text \<open>
  What joining a worker and joining a control plane have in common: \<open>check\<close> is the check of the
  configuration after marshalling, \<open>render\<close> gets the certificates and the marshalled text.
\<close>

definition join_data ::
  "'x ext_scheme \<Rightarrow> 'r benv_scheme \<Rightarrow> Scope \<Rightarrow> (JoinConfiguration \<Rightarrow> error option) \<Rightarrow>
   (string \<Rightarrow> OCNEConfigSpec \<Rightarrow> BaseUserData \<Rightarrow> (error + string) bact) \<Rightarrow> boutcome bact" where
  "join_data e env scope check render =
     (case ParseTolerant e (Owner_KubernetesVersion (scope_ConfigOwner scope)) of
        Inl err \<Rightarrow> bfail (Wrap ''failed to parse kubernetes version'' err)
      | Inr parsedVersion \<Rightarrow> do {
          join \<leftarrow> bread (config_join \<circ> b_config);
          (case join of
             None \<Rightarrow> bfail (Panic ''nil pointer dereference'')
           | Some j \<Rightarrow>
               (case marshalForVersion e parsedVersion (yaml_Join env) (setOCNEJoinConfigurationDefaults j) of
                  Inl err \<Rightarrow> bfail err
                | Inr joinData \<Rightarrow>
                    (case check j of
                       Some err \<Rightarrow> bfail err
                     | None \<Rightarrow> render_and_store env scope True (render joinData))))
        })"

definition join_with ::
  "'x ext_scheme \<Rightarrow> 'r benv_scheme \<Rightarrow> Scope \<Rightarrow> Certificate list \<Rightarrow> (JoinConfiguration \<Rightarrow> error option) \<Rightarrow>
   (Certificate list \<Rightarrow> string \<Rightarrow> OCNEConfigSpec \<Rightarrow> BaseUserData \<Rightarrow> (error + string) bact) \<Rightarrow> boutcome bact" where
  "join_with e env scope certificates check render = do {
     found \<leftarrow> Lookup (bclient env) (fst (cluster_key scope)) (snd (cluster_key scope)) certificates;
     (case found of
        Inl err \<Rightarrow> fail_marked env CertificatesAvailableCondition CertificatesCorruptedReason SeverityError err
      | Inr certificates \<Rightarrow>
          (case EnsureAllExist certificates of
             Some err \<Rightarrow> fail_marked env CertificatesAvailableCondition CertificatesCorruptedReason SeverityError err
           | None \<Rightarrow> do {
               bmark env (\<lambda>now to. MarkTrue now to CertificatesAvailableCondition);
               r \<leftarrow> reconcileDiscovery env (scope_Cluster scope) certificates;
               (case r of
                  (res, Some err) \<Rightarrow> bfail err
                | (res, None) \<Rightarrow>
                    (if \<not> Result_IsZero res then bdone res
                     else join_data e env scope check (render certificates)))
             }))
   }"

definition joinWorker :: "'x ext_scheme \<Rightarrow> 'r benv_scheme \<Rightarrow> Scope \<Rightarrow> boutcome bact" where
  "joinWorker e env scope = do {
     join \<leftarrow> bread (config_join \<circ> b_config);
     (case join of
        None \<Rightarrow> bfail (Panic ''nil pointer dereference'')
      | Some j \<Rightarrow>
          join_with e env scope (NewCertificatesForWorker (JoinConfiguration_CACertPath j))
            (\<lambda>j. if JoinConfiguration_ControlPlane j \<noteq> None
               then Some (Err ''Machine is a Worker, but JoinConfiguration.ControlPlane is set in the OCNEConfig object'')
               else None)
            (\<lambda>certificates joinData spec base.
               render_node env spec (BaseUserData.extend base (NodeInput.fields joinData))))
   }"

definition zero_JoinControlPlane :: JoinControlPlane where
  "zero_JoinControlPlane = \<lparr>JoinControlPlane_LocalAPIEndpoint = zero_APIEndpoint\<rparr>"

definition joinControlplane :: "'x ext_scheme \<Rightarrow> 'r benv_scheme \<Rightarrow> Scope \<Rightarrow> boutcome bact" where
  "joinControlplane e env scope =
     (if \<not> Owner_IsControlPlaneMachine (scope_ConfigOwner scope)
      then bfail (Err ''is not a valid control plane kind, only Machine is supported'')
      else do {
        on_config (on_join (\<lambda>j. if JoinConfiguration_ControlPlane j = None
          then j\<lparr>JoinConfiguration_ControlPlane := Some zero_JoinControlPlane\<rparr> else j));
        config \<leftarrow> bread b_config;
        (if config_join config = None then bfail (Panic ''nil pointer dereference'')
         else join_with e env scope
           (NewControlPlaneJoinCerts (OCNEConfigSpec_ClusterConfiguration (OCNEConfig_Spec config)))
           (\<lambda>_. None)
           (\<lambda>certificates joinData spec base.
              render_join env spec (BaseUserData.extend base (ControlPlaneJoinInput.fields certificates [] joinData))))
      })"

definition rotateMachinePoolBootstrapToken :: "'x ext_scheme \<Rightarrow> 'r benv_scheme \<Rightarrow> Scope \<Rightarrow> BootstrapTokenDiscovery \<Rightarrow> boutcome bact" where
  "rotateMachinePoolBootstrapToken e env scope t = do {
     err \<leftarrow> ecall_b env BRemoteClient;
     (case err of
        Some err \<Rightarrow> bfail err
      | None \<Rightarrow> do {
          r \<leftarrow> shouldRotate env (BootstrapTokenDiscovery_Token t) (TokenTTL env);
          (case r of
             Inl err \<Rightarrow> bfail err
           | Inr False \<Rightarrow> bdone (requeue_after (TokenTTL env sdiv 3))
           | Inr True \<Rightarrow> do {
               r \<leftarrow> createToken env (TokenTTL env);
               (case r of
                  Inl err \<Rightarrow> bfail (Wrap ''failed to create new bootstrap token'' err)
                | Inr token \<Rightarrow> do {
                    set_token (t\<lparr>BootstrapTokenDiscovery_Token := token\<rparr>);
                    joinWorker e env scope
                  })
             })
        })
   }"

subsection \<open>The first control plane machine\<close>

definition default_init :: InitConfiguration where
  "default_init =
     \<lparr>InitConfiguration_TypeMeta = \<lparr>TypeMeta_Kind = ''InitConfiguration'', TypeMeta_APIVersion = ''ocne.k8s.io/v1alpha1''\<rparr>,
      InitConfiguration_BootstrapTokens = None, InitConfiguration_NodeRegistration = zero_NodeRegistrationOptions,
      InitConfiguration_LocalAPIEndpoint = zero_APIEndpoint, InitConfiguration_SkipPhases = None,
      InitConfiguration_Patches = None\<rparr>"

definition default_cluster :: ClusterConfiguration where
  "default_cluster = zero_ClusterConfiguration
     \<lparr>ClusterConfiguration_TypeMeta := \<lparr>TypeMeta_Kind = ''ClusterConfiguration'', TypeMeta_APIVersion = ''ocne.k8s.io/v1alpha1''\<rparr>\<rparr>"

definition initial_certificates ::
  "'x ext_scheme \<Rightarrow> 'r benv_scheme \<Rightarrow> Scope \<Rightarrow> OCNEConfig \<Rightarrow> (error + Certificate list) bact" where
  "initial_certificates e env scope config =
     (let certificates = NewCertificatesForInitialControlPlane (OCNEConfigSpec_ClusterConfiguration (OCNEConfig_Spec config))
      in if Cluster_Spec_ControlPlaneRef (scope_Cluster scope) = None
         then LookupOrGenerate (bclient env) (fst (cluster_key scope)) (snd (cluster_key scope))
           (NewControllerRef e (OCNEConfig_ObjectMeta config) bootstrap_GV ''OCNEConfig'') certificates
         else Lookup (bclient env) (fst (cluster_key scope)) (snd (cluster_key scope)) certificates)"

definition initialize_rendered ::
  "'x ext_scheme \<Rightarrow> 'r benv_scheme \<Rightarrow> Scope \<Rightarrow> string \<Rightarrow> string \<Rightarrow> boutcome bact" where
  "initialize_rendered e env scope initdata clusterdata = do {
     config \<leftarrow> bread b_config;
     r \<leftarrow> initial_certificates e env scope config;
     (case r of
        Inl err \<Rightarrow> fail_marked env CertificatesAvailableCondition CertificatesGenerationFailedReason SeverityWarning err
      | Inr certificates \<Rightarrow> do {
          bmark env (\<lambda>now to. MarkTrue now to CertificatesAvailableCondition);
          render_and_store env scope False (\<lambda>spec base.
            render_init env spec (BaseUserData.extend base (ControlPlaneInput.fields certificates clusterdata initdata)))
        })
   }"

definition initialize_cluster ::
  "'x ext_scheme \<Rightarrow> 'r benv_scheme \<Rightarrow> Scope \<Rightarrow> Machine \<Rightarrow> semver \<Rightarrow> string \<Rightarrow> boutcome bact" where
  "initialize_cluster e env scope machine parsedVersion initdata = do {
     config \<leftarrow> bread b_config;
     let cc = reconcileTopLevelObjectSettings env (scope_Cluster scope) machine
       (case OCNEConfigSpec_ClusterConfiguration (OCNEConfig_Spec config) of None \<Rightarrow> default_cluster | Some c \<Rightarrow> c);
     on_config (on_config_spec (\<lambda>spec. spec\<lparr>OCNEConfigSpec_ClusterConfiguration := Some cc\<rparr>));
     reader \<leftarrow> bcall BReadMetadata (breply_Metadata env);
     (case setOCNEControlPlaneClusterConfigurationDefaults reader cc (Owner_KubernetesVersion (scope_ConfigOwner scope)) of
        Inl err \<Rightarrow> bfail err
      | Inr newSpec \<Rightarrow>
          (case marshalForVersion e parsedVersion (yaml_Cluster env) newSpec of
             Inl err \<Rightarrow> bfail err
           | Inr clusterdata \<Rightarrow> initialize_rendered e env scope initdata clusterdata))
   }"

definition initialize_locked :: "'x ext_scheme \<Rightarrow> 'r benv_scheme \<Rightarrow> Scope \<Rightarrow> Machine \<Rightarrow> boutcome bact" where
  "initialize_locked e env scope machine =
     (case ParseTolerant e (Owner_KubernetesVersion (scope_ConfigOwner scope)) of
        Inl err \<Rightarrow> bfail (Wrap ''failed to parse kubernetes version'' err)
      | Inr parsedVersion \<Rightarrow> do {
          config \<leftarrow> bread b_config;
          let i = (case OCNEConfigSpec_InitConfiguration (OCNEConfig_Spec config) of None \<Rightarrow> default_init | Some i \<Rightarrow> i);
          on_config (on_config_spec (\<lambda>spec. spec\<lparr>OCNEConfigSpec_InitConfiguration := Some i\<rparr>));
          (case marshalForVersion e parsedVersion (yaml_Init env) (setOCNEControlPlaneInitConfigurationDefaults i) of
             Inl err \<Rightarrow> bfail err
           | Inr initdata \<Rightarrow> initialize_cluster e env scope machine parsedVersion initdata)
        })"

text \<open>
  The deferred function: a lock taken is given back when the run fails. A panic runs deferred functions
  too, but it leaves the named result at nil.
\<close>

definition unlock_on_error :: "'r benv_scheme \<Rightarrow> boutcome \<Rightarrow> boutcome bact" where
  "unlock_on_error env r =
     (case r of
        (res, None) \<Rightarrow> State_Monad.return r
      | (res, Some err) \<Rightarrow>
          (if panics (Some err) then State_Monad.return r
           else do {
             unlocked \<leftarrow> bcall BUnlock (breply_Lock env BUnlock);
             State_Monad.return (res,
               if unlocked then Some err else NewAggregate [err, Err ''failed to unlock the ocne init lock''])
           }))"

definition handleClusterNotInitialized :: "'x ext_scheme \<Rightarrow> 'r benv_scheme \<Rightarrow> Scope \<Rightarrow> boutcome bact" where
  "handleClusterNotInitialized e env scope = do {
     config \<leftarrow> bread b_config;
     (if GetReason (config_conditions config) DataSecretAvailableCondition \<noteq> DataSecretGenerationFailedReason
      then bmark env (\<lambda>now to. MarkFalse now to DataSecretAvailableCondition ''WaitingForControlPlaneAvailable'' SeverityInfo [])
      else State_Monad.return ());
     (if \<not> Owner_IsControlPlaneMachine (scope_ConfigOwner scope) then bdone (requeue_after (30 * second))
      else if OCNEConfigSpec_InitConfiguration (OCNEConfig_Spec config) = None \<and>
        OCNEConfigSpec_ClusterConfiguration (OCNEConfig_Spec config) = None
      then bdone (requeue_after (30 * second))
      else case FromUnstructured (scope_ConfigOwner scope) of
             Inl err \<Rightarrow> bfail (Wrap ''cannot convert to Machine'' err)
           | Inr machine \<Rightarrow> do {
               locked \<leftarrow> bcall (BLock machine) (breply_Lock env (BLock machine));
               (if \<not> locked then bdone (requeue_after (30 * second))
                else do {
                  r \<leftarrow> initialize_locked e env scope machine;
                  unlock_on_error env r
                })
             })
   }"

subsection \<open>Reconciliation\<close>

definition reconcile_ready :: "'x ext_scheme \<Rightarrow> 'r benv_scheme \<Rightarrow> Scope \<Rightarrow> OCNEConfig \<Rightarrow> boutcome bact" where
  "reconcile_ready e env scope config =
     (case Option.bind (config_join config) (Discovery_BootstrapToken \<circ> JoinConfiguration_Discovery) of
        None \<Rightarrow> bdone no_result
      | Some t \<Rightarrow>
          (if \<not> HasNodeRefs (scope_ConfigOwner scope) then refreshBootstrapToken env (BootstrapTokenDiscovery_Token t)
           else if IsMachinePool (scope_ConfigOwner scope) then rotateMachinePoolBootstrapToken e env scope t
           else bdone no_result))"

definition zero_JoinConfiguration :: JoinConfiguration where
  "zero_JoinConfiguration =
     \<lparr>JoinConfiguration_TypeMeta = zero_TypeMeta, JoinConfiguration_NodeRegistration = zero_NodeRegistrationOptions,
      JoinConfiguration_CACertPath = [], JoinConfiguration_Discovery = zero_Discovery,
      JoinConfiguration_ControlPlane = None, JoinConfiguration_SkipPhases = None, JoinConfiguration_Patches = None\<rparr>"

definition reconcile_join :: "'x ext_scheme \<Rightarrow> 'r benv_scheme \<Rightarrow> Scope \<Rightarrow> boutcome bact" where
  "reconcile_join e env scope = do {
     _ \<leftarrow> bcall BUnlock (breply_Lock env BUnlock);
     on_config (on_config_spec (\<lambda>spec. if OCNEConfigSpec_JoinConfiguration spec = None
       then spec\<lparr>OCNEConfigSpec_JoinConfiguration := Some zero_JoinConfiguration\<rparr> else spec));
     (if Owner_IsControlPlaneMachine (scope_ConfigOwner scope) then joinControlplane e env scope
      else joinWorker e env scope)
   }"

definition reconcile_config :: "'x ext_scheme \<Rightarrow> 'r benv_scheme \<Rightarrow> Scope \<Rightarrow> boutcome bact" where
  "reconcile_config e env scope = do {
     err \<leftarrow> ensureBootstrapSecretOwnersRef e env;
     (case err of
        Some err \<Rightarrow> bfail err
      | None \<Rightarrow> do {
          config \<leftarrow> bread b_config;
          let status = OCNEConfig_Status config;
          let secretName = DataSecretName (scope_ConfigOwner scope);
          (if \<not> Cluster_Status_InfrastructureReady (scope_Cluster scope) then do {
             bmark env (\<lambda>now to. MarkFalse now to DataSecretAvailableCondition WaitingForClusterInfrastructureReason SeverityInfo []);
             bdone no_result
           }
           else if secretName \<noteq> None \<and> (\<not> OCNEConfigStatus_Ready status \<or> OCNEConfigStatus_DataSecretName status = None)
           then do {
             data_available env secretName;
             bdone no_result
           }
           else if OCNEConfigStatus_Ready status then reconcile_ready e env scope config
           else if \<not> IsTrue (Cluster_Status_Conditions (scope_Cluster scope)) ''ControlPlaneInitialized''
           then handleClusterNotInitialized e env scope
           else reconcile_join e env scope)
        })
   }"

text \<open>The deferred patch; after a panic the named result is nil, and the panic goes on.\<close>

definition finish_config :: "'r benv_scheme \<Rightarrow> boutcome \<Rightarrow> boutcome bact" where
  "finish_config env r = do {
     config \<leftarrow> bread b_config;
     bmark env (\<lambda>now to. SetSummary now
       \<lparr>GetKind = ''OCNEConfig'', GetName = Name (OCNEConfig_ObjectMeta config), GetConditions = to\<rparr>
       [WithConditions [DataSecretAvailableCondition, CertificatesAvailableCondition]]);
     config \<leftarrow> bread b_config;
     err \<leftarrow> ecall_b env (BPatchConfig config (snd r = None \<or> panics (snd r)));
     State_Monad.return (fst r, if snd r = None then err else snd r)
   }"

definition run_config :: "'x ext_scheme \<Rightarrow> 'r benv_scheme \<Rightarrow> OCNEConfig \<Rightarrow> ConfigOwner \<Rightarrow> boutcome bact" where
  "run_config e env config configOwner = do {
     let ns = Owner_GetNamespace configOwner;
     let name = Owner_ClusterName configOwner;
     r \<leftarrow> bcall (BGetCluster ns name) (breply_Cluster env ns name);
     (case r of
        Inl err \<Rightarrow> State_Monad.return
          (no_result, if IsNotFound err then None else Some (Wrap ''failed to get Cluster'' err))
      | Inr cluster \<Rightarrow>
          (if IsPaused (Cluster_Spec_Paused cluster) (OCNEConfig_ObjectMeta config) then bdone no_result
           else do {
             err \<leftarrow> ecall_b env BNewConfigHelper;
             (case err of
                Some err \<Rightarrow> bfail err
              | None \<Rightarrow> do {
                  r \<leftarrow> reconcile_config e env \<lparr>scope_ConfigOwner = configOwner, scope_Cluster = cluster\<rparr>;
                  finish_config env r
                })
           }))
   }"

definition OCNEConfig_Reconcile :: "'x ext_scheme \<Rightarrow> 'r benv_scheme \<Rightarrow> boutcome bact" where
  "OCNEConfig_Reconcile e env = do {
     r \<leftarrow> bcall BGetConfig (breply_Config env);
     (case r of
        Inl err \<Rightarrow> State_Monad.return (no_result, if IsNotFound err then None else Some err)
      | Inr config \<Rightarrow> do {
          on_config (\<lambda>_. config);
          err \<leftarrow> ecall_b env BAddOwners;
          (case err of
             Some err \<Rightarrow> bfail err
           | None \<Rightarrow> do {
               r \<leftarrow> GetConfigOwner e env (OCNEConfig_ObjectMeta config);
               (case r of
                  Inl err \<Rightarrow> State_Monad.return (no_result, if IsNotFound err then None else Some err)
                | Inr None \<Rightarrow> bdone no_result
                | Inr (Some configOwner) \<Rightarrow> run_config e env config configOwner)
             })
        })
   }"

subsection \<open>Events\<close>

text \<open>Which configurations are reconciled when a machine, a machine pool or a cluster changes.\<close>

definition ref_group :: "'x ext_scheme \<Rightarrow> ObjectReference \<Rightarrow> string \<times> string" where
  "ref_group e ref =
     (case ParseGroupVersion e (ObjectReference_APIVersion ref) of Inl _ \<Rightarrow> ([], []) | Inr gv \<Rightarrow> gv)"

definition MachineToBootstrapMapFunc :: "'x ext_scheme \<Rightarrow> Machine \<Rightarrow> (string \<times> string) list" where
  "MachineToBootstrapMapFunc e m =
     (case Machine_Spec_Bootstrap_ConfigRef m of
        None \<Rightarrow> []
      | Some ref \<Rightarrow>
          (if ref_group e ref = (''bootstrap.cluster.x-k8s.io'', ''v1alpha1'') \<and> ObjectReference_Kind ref = ''OCNEConfig''
           then [(Namespace (Machine_ObjectMeta m), ObjectReference_Name ref)] else []))"

record MachinePool =
  MachinePool_ObjectMeta :: ObjectMeta
  MachinePool_ConfigRef :: "ObjectReference option"

definition config_request :: "'x ext_scheme \<Rightarrow> ObjectMeta \<Rightarrow> ObjectReference option \<Rightarrow> (string \<times> string) list" where
  "config_request e meta ref =
     (case ref of
        None \<Rightarrow> []
      | Some ref \<Rightarrow>
          (if fst (ref_group e ref) = ''bootstrap.cluster.x-k8s.io'' \<and> ObjectReference_Kind ref = ''OCNEConfig''
           then [(Namespace meta, ObjectReference_Name ref)] else []))"

definition MachinePoolToBootstrapMapFunc :: "'x ext_scheme \<Rightarrow> MachinePool \<Rightarrow> (string \<times> string) list" where
  "MachinePoolToBootstrapMapFunc e m = config_request e (MachinePool_ObjectMeta m) (MachinePool_ConfigRef m)"

text \<open>The lists of the machines and pools of the cluster, or the errors of listing them, are given.\<close>

definition ClusterToOCNEConfigs ::
  "'x ext_scheme \<Rightarrow> bool \<Rightarrow> error + Machine list \<Rightarrow> error + MachinePool list \<Rightarrow> (string \<times> string) list" where
  "ClusterToOCNEConfigs e machinePools machines pools =
     (case machines of
        Inl _ \<Rightarrow> []
      | Inr machines \<Rightarrow>
          (let result = concat (map (\<lambda>m. config_request e (Machine_ObjectMeta m) (Machine_Spec_Bootstrap_ConfigRef m)) machines)
           in if \<not> machinePools then result
              else case pools of
                     Inl _ \<Rightarrow> []
                   | Inr pools \<Rightarrow> result @ concat (map (MachinePoolToBootstrapMapFunc e) pools)))"

end
