(* ===== verification/BootstrapPasses.thy ===== *)
theory BootstrapPasses
  imports Bootstrap
begin

text \<open>
  What the bootstrap controller does in one reconciliation: the lock around the first control plane
  machine, the guards of a run, what backs a configuration that is reported ready, discovery, and the
  lifetime of tokens.

  The locale \<open>bootstrap_steps\<close> has rules for every relation between states that is kept by a call which
  neither locks nor patches, by a change of the configuration in memory that leaves the status of its
  data alone, and by storing the data. It is interpreted for the calls that do not lock, for the calls that do not
  patch, and for what backs the status.
\<close>

subsection \<open>Steps of an action\<close>

definition no_lock :: "bcall \<Rightarrow> bool" where
  "no_lock c = (case c of BLock _ \<Rightarrow> False | BUnlock \<Rightarrow> False | _ \<Rightarrow> True)"

definition no_patch :: "bcall \<Rightarrow> bool" where
  "no_patch c = (case c of BPatchConfig _ _ \<Rightarrow> False | _ \<Rightarrow> True)"

definition ordinary :: "bcall \<Rightarrow> bool" where
  "ordinary c \<longleftrightarrow> no_lock c \<and> no_patch c"

lemma ordinary_simps [simp]:
  "ordinary (BGetSecret ns n)" "ordinary (BCreateSecret sec)" "ordinary (BUpdateSecret sec)" "ordinary (BGenerateKeys p)"
  "ordinary BReadMetadata" "ordinary BRemoteClient" "ordinary BGenerateToken" "ordinary (BGetTokenSecret n)"
  "ordinary (BCreateTokenSecret sec)" "ordinary (BUpdateTokenSecret sec)" "ordinary (BNewSecretHelper n)"
  "ordinary (BPatchSecret sec)" "ordinary BGetConfig" "ordinary BAddOwners" "ordinary (BGetOwner ref)"
  "ordinary (BGetCluster ns n)" "ordinary BNewConfigHelper"
  by (simp_all add: ordinary_def no_lock_def no_patch_def)

text \<open>What the status says about the data.\<close>

definition data_status :: "OCNEConfig \<Rightarrow> bool \<times> string option" where
  "data_status c = (OCNEConfigStatus_Ready (OCNEConfig_Status c), OCNEConfigStatus_DataSecretName (OCNEConfig_Status c))"

definition keeps_status :: "(OCNEConfig \<Rightarrow> OCNEConfig) \<Rightarrow> bool" where
  "keeps_status g \<longleftrightarrow>
     (\<forall>c. OCNEConfig_ObjectMeta (g c) = OCNEConfig_ObjectMeta c \<and> data_status (g c) = data_status c \<and>
        (distinct_types (config_conditions c) \<longrightarrow> distinct_types (config_conditions (g c))))"

text \<open>A change of the conditions that keeps their types distinct.\<close>

definition marks :: "(Conditions \<Rightarrow> Conditions) \<Rightarrow> bool" where
  "marks h \<longleftrightarrow> (\<forall>cs. distinct_types cs \<longrightarrow> distinct_types (h cs))"

lemma marks_simps [simp]:
  "marks (\<lambda>to. MarkTrue now to t)" "marks (\<lambda>to. MarkFalse now to t reason severity m)"
  "marks (\<lambda>to. SetSummary now \<lparr>GetKind = k, GetName = n, GetConditions = to\<rparr> options)"
  by (simp_all add: marks_def distinct_Mark SetSummary_def distinct_Set)

lemma keeps_status_simps:
  "keeps_status (on_config_spec f)" "keeps_status (on_join j)"
  "marks h \<Longrightarrow> keeps_status (on_config_status (\<lambda>st. st\<lparr>OCNEConfigStatus_Conditions := h (OCNEConfigStatus_Conditions st)\<rparr>))"
  by (simp_all add: keeps_status_def marks_def data_status_def on_config_spec_def on_join_def on_config_status_def)

locale bootstrap_steps = chained R
  for R :: "bst \<Rightarrow> bst \<Rightarrow> bool" +
  fixes env :: "'r benv_scheme"
  assumes R_call: "ordinary c \<Longrightarrow> R s (s\<lparr>b_trace := b_trace s @ [c]\<rparr>)"
    and R_config: "keeps_status g \<Longrightarrow> R s (s\<lparr>b_config := g (b_config s)\<rparr>)"
    and R_store: "wp (storeBootstrapData env scope data) (\<lambda>_. R s) s"

sublocale bootstrap_steps \<subseteq> steady_client R "bclient env"
  by unfold_locales (simp_all add: bclient_def wp_simps R_call)

context bootstrap_steps
begin

lemma steady_call: "ordinary c \<Longrightarrow> steady (bcall c reply)" "ordinary c \<Longrightarrow> steady (ecall_b env c)"
  by (simp_all add: steady_def wp_simps R_call)

lemma steady_memory:
  "steady (bread f)" "keeps_status g \<Longrightarrow> steady (on_config g)" "(\<And>now. marks (h now)) \<Longrightarrow> steady (bmark env h)"
  "steady (set_token t)"
  using R_config keeps_status_simps
  by (auto simp: steady_def wp_simps R_refl bmark_def set_token_def)

lemma steady_store: "steady (storeBootstrapData env scope data)"
  by (simp add: steady_def R_store)

lemma steady_fail: "steady (fail_marked env t reason severity err)"
  unfolding fail_marked_def by (intro steady_intros steady_memory marks_simps)

lemmas steps = steady_intros steady_memory steady_fail steady_store steady_call keeps_status_simps ordinary_simps marks_simps

lemma steady_resolveFiles: "steady (resolveFiles env ns files)"
  by (induction files)
    (auto simp: resolveSecretFileContent_def secret_content_def intro!: steps)

lemma steady_resolveUsers: "steady (resolveUsers env ns users)"
  by (induction users)
    (auto simp: resolveSecretPasswordContent_def secret_content_def intro!: steps)

lemma steady_render:
  "steady (render_init env spec ci)" "steady (render_join env spec cj)" "steady (render_node env spec n)"
  unfolding render_init_def render_join_def render_node_def by (intro steps)+

lemma steady_render_and_store:
  assumes "\<And>spec base. steady (render spec base)"
  shows "steady (render_and_store env scope retry render)"
  unfolding render_and_store_def Let_def
  by (intro steps steady_resolveFiles steady_resolveUsers assms)

lemma steady_tokens:
  "steady (createToken env ttl)" "steady (getToken env token)" "steady (refreshToken env token ttl)"
  "steady (shouldRotate env token ttl)" "steady (refreshBootstrapToken env token)"
proof -
  show get: "steady (getToken env token)" for token
    unfolding getToken_def Let_def by (intro steps)
  then show refresh: "steady (refreshToken env token ttl)" for token ttl
    unfolding refreshToken_def by (intro steps)
  show "steady (createToken env ttl)"
    unfolding createToken_def by (intro steps)
  show "steady (shouldRotate env token ttl)"
    unfolding shouldRotate_def by (intro steps get)
  show "steady (refreshBootstrapToken env token)"
    unfolding refreshBootstrapToken_def by (intro steps refresh)
qed

lemma steady_discovery: "steady (reconcileDiscovery env cluster certificates)"
  unfolding reconcileDiscovery_def reconcile_token_discovery_def complete_discovery_def discovery_token_def
  by (intro steps steady_tokens)

lemma steady_join_with:
  assumes "\<And>certs text spec base. steady (render certs text spec base)"
  shows "steady (join_with e env scope certificates check render)"
  unfolding join_with_def join_data_def
  by (intro steps steady_Lookup steady_discovery steady_render_and_store assms)

lemma steady_joins: "steady (joinWorker e env scope)" "steady (joinControlplane e env scope)"
  unfolding joinWorker_def joinControlplane_def by (intro steps steady_join_with steady_render)+

lemma steady_initialize: "steady (initialize_locked e env scope machine)"
  unfolding initialize_locked_def initialize_cluster_def initialize_rendered_def initial_certificates_def Let_def
  by (intro steps steady_Lookup steady_LookupOrGenerate steady_render_and_store steady_render)

lemma steady_ready: "steady (reconcile_ready e env scope config)"
  unfolding reconcile_ready_def rotateMachinePoolBootstrapToken_def
  by (intro steps steady_tokens steady_joins)

lemma steady_owners: "steady (ensureBootstrapSecretOwnersRef e env)"
  unfolding ensureBootstrapSecretOwnersRef_def Let_def by (intro steps)

end

subsection \<open>Calls of an action\<close>

definition only :: "(bcall \<Rightarrow> bool) \<Rightarrow> bst \<Rightarrow> bst \<Rightarrow> bool" where
  "only P s s' \<longleftrightarrow> (\<exists>new. b_trace s' = b_trace s @ new \<and> list_all P new)"

lemma only_refl: "only P s s"
  by (simp add: only_def)

lemma only_trans: "only P s s1 \<Longrightarrow> only P s1 s2 \<Longrightarrow> only P s s2"
  by (auto simp: only_def)

lemma only_simps [simp]:
  "P c \<Longrightarrow> only P s (s\<lparr>b_trace := b_trace s @ [c]\<rparr>)" "only P s (s\<lparr>b_config := g\<rparr>)"
  by (simp_all add: only_def)

lemma only_store:
  assumes "\<And>c. ordinary c \<Longrightarrow> P c"
  shows "wp (storeBootstrapData env scope data) (\<lambda>_. only P s) s"
  unfolding storeBootstrapData_def data_available_def Let_def
  using assms by (auto simp: wp_simps only_def bmark_def split: option.split)

interpretation nl: bootstrap_steps "only no_lock" env for env :: "'r benv_scheme"
  by unfold_locales (auto intro: only_refl only_trans only_store simp: ordinary_def)

interpretation np: bootstrap_steps "only no_patch" env for env :: "'r benv_scheme"
  by unfold_locales (auto intro: only_refl only_trans only_store simp: ordinary_def)

subsection \<open>The lock\<close>

text \<open>
  After the lock was taken at the trace \<open>h\<close>: no lock is taken or given back before the end, and it is
  given back exactly after an error.
\<close>

definition lock_returned :: "'r benv_scheme \<Rightarrow> bcall list \<Rightarrow> boutcome \<Rightarrow> bst \<Rightarrow> bool" where
  "lock_returned env h r s' \<longleftrightarrow>
     (\<exists>work. list_all no_lock work \<and>
        (if snd r = None \<or> panics (snd r) then b_trace s' = h @ work
         else b_trace s' = h @ work @ [BUnlock] \<and>
           (breply_Lock env BUnlock (h @ work) \<or>
            (\<exists>err. snd r = Some (Aggregate [err, Err ''failed to unlock the ocne init lock''])))))"

definition same_readiness :: "bst \<Rightarrow> bst \<Rightarrow> bool" where
  "same_readiness s s' \<longleftrightarrow>
     OCNEConfig_Spec (b_config s') = OCNEConfig_Spec (b_config s) \<and>
     OCNEConfigStatus_Ready (OCNEConfig_Status (b_config s')) = OCNEConfigStatus_Ready (OCNEConfig_Status (b_config s)) \<and>
     OCNEConfigStatus_DataSecretName (OCNEConfig_Status (b_config s')) =
       OCNEConfigStatus_DataSecretName (OCNEConfig_Status (b_config s))"

definition init_pass :: "'r benv_scheme \<Rightarrow> Scope \<Rightarrow> bst \<Rightarrow> boutcome \<Rightarrow> bst \<Rightarrow> bool" where
  "init_pass env scope s r s' \<longleftrightarrow>
     b_trace s' = b_trace s \<and> same_readiness s s' \<or>
     Owner_IsControlPlaneMachine (scope_ConfigOwner scope) \<and>
     (\<exists>machine. FromUnstructured (scope_ConfigOwner scope) = Inr machine \<and>
        (if breply_Lock env (BLock machine) (b_trace s)
         then lock_returned env (b_trace s @ [BLock machine]) r s'
         else b_trace s' = b_trace s @ [BLock machine] \<and> same_readiness s s' \<and>
           r = (requeue_after (30 * second), None)))"

lemma unlock_wp:
  assumes "b_trace s2 = h @ work" "list_all no_lock work"
  shows "wp (unlock_on_error env r) (lock_returned env h) s2"
  using assms
  by (cases r; cases "snd r") (auto simp: unlock_on_error_def wp_simps panics_def lock_returned_def)

lemma locked_wp:
  fixes env :: "'r benv_scheme" and e :: "'x ext_scheme"
  assumes "b_trace s1 = h"
  shows "wp (initialize_locked e env scope machine) (\<lambda>r. wp (unlock_on_error env r) (lock_returned env h)) s1"
proof (rule wp_mono [OF nl.steadyD [OF nl.steady_initialize]])
  fix r s2
  assume "only no_lock s1 s2"
  then obtain work where "list_all no_lock work" "b_trace s2 = h @ work"
    using assms by (auto simp: only_def)
  then show "wp (unlock_on_error env r) (lock_returned env h) s2"
    by (intro unlock_wp)
qed

text \<open>
  C8. The data of the first control plane machine is made under the init lock. A run for a cluster that
  is not initialised calls nothing unless the owner is a control plane machine, takes the lock before
  anything else, waits thirty seconds when it does not get it, and gives it back exactly when it returns an error, where a failure to give it
  back is added to that error. A run that succeeds keeps the lock, and so does one that ends in a panic, since its deferred function then
  finds no error in the named result.
\<close>

theorem init_under_lock:
  "wp (handleClusterNotInitialized e env scope) (init_pass env scope s) s"
proof -
  have locked: "wp (initialize_locked e env scope machine) (\<lambda>r. wp (unlock_on_error env r) (init_pass env scope s)) s1"
    if "b_trace s1 = b_trace s @ [BLock machine]" "Owner_IsControlPlaneMachine (scope_ConfigOwner scope)"
      "FromUnstructured (scope_ConfigOwner scope) = Inr machine" "breply_Lock env (BLock machine) (b_trace s)" for machine s1
    by (rule wp_mono [OF locked_wp [OF that(1)]], erule wp_mono) (use that in \<open>auto simp: init_pass_def\<close>)
  show ?thesis
    unfolding handleClusterNotInitialized_def
    by (auto simp: wp_simps bmark_def on_config_status_def split: sum.split intro!: locked)
      (auto simp: init_pass_def same_readiness_def)
qed

subsection \<open>What backs the status\<close>

text \<open>A secret with data was written for the configuration, without an error.\<close>

definition data_stored :: "'r benv_scheme \<Rightarrow> ObjectMeta \<Rightarrow> bcall list \<Rightarrow> bool" where
  "data_stored env meta t \<longleftrightarrow>
     seen (\<lambda>h c. \<exists>secret. (c = BCreateSecret secret \<or> c = BUpdateSecret secret) \<and> breply_Error env c h = None \<and>
       Name (Secret_ObjectMeta secret) = Name meta \<and> Namespace (Secret_ObjectMeta secret) = Namespace meta \<and>
       map_of (Secret_Data secret) ''value'' \<noteq> None) t"

text \<open>The status of the data is as before, backed by data that was stored, or taken from the owner.\<close>

definition status_backed :: "'r benv_scheme \<Rightarrow> ConfigOwner \<Rightarrow> OCNEConfig \<Rightarrow> OCNEConfig \<Rightarrow> bcall list \<Rightarrow> bool" where
  "status_backed env owner config c t \<longleftrightarrow>
     data_status c = data_status config \<or>
     data_status c = (True, Some (Name (OCNEConfig_ObjectMeta config))) \<and> data_stored env (OCNEConfig_ObjectMeta config) t \<or>
     data_status c = (True, DataSecretName owner) \<and> DataSecretName owner \<noteq> None"

definition backed :: "'r benv_scheme \<Rightarrow> ConfigOwner \<Rightarrow> bst \<Rightarrow> bst \<Rightarrow> bool" where
  "backed env owner s s' \<longleftrightarrow> prefix (b_trace s) (b_trace s') \<and>
     OCNEConfig_ObjectMeta (b_config s') = OCNEConfig_ObjectMeta (b_config s) \<and>
     status_backed env owner (b_config s) (b_config s') (b_trace s')"

lemma data_stored_mono: "data_stored env meta t \<Longrightarrow> prefix t t' \<Longrightarrow> data_stored env meta t'"
  unfolding data_stored_def by (rule seen_mono)

lemma backed_refl: "backed env owner s s"
  by (simp add: backed_def status_backed_def)

lemma backed_trans:
  assumes "backed env owner s s1" "backed env owner s1 s2"
  shows "backed env owner s s2"
proof -
  have "prefix (b_trace s) (b_trace s2)"
    using assms unfolding backed_def by (meson prefix_order.trans)
  moreover have "data_stored env meta (b_trace s2)" if "data_stored env meta (b_trace s1)" for meta
    using assms(2) data_stored_mono [OF that] unfolding backed_def by blast
  ultimately show ?thesis
    using assms unfolding backed_def status_backed_def by metis
qed

lemma backed_call: "backed env owner s (s\<lparr>b_trace := b_trace s @ [c]\<rparr>)"
  by (simp add: backed_def status_backed_def)

lemma backed_config: "keeps_status g \<Longrightarrow> backed env owner s (s\<lparr>b_config := g (b_config s)\<rparr>)"
  by (simp add: backed_def status_backed_def keeps_status_def)

lemma bootstrap_secret_simps [simp]:
  "Name (Secret_ObjectMeta (bootstrap_secret scope config data)) = Name (OCNEConfig_ObjectMeta config)"
  "Namespace (Secret_ObjectMeta (bootstrap_secret scope config data)) = Namespace (OCNEConfig_ObjectMeta config)"
  "map_of (Secret_Data (bootstrap_secret scope config data)) ''value'' = Some data"
  by (simp_all add: bootstrap_secret_def)

lemma data_stored_create:
  "breply_Error env (BCreateSecret (bootstrap_secret cluster config data)) t = None \<Longrightarrow>
   data_stored env (OCNEConfig_ObjectMeta config) (t @ [BCreateSecret (bootstrap_secret cluster config data)])"
  by (auto simp: data_stored_def)

lemma data_stored_update:
  assumes "breply_Error env (BUpdateSecret (bootstrap_secret cluster config data)) (t @ [c]) = None"
  shows "data_stored env (OCNEConfig_ObjectMeta config) (t @ [c, BUpdateSecret (bootstrap_secret cluster config data)])"
proof -
  have "data_stored env (OCNEConfig_ObjectMeta config) ((t @ [c]) @ [BUpdateSecret (bootstrap_secret cluster config data)])"
    unfolding data_stored_def seen_snoc using assms by auto
  then show ?thesis by simp
qed

lemma data_available_wp:
  assumes "\<And>c. OCNEConfig_ObjectMeta c = OCNEConfig_ObjectMeta (b_config s1) \<Longrightarrow>
    data_status c = (True, name) \<Longrightarrow>
    (distinct_types (config_conditions (b_config s1)) \<Longrightarrow> distinct_types (config_conditions c)) \<Longrightarrow> Q () (s1\<lparr>b_config := c\<rparr>)"
  shows "wp (data_available env name) Q s1"
  unfolding data_available_def bmark_def
  by (simp add: wp_simps on_config_status_def) (rule assms, simp_all add: data_status_def distinct_Mark)

lemma backed_store: "wp (storeBootstrapData env scope data) (\<lambda>_. backed env owner s) s"
  unfolding storeBootstrapData_def Let_def
  by (auto simp: wp_simps backed_def status_backed_def data_stored_create data_stored_update
      split: option.split intro!: data_available_wp)

interpretation bk: bootstrap_steps "backed env owner" env for env :: "'r benv_scheme" and owner
  by unfold_locales (erule backed_trans | rule backed_refl backed_call backed_store backed_config | assumption)+

lemma backed_any_call: "chained.steady (backed env owner) (bcall c reply)"
  by (simp add: bk.steady_def wp_simps backed_call)

lemma backed_owner:
  "DataSecretName owner \<noteq> None \<Longrightarrow> chained.steady (backed env owner) (data_available env (DataSecretName owner))"
  unfolding bk.steady_def by (auto intro!: data_available_wp simp: backed_def status_backed_def)

lemma backed_init: "chained.steady (backed env owner) (handleClusterNotInitialized e env scope)"
  unfolding handleClusterNotInitialized_def unlock_on_error_def
  by (intro bk.steps bk.steady_initialize backed_any_call)

lemma backed_join: "chained.steady (backed env owner) (reconcile_join e env scope)"
  unfolding reconcile_join_def by (intro bk.steps bk.steady_joins backed_any_call)

lemma reconcile_config_backed:
  "chained.steady (backed env (scope_ConfigOwner scope)) (reconcile_config e env scope)"
  unfolding reconcile_config_def Let_def
  by (intro bk.steps bk.steady_owners bk.steady_ready backed_init backed_join backed_owner) auto

lemma unpatched:
  "no_patch c \<Longrightarrow> chained.steady (only no_patch) (bcall c reply)" "chained.steady (only no_patch) (data_available env name)"
  by (simp_all add: np.steady_def wp_simps data_available_def bmark_def only_def)

lemma no_patch_simps [simp]: "no_patch (BLock machine)" "no_patch BUnlock"
  by (simp_all add: no_patch_def)

lemma reconcile_config_unpatched: "chained.steady (only no_patch) (reconcile_config e env scope)"
  unfolding reconcile_config_def reconcile_join_def handleClusterNotInitialized_def unlock_on_error_def Let_def
  by (intro unpatched no_patch_simps np.steps np.steady_owners np.steady_ready np.steady_initialize np.steady_joins)

subsection \<open>A run\<close>

text \<open>The calls a run makes before it may change anything.\<close>

definition is_read :: "bcall \<Rightarrow> bool" where
  "is_read c =
     (case c of BGetConfig \<Rightarrow> True | BAddOwners \<Rightarrow> True | BGetOwner _ \<Rightarrow> True | BGetCluster _ _ \<Rightarrow> True | BNewConfigHelper \<Rightarrow> True
      | _ \<Rightarrow> False)"

lemma is_read_simps [simp]:
  "is_read BGetConfig" "is_read BAddOwners" "is_read (BGetOwner ref)" "is_read (BGetCluster ns name)" "is_read BNewConfigHelper"
  by (simp_all add: is_read_def)

text \<open>
  The reasons to stop early without an error: the configuration, its owner or its cluster is gone, the
  configuration has no owner yet, or it is paused.
\<close>

definition nothing_to_do :: "'r benv_scheme \<Rightarrow> bcall list \<Rightarrow> bool" where
  "nothing_to_do env t \<longleftrightarrow>
     (\<exists>err. breply_Config env [] = Inl err \<and> IsNotFound err) \<or>
     t = [BGetConfig, BAddOwners] \<or>
     (\<exists>ref h err. breply_Owner env ref h = Inl err \<and> IsNotFound err) \<or>
     (\<exists>ns name h err. breply_Cluster env ns name h = Inl err \<and> IsNotFound err) \<or>
     (\<exists>config ns name h cluster. breply_Config env [] = Inr config \<and> breply_Cluster env ns name h = Inr cluster \<and>
        IsPaused (Cluster_Spec_Paused cluster) (OCNEConfig_ObjectMeta config))"

lemma nothing_to_do_intros:
  "breply_Cluster env ns name h = Inl err \<Longrightarrow> IsNotFound err \<Longrightarrow> nothing_to_do env t"
  "breply_Config env [] = Inr config \<Longrightarrow> breply_Cluster env ns name h = Inr cluster \<Longrightarrow>
    IsPaused (Cluster_Spec_Paused cluster) (OCNEConfig_ObjectMeta config) \<Longrightarrow> nothing_to_do env t"
  unfolding nothing_to_do_def by blast+

text \<open>
  \<open>config_pass env r t\<close>: the run only read, and failed or had nothing to do; or it read a configuration, its owner
  and a cluster that does not pause it, and then worked without a patch and patched once, at its end.
\<close>

definition config_pass :: "'r benv_scheme \<Rightarrow> boutcome \<Rightarrow> bcall list \<Rightarrow> bool" where
  "config_pass env r t \<longleftrightarrow>
     list_all is_read t \<and> (snd r = None \<longrightarrow> nothing_to_do env t) \<or>
     (\<exists>pre work patched observed config owner cluster ref h1 h2.
        t = pre @ work @ [BPatchConfig patched observed] \<and> list_all is_read pre \<and> list_all no_patch work \<and>
        breply_Config env [] = Inr config \<and> breply_Owner env ref h1 = Inr owner \<and>
        breply_Cluster env (Owner_GetNamespace owner) (Owner_ClusterName owner) h2 = Inr cluster \<and>
        \<not> IsPaused (Cluster_Spec_Paused cluster) (OCNEConfig_ObjectMeta config) \<and>
        OCNEConfig_ObjectMeta patched = OCNEConfig_ObjectMeta config \<and>
        status_backed env owner config patched (pre @ work) \<and>
        (snd r = None \<longrightarrow> observed \<and> breply_Error env (BPatchConfig patched observed) (pre @ work) = None))"

lemma worked_pass:
  assumes "t = pre @ work @ [BPatchConfig patched observed]" "list_all is_read pre" "list_all no_patch work"
    "breply_Config env [] = Inr config" "breply_Owner env ref h1 = Inr owner"
    "breply_Cluster env (Owner_GetNamespace owner) (Owner_ClusterName owner) h2 = Inr cluster"
    "\<not> IsPaused (Cluster_Spec_Paused cluster) (OCNEConfig_ObjectMeta config)"
    "OCNEConfig_ObjectMeta patched = OCNEConfig_ObjectMeta config"
    "status_backed env owner config patched (pre @ work)"
    "snd r = None \<longrightarrow> observed \<and> breply_Error env (BPatchConfig patched observed) (pre @ work) = None"
  shows "config_pass env r t"
  unfolding config_pass_def by (rule disjI2, intro exI conjI) (fact assms)+

lemma owner_of_refs_wp:
  "wp (owner_of_refs e env ns refs)
     (\<lambda>r s'. only is_read s s' \<and> b_config s' = b_config s \<and>
        (r = Inr None \<longrightarrow> b_trace s' = b_trace s) \<and>
        (\<forall>err. r = Inl err \<longrightarrow> b_trace s' = b_trace s \<or> (\<exists>ref h. breply_Owner env ref h = Inl err)) \<and>
        (\<forall>owner. r = Inr (Some owner) \<longrightarrow> (\<exists>ref h. breply_Owner env ref h = Inr owner))) s"
proof (induction refs)
  case (Cons ref refs)
  have "map_sum id Some r = Inl err \<longleftrightarrow> r = Inl err" for r :: "error + ConfigOwner" and err
    by (cases r) auto
  with Cons show ?case
    by (auto simp: wp_simps Let_def only_refl split: sum.split prod.split dest!: map_sum_InrD)
qed (simp add: wp_simps only_refl)

lemma finish_config_wp:
  assumes "status_backed env owner config (b_config s) (b_trace s)"
    "OCNEConfig_ObjectMeta (b_config s) = OCNEConfig_ObjectMeta config"
  shows "wp (finish_config env r)
     (\<lambda>r' s'. \<exists>patched observed. b_trace s' = b_trace s @ [BPatchConfig patched observed] \<and>
        OCNEConfig_ObjectMeta patched = OCNEConfig_ObjectMeta config \<and>
        status_backed env owner config patched (b_trace s) \<and>
        (snd r' = None \<longrightarrow> observed \<and> breply_Error env (BPatchConfig patched observed) (b_trace s) = None)) s"
  unfolding finish_config_def bmark_def using assms
  by (auto simp: wp_simps on_config_status_def status_backed_def data_status_def)

lemma work_wp:
  fixes env :: "'r benv_scheme"
  assumes read: "list_all is_read (b_trace s)" "breply_Config env [] = Inr (b_config s)" "breply_Owner env ref h1 = Inr owner"
      "breply_Cluster env (Owner_GetNamespace owner) (Owner_ClusterName owner) h2 = Inr cluster"
      "\<not> IsPaused (Cluster_Spec_Paused cluster) (OCNEConfig_ObjectMeta (b_config s))"
    and scope: "scope_ConfigOwner scope = owner"
  shows "wp (reconcile_config e env scope)
    (\<lambda>r. wp (finish_config env r) (\<lambda>r s'. config_pass env r (b_trace s'))) s"
proof -
  have "wp (reconcile_config e env scope) (\<lambda>_ s'. backed env owner s s' \<and> only no_patch s s') s"
    using bk.steadyD [OF reconcile_config_backed, of e env scope s]
      np.steadyD [OF reconcile_config_unpatched, of e env scope s] scope
    by (auto simp: wp_def split: prod.splits)
  then show ?thesis
  proof (rule wp_mono)
    fix r s1
    assume "backed env owner s s1 \<and> only no_patch s s1"
    then obtain work where work: "b_trace s1 = b_trace s @ work" "list_all no_patch work"
        "status_backed env owner (b_config s) (b_config s1) (b_trace s1)"
        "OCNEConfig_ObjectMeta (b_config s1) = OCNEConfig_ObjectMeta (b_config s)"
      by (auto simp: backed_def only_def)
    show "wp (finish_config env r) (\<lambda>r s'. config_pass env r (b_trace s')) s1"
    proof (rule wp_mono [OF finish_config_wp [OF work(3,4)]], elim exE conjE)
      fix r' :: boutcome and s2 patched observed
      assume "b_trace s2 = b_trace s1 @ [BPatchConfig patched observed]"
        "OCNEConfig_ObjectMeta patched = OCNEConfig_ObjectMeta (b_config s)"
        "status_backed env owner (b_config s) patched (b_trace s1)"
        "snd r' = None \<longrightarrow> observed \<and> breply_Error env (BPatchConfig patched observed) (b_trace s1) = None"
      then show "config_pass env r' (b_trace s2)"
        using read work(1,2) by (intro worked_pass [of "b_trace s2" "b_trace s" work patched observed env "b_config s" ref h1 owner h2 cluster]) auto
    qed
  qed
qed

lemma read_pass: "list_all is_read t \<Longrightarrow> (snd r = None \<Longrightarrow> nothing_to_do env t) \<Longrightarrow> config_pass env r t"
  by (simp add: config_pass_def)

lemma run_config_wp:
  assumes "list_all is_read (b_trace s)" "breply_Config env [] = Inr (b_config s)" "breply_Owner env ref h1 = Inr owner"
  shows "wp (run_config e env (b_config s) owner) (\<lambda>r s'. config_pass env r (b_trace s')) s"
  unfolding run_config_def Let_def using assms
  by (auto simp: wp_simps split: sum.split option.split if_splits intro!: work_wp read_pass intro: nothing_to_do_intros)

text \<open>
  C6. A reconciliation of a bootstrap configuration that succeeds without a change had nothing to do: the
  configuration, its owner or its cluster is gone, it has no owner yet, or it is paused. A reconciliation changes
  something only after the configuration, its owner and its cluster were read and the cluster does not pause it. It then patches the configuration exactly
  once, at its end, and its success means that the patch succeeded and recorded the generation that was reconciled. The patch reports
  the data of the configuration as it was read, with the secret of the owner, or as ready with the secret
  of the configuration after that secret was written with data in this run.
\<close>

theorem OCNEConfig_Reconcile_pass:
  "wp (OCNEConfig_Reconcile e env) (\<lambda>r s'. config_pass env r (b_trace s')) \<lparr>b_trace = [], b_config = c0\<rparr>"
proof -
  have "wp (GetConfigOwner e env (OCNEConfig_ObjectMeta config))
      (\<lambda>r. wp (case r of
           Inl err \<Rightarrow> State_Monad.return (no_result, if IsNotFound err then None else Some err)
         | Inr None \<Rightarrow> bdone no_result
         | Inr (Some configOwner) \<Rightarrow> run_config e env config configOwner)
        (\<lambda>r s'. config_pass env r (b_trace s'))) \<lparr>b_trace = [BGetConfig, BAddOwners], b_config = config\<rparr>"
    if "breply_Config env [] = Inr config" for config
    unfolding GetConfigOwner_def
  proof (rule wp_mono [OF owner_of_refs_wp], elim conjE)
    fix r :: "error + ConfigOwner option" and s1
    assume s1: "only is_read \<lparr>b_trace = [BGetConfig, BAddOwners], b_config = config\<rparr> s1"
      "b_config s1 = b_config \<lparr>b_trace = [BGetConfig, BAddOwners], b_config = config\<rparr>"
      and none: "r = Inr None \<longrightarrow> b_trace s1 = b_trace \<lparr>b_trace = [BGetConfig, BAddOwners], b_config = config\<rparr>"
      and fails: "\<forall>err. r = Inl err \<longrightarrow> b_trace s1 = b_trace \<lparr>b_trace = [BGetConfig, BAddOwners], b_config = config\<rparr> \<or>
        (\<exists>ref h. breply_Owner env ref h = Inl err)"
      and owner: "\<forall>owner. r = Inr (Some owner) \<longrightarrow> (\<exists>ref h. breply_Owner env ref h = Inr owner)"
    then have "list_all is_read (b_trace s1)" "b_config s1 = config"
      by (auto simp: only_def)
    then show "wp (case r of
           Inl err \<Rightarrow> State_Monad.return (no_result, if IsNotFound err then None else Some err)
         | Inr None \<Rightarrow> bdone no_result
         | Inr (Some configOwner) \<Rightarrow> run_config e env config configOwner) (\<lambda>r s'. config_pass env r (b_trace s')) s1"
      using owner none fails that
      by (auto simp: wp_simps nothing_to_do_def intro!: read_pass intro: run_config_wp split: sum.split option.split if_splits)
  qed
  then show ?thesis
    unfolding OCNEConfig_Reconcile_def
    by (auto simp: wp_simps nothing_to_do_def intro!: read_pass split: sum.split option.split if_splits)
qed

subsection \<open>The type of a configuration\<close>

text \<open>The conditions have distinct types, and a configuration that is ready names the secret with its data.\<close>

definition config_wf :: "OCNEConfig \<Rightarrow> bool" where
  "config_wf c \<longleftrightarrow> distinct_types (config_conditions c) \<and> (fst (data_status c) \<longrightarrow> snd (data_status c) \<noteq> None)"

definition patches_wf :: "bcall list \<Rightarrow> bool" where
  "patches_wf t \<longleftrightarrow> (\<forall>c observed. BPatchConfig c observed \<in> set t \<longrightarrow> config_wf c)"

definition typed :: "bst \<Rightarrow> bst \<Rightarrow> bool" where
  "typed s s' \<longleftrightarrow> (config_wf (b_config s) \<and> patches_wf (b_trace s) \<longrightarrow> config_wf (b_config s') \<and> patches_wf (b_trace s'))"

lemma patches_wf_snoc: "no_patch c \<Longrightarrow> patches_wf (t @ [c]) \<longleftrightarrow> patches_wf t"
  by (auto simp: patches_wf_def no_patch_def)

lemma typed_call: "no_patch c \<Longrightarrow> typed s (s\<lparr>b_trace := b_trace s @ [c]\<rparr>)"
  by (simp add: typed_def patches_wf_snoc)

lemma typed_data_available: "typed s s1 \<Longrightarrow> wp (data_available env (Some name)) (\<lambda>_. typed s) s1"
  by (rule data_available_wp) (auto simp: typed_def config_wf_def)

lemma typed_refl: "typed s s"
  by (simp add: typed_def)

lemma typed_trans: "typed s s1 \<Longrightarrow> typed s1 s2 \<Longrightarrow> typed s s2"
  by (auto simp: typed_def)

lemma typed_config: "keeps_status g \<Longrightarrow> typed s (s\<lparr>b_config := g (b_config s)\<rparr>)"
  by (auto simp: typed_def config_wf_def keeps_status_def)

lemma typed_store: "wp (storeBootstrapData env scope data) (\<lambda>_. typed s) s"
  unfolding storeBootstrapData_def Let_def
  by (auto simp: wp_simps split: option.split intro!: typed_data_available)
    (auto simp: typed_def patches_wf_def)

interpretation ty: bootstrap_steps typed env for env :: "'r benv_scheme"
  by unfold_locales
    (auto intro: typed_refl typed_call typed_config typed_store simp: ordinary_def, erule typed_trans, assumption)

lemma typed_any_call: "no_patch c \<Longrightarrow> chained.steady typed (bcall c reply)"
  by (simp add: ty.steady_def wp_simps typed_call)

lemma typed_owner: "name \<noteq> None \<Longrightarrow> chained.steady typed (data_available env name)"
  by (auto simp: ty.steady_def intro: typed_data_available typed_refl)

lemma reconcile_config_typed: "chained.steady typed (reconcile_config e env scope)"
  unfolding reconcile_config_def reconcile_join_def handleClusterNotInitialized_def unlock_on_error_def Let_def
  by (intro typed_any_call typed_owner no_patch_simps ty.steps ty.steady_owners ty.steady_ready ty.steady_initialize
      ty.steady_joins) auto

lemma finish_config_typed: "chained.steady typed (finish_config env r)"
  unfolding finish_config_def bmark_def
  by (auto simp: ty.steady_def wp_simps typed_def patches_wf_def on_config_status_def config_wf_def data_status_def
      SetSummary_def distinct_Set)

lemma owner_of_refs_typed: "chained.steady typed (owner_of_refs e env ns refs)"
  by (induction refs) (auto simp: Let_def split: sum.split intro!: ty.steps)

lemma run_config_typed: "chained.steady typed (run_config e env config owner)"
  unfolding run_config_def Let_def by (intro ty.steps reconcile_config_typed finish_config_typed)

definition wf_kept :: "'r benv_scheme \<Rightarrow> bcall list \<Rightarrow> bool" where
  "wf_kept env t \<longleftrightarrow> (\<forall>config. breply_Config env [] = Inr config \<longrightarrow> config_wf config \<longrightarrow> patches_wf t)"

text \<open>
  C24. Every configuration that a reconciliation patches is well formed when the configuration it read
  is: the types of its conditions are distinct, and when it is ready it names the secret with its data.
\<close>

theorem OCNEConfig_Reconcile_typed:
  "wp (OCNEConfig_Reconcile e env) (\<lambda>_ s'. wf_kept env (b_trace s')) \<lparr>b_trace = [], b_config = c0\<rparr>"
proof -
  have rest: "wp act (\<lambda>_ s'. wf_kept env (b_trace s')) s"
    if "chained.steady typed act" "b_config s = config" "breply_Config env [] = Inr config" "b_trace s = [BGetConfig]"
    for act :: "boutcome bact" and s config
    using ty.steadyD [OF that(1), of s] that(2-4)
    by (auto simp: wp_def typed_def wf_kept_def patches_wf_def split: prod.splits)
  have "chained.steady typed (do {
          err \<leftarrow> ecall_b env BAddOwners;
          (case err of
             Some err \<Rightarrow> bfail err
           | None \<Rightarrow> do {
               r \<leftarrow> GetConfigOwner e env (OCNEConfig_ObjectMeta config);
               (case r of
                  Inl err \<Rightarrow> State_Monad.return (no_result, if IsNotFound err then None else Some err)
                | Inr None \<Rightarrow> bdone no_result
                | Inr (Some configOwner) \<Rightarrow> run_config e env config configOwner)
             })
        })" for config
    unfolding GetConfigOwner_def by (intro ty.steps owner_of_refs_typed run_config_typed)
  from rest [OF this] show ?thesis
    unfolding OCNEConfig_Reconcile_def wp_bind wp_bcall
    by (auto simp: wp_bind wp_on_config wp_return wf_kept_def patches_wf_def split: sum.split)
qed

subsection \<open>Discovery is completed\<close>

text \<open>A token was made: a secret for it that lasts for the lifetime of tokens was created without an error.\<close>

definition token_made :: "'r benv_scheme \<Rightarrow> string \<Rightarrow> bcall list \<Rightarrow> bool" where
  "token_made env token t \<longleftrightarrow>
     seen (\<lambda>h c. \<exists>tokenID tokenSecret. BootstrapTokenRegexp env token = Some (tokenID, tokenSecret) \<and>
       c = BCreateTokenSecret (token_secret env tokenID tokenSecret (bNow env h + TokenTTL env)) \<and>
       breply_Error env c h = None) t"

definition values_kept :: "BootstrapTokenDiscovery \<Rightarrow> BootstrapTokenDiscovery \<Rightarrow> bool" where
  "values_kept t0 t \<longleftrightarrow>
     (BootstrapTokenDiscovery_Token t0 \<noteq> [] \<longrightarrow> BootstrapTokenDiscovery_Token t = BootstrapTokenDiscovery_Token t0) \<and>
     (BootstrapTokenDiscovery_APIServerEndpoint t0 \<noteq> [] \<longrightarrow>
        BootstrapTokenDiscovery_APIServerEndpoint t = BootstrapTokenDiscovery_APIServerEndpoint t0) \<and>
     (items (BootstrapTokenDiscovery_CACertHashes t0) \<noteq> [] \<longrightarrow>
        BootstrapTokenDiscovery_CACertHashes t = BootstrapTokenDiscovery_CACertHashes t0) \<and>
     (BootstrapTokenDiscovery_UnsafeSkipCAVerification t0 \<longrightarrow> BootstrapTokenDiscovery_UnsafeSkipCAVerification t)"

text \<open>What a node needs to join: a token, an endpoint, and hashes unless it skips the verification.\<close>

definition discovery_complete ::
  "'r benv_scheme \<Rightarrow> Cluster \<Rightarrow> BootstrapTokenDiscovery \<Rightarrow> BootstrapTokenDiscovery \<Rightarrow> bcall list \<Rightarrow> bool" where
  "discovery_complete env cluster t0 t trace \<longleftrightarrow>
     (BootstrapTokenDiscovery_Token t0 = [] \<longrightarrow> token_made env (BootstrapTokenDiscovery_Token t) trace) \<and>
     (BootstrapTokenDiscovery_APIServerEndpoint t0 = [] \<longrightarrow>
        endpoint_IsValid cluster \<and> BootstrapTokenDiscovery_APIServerEndpoint t =
          Endpoint_String env (Cluster_Spec_ControlPlaneEndpoint_Host cluster) (Cluster_Spec_ControlPlaneEndpoint_Port cluster)) \<and>
     (BootstrapTokenDiscovery_UnsafeSkipCAVerification t \<longleftrightarrow>
        BootstrapTokenDiscovery_UnsafeSkipCAVerification t0 \<or> items (BootstrapTokenDiscovery_CACertHashes t) = [])"

definition with_token :: "OCNEConfig \<Rightarrow> BootstrapTokenDiscovery \<Rightarrow> OCNEConfig" where
  "with_token c t = on_join (\<lambda>j. j\<lparr>JoinConfiguration_Discovery :=
     (JoinConfiguration_Discovery j)\<lparr>Discovery_BootstrapToken := Some t\<rparr>\<rparr>) c"

definition token_settled ::
  "'r benv_scheme \<Rightarrow> Cluster \<Rightarrow> bst \<Rightarrow> BootstrapTokenDiscovery \<Rightarrow> boutcome \<Rightarrow> bst \<Rightarrow> bool" where
  "token_settled env cluster s t0 r s' \<longleftrightarrow>
     (\<exists>t. b_config s' = with_token (b_config s) t \<and>
        values_kept t0 t \<and> (BootstrapTokenDiscovery_Token t0 \<noteq> [] \<longrightarrow> b_trace s' = b_trace s) \<and>
        (snd r \<noteq> None \<or>
         fst r = requeue_after (10 * second) \<and> b_trace s' = b_trace s \<and>
           BootstrapTokenDiscovery_APIServerEndpoint t0 = [] \<and> \<not> endpoint_IsValid cluster \<or>
         fst r = no_result \<and> discovery_complete env cluster t0 t (b_trace s')))"

definition discovery_pass :: "'r benv_scheme \<Rightarrow> Cluster \<Rightarrow> bst \<Rightarrow> boutcome \<Rightarrow> bst \<Rightarrow> bool" where
  "discovery_pass env cluster s r s' \<longleftrightarrow>
     (case config_join (b_config s) of
        None \<Rightarrow> panics (snd r)
      | Some j \<Rightarrow>
          (if Discovery_File (JoinConfiguration_Discovery j) \<noteq> None then s' = s \<and> r = (no_result, None)
           else token_settled env cluster s
             (case Discovery_BootstrapToken (JoinConfiguration_Discovery j) of
                None \<Rightarrow> zero_BootstrapTokenDiscovery | Some t \<Rightarrow> t) r s'))"

lemma discovery_token_wp:
  "wp (discovery_token env t)
     (\<lambda>r s'. b_config s' = b_config s \<and> (BootstrapTokenDiscovery_Token t \<noteq> [] \<longrightarrow> r = Inr t \<and> b_trace s' = b_trace s) \<and>
        (\<forall>t'. r = Inr t' \<longrightarrow> (BootstrapTokenDiscovery_Token t = [] \<longrightarrow>
           token_made env (BootstrapTokenDiscovery_Token t') (b_trace s') \<and>
           t' = t\<lparr>BootstrapTokenDiscovery_Token := BootstrapTokenDiscovery_Token t'\<rparr>))) s"
proof -
  have create: "wp (createToken env (TokenTTL env))
     (\<lambda>r s'. b_config s' = b_config s1 \<and> (\<forall>token. r = Inr token \<longrightarrow> token_made env token (b_trace s'))) s1" for s1
    unfolding createToken_def
    by (auto simp: wp_simps token_made_def split: sum.split option.split prod.split simp del: append_assoc)
  show ?thesis
    unfolding discovery_token_def
    by (auto simp: wp_simps split: option.split intro!: wp_mono [OF create] dest!: map_sum_InrD)
qed

lemma set_token_wp [wp_simps]: "wp (set_token t) Q = (\<lambda>s. Q () (s\<lparr>b_config := with_token (b_config s) t\<rparr>))"
  by (simp add: set_token_def with_token_def wp_simps)

lemma with_token_twice [simp]: "with_token (with_token c t) t' = with_token c t'"
  by (simp add: with_token_def on_join_def on_config_spec_def option.map_comp comp_def)

lemma token_settledI:
  assumes "b_config s' = with_token (b_config s) t" "values_kept t0 t"
    "BootstrapTokenDiscovery_Token t0 \<noteq> [] \<longrightarrow> b_trace s' = b_trace s"
    "snd r \<noteq> None \<or> fst r = no_result \<and> discovery_complete env cluster t0 t (b_trace s')"
  shows "token_settled env cluster s t0 r s'"
  unfolding token_settled_def using assms by blast

definition skipped :: "BootstrapTokenDiscovery \<Rightarrow> BootstrapTokenDiscovery" where
  "skipped t = (if items (BootstrapTokenDiscovery_CACertHashes t) = []
     then t\<lparr>BootstrapTokenDiscovery_UnsafeSkipCAVerification := True\<rparr> else t)"

lemma complete_discovery_wp:
  assumes s1: "b_config s1 = with_token (b_config s) t1" "b_trace s1 = b_trace s" and kept: "values_kept t0 t1"
    and t1: "BootstrapTokenDiscovery_Token t1 = BootstrapTokenDiscovery_Token t0"
      "BootstrapTokenDiscovery_UnsafeSkipCAVerification t1 = BootstrapTokenDiscovery_UnsafeSkipCAVerification t0"
      "BootstrapTokenDiscovery_APIServerEndpoint t0 = [] \<Longrightarrow> endpoint_IsValid cluster \<and>
         BootstrapTokenDiscovery_APIServerEndpoint t1 =
           Endpoint_String env (Cluster_Spec_ControlPlaneEndpoint_Host cluster) (Cluster_Spec_ControlPlaneEndpoint_Port cluster)"
  shows "wp (complete_discovery env t1) (token_settled env cluster s t0) s1"
  unfolding complete_discovery_def wp_bind
proof (rule wp_mono [OF discovery_token_wp], elim conjE)
  fix r :: "error + BootstrapTokenDiscovery" and s2 :: bst
  assume s2: "b_config s2 = b_config s1"
    and given: "BootstrapTokenDiscovery_Token t1 \<noteq> [] \<longrightarrow> r = Inr t1 \<and> b_trace s2 = b_trace s1"
    and made: "\<forall>t'. r = Inr t' \<longrightarrow> (BootstrapTokenDiscovery_Token t1 = [] \<longrightarrow>
           token_made env (BootstrapTokenDiscovery_Token t') (b_trace s2) \<and>
           t' = t1\<lparr>BootstrapTokenDiscovery_Token := BootstrapTokenDiscovery_Token t'\<rparr>)"
  show "wp (case r of
        Inl err \<Rightarrow> bfail err
      | Inr t \<Rightarrow> do {
          set_token (if items (BootstrapTokenDiscovery_CACertHashes t) = []
            then t\<lparr>BootstrapTokenDiscovery_UnsafeSkipCAVerification := True\<rparr> else t);
          bdone no_result
        }) (token_settled env cluster s t0) s2"
  proof (cases r)
    case (Inl err)
    with s1 s2 given kept t1 show ?thesis
      by (simp add: wp_simps) (rule token_settledI [of _ _ t1], auto)
  next
    case (Inr t')
    with given made obtain tok where t': "t' = t1\<lparr>BootstrapTokenDiscovery_Token := tok\<rparr>"
      by (metis BootstrapTokenDiscovery.surjective BootstrapTokenDiscovery.update_convs(1) Inr_inject)
    have "discovery_complete env cluster t0 (skipped t') (b_trace s2)" "values_kept t0 (skipped t')"
      using Inr given made t1 kept unfolding t'
      by (auto simp: discovery_complete_def values_kept_def skipped_def)
    with Inr s1 s2 given t1 show ?thesis
      by (simp add: wp_simps skipped_def [symmetric]) (rule token_settledI [of _ _ "skipped t'"], auto)
  qed
qed

text \<open>
  C12. Reconciliation of discovery leaves a configuration with a discovery file alone. Otherwise it changes
  nothing but the bootstrap token part, keeps every value the user gave, makes no call when there is
  a token, waits ten seconds only when neither the user nor the cluster gives an endpoint, and ends without an error
  only with a complete discovery: a token whose secret was created to last for the lifetime of tokens, the endpoint
  of the cluster, and certificate hashes or, exactly without them or when the user says so, no verification.
\<close>

theorem reconcileDiscovery_completes:
  "wp (reconcileDiscovery env cluster certificates) (discovery_pass env cluster s) s"
proof -
  have settled: "wp (reconcile_token_discovery env cluster certificates t0) (token_settled env cluster s t0) s" for t0
  proof (cases "discovery_hashes env certificates t0")
    case (Inl err)
    then show ?thesis
      by (auto simp: reconcile_token_discovery_def wp_simps token_settled_def values_kept_def)
  next
    case (Inr t1)
    then have t1: "values_kept t0 t1" "BootstrapTokenDiscovery_Token t1 = BootstrapTokenDiscovery_Token t0"
        "BootstrapTokenDiscovery_APIServerEndpoint t1 = BootstrapTokenDiscovery_APIServerEndpoint t0"
        "BootstrapTokenDiscovery_UnsafeSkipCAVerification t1 = BootstrapTokenDiscovery_UnsafeSkipCAVerification t0"
      by (auto simp: discovery_hashes_def values_kept_def split: if_splits dest!: map_sum_InrD)
    show ?thesis
    proof (cases "discovery_endpoint env cluster t1")
      case None
      with Inr t1 show ?thesis
        by (auto simp: reconcile_token_discovery_def discovery_endpoint_def wp_simps token_settled_def split: if_splits)
    next
      case (Some t2)
      with t1 have "values_kept t0 t2" "BootstrapTokenDiscovery_Token t2 = BootstrapTokenDiscovery_Token t0"
          "BootstrapTokenDiscovery_UnsafeSkipCAVerification t2 = BootstrapTokenDiscovery_UnsafeSkipCAVerification t0"
          "BootstrapTokenDiscovery_APIServerEndpoint t0 = [] \<Longrightarrow> endpoint_IsValid cluster \<and>
             BootstrapTokenDiscovery_APIServerEndpoint t2 =
               Endpoint_String env (Cluster_Spec_ControlPlaneEndpoint_Host cluster) (Cluster_Spec_ControlPlaneEndpoint_Port cluster)"
        by (auto simp: discovery_endpoint_def values_kept_def split: if_splits)
      then show ?thesis
        unfolding reconcile_token_discovery_def using Inr Some by (auto simp: wp_simps intro!: complete_discovery_wp)
    qed
  qed
  show ?thesis
    unfolding reconcileDiscovery_def
    by (auto simp: wp_simps discovery_pass_def panics_def split: option.split intro!: wp_mono [OF settled])
qed

end
