(* ===== verification/Webhook.thy ===== *)
theory Webhook
  imports Scale OcneMeta
begin

text \<open>
  The webhooks of the control plane: \<open>ocne_control_plane_webhook.go\<close> and
  \<open>ocnecontrolplanetemplate_webhook.go\<close> of \<open>controlplane/ocne/api/v1alpha1\<close>, and \<open>webhooks/scale.go\<close>.
  They set defaults and decide whether an object may be created or updated.

  A validation gives the list of field errors, empty when the object is accepted; on the left side it
  gives an internal error or a panic. An update is judged by the merge patch between the JSON documents
  of the two objects. The documents, the library that makes the patch, the migration rules of CoreDNS
  and the printing of versions are functions of the environment \<open>wenv\<close>.
\<close>

subsection \<open>Documents and environment\<close>

datatype json = JNull | JScalar string | JArray "json list" | JObject "(string \<times> json) list"

record wenv =
  IgnitionFeature :: bool
  ClusterTopologyFeature :: bool
  metadata_reader :: meta_reader
  ValidUpMigration :: "string \<Rightarrow> string \<Rightarrow> error option"
  semver_String :: "semver \<Rightarrow> string"
  json_of :: "OCNEControlPlane \<Rightarrow> error + json"
  CreateMergePatch :: "json \<Rightarrow> json \<Rightarrow> error + json"

subsection \<open>Defaults\<close>

definition defaultRolloutStrategy :: "RolloutStrategy option \<Rightarrow> RolloutStrategy" where
  "defaultRolloutStrategy rolloutStrategy =
     (let s = (case rolloutStrategy of
                 None \<Rightarrow> \<lparr>RolloutStrategy_Type = [], RolloutStrategy_RollingUpdate = None\<rparr>
               | Some s \<Rightarrow> s);
          s = (if RolloutStrategy_Type s = [] then s\<lparr>RolloutStrategy_Type := RollingUpdateStrategyType\<rparr> else s)
      in if RolloutStrategy_Type s = RollingUpdateStrategyType
         then (let rolling = (case RolloutStrategy_RollingUpdate s of None \<Rightarrow> \<lparr>MaxSurge = None\<rparr> | Some r \<Rightarrow> r)
               in s\<lparr>RolloutStrategy_RollingUpdate := Some (rolling
                    \<lparr>MaxSurge := Some (case MaxSurge rolling of None \<Rightarrow> FromInt 1 | Some v \<Rightarrow> v)\<rparr>)\<rparr>)
         else s)"

definition defaultKubeadmControlPlaneSpec :: "OCNEControlPlaneSpec \<Rightarrow> string \<Rightarrow> OCNEControlPlaneSpec" where
  "defaultKubeadmControlPlaneSpec s ns =
     (let template = Spec_MachineTemplate s;
          ref = MachineTemplate_InfrastructureRef template
      in s\<lparr>Spec_Replicas := Some (case Spec_Replicas s of None \<Rightarrow> 1 | Some n \<Rightarrow> n),
           Spec_MachineTemplate := template\<lparr>MachineTemplate_InfrastructureRef :=
             (if ObjectReference_Namespace ref = [] then ref\<lparr>ObjectReference_Namespace := ns\<rparr> else ref)\<rparr>,
           Spec_Version := (if prefix ''v'' (Spec_Version s) then Spec_Version s else ''v'' @ Spec_Version s),
           Spec_ControlPlaneConfig := DefaultOCNEConfigSpec (Spec_ControlPlaneConfig s),
           Spec_RolloutStrategy := Some (defaultRolloutStrategy (Spec_RolloutStrategy s))\<rparr>)"

definition KCP_Default :: "OCNEControlPlane \<Rightarrow> OCNEControlPlane" where
  "KCP_Default kcp =
     kcp\<lparr>KCP_Spec := defaultKubeadmControlPlaneSpec (KCP_Spec kcp) (Namespace (KCP_ObjectMeta kcp))\<rparr>"

subsection \<open>Validation of a specification\<close>

definition minimumCertificatesExpiryDays :: int where
  "minimumCertificatesExpiryDays = 7"

definition validateRolloutBefore :: "RolloutBefore option \<Rightarrow> PathElem list \<Rightarrow> FieldError list" where
  "validateRolloutBefore rolloutBefore pathPrefix =
     (case Option.bind rolloutBefore CertificatesExpiryDays of
        None \<Rightarrow> []
      | Some days \<Rightarrow>
          (if days < minimumCertificatesExpiryDays
           then [Invalid (pathPrefix @ [Child ''certificatesExpiryDays'']) (BadInt days) ''must be greater than or equal to 7'']
           else []))"

text \<open>The pointers to the rolling update and its surge are followed without a check.\<close>

definition validateRolloutStrategy ::
  "RolloutStrategy option \<Rightarrow> int option \<Rightarrow> PathElem list \<Rightarrow> error + FieldError list" where
  "validateRolloutStrategy rolloutStrategy replicas pathPrefix =
     (case rolloutStrategy of
        None \<Rightarrow> Inr []
      | Some strategy \<Rightarrow>
          (case Option.bind (RolloutStrategy_RollingUpdate strategy) MaxSurge of
             None \<Rightarrow> Inl (Panic ''nil pointer dereference'')
           | Some surge \<Rightarrow> Inr (
               (if RolloutStrategy_Type strategy \<noteq> RollingUpdateStrategyType
                then [Required (pathPrefix @ [Child ''type'']) ''only RollingUpdateStrategyType is supported'']
                else []) @
               (if IntValue surge = 0 \<and> (case replicas of None \<Rightarrow> False | Some n \<Rightarrow> n < 3)
                then [Required (pathPrefix @ [Child ''rollingUpdate''])
                  ''when OCNEControlPlane is configured to scale-in, replica count needs to be at least 3'']
                else []) @
               (if IntValue surge \<noteq> 1 \<and> IntValue surge \<noteq> 0
                then [Required (pathPrefix @ [Child ''rollingUpdate'', Child ''maxSurge'']) ''value must be 1 or 0'']
                else []))))"

definition has_external_etcd :: "OCNEConfigSpec \<Rightarrow> bool" where
  "has_external_etcd c \<longleftrightarrow>
     (case OCNEConfigSpec_ClusterConfiguration c of
        None \<Rightarrow> False | Some cc \<Rightarrow> Etcd_External (ClusterConfiguration_Etcd cc) \<noteq> None)"

definition empty_error :: "PathElem list \<Rightarrow> string \<Rightarrow> string \<Rightarrow> FieldError list" where
  "empty_error pathPrefix name value =
     (if value = []
      then [Invalid (pathPrefix @ [Child ''machineTemplate'', Child ''infrastructure'', Child name]) (BadString value) ''cannot be empty'']
      else [])"

definition validateKubeadmControlPlaneSpec ::
  "OCNEControlPlaneSpec \<Rightarrow> string \<Rightarrow> PathElem list \<Rightarrow> error + FieldError list" where
  "validateKubeadmControlPlaneSpec s ns pathPrefix =
     (let ref = MachineTemplate_InfrastructureRef (Spec_MachineTemplate s);
          errs =
            (case Spec_Replicas s of
               None \<Rightarrow> [Required (pathPrefix @ [Child ''replicas'']) ''is required'']
             | Some n \<Rightarrow>
                 (if n \<le> 0 then [Forbidden (pathPrefix @ [Child ''replicas'']) ''cannot be less than or equal to 0''] else [])) @
            (if \<not> has_external_etcd (Spec_ControlPlaneConfig s) \<and>
                (case Spec_Replicas s of None \<Rightarrow> False | Some n \<Rightarrow> n mod 2 = 0)
             then [Forbidden (pathPrefix @ [Child ''replicas'']) ''cannot be an even number when etcd is stacked'']
             else []) @
            empty_error pathPrefix ''apiVersion'' (ObjectReference_APIVersion ref) @
            empty_error pathPrefix ''kind'' (ObjectReference_Kind ref) @
            empty_error pathPrefix ''name'' (ObjectReference_Name ref) @
            (if ObjectReference_Namespace ref \<noteq> ns
             then [Invalid (pathPrefix @ [Child ''machineTemplate'', Child ''infrastructure'', Child ''namespace''])
               (BadString (ObjectReference_Namespace ref)) ''must match metadata.namespace'']
             else []) @
            (if FindStringSubmatch False (Spec_Version s) = None
             then [Invalid (pathPrefix @ [Child ''version'']) (BadString (Spec_Version s)) ''must be a valid semantic version'']
             else []) @
            validateRolloutBefore (Spec_RolloutBefore s) (pathPrefix @ [Child ''rolloutBefore''])
      in map_sum id (\<lambda>strategy. errs @ strategy)
           (validateRolloutStrategy (Spec_RolloutStrategy s) (Spec_Replicas s) (pathPrefix @ [Child ''rolloutStrategy''])))"

subsection \<open>Validation of a cluster configuration\<close>

definition validateClusterConfiguration ::
  "ClusterConfiguration option \<Rightarrow> ClusterConfiguration option \<Rightarrow> PathElem list \<Rightarrow> FieldError list" where
  "validateClusterConfiguration newClusterConfiguration oldClusterConfiguration pathPrefix =
     (case newClusterConfiguration of
        None \<Rightarrow> []
      | Some new \<Rightarrow>
          (let dnsTag = ImageMeta_ImageTag (DNS_ImageMeta (ClusterConfiguration_DNS new));
               etcd = ClusterConfiguration_Etcd new
           in (if \<not> ImageTagIsValid dnsTag
               then [Forbidden (pathPrefix @ [Child ''dns'', Child ''imageTag'']) (''tag '' @ dnsTag @ '' is invalid'')] else []) @
              (if dnsTag \<noteq> [] \<and> isl (ParseMajorMinorPatchTolerant dnsTag)
               then [Invalid [Child ''dns'', Child ''imageTag''] (BadString dnsTag) ''failed to parse CoreDNS version''] else []) @
              (case Etcd_Local etcd of
                 None \<Rightarrow> []
               | Some loc \<Rightarrow>
                   (let tag = ImageMeta_ImageTag (LocalEtcd_ImageMeta loc)
                    in if \<not> ImageTagIsValid tag
                       then [Forbidden (pathPrefix @ [Child ''etcd'', Child ''local'', Child ''imageTag''])
                         (''tag '' @ tag @ '' is invalid'')]
                       else [])) @
              (if Etcd_Local etcd \<noteq> None \<and> Etcd_External etcd \<noteq> None
               then [Forbidden (pathPrefix @ [Child ''etcd'', Child ''local'']) ''cannot have both external and local etcd'']
               else []) @
              (case oldClusterConfiguration of
                 None \<Rightarrow> []
               | Some old \<Rightarrow>
                   (if Etcd_External etcd \<noteq> None \<and> Etcd_Local (ClusterConfiguration_Etcd old) \<noteq> None
                    then [Forbidden (pathPrefix @ [Child ''etcd'', Child ''external''])
                      ''cannot change between external and local etcd'']
                    else []) @
                   (if Etcd_Local etcd \<noteq> None \<and> Etcd_External (ClusterConfiguration_Etcd old) \<noteq> None
                    then [Forbidden (pathPrefix @ [Child ''etcd'', Child ''local''])
                      ''cannot change between external and local etcd'']
                    else []))))"

definition validateOCNEData ::
  "'m meta_reader_scheme \<Rightarrow> ClusterConfiguration option \<Rightarrow> string \<Rightarrow> FieldError list" where
  "validateOCNEData r inClusterConfiguration version =
     (case inClusterConfiguration of
        None \<Rightarrow> []
      | Some cc \<Rightarrow>
          (case GetOCNEMetadata r of
             Inl _ \<Rightarrow> []
           | Inr ocneMeta \<Rightarrow>
               (let images = Metadata_Images (metadata_of ocneMeta version);
                    dns = DNS_ImageMeta (ClusterConfiguration_DNS cc)
                in (if ImageMeta_ImageTag dns \<noteq> [] \<and> ImageMeta_ImageRepository dns = DefaultOCNEImageRepository \<and>
                       ImageMeta_ImageTag dns \<noteq> Images_CoreDNS images
                    then [Invalid [Child ''dns'', Child ''imageTag''] (BadString (ImageMeta_ImageTag dns))
                      (''not supported coreDNS image tag for kubernetes version '' @ version @ ''.'')]
                    else []) @
                   (case Etcd_Local (ClusterConfiguration_Etcd cc) of
                      None \<Rightarrow> []
                    | Some loc \<Rightarrow>
                        (let meta = LocalEtcd_ImageMeta loc
                         in if ImageMeta_ImageRepository meta = DefaultOCNEImageRepository \<and>
                               ImageMeta_ImageTag meta \<noteq> Images_ETCD images
                            then [Invalid [Child ''etcd'', Child ''local'', Child ''imageTag'']
                              (BadString (ImageMeta_ImageTag meta))
                              (''not supported etcd image tag for kubernetes version '' @ version @ ''.'')]
                            else [])))))"

definition socket_error :: "string \<Rightarrow> NodeRegistrationOptions \<Rightarrow> FieldError list" where
  "socket_error name n =
     (let socket = NodeRegistrationOptions_CRISocket n
      in if socket \<noteq> [] \<and> socket \<noteq> DefaultOCNESocket
         then [Invalid [Child name, Child ''nodeRegistration'', Child ''criSocket''] (BadString socket)
           (''only '' @ [CHR 0x27] @ DefaultOCNESocket @ [CHR 0x27] @ '' is supported as criSocket with OCNE'')]
         else [])"

definition validateOCNESocket :: "OCNEConfigSpec \<Rightarrow> FieldError list" where
  "validateOCNESocket c =
     (case (OCNEConfigSpec_InitConfiguration c, OCNEConfigSpec_JoinConfiguration c) of
        (Some init, Some join) \<Rightarrow>
          socket_error ''initConfiguration'' (InitConfiguration_NodeRegistration init) @
          socket_error ''joinConfiguration'' (JoinConfiguration_NodeRegistration join)
      | _ \<Rightarrow> [])"

subsection \<open>Creation\<close>

definition config_path :: "PathElem list" where
  "config_path = [Child ''spec'', Child ''controlPlaneConfig'']"

definition KCP_ValidateCreate :: "'w wenv_scheme \<Rightarrow> OCNEControlPlane \<Rightarrow> error + FieldError list" where
  "KCP_ValidateCreate env kcp =
     (let s = KCP_Spec kcp;
          config = Spec_ControlPlaneConfig s;
          cc = OCNEConfigSpec_ClusterConfiguration config
      in map_sum id (\<lambda>errs. errs @
           validateClusterConfiguration cc None (config_path @ [Child ''clusterConfiguration'']) @
           validateOCNEData (metadata_reader env) cc (Spec_Version s) @
           validateOCNESocket config @
           Validate (IgnitionFeature env) config config_path)
         (validateKubeadmControlPlaneSpec s (Namespace (KCP_ObjectMeta kcp)) [Child ''spec'']))"

subsection \<open>Update\<close>

text \<open>
  The paths that an update may change; a star allows everything beneath. A path of the patch ends at
  a value that is no object.
\<close>

definition allowedPaths :: "string list list" where
  "allowedPaths =
     [[''metadata'', ''*''],
      [''spec'', ''controlPlaneConfig'', ''clusterConfiguration'', ''etcd'', ''local'', ''imageRepository''],
      [''spec'', ''controlPlaneConfig'', ''clusterConfiguration'', ''etcd'', ''local'', ''imageTag''],
      [''spec'', ''controlPlaneConfig'', ''clusterConfiguration'', ''etcd'', ''local'', ''extraArgs'', ''*''],
      [''spec'', ''controlPlaneConfig'', ''clusterConfiguration'', ''dns'', ''imageRepository''],
      [''spec'', ''controlPlaneConfig'', ''clusterConfiguration'', ''dns'', ''imageTag''],
      [''spec'', ''controlPlaneConfig'', ''clusterConfiguration'', ''imageRepository''],
      [''spec'', ''controlPlaneConfig'', ''clusterConfiguration'', ''apiServer'', ''*''],
      [''spec'', ''controlPlaneConfig'', ''clusterConfiguration'', ''controllerManager'', ''*''],
      [''spec'', ''controlPlaneConfig'', ''clusterConfiguration'', ''scheduler'', ''*''],
      [''spec'', ''controlPlaneConfig'', ''initConfiguration'', ''nodeRegistration'', ''*''],
      [''spec'', ''controlPlaneConfig'', ''initConfiguration'', ''patches'', ''directory''],
      [''spec'', ''controlPlaneConfig'', ''initConfiguration'', ''skipPhases''],
      [''spec'', ''controlPlaneConfig'', ''joinConfiguration'', ''nodeRegistration'', ''*''],
      [''spec'', ''controlPlaneConfig'', ''joinConfiguration'', ''patches'', ''directory''],
      [''spec'', ''controlPlaneConfig'', ''joinConfiguration'', ''skipPhases''],
      [''spec'', ''controlPlaneConfig'', ''preOCNECommands''],
      [''spec'', ''controlPlaneConfig'', ''postOCNECommands''],
      [''spec'', ''controlPlaneConfig'', ''files''],
      [''spec'', ''controlPlaneConfig'', ''verbosity''],
      [''spec'', ''controlPlaneConfig'', ''users''],
      [''spec'', ''controlPlaneConfig'', ''ntp'', ''*''],
      [''spec'', ''controlPlaneConfig'', ''ignition'', ''*''],
      [''spec'', ''controlPlaneConfig'', ''diskSetup'', ''*''],
      [''spec'', ''machineTemplate'', ''metadata'', ''*''],
      [''spec'', ''machineTemplate'', ''infrastructureRef'', ''apiVersion''],
      [''spec'', ''machineTemplate'', ''infrastructureRef'', ''name''],
      [''spec'', ''machineTemplate'', ''infrastructureRef'', ''kind''],
      [''spec'', ''machineTemplate'', ''nodeDrainTimeout''],
      [''spec'', ''machineTemplate'', ''nodeVolumeDetachTimeout''],
      [''spec'', ''machineTemplate'', ''nodeDeletionTimeout''],
      [''spec'', ''replicas''],
      [''spec'', ''version''],
      [''spec'', ''rolloutAfter''],
      [''spec'', ''rolloutBefore'', ''*''],
      [''spec'', ''rolloutStrategy'', ''*''],
      [''spec'', ''moduleOperator''],
      [''spec'', ''moduleOperator'', ''*''],
      [''spec'', ''verrazzanoPlatformOperator''],
      [''spec'', ''verrazzanoPlatformOperator'', ''*'']]"

text \<open>
  The loop of \<open>pathsMatch\<close> leaves its index at the last element of the path; a star ends it early.
\<close>

fun paths_match :: "string list \<Rightarrow> string list \<Rightarrow> bool" where
  "paths_match [] path \<longleftrightarrow> path = []"
| "paths_match (a # as) [] \<longleftrightarrow> False"
| "paths_match (a # as) (p # ps) \<longleftrightarrow> a = ''*'' \<or> p = a \<and> paths_match as ps"

definition pathsMatch :: "string list \<Rightarrow> string list \<Rightarrow> bool" where
  "pathsMatch allowed path \<longleftrightarrow> allowed \<noteq> [] \<and> path \<noteq> [] \<and> paths_match allowed path"

definition allowed :: "string list list \<Rightarrow> string list \<Rightarrow> bool" where
  "allowed allowList path \<longleftrightarrow> list_ex (\<lambda>a. pathsMatch a path) allowList"

function paths :: "string list \<Rightarrow> (string \<times> json) list \<Rightarrow> string list list" where
  "paths path [] = []"
| "paths path ((key, m) # diff) =
     (case m of JObject nested \<Rightarrow> paths (path @ [key]) nested | _ \<Rightarrow> [path @ [key]]) @ paths path diff"
  by pat_completeness auto

termination paths
  by (relation "measure (\<lambda>(_, diff). size_list (size_prod (\<lambda>_. 0) size) diff)") auto

text \<open>
  \<open>json.Unmarshal\<close> into a map of a document: an object gives its fields, \<open>null\<close> leaves the map empty.
\<close>

definition patch_fields :: "json \<Rightarrow> error + (string \<times> json) list" where
  "patch_fields diff =
     (case diff of
        JObject fs \<Rightarrow> Inr fs
      | JNull \<Rightarrow> Inr []
      | _ \<Rightarrow> Inl (Err ''json: cannot unmarshal into Go value of type map[string]interface {}''))"

definition update_patch :: "'w wenv_scheme \<Rightarrow> OCNEControlPlane \<Rightarrow> OCNEControlPlane \<Rightarrow> error + (string \<times> json) list" where
  "update_patch env prev kcp =
     (case json_of env prev of
        Inl err \<Rightarrow> Inl err
      | Inr originalJSON \<Rightarrow>
     (case json_of env kcp of
        Inl err \<Rightarrow> Inl err
      | Inr modifiedJSON \<Rightarrow>
     (case CreateMergePatch env originalJSON modifiedJSON of
        Inl err \<Rightarrow> Inl err
      | Inr diff \<Rightarrow> patch_fields diff)))"

definition update_allowed :: "OCNEControlPlane \<Rightarrow> OCNEControlPlane \<Rightarrow> string list list" where
  "update_allowed prev kcp =
     (if OCNEConfigSpec_Format (Spec_ControlPlaneConfig (KCP_Spec prev)) = [] \<and>
         OCNEConfigSpec_Format (Spec_ControlPlaneConfig (KCP_Spec kcp)) = CloudConfig
      then allowedPaths @ [[''spec'', ''controlPlaneConfig'', ''format'']] else allowedPaths)"

definition forbidden_changes :: "string list list \<Rightarrow> (string \<times> json) list \<Rightarrow> FieldError list" where
  "forbidden_changes allowList diff =
     concat (map (\<lambda>path. if path = [] \<or> allowed allowList path then []
                         else [Forbidden (map Child path) ''cannot be modified'']) (paths [] diff))"

definition validateCoreDNSVersion :: "'x semver_lib_scheme \<Rightarrow> 'w wenv_scheme \<Rightarrow> OCNEControlPlane \<Rightarrow> OCNEControlPlane \<Rightarrow> FieldError list" where
  "validateCoreDNSVersion lib env kcp prev =
     (case (OCNEConfigSpec_ClusterConfiguration (Spec_ControlPlaneConfig (KCP_Spec kcp)),
            OCNEConfigSpec_ClusterConfiguration (Spec_ControlPlaneConfig (KCP_Spec prev))) of
        (Some new, Some old) \<Rightarrow>
          (let to = ImageMeta_ImageTag (DNS_ImageMeta (ClusterConfiguration_DNS new));
               from = ImageMeta_ImageTag (DNS_ImageMeta (ClusterConfiguration_DNS old));
               path = config_path @ [Child ''clusterConfiguration'', Child ''dns'', Child ''imageTag'']
           in if from = [] \<or> to = [] then []
              else case ParseMajorMinorPatchTolerant from of
                     Inl _ \<Rightarrow> [Invalid path (BadString from) ''failed to parse current CoreDNS version'']
                   | Inr fromVersion \<Rightarrow>
                       (case ParseMajorMinorPatchTolerant to of
                          Inl _ \<Rightarrow> [Invalid path (BadString to) ''failed to parse target CoreDNS version'']
                        | Inr toVersion \<Rightarrow>
                            (if semver_Compare lib toVersion fromVersion = 0 then []
                             else case ValidUpMigration env (semver_String env fromVersion) (semver_String env toVersion) of
                                    None \<Rightarrow> []
                                  | Some _ \<Rightarrow> [Forbidden path ''cannot migrate CoreDNS''])))
      | _ \<Rightarrow> [])"

text \<open>The rule for the old registry of the community: its condition in the order of the code.\<close>

definition old_registry :: "'x semver_lib_scheme \<Rightarrow> OCNEControlPlane \<Rightarrow> semver \<Rightarrow> semver \<Rightarrow> bool" where
  "old_registry lib kcp fromVersion toVersion \<longleftrightarrow>
     (case OCNEConfigSpec_ClusterConfiguration (Spec_ControlPlaneConfig (KCP_Spec kcp)) of
        None \<Rightarrow> True | Some cc \<Rightarrow> ClusterConfiguration_ImageRepository cc = []) \<and>
     semver_Compare lib toVersion fromVersion \<noteq> 0 \<and>
     GTE lib toVersion MinKubernetesVersionImageRegistryMigration \<and>
     LT lib toVersion NextKubernetesVersionImageRegistryMigration \<and>
     GetDefaultRegistry lib toVersion = OldDefaultImageRepository"

definition validateVersion :: "'x semver_lib_scheme \<Rightarrow> OCNEControlPlane \<Rightarrow> string \<Rightarrow> FieldError list" where
  "validateVersion lib kcp previousVersion =
     (let path = [Child ''spec'', Child ''version'']
      in case ParseMajorMinorPatch previousVersion of
           Inl err \<Rightarrow> [InternalError path (Wrap ''failed to parse current ocnecontrolplane version'' err)]
         | Inr fromVersion \<Rightarrow>
             (case ParseMajorMinorPatch (Spec_Version (KCP_Spec kcp)) of
                Inl err \<Rightarrow> [InternalError path (Wrap ''failed to parse updated ocnecontrolplane version'' err)]
              | Inr toVersion \<Rightarrow>
                  (if semver_Compare lib fromVersion toVersion \<noteq> 0 \<and> semver_Compare lib toVersion (release 1 19 0) = 0
                   then [Forbidden path ''cannot update Kubernetes version to v1.19.0'']
                   else
                     (if GTE lib toVersion (release (Major fromVersion) (Minor fromVersion + 2) 0)
                      then [Forbidden path
                        (''cannot update Kubernetes version from '' @ previousVersion @ '' to '' @ Spec_Version (KCP_Spec kcp))]
                      else []) @
                     (if old_registry lib kcp fromVersion toVersion
                      then [Forbidden path
                        ''cannot upgrade to a Kubernetes/kubeadm version which is using the old default registry'']
                      else []))))"

definition validateOCNEVersionOnUpgrade :: "'m meta_reader_scheme \<Rightarrow> OCNEControlPlane \<Rightarrow> FieldError list" where
  "validateOCNEVersionOnUpgrade r kcp =
     (case GetOCNEMetadata r of
        Inl _ \<Rightarrow> []
      | Inr ocneMeta \<Rightarrow>
          (let version = Spec_Version (KCP_Spec kcp)
           in if Packages_Kubeadm (Metadata_Packages (metadata_of ocneMeta version)) = []
              then [Invalid [Child ''spec'', Child ''version''] (BadString version)
                (''upgrade not supported to kubernetes version '' @ version @ ''.'')]
              else []))"

definition KCP_ValidateUpdate ::
  "'x semver_lib_scheme \<Rightarrow> 'w wenv_scheme \<Rightarrow> OCNEControlPlane \<Rightarrow> OCNEControlPlane \<Rightarrow> error + FieldError list" where
  "KCP_ValidateUpdate lib env kcp prev =
     (case validateKubeadmControlPlaneSpec (KCP_Spec kcp) (Namespace (KCP_ObjectMeta kcp)) [Child ''spec''] of
        Inl err \<Rightarrow> Inl err
      | Inr specErrs \<Rightarrow>
     (case update_patch env prev kcp of
        Inl err \<Rightarrow> Inl err
      | Inr jsonPatch \<Rightarrow>
          (let config = Spec_ControlPlaneConfig (KCP_Spec kcp)
           in Inr (specErrs @
                forbidden_changes (update_allowed prev kcp) jsonPatch @
                validateVersion lib kcp (Spec_Version (KCP_Spec prev)) @
                validateClusterConfiguration (OCNEConfigSpec_ClusterConfiguration config)
                  (OCNEConfigSpec_ClusterConfiguration (Spec_ControlPlaneConfig (KCP_Spec prev)))
                  (config_path @ [Child ''clusterConfiguration'']) @
                validateOCNEVersionOnUpgrade (metadata_reader env) kcp @
                validateOCNESocket config @
                validateCoreDNSVersion lib env kcp prev @
                Validate (IgnitionFeature env) config config_path))))"

definition KCP_ValidateDelete :: "OCNEControlPlane \<Rightarrow> error + FieldError list" where
  "KCP_ValidateDelete kcp = Inr []"

subsection \<open>Templates\<close>

record OCNEControlPlaneTemplateMachineTemplate =
  Template_NodeDrainTimeout :: "int option"
  Template_NodeVolumeDetachTimeout :: "int option"
  Template_NodeDeletionTimeout :: "int option"

record OCNEControlPlaneTemplateResourceSpec =
  TemplateSpec_MachineTemplate :: "OCNEControlPlaneTemplateMachineTemplate option"
  TemplateSpec_OCNEConfigSpec :: OCNEConfigSpec
  TemplateSpec_RolloutBefore :: "RolloutBefore option"
  TemplateSpec_RolloutAfter :: "time option"
  TemplateSpec_RolloutStrategy :: "RolloutStrategy option"
  TemplateSpec_ModuleOperator :: "ModuleOperator option"
  TemplateSpec_VerrazzanoPlatformOperator :: "VerrazzanoPlatformOperator option"

definition Template_Default :: "OCNEControlPlaneTemplateResourceSpec \<Rightarrow> OCNEControlPlaneTemplateResourceSpec" where
  "Template_Default s =
     s\<lparr>TemplateSpec_OCNEConfigSpec := DefaultOCNEConfigSpec (TemplateSpec_OCNEConfigSpec s),
       TemplateSpec_RolloutStrategy := Some (defaultRolloutStrategy (TemplateSpec_RolloutStrategy s))\<rparr>"

definition template_path :: "PathElem list" where
  "template_path = [Child ''spec'', Child ''template'', Child ''spec'']"

definition validateKubeadmControlPlaneTemplateResourceSpec ::
  "OCNEControlPlaneTemplateResourceSpec \<Rightarrow> PathElem list \<Rightarrow> error + FieldError list" where
  "validateKubeadmControlPlaneTemplateResourceSpec s pathPrefix =
     map_sum id (\<lambda>strategy. validateRolloutBefore (TemplateSpec_RolloutBefore s) (pathPrefix @ [Child ''rolloutBefore'']) @ strategy)
       (validateRolloutStrategy (TemplateSpec_RolloutStrategy s) None (pathPrefix @ [Child ''rolloutStrategy'']))"

definition Template_ValidateCreate ::
  "'w wenv_scheme \<Rightarrow> OCNEControlPlaneTemplateResourceSpec \<Rightarrow> error + FieldError list" where
  "Template_ValidateCreate env s =
     (if \<not> ClusterTopologyFeature env
      then Inr [Forbidden [Child ''spec''] ''can be set only if the ClusterTopology feature flag is enabled'']
      else map_sum id (\<lambda>errs. errs @
             validateClusterConfiguration (OCNEConfigSpec_ClusterConfiguration (TemplateSpec_OCNEConfigSpec s)) None
               (template_path @ [Child ''controlPlaneConfig'', Child ''clusterConfiguration'']) @
             Validate (IgnitionFeature env) (TemplateSpec_OCNEConfigSpec s) (template_path @ [Child ''controlPlaneConfig'']))
           (validateKubeadmControlPlaneTemplateResourceSpec s template_path))"

text \<open>The comparison does not tell an empty list of pull secrets from a missing one.\<close>

definition Template_ValidateUpdate ::
  "OCNEControlPlaneTemplateResourceSpec \<Rightarrow> OCNEControlPlaneTemplateResourceSpec \<Rightarrow> FieldError list" where
  "Template_ValidateUpdate s old =
     (if s \<noteq> old
      then [Invalid template_path BadObject
        ''OCNEControlPlaneTemplate spec.template.spec field is immutable. Please create new resource instead.'']
      else [])"

text \<open>\<open>OCNEConfigTemplate\<close> of the bootstrap provider.\<close>

definition ConfigTemplate_validate :: "bool \<Rightarrow> OCNEConfigSpec \<Rightarrow> FieldError list" where
  "ConfigTemplate_validate gate c = Validate gate c template_path"

subsection \<open>The scale subresource\<close>

datatype scale_response = Errored error | Denied string | Allowed

definition ScaleValidator_Handle :: "error + int \<Rightarrow> error + OCNEControlPlane \<Rightarrow> scale_response" where
  "ScaleValidator_Handle scale read =
     (case scale of
        Inl err \<Rightarrow> Errored (Wrap ''failed to decode Scale resource'' err)
      | Inr replicas \<Rightarrow>
     (case read of
        Inl err \<Rightarrow> Errored (Wrap ''failed to get OCNEControlPlane'' err)
      | Inr ocnecp \<Rightarrow>
          (if replicas = 0 then Denied ''replicas cannot be 0''
           else if \<not> has_external_etcd (Spec_ControlPlaneConfig (KCP_Spec ocnecp)) \<and> replicas mod 2 = 0
           then Denied ''replicas cannot be an even number when etcd is stacked''
           else Allowed)))"

subsection \<open>What an update can change\<close>

text \<open>
  A merge patch by its standard (RFC 7396): null removes a field, an object is merged into the field, and
  every other value replaces it.
\<close>

definition fields_of :: "json option \<Rightarrow> (string \<times> json) list" where
  "fields_of v = (case v of Some (JObject fs) \<Rightarrow> fs | _ \<Rightarrow> [])"

function merge_fields :: "(string \<times> json) list \<Rightarrow> (string \<times> json) list \<Rightarrow> (string \<times> json) list" where
  "merge_fields ts [] = ts"
| "merge_fields ts ((k, v) # patch) =
     merge_fields
       (case v of
          JNull \<Rightarrow> AList.delete k ts
        | JObject nested \<Rightarrow> AList.update k (JObject (merge_fields (fields_of (map_of ts k)) nested)) ts
        | _ \<Rightarrow> AList.update k v ts) patch"
  by pat_completeness auto

termination merge_fields
  by (relation "measure (\<lambda>(_, patch). size_list (size_prod (\<lambda>_. 0) size) patch)") auto

text \<open>The value at a path that ends at no object; null counts as nothing.\<close>

fun leaf_at :: "string list \<Rightarrow> json \<Rightarrow> json option" where
  "leaf_at [] v = (case v of JObject _ \<Rightarrow> None | JNull \<Rightarrow> None | _ \<Rightarrow> Some v)"
| "leaf_at (k # ks) v = (case map_of (fields_of (Some v)) k of None \<Rightarrow> None | Some w \<Rightarrow> leaf_at ks w)"

text \<open>The patch has an object at the path.\<close>

fun opens :: "string list \<Rightarrow> (string \<times> json) list \<Rightarrow> bool" where
  "opens [] patch \<longleftrightarrow> True"
| "opens (k # ks) patch \<longleftrightarrow> list_ex (\<lambda>(j, v). j = k \<and> (case v of JObject nested \<Rightarrow> opens ks nested | _ \<Rightarrow> False)) patch"

text \<open>What the library promises: of two objects it makes an object which, merged into the first, gives the leaves of the second.\<close>

definition patch_law :: "'w wenv_scheme \<Rightarrow> bool" where
  "patch_law env \<longleftrightarrow>
     (\<forall>a b d. CreateMergePatch env (JObject a) (JObject b) = Inr d \<longrightarrow>
        (\<exists>patch. d = JObject patch \<and>
           (\<forall>p. leaf_at p (JObject (merge_fields a patch)) = leaf_at p (JObject b))))"

lemma paths_below: "paths path diff = map ((@) path) (paths [] diff)"
proof -
  have "paths (a @ b) diff = map ((@) a) (paths b diff)" for a b
    by (induction b diff rule: paths.induct) (auto split: json.split)
  from this [of path "[]"] show ?thesis by simp
qed

lemma paths_Cons:
  "set (paths [] ((k, m) # diff)) =
     (case m of JObject nested \<Rightarrow> (#) k ` set (paths [] nested) | _ \<Rightarrow> {[k]}) \<union> set (paths [] diff)"
  by (auto simp: paths_below [of "[k]"] split: json.split)

definition touched :: "string list \<Rightarrow> (string \<times> json) list \<Rightarrow> bool" where
  "touched p patch \<longleftrightarrow> (\<exists>q\<in>set (paths [] patch). prefix q p)"

lemma touched_Cons:
  "touched (j # p) ((k, m) # patch) \<longleftrightarrow>
     (case m of JObject nested \<Rightarrow> j = k \<and> touched p nested | _ \<Rightarrow> j = k) \<or> touched (j # p) patch"
  unfolding touched_def paths_Cons bex_Un by (auto split: json.split)

lemma leaf_at_fields: "leaf_at (k # ks) (JObject ts) = (case map_of ts k of None \<Rightarrow> None | Some w \<Rightarrow> leaf_at ks w)"
  by (simp add: fields_of_def)

lemma leaf_at_nested:
  "leaf_at ks (JObject (fields_of (map_of ts k))) = (if ks = [] then None
     else case map_of ts k of None \<Rightarrow> None | Some w \<Rightarrow> leaf_at ks w)"
  by (cases ks) (auto simp: fields_of_def split: option.split json.split)

lemma merged_leaf:
  "\<not> touched p patch \<Longrightarrow> \<not> opens p patch \<Longrightarrow>
   leaf_at p (JObject (merge_fields ts patch)) = leaf_at p (JObject ts)"
proof (induction ts patch arbitrary: p rule: merge_fields.induct)
  case (2 ts k v patch)
  then obtain j ks where p: "p = j # ks" by (cases p) auto
  let ?ts = "case v of JNull \<Rightarrow> AList.delete k ts
      | JObject nested \<Rightarrow> AList.update k (JObject (merge_fields (fields_of (map_of ts k)) nested)) ts
      | _ \<Rightarrow> AList.update k v ts"
  have rest: "\<not> touched p patch" "\<not> opens p patch"
    using "2.prems" by (auto simp: p touched_Cons)
  have "leaf_at p (JObject ?ts) = leaf_at p (JObject ts)"
  proof (cases "j = k")
    case True
    then obtain nested where v: "v = JObject nested" "\<not> touched ks nested" "\<not> opens ks nested"
      using "2.prems" by (auto simp: p touched_Cons split: json.splits)
    then have "leaf_at ks (JObject (merge_fields (fields_of (map_of ts k)) nested)) =
        leaf_at ks (JObject (fields_of (map_of ts k)))" "ks \<noteq> []"
      using "2.IH"(1) by auto
    then show ?thesis
      using True v by (simp add: p leaf_at_fields leaf_at_nested update_conv' del: leaf_at.simps)
  next
    case False
    then show ?thesis
      by (simp add: p leaf_at_fields update_conv' delete_conv' restrict_map_def del: leaf_at.simps split: json.split)
  qed
  moreover have "leaf_at p (JObject (merge_fields ?ts patch)) = leaf_at p (JObject ?ts)"
    using "2.IH"(2) rest by blast
  ultimately show ?case by simp
qed simp

text \<open>No part of the path is one that an update may change.\<close>

definition frozen :: "OCNEControlPlane \<Rightarrow> OCNEControlPlane \<Rightarrow> string list \<Rightarrow> bool" where
  "frozen prev kcp p \<longleftrightarrow> \<not> list_ex (\<lambda>q. q \<noteq> [] \<and> allowed (update_allowed prev kcp) q) (prefixes p)"

lemma paths_nonempty: "[] \<notin> set (paths [] patch)"
proof -
  have "q \<noteq> []" if "q \<in> set (paths path patch)" for q path
    using that by (induction path patch rule: paths.induct) (auto split: json.splits)
  then show ?thesis by blast
qed

lemma forbidden_changes_Nil:
  "forbidden_changes allowList patch = [] \<longleftrightarrow> (\<forall>q\<in>set (paths [] patch). allowed allowList q)"
  using paths_nonempty [of patch] by (auto simp: forbidden_changes_def)

lemma frozen_untouched:
  assumes "frozen prev kcp p" "forbidden_changes (update_allowed prev kcp) patch = []"
  shows "\<not> touched p patch"
  using assms paths_nonempty [of patch]
  by (auto simp: frozen_def forbidden_changes_Nil touched_def list_ex_iff) (metis in_set_prefixes)

lemma accepted_update:
  assumes "KCP_ValidateUpdate lib env kcp prev = Inr []"
  obtains patch where "update_patch env prev kcp = Inr patch"
    "forbidden_changes (update_allowed prev kcp) patch = []"
    "validateVersion lib kcp (Spec_Version (KCP_Spec prev)) = []"
    "validateKubeadmControlPlaneSpec (KCP_Spec kcp) (Namespace (KCP_ObjectMeta kcp)) [Child ''spec''] = Inr []"
  using assms by (auto simp: KCP_ValidateUpdate_def Let_def split: sum.splits)

text \<open>
  C11. An update that is accepted leaves every value of the object alone whose path is not allowed to
  change: the documents of the two objects agree there, unless the patch puts an object in the place of
  the value.
\<close>

theorem update_keeps_frozen:
  assumes "patch_law env" and accepted: "KCP_ValidateUpdate lib env kcp prev = Inr []"
    and docs: "json_of env prev = Inr (JObject a)" "json_of env kcp = Inr (JObject b)"
    and "frozen prev kcp p"
  shows "leaf_at p (JObject b) = leaf_at p (JObject a) \<or>
    (\<exists>patch. update_patch env prev kcp = Inr patch \<and> opens p patch)"
proof -
  obtain patch where patch: "update_patch env prev kcp = Inr patch"
      "forbidden_changes (update_allowed prev kcp) patch = []"
    by (rule accepted_update [OF accepted])
  then obtain d where d: "CreateMergePatch env (JObject a) (JObject b) = Inr d" "patch_fields d = Inr patch"
    by (auto simp: update_patch_def docs split: sum.splits)
  with \<open>patch_law env\<close> have "d = JObject patch"
      "leaf_at p (JObject (merge_fields a patch)) = leaf_at p (JObject b)"
    by (fastforce simp: patch_law_def patch_fields_def)+
  moreover have "\<not> touched p patch"
    using frozen_untouched assms(5) patch(2) by blast
  ultimately show ?thesis
    using merged_leaf [of p patch a] patch(1) by auto
qed

lemma parsed_release: "ParseMajorMinorPatch s = Inr v \<Longrightarrow> \<exists>a b c. v = release a b c"
  by (auto simp: ParseMajorMinorPatch_def parseMajorMinorPatch_def split: option.splits prod.splits)

lemma below_next:
  fixes m n :: "64 word"
  assumes "n < m + 2"
  shows "2 ^ 64 \<le> unat m + 2 \<or> unat n \<le> unat m + 1"
proof -
  have "unat (m + 2) = (unat m + 2) mod 2 ^ 64"
    by (simp add: unat_word_ariths)
  moreover have "unat n < unat (m + 2)"
    using assms by (simp add: word_less_nat_alt)
  ultimately show ?thesis
    by (cases "unat m + 2 < 2 ^ 64") auto
qed

text \<open>
  C29. An update that is accepted never skips a minor version: the new version has a smaller major number,
  or the same and a minor number that is larger by at most one, unless the minor number is at the end
  of its 64 bits.
\<close>

theorem update_version_bound:
  assumes "semver_laws lib" and accepted: "KCP_ValidateUpdate lib env kcp prev = Inr []"
  shows "\<exists>from to. ParseMajorMinorPatch (Spec_Version (KCP_Spec prev)) = Inr from \<and>
    ParseMajorMinorPatch (Spec_Version (KCP_Spec kcp)) = Inr to \<and>
    (2 ^ 64 \<le> unat (Minor from) + 2 \<or> Major to < Major from \<or>
     Major to = Major from \<and> unat (Minor to) \<le> unat (Minor from) + 1)"
proof -
  have "validateVersion lib kcp (Spec_Version (KCP_Spec prev)) = []"
    by (rule accepted_update [OF accepted])
  then obtain "from" to where versions: "ParseMajorMinorPatch (Spec_Version (KCP_Spec prev)) = Inr from"
      "ParseMajorMinorPatch (Spec_Version (KCP_Spec kcp)) = Inr to"
      and less: "\<not> GTE lib to (release (Major from) (Minor from + 2) 0)"
    by (auto simp: validateVersion_def Let_def split: sum.splits if_splits)
  have "core_cmp to (release (Major from) (Minor from + 2) 0) < 0"
    using less semver_lawsD(5) [OF assms(1)] parsed_release [OF versions(2)]
    by (auto simp: GTE_def release_def)
  then have "Major to < Major from \<or> Major to = Major from \<and> Minor to < Minor from + 2"
    by (auto simp: core_cmp_def cmp_def release_def split: if_splits)
  then have "2 ^ 64 \<le> unat (Minor from) + 2 \<or> Major to < Major from \<or>
     Major to = Major from \<and> unat (Minor to) \<le> unat (Minor from) + 1"
    using below_next by blast
  then show ?thesis
    using versions by blast
qed

subsection \<open>Rules that cannot apply, and a panic\<close>

lemma between:
  assumes "semver_laws lib" "GTE lib v a" "LTE lib v b"
  shows "core_cmp a b \<le> 0"
proof -
  have "semver_Compare lib a v \<le> 0"
    using semver_lawsD(2) [OF assms(1), of a v] assms(2) by (simp add: GTE_def)
  then have "semver_Compare lib a b \<le> 0"
    using semver_lawsD(3) [OF assms(1)] assms(3) by (auto simp: LTE_def)
  then show ?thesis
    using semver_lawsD(4) [OF assms(1), of a b] by fastforce
qed

text \<open>
  The rule against the old registry rejects no update: the versions it looks at start after the last
  one whose default is the old registry.
\<close>

lemma old_registry_never:
  assumes "semver_laws lib"
  shows "\<not> old_registry lib kcp from to"
proof
  assume "old_registry lib kcp from to"
  then have low: "GTE lib to (release 1 24 8)" and old: "GetDefaultRegistry lib to = OldDefaultImageRepository"
    by (auto simp: old_registry_def MinKubernetesVersionImageRegistryMigration_def)
  have "\<not> LTE lib to (release 1 22 16)" "\<not> LTE lib to (release 1 23 14)" "\<not> LTE lib to (release 1 24 7)"
    using between [OF assms low] by (force simp: core_cmp_def cmp_def release_def)+
  with old show False
    by (auto simp: GetDefaultRegistry_def OldDefaultImageRepository_def DefaultImageRepository_def
        DefaultOCNEImageRepository_def split: if_splits)
qed

lemma defaulted_strategy:
  "Option.bind (RolloutStrategy_RollingUpdate (defaultRolloutStrategy s)) MaxSurge = None \<longleftrightarrow>
     (\<exists>strategy. s = Some strategy \<and> RolloutStrategy_Type strategy \<notin> {[], RollingUpdateStrategyType} \<and>
        Option.bind (RolloutStrategy_RollingUpdate strategy) MaxSurge = None)"
  by (cases s) (auto simp: defaultRolloutStrategy_def Let_def)

lemma validateRolloutStrategy_Inl:
  "validateRolloutStrategy s n path = Inl err \<longleftrightarrow>
     err = Panic ''nil pointer dereference'' \<and>
     (\<exists>strategy. s = Some strategy \<and> Option.bind (RolloutStrategy_RollingUpdate strategy) MaxSurge = None)"
  by (auto simp: validateRolloutStrategy_def split: option.split)

text \<open>
  C39. Creation of an object after its defaults panics exactly when its rollout strategy has a type that is
  neither empty nor the rolling update, and names no surge. Such a type is only meant to be rejected.
\<close>

theorem create_panics_iff:
  "KCP_ValidateCreate env (KCP_Default kcp) = Inl (Panic ''nil pointer dereference'') \<longleftrightarrow>
     (\<exists>strategy. Spec_RolloutStrategy (KCP_Spec kcp) = Some strategy \<and>
        RolloutStrategy_Type strategy \<notin> {[], RollingUpdateStrategyType} \<and>
        Option.bind (RolloutStrategy_RollingUpdate strategy) MaxSurge = None)"
proof -
  have "KCP_ValidateCreate env k = Inl err \<longleftrightarrow>
      validateRolloutStrategy (Spec_RolloutStrategy (KCP_Spec k)) (Spec_Replicas (KCP_Spec k))
        [Child ''spec'', Child ''rolloutStrategy''] = Inl err" for k err
    by (cases "validateRolloutStrategy (Spec_RolloutStrategy (KCP_Spec k)) (Spec_Replicas (KCP_Spec k))
        [Child ''spec'', Child ''rolloutStrategy'']")
      (simp_all add: KCP_ValidateCreate_def validateKubeadmControlPlaneSpec_def Let_def)
  then show ?thesis
    using defaulted_strategy [of "Spec_RolloutStrategy (KCP_Spec kcp)"]
    by (simp add: validateRolloutStrategy_Inl KCP_Default_def defaultKubeadmControlPlaneSpec_def Let_def)
qed

subsection \<open>What the controller can rely on\<close>

lemma spec_accepted:
  assumes "validateKubeadmControlPlaneSpec s ns path = Inr []"
  shows "\<exists>n. Spec_Replicas s = Some n \<and> 0 < n \<and> (has_external_etcd (Spec_ControlPlaneConfig s) \<or> odd n)"
    and "ObjectReference_Namespace (MachineTemplate_InfrastructureRef (Spec_MachineTemplate s)) = ns"
    and "FindStringSubmatch False (Spec_Version s) \<noteq> None"
    and "validateRolloutStrategy (Spec_RolloutStrategy s) (Spec_Replicas s) (path @ [Child ''rolloutStrategy'']) = Inr []"
  using assms
  by (auto simp: validateKubeadmControlPlaneSpec_def Let_def even_iff_mod_2_eq_zero dest!: map_sum_InrD
      split: option.splits if_splits)

lemma strategy_accepted:
  assumes "validateRolloutStrategy (Some strategy) (Some n) path = Inr []"
  shows "\<exists>rolling surge. RolloutStrategy_RollingUpdate strategy = Some rolling \<and> MaxSurge rolling = Some surge \<and>
    RolloutStrategy_Type strategy = RollingUpdateStrategyType \<and> IntValue surge \<in> {0, 1} \<and> (IntValue surge = 0 \<longrightarrow> 3 \<le> n)"
  using assms by (auto simp: validateRolloutStrategy_def bind_eq_Some_conv split: option.splits if_splits)

definition rollout_ready :: "OCNEControlPlane \<Rightarrow> bool" where
  "rollout_ready kcp \<longleftrightarrow>
     (\<exists>n strategy rolling surge.
        Spec_Replicas (KCP_Spec kcp) = Some n \<and> Spec_RolloutStrategy (KCP_Spec kcp) = Some strategy \<and>
        RolloutStrategy_RollingUpdate strategy = Some rolling \<and> MaxSurge rolling = Some surge \<and>
        RolloutStrategy_Type strategy = RollingUpdateStrategyType \<and>
        0 < n \<and> (has_external_etcd (Spec_ControlPlaneConfig (KCP_Spec kcp)) \<or> odd n) \<and>
        (IntValue surge = 1 \<or> IntValue surge = 0 \<and> 3 \<le> n) \<and>
        (n < 2 ^ 31 - 1 \<longrightarrow> maxNodes kcp rolling = Inr (n + IntValue surge)))"

text \<open>
  C19. An object that is accepted after its defaults is one that the controller can roll out without a panic: it has
  a positive number of replicas, odd with a stacked etcd, a rolling update with a surge of one, or of none with
  at least three replicas, and the greatest number of nodes is their sum while it fits into 32 bits.
\<close>

theorem accepted_rollout_ready:
  assumes "KCP_ValidateCreate env (KCP_Default kcp) = Inr []"
  shows "rollout_ready (KCP_Default kcp)"
proof -
  let ?s = "KCP_Spec (KCP_Default kcp)"
  have valid: "validateKubeadmControlPlaneSpec ?s (Namespace (KCP_ObjectMeta (KCP_Default kcp))) [Child ''spec''] = Inr []"
    using assms by (auto simp: KCP_ValidateCreate_def Let_def dest!: map_sum_InrD)
  obtain n where n: "Spec_Replicas ?s = Some n" "0 < n" "has_external_etcd (Spec_ControlPlaneConfig ?s) \<or> odd n"
    using spec_accepted(1) [OF valid] by blast
  obtain strategy where strategy: "Spec_RolloutStrategy ?s = Some strategy"
    by (simp add: KCP_Default_def defaultKubeadmControlPlaneSpec_def Let_def)
  obtain rolling surge where rolling: "RolloutStrategy_RollingUpdate strategy = Some rolling" "MaxSurge rolling = Some surge"
      "RolloutStrategy_Type strategy = RollingUpdateStrategyType" "IntValue surge \<in> {0, 1}" "IntValue surge = 0 \<longrightarrow> 3 \<le> n"
    using strategy_accepted spec_accepted(4) [OF valid] n(1) strategy by metis
  have "maxNodes (KCP_Default kcp) rolling = Inr (n + IntValue surge)" if "n < 2 ^ 31 - 1"
    using n(1,2) rolling(2,4) that by (auto simp: maxNodes_def to_int32_def)
  then show ?thesis
    unfolding rollout_ready_def using n strategy rolling by blast
qed

subsection \<open>Examples\<close>

definition example_object :: "string \<Rightarrow> OCNEControlPlane" where
  "example_object version =
     example_kcp\<lparr>KCP_Spec := (KCP_Spec example_kcp)\<lparr>Spec_Version := version,
       Spec_MachineTemplate := (Spec_MachineTemplate (KCP_Spec example_kcp))\<lparr>MachineTemplate_InfrastructureRef :=
         \<lparr>ObjectReference_Kind = ''OCITemplate'', ObjectReference_Namespace = ''ns'', ObjectReference_Name = ''t'',
          ObjectReference_UID = [], ObjectReference_APIVersion = ''v1''\<rparr>\<rparr>,
       Spec_ControlPlaneConfig := zero_OCNEConfigSpec\<lparr>OCNEConfigSpec_Format := CloudConfig\<rparr>\<rparr>\<rparr>"

definition example_document :: "string \<Rightarrow> (string \<times> json) list" where
  "example_document version =
     [(''spec'', JObject
        [(''version'', JScalar version),
         (''machineTemplate'', JObject [(''infrastructureRef'', JObject [(''namespace'', JScalar ''ns'')])])])]"

definition example_patch :: "(string \<times> json) list" where
  "example_patch = [(''spec'', JObject [(''version'', JScalar ''v1.25.7'')])]"

definition example_wenv :: wenv where
  "example_wenv =
     \<lparr>IgnitionFeature = False, ClusterTopologyFeature = False,
      metadata_reader =
        \<lparr>GetCoreV1Func = Some (Err ''no client''), metadata_Get = (\<lambda>_. Inr []), apiyaml_ToJSON = Inr,
         Unmarshal_mapping = (\<lambda>_. Inr []), os_Getenv = []\<rparr>,
      ValidUpMigration = (\<lambda>_ _. None), semver_String = (\<lambda>_. []),
      json_of = (\<lambda>kcp. Inr (JObject (example_document (Spec_Version (KCP_Spec kcp))))),
      CreateMergePatch = (\<lambda>a b.
        if a = JObject (example_document ''v1.24.8'') \<and> b = JObject (example_document ''v1.25.7'')
        then Inr (JObject example_patch) else Inl (Err ''unknown''))\<rparr>"

lemma example_merge: "merge_fields (example_document ''v1.24.8'') example_patch = example_document ''v1.25.7''"
  by (simp add: example_document_def example_patch_def fields_of_def)

lemma example_patch_law: "patch_law example_wenv"
  using example_merge by (auto simp: patch_law_def example_wenv_def split: if_splits)

lemma example_versions:
  "ParseMajorMinorPatch ''v1.24.8'' = Inr (release 1 24 8)" "ParseMajorMinorPatch ''v1.25.7'' = Inr (release 1 25 7)"
  by (simp_all add: ParseMajorMinorPatch_def parseMajorMinorPatch_def FindStringSubmatch_def match_char_def match_num_def
      is_nonzero_digit_def is_digit_def ParseUint_def digits_val_def digit_val_def)

lemma example_spec:
  "validateKubeadmControlPlaneSpec (KCP_Spec (example_object ''v1.25.7'')) ''ns'' [Child ''spec''] = Inr []"
  "Validate False (zero_OCNEConfigSpec\<lparr>OCNEConfigSpec_Format := CloudConfig\<rparr>) config_path = []"
  "KCP_Default (example_object ''1.25.7'') = example_object ''v1.25.7''"
  by (code_simp, code_simp, code_simp)

lemma example_changes:
  "forbidden_changes (update_allowed (example_object ''v1.24.8'') (example_object ''v1.25.7'')) example_patch = []"
  by code_simp

lemma example_version:
  "validateVersion numeric_lib (example_object ''v1.25.7'') ''v1.24.8'' = []"
  by (simp add: validateVersion_def example_object_def example_versions numeric_lib_def core_cmp_def cmp_def GTE_def LT_def
      old_registry_def release_def NextKubernetesVersionImageRegistryMigration_def)

lemma example_config:
  "Spec_ControlPlaneConfig (KCP_Spec (example_object v)) = zero_OCNEConfigSpec\<lparr>OCNEConfigSpec_Format := CloudConfig\<rparr>"
  "Namespace (KCP_ObjectMeta (example_object v)) = ''ns''" "Spec_Version (KCP_Spec (example_object v)) = v"
  by (simp_all add: example_object_def example_kcp_def)

lemma example_documents: "json_of example_wenv (example_object v) = Inr (JObject (example_document v))"
  by (simp add: example_wenv_def example_config)

lemma example_update_patch:
  "update_patch example_wenv (example_object ''v1.24.8'') (example_object ''v1.25.7'') = Inr example_patch"
  by (simp add: update_patch_def example_documents) (simp add: example_wenv_def patch_fields_def)

lemma example_metadata: "GetOCNEMetadata (metadata_reader example_wenv) = Inl (Err ''no client'')" "\<not> IgnitionFeature example_wenv"
  by (simp_all add: GetOCNEMetadata_def example_wenv_def)

lemma example_update:
  "KCP_ValidateUpdate numeric_lib example_wenv (example_object ''v1.25.7'') (example_object ''v1.24.8'') = Inr []"
  using example_spec(2)
  by (simp add: KCP_ValidateUpdate_def example_config example_spec(1) example_update_patch example_changes example_version
      example_metadata validateClusterConfiguration_def validateOCNEVersionOnUpgrade_def validateOCNESocket_def
      validateCoreDNSVersion_def zero_OCNEConfigSpec_def)

theorem update_keeps_frozen_witness:
  "KCP_ValidateUpdate numeric_lib example_wenv (example_object ''v1.25.7'') (example_object ''v1.24.8'') = Inr [] \<and>
   leaf_at [''spec'', ''machineTemplate'', ''infrastructureRef'', ''namespace''] (JObject (example_document ''v1.25.7'')) =
   leaf_at [''spec'', ''machineTemplate'', ''infrastructureRef'', ''namespace''] (JObject (example_document ''v1.24.8''))"
proof -
  let ?p = "[''spec'', ''machineTemplate'', ''infrastructureRef'', ''namespace'']"
  have "frozen (example_object ''v1.24.8'') (example_object ''v1.25.7'') ?p"
    by code_simp
  moreover have "\<not> opens ?p example_patch"
    by (simp add: example_patch_def)
  ultimately show ?thesis
    using update_keeps_frozen [OF example_patch_law example_update example_documents example_documents, of ?p]
      example_update example_update_patch by auto
qed

theorem update_version_bound_witness:
  "\<exists>from to. ParseMajorMinorPatch ''v1.24.8'' = Inr from \<and> ParseMajorMinorPatch ''v1.25.7'' = Inr to \<and>
    (2 ^ 64 \<le> unat (Minor from) + 2 \<or> Major to < Major from \<or>
     Major to = Major from \<and> unat (Minor to) \<le> unat (Minor from) + 1)"
  using update_version_bound [OF numeric_lib_laws example_update] by (simp add: example_config)

lemma old_registry_never_witness:
  "\<not> old_registry numeric_lib (example_object ''v1.25.6'') (release 1 24 8) (release 1 25 6)"
  by (rule old_registry_never [OF numeric_lib_laws])

theorem accepted_rollout_ready_witness:
  "rollout_ready (KCP_Default (example_object ''1.25.7''))"
proof (rule accepted_rollout_ready [of example_wenv])
  show "KCP_ValidateCreate example_wenv (KCP_Default (example_object ''1.25.7'')) = Inr []"
    using example_spec(2)
    by (simp add: KCP_ValidateCreate_def example_spec(1,3) example_config example_metadata validateClusterConfiguration_def
        validateOCNEData_def validateOCNESocket_def zero_OCNEConfigSpec_def)
qed

end
