(* ===== verification/Health.thy ===== *)
theory Health
  imports Controller Etcd
begin

text \<open>
  The health of a control plane as read from the workload cluster:
  \<open>controlplane/ocne/internal/workload_cluster_conditions.go\<close> and the nodes of
  \<open>workload_cluster.go\<close>. Conditions of machines are set from nodes, static pods and etcd members, and
  conditions of the control plane are aggregated from the machines.

  The state has the calls to the API server, the calls to etcd and the control plane; a machine is
  a pointer into the map of machines, so marking it changes the map. What the functions of \<open>Etcd\<close> do is
  lifted to this state.

  It is shown that conditions become true only on evidence, for pods and for etcd members, that a machine whose node
  is gone is reported, and when the aggregation reports a control plane as healthy.
\<close>

subsection \<open>Nodes, pods and the environment\<close>

record Node =
  Node_Name :: string
  Node_Taints :: "(string \<times> string) list" \<comment> \<open>key and effect\<close>
  Node_Conditions :: "(string \<times> ConditionStatus) list"

record ContainerStatus =
  LastTerminated_ExitCode :: "int option"
  Waiting_Reason :: "string option"
  Terminated_Reason :: "string option"

record Pod =
  Pod_Phase :: string
  Pod_Conditions :: "(string \<times> ConditionStatus) list"
  Pod_ContainerStatuses :: "ContainerStatus list"

datatype hcall = ListNodes string | GetPod string | GetOCNEConfigMap

record health_env = etcd_env +
  reply_Nodes :: "string \<Rightarrow> hcall list \<Rightarrow> error + Node list"
  reply_Pod :: "string \<Rightarrow> hcall list \<Rightarrow> error + Pod"
  reply_OCNEConfigMap :: "hcall list \<Rightarrow> error option"
  hNow :: "hcall list \<Rightarrow> ecall list \<Rightarrow> time"
  hError_text :: "error \<Rightarrow> string"

record hst =
  h_trace :: "hcall list"
  h_etcd :: "ecall list"
  h_cp :: ControlPlane

type_synonym 'a hact = "(hst, 'a) state"

definition hcall :: "hcall \<Rightarrow> (hcall list \<Rightarrow> 'a) \<Rightarrow> 'a hact" where
  "hcall c reply = State (\<lambda>s. (reply (h_trace s), s\<lparr>h_trace := h_trace s @ [c]\<rparr>))"

definition hread :: "(hst \<Rightarrow> 'a) \<Rightarrow> 'a hact" where
  "hread f = State (\<lambda>s. (f s, s))"

definition etcd_act :: "'a eact \<Rightarrow> 'a hact" where
  "etcd_act m = State (\<lambda>s. let (a, t) = run_state m (h_etcd s) in (a, s\<lparr>h_etcd := t\<rparr>))"

text \<open>What a check says about a condition.\<close>

datatype verdict = VTrue | VFalse string ConditionSeverity string | VUnknown string string

fun mark_verdict :: "verdict \<Rightarrow> ConditionType \<Rightarrow> time \<Rightarrow> Conditions \<Rightarrow> Conditions" where
  "mark_verdict VTrue t now to = MarkTrue now to t"
| "mark_verdict (VFalse reason severity msg) t now to = MarkFalse now to t reason severity msg"
| "mark_verdict (VUnknown reason msg) t now to = MarkUnknown now to t reason msg"

definition on_machine :: "string \<Rightarrow> (Machine \<Rightarrow> Machine) \<Rightarrow> ControlPlane \<Rightarrow> ControlPlane" where
  "on_machine k f c = c\<lparr>CP_Machines := map (\<lambda>(j, m). (j, if j = k then f m else m)) (CP_Machines c)\<rparr>"

definition mark_machine :: "'r health_env_scheme \<Rightarrow> string \<Rightarrow> ConditionType \<Rightarrow> verdict \<Rightarrow> unit hact" where
  "mark_machine env k t v = State (\<lambda>s. ((), s\<lparr>h_cp := on_machine k
     (\<lambda>m. m\<lparr>Machine_Status_Conditions := mark_verdict v t (hNow env (h_trace s) (h_etcd s)) (Machine_Status_Conditions m)\<rparr>)
     (h_cp s)\<rparr>))"

definition mark_kcp :: "'r health_env_scheme \<Rightarrow> ConditionType \<Rightarrow> verdict \<Rightarrow> unit hact" where
  "mark_kcp env t v = State (\<lambda>s. ((), s\<lparr>h_cp := (h_cp s)\<lparr>KCP :=
     with_conditions (mark_verdict v t (hNow env (h_trace s) (h_etcd s))) (KCP (h_cp s))\<rparr>\<rparr>))"

fun mark_each :: "'r health_env_scheme \<Rightarrow> string \<Rightarrow> ConditionType list \<Rightarrow> verdict \<Rightarrow> unit hact" where
  "mark_each env k [] v = State_Monad.return ()"
| "mark_each env k (t # ts) v = do { mark_machine env k t v; mark_each env k ts v }"

fun mark_all :: "'r health_env_scheme \<Rightarrow> string list \<Rightarrow> ConditionType list \<Rightarrow> verdict \<Rightarrow> unit hact" where
  "mark_all env [] ts v = State_Monad.return ()"
| "mark_all env (k # ks) ts v = do { mark_each env k ts v; mark_all env ks ts v }"

lemma wp_hcall [wp_simps]: "wp (hcall c reply) Q = (\<lambda>s. Q (reply (h_trace s)) (s\<lparr>h_trace := h_trace s @ [c]\<rparr>))"
  by (rule ext) (simp add: wp_def hcall_def)

lemma wp_hread [wp_simps]: "wp (hread f) Q = (\<lambda>s. Q (f s) s)"
  by (rule ext) (simp add: wp_def hread_def)

lemma wp_etcd_act: "wp (etcd_act m) Q = (\<lambda>s. wp m (\<lambda>a t. Q a (s\<lparr>h_etcd := t\<rparr>)) (h_etcd s))"
  by (rule ext) (simp add: wp_def etcd_act_def split: prod.split)

subsection \<open>Control plane nodes\<close>

definition labelNodeRoleOldControlPlane :: string where
  "labelNodeRoleOldControlPlane = ''node-role.kubernetes.io/master''"
definition labelNodeRoleControlPlane :: string where
  "labelNodeRoleControlPlane = ''node-role.kubernetes.io/control-plane''"

definition add_nodes :: "Node list \<Rightarrow> Node list \<Rightarrow> Node list" where
  "add_nodes acc nodes = foldl (\<lambda>acc n. if Node_Name n \<in> set (map Node_Name acc) then acc else acc @ [n]) acc nodes"

definition list_control_plane_nodes :: "'r health_env_scheme \<Rightarrow> (error + Node list) hact" where
  "list_control_plane_nodes env = do {
     r \<leftarrow> hcall (ListNodes labelNodeRoleOldControlPlane) (reply_Nodes env labelNodeRoleOldControlPlane);
     (case r of
        Inl err \<Rightarrow> State_Monad.return (Inl err)
      | Inr old \<Rightarrow> do {
          r \<leftarrow> hcall (ListNodes labelNodeRoleControlPlane) (reply_Nodes env labelNodeRoleControlPlane);
          State_Monad.return (map_sum id (add_nodes (add_nodes [] old)) r)
        })
   }"

definition IsNodeReady :: "Node \<Rightarrow> bool" where
  "IsNodeReady node = (map_of (Node_Conditions node) ''Ready'' = Some ConditionTrue)"

text \<open>The numbers of nodes, and whether the configuration of the cluster can be read.\<close>

definition workload_ClusterStatus :: "'r health_env_scheme \<Rightarrow> (error + WorkloadStatus) hact" where
  "workload_ClusterStatus env = do {
     r \<leftarrow> list_control_plane_nodes env;
     (case r of
        Inl err \<Rightarrow> State_Monad.return (Inl err)
      | Inr nodes \<Rightarrow> do {
          err \<leftarrow> hcall GetOCNEConfigMap (reply_OCNEConfigMap env);
          State_Monad.return (Inr \<lparr>WorkloadStatus_Nodes = int (length nodes),
            WorkloadStatus_ReadyNodes = int (length (filter IsNodeReady nodes)),
            WorkloadStatus_HasOCNEConfig = (err = None)\<rparr>)
        })
   }"

definition nodeReadyUnknown :: "Node \<Rightarrow> bool" where
  "nodeReadyUnknown node = (map_of (Node_Conditions node) ''Ready'' = Some ConditionUnknown)"

definition nodeHasUnreachableTaint :: "Node \<Rightarrow> bool" where
  "nodeHasUnreachableTaint node = list_ex (\<lambda>t. t = (''node.kubernetes.io/unreachable'', ''NoExecute'')) (Node_Taints node)"

definition hasProvisioningMachine :: "Machines \<Rightarrow> bool" where
  "hasProvisioningMachine machines = list_ex (\<lambda>(_, m). Machine_Status_NodeRef m = None) machines"

definition hosted_by :: "string \<Rightarrow> string \<times> Machine \<Rightarrow> bool" where
  "hosted_by node km = (case Machine_Status_NodeRef (snd km) of None \<Rightarrow> False | Some ref \<Rightarrow> ObjectReference_Name ref = node)"

subsection \<open>Static pods\<close>

definition podCondition :: "Pod \<Rightarrow> string \<Rightarrow> ConditionStatus" where
  "podCondition pod t = (case map_of (Pod_Conditions pod) t of None \<Rightarrow> ConditionUnknown | Some s \<Rightarrow> s)"

definition PodProvisioningReason :: string where "PodProvisioningReason = ''PodProvisioning''"
definition PodMissingReason :: string where "PodMissingReason = ''PodMissing''"
definition PodFailedReason :: string where "PodFailedReason = ''PodFailed''"
definition PodInspectionFailedReason :: string where "PodInspectionFailedReason = ''PodInspectionFailed''"

definition running_verdict :: "Pod \<Rightarrow> verdict" where
  "running_verdict pod =
     (let waiting = List.map_filter Waiting_Reason (Pod_ContainerStatuses pod);
          terminated = List.map_filter Terminated_Reason (Pod_ContainerStatuses pod);
          terminatedWithError =
            list_ex (\<lambda>c. case LastTerminated_ExitCode c of None \<Rightarrow> False | Some code \<Rightarrow> code \<noteq> 0) (Pod_ContainerStatuses pod)
      in if podCondition pod ''Ready'' = ConditionTrue then VTrue
         else if waiting \<noteq> []
         then (if terminatedWithError then VFalse PodFailedReason SeverityError (Sprintf0 (strings_Join '', '' waiting))
               else VFalse PodProvisioningReason SeverityInfo (Sprintf0 (strings_Join '', '' waiting)))
         else if terminated \<noteq> [] then VFalse PodFailedReason SeverityError (Sprintf0 (strings_Join '', '' terminated))
         else VFalse PodProvisioningReason SeverityInfo ''Waiting for startup or readiness probes'')"

text \<open>The verdict by phase; a phase that is none of these sets no condition.\<close>

definition pod_verdict :: "Pod \<Rightarrow> verdict option" where
  "pod_verdict pod =
     (if Pod_Phase pod = ''Pending'' then Some
        (if podCondition pod ''PodScheduled'' \<noteq> ConditionTrue then VFalse PodProvisioningReason SeverityInfo ''Waiting to be scheduled''
         else if podCondition pod ''Initialized'' \<noteq> ConditionTrue
         then VFalse PodProvisioningReason SeverityInfo ''Running init containers''
         else VFalse PodProvisioningReason SeverityInfo [])
      else if Pod_Phase pod = ''Running'' then Some (running_verdict pod)
      else if Pod_Phase pod = ''Succeeded'' \<or> Pod_Phase pod = ''Failed''
      then Some (VFalse PodFailedReason SeverityError ''All the containers have been terminated'')
      else if Pod_Phase pod = ''Unknown'' then Some (VUnknown PodInspectionFailedReason ''Pod is reporting unknown status'')
      else None)"

definition updateStaticPodCondition :: "'r health_env_scheme \<Rightarrow> string \<Rightarrow> Node \<Rightarrow> string \<Rightarrow> ConditionType \<Rightarrow> unit hact" where
  "updateStaticPodCondition env k node component t =
     (if nodeReadyUnknown node
      then mark_machine env k t (VUnknown PodInspectionFailedReason ''Node Ready condition is unknown, pod data might be stale'')
      else do {
        let name = staticPodName component (Node_Name node);
        r \<leftarrow> hcall (GetPod name) (reply_Pod env name);
        (case r of
           Inl err \<Rightarrow>
             mark_machine env k t
               (if IsNotFound err then VFalse PodMissingReason SeverityError (''Pod '' @ name @ '' is missing'')
                else VUnknown PodInspectionFailedReason ''Failed to get pod status'')
         | Inr pod \<Rightarrow>
             (case pod_verdict pod of
                None \<Rightarrow> State_Monad.return ()
              | Some v \<Rightarrow> mark_machine env k t v))
      })"

text \<open>The components and their conditions; etcd only when it is managed.\<close>

definition component_conditions :: "ControlPlane \<Rightarrow> (string \<times> ConditionType) list" where
  "component_conditions c =
     [(''kube-apiserver'', MachineAPIServerPodHealthyCondition),
      (''kube-controller-manager'', MachineControllerManagerPodHealthyCondition),
      (''kube-scheduler'', MachineSchedulerPodHealthyCondition)] @
     (if IsEtcdManaged c then [(''etcd'', MachineEtcdPodHealthyCondition)] else [])"

definition allMachinePodConditions :: "ControlPlane \<Rightarrow> ConditionType list" where
  "allMachinePodConditions c = map snd (component_conditions c)"

definition no_machine :: "string \<Rightarrow> string" where
  "no_machine node = ''Control plane node '' @ node @ '' does not have a corresponding machine''"

fun update_pods :: "'r health_env_scheme \<Rightarrow> string \<Rightarrow> Node \<Rightarrow> (string \<times> ConditionType) list \<Rightarrow> unit hact" where
  "update_pods env k node [] = State_Monad.return ()"
| "update_pods env k node ((component, t) # rest) = do {
     updateStaticPodCondition env k node component t;
     update_pods env k node rest
   }"

definition DeletingReason :: string where "DeletingReason = ''Deleting''"

fun update_nodes :: "'r health_env_scheme \<Rightarrow> Node list \<Rightarrow> string list \<Rightarrow> string list hact" where
  "update_nodes env [] ocnecpErrors = State_Monad.return ocnecpErrors"
| "update_nodes env (node # nodes) ocnecpErrors = do {
     c \<leftarrow> hread h_cp;
     let all = allMachinePodConditions c;
     (case find (hosted_by (Node_Name node)) (CP_Machines c) of
        None \<Rightarrow>
          update_nodes env nodes
            (if hasProvisioningMachine (CP_Machines c) then ocnecpErrors else ocnecpErrors @ [no_machine (Node_Name node)])
      | Some (k, machine) \<Rightarrow> do {
          (if \<not> Time_IsZero (DeletionTimestamp (Machine_ObjectMeta machine))
           then mark_each env k all (VFalse DeletingReason SeverityInfo [])
           else if nodeHasUnreachableTaint node
           then mark_each env k all (VUnknown PodInspectionFailedReason ''Node is unreachable'')
           else update_pods env k node (component_conditions c));
          update_nodes env nodes ocnecpErrors
        })
   }"

definition missing_node :: "Node list \<Rightarrow> string \<times> Machine \<Rightarrow> bool" where
  "missing_node nodes km =
     (Machine_Status_NodeRef (snd km) \<noteq> None \<and> \<not> list_ex (\<lambda>n. hosted_by (Node_Name n) km) nodes)"

subsection \<open>Aggregation\<close>

definition names_with :: "(Condition \<Rightarrow> bool) \<Rightarrow> ConditionType list \<Rightarrow> Machines \<Rightarrow> string list" where
  "names_with P ts machines =
     sort (remdups (map (mname \<circ> snd) (filter (\<lambda>(_, m). list_ex (\<lambda>t. case Get (Machine_Status_Conditions m) t of
        None \<Rightarrow> False | Some c \<Rightarrow> P c) ts) machines)))"

definition is_false :: "ConditionSeverity \<Rightarrow> Condition \<Rightarrow> bool" where
  "is_false severity c \<longleftrightarrow> Status c = ConditionFalse \<and> Severity c = severity"

text \<open>
  The test for machines that report info looks at the machines with warnings, as the code has it; it
  is never true where it stands.
\<close>

definition aggregate_verdict ::
  "Machines \<Rightarrow> ConditionType list \<Rightarrow> string list \<Rightarrow> string \<Rightarrow> string \<Rightarrow> string \<Rightarrow> verdict option" where
  "aggregate_verdict machines ts ocnecpErrors unhealthyReason unknownReason note =
     (let withErrors = names_with (is_false SeverityError) ts machines;
          withWarnings = names_with (is_false SeverityWarning) ts machines;
          withInfo = names_with (is_false SeverityInfo) ts machines;
          withTrue = names_with (\<lambda>c. Status c = ConditionTrue) ts machines;
          withUnknown = names_with (\<lambda>c. Status c = ConditionUnknown) ts machines;
          errs = ocnecpErrors @
            (if withErrors \<noteq> []
             then [''Following machines are reporting '' @ note @ '' errors: '' @ strings_Join '', '' withErrors] else [])
      in if errs \<noteq> [] then Some (VFalse unhealthyReason SeverityError (Sprintf0 (strings_Join ''; '' errs)))
         else if withWarnings \<noteq> []
         then Some (VFalse unhealthyReason SeverityWarning
           (''Following machines are reporting '' @ note @ '' warnings: '' @ strings_Join '', '' withWarnings))
         else if withWarnings \<noteq> []
         then Some (VFalse unhealthyReason SeverityWarning
           (''Following machines are reporting '' @ note @ '' info: '' @ strings_Join '', '' withInfo))
         else if withTrue \<noteq> [] then Some VTrue
         else if withUnknown \<noteq> []
         then Some (VUnknown unknownReason
           (''Following machines are reporting unknown '' @ note @ '' status: '' @ strings_Join '', '' withUnknown))
         else None)"

definition aggregateFromMachinesToKCP ::
  "'r health_env_scheme \<Rightarrow> ConditionType list \<Rightarrow> string list \<Rightarrow> ConditionType \<Rightarrow> string \<Rightarrow> string \<Rightarrow> string \<Rightarrow> unit hact" where
  "aggregateFromMachinesToKCP env ts ocnecpErrors condition unhealthyReason unknownReason note = do {
     c \<leftarrow> hread h_cp;
     (case aggregate_verdict (CP_Machines c) ts ocnecpErrors unhealthyReason unknownReason note of
        None \<Rightarrow> State_Monad.return ()
      | Some v \<Rightarrow> mark_kcp env condition v)
   }"

definition ControlPlaneComponentsUnhealthyReason :: string where
  "ControlPlaneComponentsUnhealthyReason = ''ControlPlaneComponentsUnhealthy''"
definition ControlPlaneComponentsUnknownReason :: string where
  "ControlPlaneComponentsUnknownReason = ''ControlPlaneComponentsUnknown''"
definition ControlPlaneComponentsInspectionFailedReason :: string where
  "ControlPlaneComponentsInspectionFailedReason = ''ControlPlaneComponentsInspectionFailed''"

definition finish_static_pods :: "'r health_env_scheme \<Rightarrow> Node list \<Rightarrow> ConditionType list \<Rightarrow> string list \<Rightarrow> unit hact" where
  "finish_static_pods env nodes all ocnecpErrors = do {
     c \<leftarrow> hread h_cp;
     mark_all env (map fst (filter (missing_node nodes) (CP_Machines c))) all
       (VFalse PodFailedReason SeverityError ''Missing node'');
     aggregateFromMachinesToKCP env all ocnecpErrors ControlPlaneComponentsHealthyCondition
       ControlPlaneComponentsUnhealthyReason ControlPlaneComponentsUnknownReason ''control plane''
   }"

definition UpdateStaticPodConditions :: "'r health_env_scheme \<Rightarrow> unit hact" where
  "UpdateStaticPodConditions env = do {
     r \<leftarrow> list_control_plane_nodes env;
     c \<leftarrow> hread h_cp;
     let all = allMachinePodConditions c;
     (case r of
        Inl err \<Rightarrow> do {
          mark_all env (map fst (CP_Machines c)) all (VUnknown PodInspectionFailedReason
            (''Failed to get the node which is hosting this component: '' @ hError_text env err));
          mark_kcp env ControlPlaneComponentsHealthyCondition (VUnknown ControlPlaneComponentsInspectionFailedReason
            (''Failed to list nodes which are hosting control plane components: '' @ hError_text env err))
        }
      | Inr nodes \<Rightarrow> do {
          ocnecpErrors \<leftarrow> update_nodes env nodes [];
          finish_static_pods env nodes all ocnecpErrors
        })
   }"

subsection \<open>Etcd\<close>

definition EtcdMemberInspectionFailedReason :: string where "EtcdMemberInspectionFailedReason = ''MemberInspectionFailed''"
definition EtcdMemberUnhealthyReason :: string where "EtcdMemberUnhealthyReason = ''EtcdMemberUnhealthy''"
definition EtcdClusterInspectionFailedReason :: string where
  "EtcdClusterInspectionFailedReason = ''EtcdClusterInspectionFailed''"
definition EtcdClusterUnknownReason :: string where "EtcdClusterUnknownReason = ''EtcdClusterUnknown''"
definition EtcdClusterUnhealthyReason :: string where "EtcdClusterUnhealthyReason = ''EtcdClusterUnhealthy''"

definition AlarmTypeName :: "int \<Rightarrow> string" where
  "AlarmTypeName a = (if a = 0 then ''NONE'' else if a = 1 then ''NOSPACE'' else if a = 2 then ''CORRUPT'' else [])"

definition print_slice :: "string list \<Rightarrow> string" where
  "print_slice xs = ''['' @ strings_Join '' '' xs @ '']''"

abbreviation mark_member :: "'r health_env_scheme \<Rightarrow> string \<Rightarrow> verdict \<Rightarrow> unit hact" where
  "mark_member env k v \<equiv> mark_machine env k MachineEtcdMemberHealthyCondition v"

definition member_error :: "string \<Rightarrow> verdict" where
  "member_error msg = VFalse EtcdMemberUnhealthyReason SeverityError msg"

definition read_members :: "'r health_env_scheme \<Rightarrow> string \<Rightarrow> string \<Rightarrow> Client \<Rightarrow> EtcdMember list option hact" where
  "read_members env k nodeName client =
     (if Errors client \<noteq> [] then do {
        mark_member env k (member_error (''Etcd member status reports errors: '' @ strings_Join '', '' (Errors client)));
        _ \<leftarrow> etcd_act (Close env client);
        State_Monad.return None
      }
      else do {
        r \<leftarrow> etcd_act (Members env client);
        (case r of
           Inl err \<Rightarrow> do {
             mark_member env k (member_error (''Failed get answer from the etcd member on the '' @ nodeName @ '' node''));
             _ \<leftarrow> etcd_act (Close env client);
             State_Monad.return None
           }
         | Inr currentMembers \<Rightarrow> do {
             _ \<leftarrow> etcd_act (Close env client);
             State_Monad.return (Some currentMembers)
           })
      })"

definition getCurrentEtcdMembers :: "'r health_env_scheme \<Rightarrow> string \<Rightarrow> string \<Rightarrow> EtcdMember list option hact" where
  "getCurrentEtcdMembers env k nodeName = do {
     r \<leftarrow> etcd_act (forFirstAvailableNode env [nodeName]);
     (case r of
        Inl err \<Rightarrow> do {
          mark_member env k (VUnknown EtcdMemberInspectionFailedReason
            (''Failed to connect to the etcd pod on the '' @ nodeName @ '' node: '' @ hError_text env err));
          State_Monad.return None
        }
      | Inr client \<Rightarrow> read_members env k nodeName client)
   }"

text \<open>
  What the list of a member says about it, given the first list and the first cluster identifier that were
  seen; also the identifier to compare with from here on. A member that is missing from its own list is a
  nil pointer.
\<close>

definition member_verdict ::
  "string \<Rightarrow> EtcdMember list \<Rightarrow> EtcdMember list \<Rightarrow> 64 word option \<Rightarrow> error + (verdict \<times> 64 word option)" where
  "member_verdict nodeName members currentMembers clusterID =
     (if \<not> MemberEqual members currentMembers
      then Inr (member_error (''etcd member reports the cluster is composed by members '' @ print_slice (MemberNames currentMembers) @
        '', but all previously seen etcd members are reporting '' @ print_slice (MemberNames members)), clusterID)
      else case MemberForName currentMembers nodeName of
        None \<Rightarrow> Inl (Panic ''nil pointer dereference'')
      | Some member \<Rightarrow>
          (let alarmList = map AlarmTypeName (filter (\<lambda>a. a \<noteq> 0) (Alarms member));
               first = (case clusterID of None \<Rightarrow> ClusterID member | Some i \<Rightarrow> i)
           in if alarmList \<noteq> []
              then Inr (member_error (''Etcd member reports alarms: '' @ strings_Join '', '' alarmList), clusterID)
              else if first \<noteq> ClusterID member
              then Inr (member_error (''etcd member has cluster ID '' @ show_nat (unat (ClusterID member)) @
                '', but all previously seen etcd members have cluster ID '' @ show_nat (unat first)), Some first)
              else Inr (VTrue, Some first)))"

fun etcd_nodes ::
  "'r health_env_scheme \<Rightarrow> Node list \<Rightarrow> EtcdMember list option \<Rightarrow> 64 word option \<Rightarrow> string list \<Rightarrow>
   (error + (EtcdMember list option \<times> string list)) hact" where
  "etcd_nodes env [] members clusterID ocnecpErrors = State_Monad.return (Inr (members, ocnecpErrors))"
| "etcd_nodes env (node # nodes) members clusterID ocnecpErrors = do {
     c \<leftarrow> hread h_cp;
     (case find (hosted_by (Node_Name node)) (rev (CP_Machines c)) of
        None \<Rightarrow>
          etcd_nodes env nodes members clusterID
            (if hasProvisioningMachine (CP_Machines c) then ocnecpErrors else ocnecpErrors @ [no_machine (Node_Name node)])
      | Some (k, machine) \<Rightarrow>
          (if \<not> Time_IsZero (DeletionTimestamp (Machine_ObjectMeta machine)) then do {
             mark_member env k (VFalse DeletingReason SeverityInfo []);
             etcd_nodes env nodes members clusterID ocnecpErrors
           }
           else do {
             r \<leftarrow> getCurrentEtcdMembers env k (Node_Name node);
             (case r of
                None \<Rightarrow> etcd_nodes env nodes members clusterID ocnecpErrors
              | Some currentMembers \<Rightarrow>
                  (let first = (case members of None \<Rightarrow> currentMembers | Some ms \<Rightarrow> ms)
                   in case member_verdict (Node_Name node) first currentMembers clusterID of
                        Inl err \<Rightarrow> State_Monad.return (Inl err)
                      | Inr (v, clusterID) \<Rightarrow> do {
                          mark_member env k v;
                          etcd_nodes env nodes (Some first) clusterID ocnecpErrors
                        }))
           }))
   }"

definition without_member :: "EtcdMember list \<Rightarrow> string \<times> Machine \<Rightarrow> bool" where
  "without_member members km =
     (Machine_Status_NodeRef (snd km) \<noteq> None \<and> \<not> list_ex (\<lambda>member. hosted_by (EtcdMember_Name member) km) members)"

definition orphan_errors :: "Machines \<Rightarrow> EtcdMember list \<Rightarrow> string list" where
  "orphan_errors machines members =
     map (\<lambda>member. ''etcd member '' @
            (if EtcdMember_Name member = [] then show_nat (unat (ID member)) @ '' (Name not yet assigned)''
             else EtcdMember_Name member) @ '' does not have a corresponding machine'')
       (filter (\<lambda>member. \<not> list_ex (hosted_by (EtcdMember_Name member)) machines) members)"

definition compareMachinesAndMembers ::
  "'r health_env_scheme \<Rightarrow> EtcdMember list option \<Rightarrow> string list \<Rightarrow> string list hact" where
  "compareMachinesAndMembers env members ocnecpErrors =
     (case members of
        None \<Rightarrow> State_Monad.return ocnecpErrors
      | Some members \<Rightarrow> do {
          c \<leftarrow> hread h_cp;
          mark_all env (map fst (filter (without_member members) (CP_Machines c)))
            [MachineEtcdMemberHealthyCondition] (member_error ''Missing etcd member'');
          State_Monad.return (ocnecpErrors @ orphan_errors (CP_Machines c) members)
        })"

definition finish_etcd :: "'r health_env_scheme \<Rightarrow> EtcdMember list option \<Rightarrow> string list \<Rightarrow> unit hact" where
  "finish_etcd env members ocnecpErrors = do {
     ocnecpErrors \<leftarrow> compareMachinesAndMembers env members ocnecpErrors;
     aggregateFromMachinesToKCP env [MachineEtcdMemberHealthyCondition] ocnecpErrors EtcdClusterHealthyCondition
       EtcdClusterUnhealthyReason EtcdClusterUnknownReason ''etcd member''
   }"

definition updateManagedEtcdConditions :: "'r health_env_scheme \<Rightarrow> error option hact" where
  "updateManagedEtcdConditions env = do {
     r \<leftarrow> list_control_plane_nodes env;
     c \<leftarrow> hread h_cp;
     (case r of
        Inl err \<Rightarrow> do {
          mark_kcp env EtcdClusterHealthyCondition (VUnknown EtcdClusterInspectionFailedReason
            ''Failed to list nodes which are hosting the etcd members'');
          mark_all env (map fst (CP_Machines c)) [MachineEtcdMemberHealthyCondition]
            (VUnknown EtcdMemberInspectionFailedReason ''Failed to get the node which is hosting the etcd member'');
          State_Monad.return None
        }
      | Inr nodes \<Rightarrow> do {
          r \<leftarrow> etcd_nodes env nodes None None [];
          (case r of
             Inl err \<Rightarrow> State_Monad.return (Some err)
           | Inr (members, ocnecpErrors) \<Rightarrow> do {
               finish_etcd env members ocnecpErrors;
               State_Monad.return None
             })
        })
   }"

definition UpdateEtcdConditions :: "'r health_env_scheme \<Rightarrow> error option hact" where
  "UpdateEtcdConditions env = do {
     c \<leftarrow> hread h_cp;
     (if IsEtcdManaged c then updateManagedEtcdConditions env
      else do {
        mark_kcp env EtcdClusterHealthyCondition VTrue;
        State_Monad.return None
      })
   }"


subsection \<open>Conditions are set on evidence\<close>

text \<open>
  What a pass over the control plane may do: it only reads etcd, it changes nothing of a machine but its
  conditions, and a condition that holds afterwards held before or has evidence in the calls that were made.
\<close>

definition reads_from :: "ecall list \<Rightarrow> ecall list \<Rightarrow> bool" where
  "reads_from t0 t \<longleftrightarrow> (\<exists>u. t = t0 @ u \<and> list_all quiet u)"

interpretation reading: kept_by_quiet "reads_from t0" for t0
  by unfold_locales (force simp: reads_from_def)

lemma reads_from_refl: "reads_from t t"
  by (simp add: reads_from_def)

lemma reads_from_trans: "reads_from t u \<Longrightarrow> reads_from u w \<Longrightarrow> reads_from t w"
  by (force simp: reads_from_def)

lemma reads_from_prefix: "reads_from t u \<Longrightarrow> prefix t u"
  by (auto simp: reads_from_def)

type_synonym evidence = "hcall list \<Rightarrow> ecall list \<Rightarrow> Machine \<Rightarrow> ConditionType \<Rightarrow> bool"

definition conditions_backed :: "evidence \<Rightarrow> hcall list \<Rightarrow> ecall list \<Rightarrow> Machine \<Rightarrow> Conditions \<Rightarrow> bool" where
  "conditions_backed Ev T E m cs \<longleftrightarrow>
     (distinct_types (Machine_Status_Conditions m) \<longrightarrow>
        distinct_types cs \<and> (\<forall>t. IsTrue cs t \<longrightarrow> IsTrue (Machine_Status_Conditions m) t \<or> Ev T E m t))"

definition machine_backed :: "evidence \<Rightarrow> hcall list \<Rightarrow> ecall list \<Rightarrow> string \<times> Machine \<Rightarrow> string \<times> Machine \<Rightarrow> bool" where
  "machine_backed Ev T E km km' \<longleftrightarrow>
     fst km' = fst km \<and>
     (snd km)\<lparr>Machine_Status_Conditions := Machine_Status_Conditions (snd km')\<rparr> = snd km' \<and>
     conditions_backed Ev T E (snd km) (Machine_Status_Conditions (snd km'))"

definition evidenced :: "evidence \<Rightarrow> hst \<Rightarrow> hst \<Rightarrow> bool" where
  "evidenced Ev s s' \<longleftrightarrow>
     prefix (h_trace s) (h_trace s') \<and> reads_from (h_etcd s) (h_etcd s') \<and>
     list_all2 (machine_backed Ev (h_trace s') (h_etcd s')) (CP_Machines (h_cp s)) (CP_Machines (h_cp s'))"

definition keyed :: "hst \<Rightarrow> bool" where
  "keyed s \<longleftrightarrow> distinct (map fst (CP_Machines (h_cp s)))"

lemma evidenced_keys:
  assumes "evidenced Ev s s'"
  shows "map fst (CP_Machines (h_cp s')) = map fst (CP_Machines (h_cp s))"
proof -
  have "map fst ys = map fst xs" if "list_all2 (machine_backed Ev T E) xs ys" for T E xs ys
    using that by (induction rule: list_all2_induct) (auto simp: machine_backed_def)
  then show ?thesis using assms by (auto simp: evidenced_def)
qed

lemma evidenced_keyed: "evidenced Ev s s' \<Longrightarrow> keyed s' = keyed s"
  by (simp add: keyed_def evidenced_keys)

text \<open>A machine that is not being deleted is the one of a node.\<close>

definition hosts :: "hst \<Rightarrow> string \<Rightarrow> string \<Rightarrow> bool" where
  "hosts s k node \<longleftrightarrow> keyed s \<and>
     (\<exists>m. (k, m) \<in> set (CP_Machines (h_cp s)) \<and> hosted_by node (k, m) \<and> Time_IsZero (DeletionTimestamp (Machine_ObjectMeta m)))"

lemma evidenced_hosts:
  assumes "evidenced Ev s s'" "hosts s k node"
  shows "hosts s' k node"
proof -
  obtain m where m: "(k, m) \<in> set (CP_Machines (h_cp s))" "hosted_by node (k, m)"
    "Time_IsZero (DeletionTimestamp (Machine_ObjectMeta m))"
    using assms(2) by (auto simp: hosts_def)
  obtain i where i: "i < length (CP_Machines (h_cp s))" "CP_Machines (h_cp s) ! i = (k, m)"
    using m(1) by (auto simp: in_set_conv_nth)
  then have "machine_backed Ev (h_trace s') (h_etcd s') (k, m) (CP_Machines (h_cp s') ! i)"
    "i < length (CP_Machines (h_cp s'))"
    using assms(1) by (auto simp: evidenced_def list_all2_conv_all_nth)
  then obtain cs where "(k, m\<lparr>Machine_Status_Conditions := cs\<rparr>) \<in> set (CP_Machines (h_cp s'))"
    unfolding machine_backed_def by (metis fst_conv nth_mem prod.collapse snd_conv)
  moreover have "keyed s'" using assms by (simp add: evidenced_keyed hosts_def)
  ultimately show ?thesis
    using m(2,3) by (force simp: hosts_def hosted_by_def)
qed

locale evidence_laws =
  fixes Ev :: evidence
  assumes Ev_mono: "Ev T E m t \<Longrightarrow> prefix T T' \<Longrightarrow> prefix E E' \<Longrightarrow> Ev T' E' m t"
    and Ev_conditions: "Ev T E (m\<lparr>Machine_Status_Conditions := cs\<rparr>) t = Ev T E m t"
begin

lemma machine_backed_refl: "machine_backed Ev T E km km"
  by (simp add: machine_backed_def conditions_backed_def)

lemma conditions_backed_trans:
  assumes "conditions_backed Ev T E m cs" "conditions_backed Ev T' E' (m\<lparr>Machine_Status_Conditions := cs\<rparr>) cs'"
    and "prefix T T'" "prefix E E'"
  shows "conditions_backed Ev T' E' m cs'"
  using assms(1,2) Ev_mono [OF _ assms(3,4)] unfolding conditions_backed_def Ev_conditions by simp blast

lemma machine_backed_trans:
  assumes "machine_backed Ev T E a b" "machine_backed Ev T' E' b c" "prefix T T'" "prefix E E'"
  shows "machine_backed Ev T' E' a c"
proof -
  have b: "(snd a)\<lparr>Machine_Status_Conditions := Machine_Status_Conditions (snd b)\<rparr> = snd b"
    and c: "(snd b)\<lparr>Machine_Status_Conditions := Machine_Status_Conditions (snd c)\<rparr> = snd c"
    using assms(1,2) by (simp_all add: machine_backed_def)
  have "(snd a)\<lparr>Machine_Status_Conditions := Machine_Status_Conditions (snd c)\<rparr> = snd c"
    by (subst (2) c [symmetric], subst b [symmetric]) simp
  moreover have "conditions_backed Ev T' E' (snd a) (Machine_Status_Conditions (snd c))"
    by (rule conditions_backed_trans [of T E _ "Machine_Status_Conditions (snd b)", OF _ _ assms(3,4)])
      (use assms(1,2) in \<open>simp_all add: machine_backed_def\<close>)
  ultimately show ?thesis
    using assms(1,2) by (simp add: machine_backed_def)
qed

lemma evidenced_refl: "evidenced Ev s s"
  by (simp add: evidenced_def reads_from_refl list.rel_refl machine_backed_refl)

lemma evidenced_trans:
  assumes "evidenced Ev s s1" "evidenced Ev s1 s2"
  shows "evidenced Ev s s2"
proof -
  note s1 = assms(1) [unfolded evidenced_def] and s2 = assms(2) [unfolded evidenced_def]
  have p: "prefix (h_trace s1) (h_trace s2)" "prefix (h_etcd s1) (h_etcd s2)"
    using s2 by (simp_all add: reads_from_prefix)
  have "list_all2 (machine_backed Ev (h_trace s2) (h_etcd s2)) (CP_Machines (h_cp s)) (CP_Machines (h_cp s2))"
    by (rule list_all2_trans [OF machine_backed_trans [OF _ _ p] conjunct2 [OF conjunct2 [OF s1]] conjunct2 [OF conjunct2 [OF s2]]])
  moreover have "prefix (h_trace s) (h_trace s2)" "reads_from (h_etcd s) (h_etcd s2)"
    using s1 s2 prefix_order.trans reads_from_trans by blast+
  ultimately show ?thesis by (simp add: evidenced_def)
qed

end

sublocale evidence_laws \<subseteq> chained "evidenced Ev"
  by (rule chained.intro) (rule evidenced_refl, rule evidenced_trans)

context evidence_laws
begin

lemma steady_hcall: "steady (hcall c reply)"
  by (auto simp: steady_def wp_simps evidenced_def reads_from_refl list.rel_refl machine_backed_refl)

lemma steady_hread: "steady (hread f)"
  by (simp add: steady_def wp_simps evidenced_refl)

lemma steady_etcd: "(\<And>t0. wp m (\<lambda>_. reads_from t0) t0) \<Longrightarrow> steady (etcd_act m)"
  by (auto simp: steady_def wp_etcd_act evidenced_def list.rel_refl machine_backed_refl intro: wp_mono)

lemma steady_mark_kcp: "steady (mark_kcp env t v)"
  by (simp add: steady_def wp_def mark_kcp_def evidenced_def reads_from_refl list.rel_refl machine_backed_refl)

lemma conditions_backed_mark:
  assumes "v = VTrue \<longrightarrow> Ev T E m t"
  shows "conditions_backed Ev T E m (mark_verdict v t now (Machine_Status_Conditions m))"
  using assms
  by (cases v) (auto simp: conditions_backed_def distinct_Mark Mark_status MarkUnknown_def IsTrue_Set distinct_Set
      condition_constructors)

lemma evidenced_mark:
  assumes "\<forall>m. (k, m) \<in> set (CP_Machines (h_cp s)) \<longrightarrow> v = VTrue \<longrightarrow> Ev (h_trace s) (h_etcd s) m t"
  shows "wp (mark_machine env k t v) (\<lambda>_. evidenced Ev s) s"
proof -
  have "machine_backed Ev (h_trace s) (h_etcd s) (j, m)
      (j, if j = k then m\<lparr>Machine_Status_Conditions := mark_verdict v t now (Machine_Status_Conditions m)\<rparr> else m)"
    if "(j, m) \<in> set (CP_Machines (h_cp s))" for j m now
    using that assms machine_backed_refl [of "h_trace s" "h_etcd s" "(j, m)"]
    by (cases "j = k") (simp_all add: machine_backed_def conditions_backed_mark)
  then show ?thesis
    by (auto simp: wp_def mark_machine_def on_machine_def evidenced_def reads_from_refl list_all2_map2 list_all2_same)
qed

lemma steady_mark: "v \<noteq> VTrue \<Longrightarrow> steady (mark_machine env k t v)"
  by (simp add: steady_def evidenced_mark)

lemma steady_mark_each: "v \<noteq> VTrue \<Longrightarrow> steady (mark_each env k ts v)"
  by (induction ts) (auto intro: steady_intros steady_mark)

lemma steady_mark_all: "v \<noteq> VTrue \<Longrightarrow> steady (mark_all env ks ts v)"
  by (induction ks) (auto intro: steady_intros steady_mark_each)

lemma steady_aggregate: "steady (aggregateFromMachinesToKCP env ts errs c u k note)"
  unfolding aggregateFromMachinesToKCP_def by (intro steady_intros steady_hread steady_mark_kcp)

lemma steady_nodes: "steady (list_control_plane_nodes env)"
  unfolding list_control_plane_nodes_def by (intro steady_intros steady_hcall)

text \<open>A condition may be set to true on the machine of a node with evidence for every such machine.\<close>

lemma evidenced_mark_true:
  assumes "hosts s k node"
    and "\<And>m. hosted_by node (k, m) \<Longrightarrow> Time_IsZero (DeletionTimestamp (Machine_ObjectMeta m)) \<Longrightarrow>
      v = VTrue \<Longrightarrow> Ev (h_trace s) (h_etcd s) m t"
  shows "wp (mark_machine env k t v) (\<lambda>_. evidenced Ev s) s"
proof (rule evidenced_mark, intro allI impI)
  fix m assume m: "(k, m) \<in> set (CP_Machines (h_cp s))" "v = VTrue"
  obtain m' where m': "(k, m') \<in> set (CP_Machines (h_cp s))" "hosted_by node (k, m')"
    "Time_IsZero (DeletionTimestamp (Machine_ObjectMeta m'))" "keyed s"
    using assms(1) by (auto simp: hosts_def)
  then have "m = m'" using m(1) by (meson eq_key_imp_eq_value keyed_def)
  then show "Ev (h_trace s) (h_etcd s) m t" using assms(2) m(2) m'(2,3) by blast
qed

end

subsection \<open>Static pods\<close>

text \<open>
  Evidence for the condition of a component: the machine is not being deleted, and the pod of the component on
  its node was read and is running and ready.
\<close>

definition pod_components :: "(string \<times> ConditionType) list" where
  "pod_components =
     [(''kube-apiserver'', MachineAPIServerPodHealthyCondition),
      (''kube-controller-manager'', MachineControllerManagerPodHealthyCondition),
      (''kube-scheduler'', MachineSchedulerPodHealthyCondition), (''etcd'', MachineEtcdPodHealthyCondition)]"

definition ready_pod :: "'r health_env_scheme \<Rightarrow> hcall list \<Rightarrow> string \<Rightarrow> bool" where
  "ready_pod env T name \<longleftrightarrow>
     seen (\<lambda>h c. c = GetPod name \<and> (\<exists>pod. reply_Pod env name h = Inr pod \<and> Pod_Phase pod = ''Running'' \<and>
       podCondition pod ''Ready'' = ConditionTrue)) T"

definition pod_evidence :: "'r health_env_scheme \<Rightarrow> evidence" where
  "pod_evidence env T E m t \<longleftrightarrow>
     Time_IsZero (DeletionTimestamp (Machine_ObjectMeta m)) \<and>
     (\<exists>ref component. Machine_Status_NodeRef m = Some ref \<and> (component, t) \<in> set pod_components \<and>
        ready_pod env T (staticPodName component (ObjectReference_Name ref)))"

interpretation pods: evidence_laws "pod_evidence env" for env
  by unfold_locales (auto simp: pod_evidence_def ready_pod_def intro: seen_mono)

lemma pod_verdict_True:
  "pod_verdict pod = Some VTrue \<longleftrightarrow> Pod_Phase pod = ''Running'' \<and> podCondition pod ''Ready'' = ConditionTrue"
  by (auto simp: pod_verdict_def running_verdict_def Let_def)

lemma hosted_byE:
  assumes "hosted_by node (k, m)"
  obtains ref where "Machine_Status_NodeRef m = Some ref" "ObjectReference_Name ref = node"
  using assms by (auto simp: hosted_by_def split: option.splits)

lemma component_conditions_sub: "set (component_conditions c) \<subseteq> set pod_components"
  by (auto simp: component_conditions_def pod_components_def)

lemma updateStaticPodCondition_backed:
  fixes env :: "'r health_env_scheme"
  assumes h: "hosts s k (Node_Name node)" and c: "(component, t) \<in> set pod_components"
  shows "wp (updateStaticPodCondition env k node component t) (\<lambda>_. evidenced (pod_evidence env) s) s"
proof -
  define name where "name = staticPodName component (Node_Name node)"
  define s1 where "s1 = s\<lparr>h_trace := h_trace s @ [GetPod name]\<rparr>"
  have "wp (hcall (GetPod name) id) (\<lambda>_. evidenced (pod_evidence env) s) s"
    by (rule pods.steadyD [OF pods.steady_hcall])
  then have s1: "evidenced (pod_evidence env) s s1"
    by (simp add: wp_simps s1_def)
  have mark: "wp (mark_machine env k t v) (\<lambda>_. evidenced (pod_evidence env) s) s1"
    if "v = VTrue \<Longrightarrow> ready_pod env (h_trace s1) name" for v
  proof (rule wp_mono [OF pods.evidenced_mark_true [OF evidenced_hosts [OF s1 h]]])
    show "pod_evidence env (h_trace s1) (h_etcd s1) m t"
      if "hosted_by (Node_Name node) (k, m)" "Time_IsZero (DeletionTimestamp (Machine_ObjectMeta m))" "v = VTrue" for m
      using that \<open>v = VTrue \<Longrightarrow> _\<close> c by (auto simp: pod_evidence_def name_def elim!: hosted_byE)
  qed (rule pods.evidenced_trans [OF s1])
  have ready: "ready_pod env (h_trace s1) name"
    if "reply_Pod env name (h_trace s) = Inr pod" "pod_verdict pod = Some VTrue" for pod
    using that by (auto simp: ready_pod_def s1_def pod_verdict_True)
  show ?thesis
    unfolding updateStaticPodCondition_def Let_def name_def [symmetric]
    by (auto simp: wp_simps s1_def [symmetric] s1 ready intro!: mark intro: pods.steadyD [OF pods.steady_mark]
        split: sum.split option.split)
qed

lemma update_pods_backed:
  fixes env :: "'r health_env_scheme"
  assumes "hosts s k (Node_Name node)" "set cs \<subseteq> set pod_components"
  shows "wp (update_pods env k node cs) (\<lambda>_. evidenced (pod_evidence env) s) s"
  using assms
proof (induction cs arbitrary: s)
  case Nil
  then show ?case by (simp add: wp_simps pods.evidenced_refl)
next
  case (Cons c cs)
  obtain component t where c: "c = (component, t)" by (cases c)
  have "wp (update_pods env k node cs) (\<lambda>_. evidenced (pod_evidence env) s) s1"
    if "evidenced (pod_evidence env) s s1" for s1
    using wp_mono [OF Cons.IH [OF evidenced_hosts [OF that Cons.prems(1)]] pods.evidenced_trans [OF that]] Cons.prems(2)
    by simp
  then show ?case
    using wp_mono [OF updateStaticPodCondition_backed [OF Cons.prems(1), of component t env]] Cons.prems(2)
    by (simp add: c wp_simps)
qed

lemma find_hosts:
  assumes "keyed s" "find (hosted_by node) machines = Some (k, m)" "set machines = set (CP_Machines (h_cp s))"
    and "Time_IsZero (DeletionTimestamp (Machine_ObjectMeta m))"
  shows "hosts s k node"
proof -
  have "(k, m) \<in> set machines" "hosted_by node (k, m)"
    using assms(2) by (auto simp: find_Some_iff in_set_conv_nth)
  then show ?thesis using assms by (auto simp: hosts_def)
qed

lemma update_nodes_backed:
  fixes env :: "'r health_env_scheme"
  assumes "keyed s"
  shows "wp (update_nodes env nodes errs) (\<lambda>_. evidenced (pod_evidence env) s) s"
  using assms
proof (induction nodes arbitrary: s errs)
  case Nil
  then show ?case by (simp add: wp_simps pods.evidenced_refl)
next
  case (Cons node nodes)
  have IH: "wp (update_nodes env nodes es) (\<lambda>_. evidenced (pod_evidence env) s) s1"
    if "evidenced (pod_evidence env) s s1" for s1 es
    by (rule wp_mono [OF Cons.IH pods.evidenced_trans [OF that]]) (use that Cons.prems in \<open>auto simp: evidenced_keyed\<close>)
  have step: "wp m (\<lambda>_. wp (update_nodes env nodes es) (\<lambda>_. evidenced (pod_evidence env) s)) s"
    if "wp m (\<lambda>_. evidenced (pod_evidence env) s) s" for m :: "unit hact" and es
    by (rule wp_mono [OF that]) (rule IH)
  have pods: "wp (update_pods env k node (component_conditions (h_cp s))) (\<lambda>_. evidenced (pod_evidence env) s) s"
    if "find (hosted_by (Node_Name node)) (CP_Machines (h_cp s)) = Some (k, machine)"
      "Time_IsZero (DeletionTimestamp (Machine_ObjectMeta machine))" for k machine
    by (rule update_pods_backed [OF find_hosts [OF Cons.prems that(1) _ that(2)] component_conditions_sub]) simp
  show ?case
    by (auto simp: wp_simps Let_def IH pods.evidenced_refl pods intro!: step
        intro: pods.steadyD [OF pods.steady_mark_each] split: option.split)
qed

subsection \<open>Etcd members\<close>

text \<open>
  Evidence for the condition of an etcd member: the machine is not being deleted, the etcd of its node
  reported a status without errors, and it listed the member of that node without alarms.
\<close>

definition status_seen :: "'r etcd_env_scheme \<Rightarrow> ecall list \<Rightarrow> string \<Rightarrow> string list \<Rightarrow> bool" where
  "status_seen env E ep errs \<longleftrightarrow>
     seen (\<lambda>h c. c = EtcdStatus ep \<and> (\<exists>leader. reply_Status env ep h = Inr (leader, errs))) E"

definition listing_seen :: "'r etcd_env_scheme \<Rightarrow> ecall list \<Rightarrow> string \<Rightarrow> EtcdMember list \<Rightarrow> bool" where
  "listing_seen env E ep ms \<longleftrightarrow>
     seen (\<lambda>h c. c = AlarmList ep \<and> (\<exists>h0 cid pbs as. h = h0 @ [MemberList ep] \<and>
       reply_MemberList env ep h0 = Inr (cid, pbs) \<and> reply_AlarmList env ep h = Inr as \<and>
       ms = map (to_member cid as) pbs)) E"

definition member_evidence :: "'r health_env_scheme \<Rightarrow> evidence" where
  "member_evidence env T E m t \<longleftrightarrow>
     t = MachineEtcdMemberHealthyCondition \<and> Time_IsZero (DeletionTimestamp (Machine_ObjectMeta m)) \<and>
     (\<exists>ref ms member. Machine_Status_NodeRef m = Some ref \<and>
        status_seen env E (staticPodName ''etcd'' (ObjectReference_Name ref)) [] \<and>
        listing_seen env E (staticPodName ''etcd'' (ObjectReference_Name ref)) ms \<and>
        member \<in> set ms \<and> EtcdMember_Name member = ObjectReference_Name ref \<and> (\<forall>a\<in>set (Alarms member). a = 0))"

lemma status_seen_mono: "status_seen env E ep errs \<Longrightarrow> prefix E E' \<Longrightarrow> status_seen env E' ep errs"
  unfolding status_seen_def by (rule seen_mono)

lemma listing_seen_mono: "listing_seen env E ep ms \<Longrightarrow> prefix E E' \<Longrightarrow> listing_seen env E' ep ms"
  unfolding listing_seen_def by (rule seen_mono)

interpretation members: evidence_laws "member_evidence env" for env
  by unfold_locales (auto simp: member_evidence_def intro: status_seen_mono listing_seen_mono)

lemma connect_status:
  fixes env :: "'r etcd_env_scheme"
  shows "wp (forFirstAvailableNode env [n]) (\<lambda>r t'. reads_from t t' \<and>
     (\<forall>c. r = Inr c \<longrightarrow> Endpoint c = staticPodName ''etcd'' n \<and> status_seen env t' (Endpoint c) (Errors c))) t"
  by (auto simp: forFirstAvailableNode_def NewClient_def newEtcdClient_def wp_simps status_seen_def reading.quiet_step
      reads_from_refl simp del: append_assoc split: option.split sum.split)

lemma Members_listing:
  fixes env :: "'r etcd_env_scheme"
  shows "wp (Members env c) (\<lambda>r t'. reads_from t t' \<and> (\<forall>ms. r = Inr ms \<longrightarrow> listing_seen env t' (Endpoint c) ms)) t"
  by (auto simp: Members_def list_alarms_def wp_simps listing_seen_def reading.quiet_step reads_from_refl
      simp del: append_assoc split: sum.split)

lemma Close_reads: "wp (Close env c) (\<lambda>_. reads_from t) t"
  by (simp add: Close_def wp_simps reads_from_def)

lemma etcd_act_wp:
  assumes "wp m (\<lambda>r t'. reads_from (h_etcd s) t' \<and> P r t') (h_etcd s)"
  shows "wp (etcd_act m) (\<lambda>r s'. evidenced (member_evidence env) s s' \<and> P r (h_etcd s')) s"
  using assms unfolding wp_etcd_act
  by (rule wp_mono) (simp add: evidenced_def list.rel_refl members.machine_backed_refl)

text \<open>What \<open>getCurrentEtcdMembers\<close> returns was listed by the etcd of the node, which has no errors.\<close>

definition clean_listing :: "'r etcd_env_scheme \<Rightarrow> ecall list \<Rightarrow> string \<Rightarrow> EtcdMember list \<Rightarrow> bool" where
  "clean_listing env E node ms \<longleftrightarrow>
     status_seen env E (staticPodName ''etcd'' node) [] \<and> listing_seen env E (staticPodName ''etcd'' node) ms"

lemma clean_listing_mono: "clean_listing env E n ms \<Longrightarrow> prefix E E' \<Longrightarrow> clean_listing env E' n ms"
  by (auto simp: clean_listing_def intro: status_seen_mono listing_seen_mono)

lemma evidenced_etcd: "evidenced Ev s s' \<Longrightarrow> prefix (h_etcd s) (h_etcd s')"
  by (simp add: evidenced_def reads_from_prefix)

lemma steady_Close: "chained.steady (evidenced (member_evidence env)) (etcd_act (Close env' c))"
  by (rule members.steady_etcd) (rule Close_reads)

definition listed_clean ::
  "'r health_env_scheme \<Rightarrow> string \<Rightarrow> hst \<Rightarrow> EtcdMember list option \<Rightarrow> hst \<Rightarrow> bool" where
  "listed_clean env node s r s' \<longleftrightarrow>
     evidenced (member_evidence env) s s' \<and> (\<forall>ms. r = Some ms \<longrightarrow> clean_listing env (h_etcd s') node ms)"

lemma listed_clean_None:
  fixes env :: "'r health_env_scheme"
  assumes "evidenced (member_evidence env) s s1" "v \<noteq> VTrue" "chained.steady (evidenced (member_evidence env)) m"
  shows "wp (do { mark_member env k v; _ \<leftarrow> m; State_Monad.return None }) (listed_clean env node s) s1"
proof -
  have "chained.steady (evidenced (member_evidence env)) (do { mark_member env k v; m })"
    by (intro members.steady_intros members.steady_mark assms)
  from members.steady_then [OF this assms(1)] show ?thesis
    by (simp add: wp_simps listed_clean_def)
qed

lemma listed_clean_Some:
  fixes env :: "'r health_env_scheme"
  assumes "evidenced (member_evidence env) s s1" "clean_listing env (h_etcd s1) node ms"
  shows "wp (do { _ \<leftarrow> etcd_act (Close env c); State_Monad.return (Some ms) }) (listed_clean env node s) s1"
proof -
  have "listed_clean env node s (Some ms) s2" if "evidenced (member_evidence env) s1 s2" for s2
    using members.evidenced_trans [OF assms(1) that] clean_listing_mono [OF assms(2) evidenced_etcd [OF that]]
    by (simp add: listed_clean_def)
  then show ?thesis
    by (auto simp: wp_simps intro: wp_mono [OF members.steadyD [OF steady_Close]])
qed

lemma read_members_clean:
  fixes env :: "'r health_env_scheme"
  assumes s1: "evidenced (member_evidence env) s s1" and "status_seen env (h_etcd s1) (Endpoint c) (Errors c)"
    and "Endpoint c = staticPodName ''etcd'' node"
  shows "wp (read_members env k node c) (listed_clean env node s) s1"
proof (cases "Errors c = []")
  case True
  have "clean_listing env (h_etcd s2) node ms"
    if "evidenced (member_evidence env) s1 s2" "listing_seen env (h_etcd s2) (Endpoint c) ms" for s2 ms
    using assms(2,3) that(2) status_seen_mono [OF _ evidenced_etcd [OF that(1)]] True by (simp add: clean_listing_def)
  then show ?thesis
    unfolding read_members_def using True
    by (auto simp: wp_bind [of "etcd_act (Members env c)"] member_error_def
        intro!: wp_mono [OF etcd_act_wp [OF Members_listing]] listed_clean_None listed_clean_Some steady_Close
        intro: members.evidenced_trans [OF s1] split: sum.split)
next
  case False
  then show ?thesis
    unfolding read_members_def by (auto simp: member_error_def intro!: listed_clean_None s1 steady_Close)
qed

lemma getCurrentEtcdMembers_clean:
  fixes env :: "'r health_env_scheme"
  shows "wp (getCurrentEtcdMembers env k node) (listed_clean env node s) s"
proof -
  have failed: "wp (do { mark_member env k v; State_Monad.return None }) (listed_clean env node s) s1"
    if "evidenced (member_evidence env) s s1" "v \<noteq> VTrue" for s1 v
    using listed_clean_None [OF that members.steady_return] by (simp add: wp_simps)
  show ?thesis
    unfolding getCurrentEtcdMembers_def wp_bind [of "etcd_act (forFirstAvailableNode env [node])"]
    by (auto intro!: wp_mono [OF etcd_act_wp [OF connect_status]] failed read_members_clean split: sum.split)
qed

text \<open>The run stops only at a list in which the node that returned it has no member.\<close>

definition own_member_missing :: "'r etcd_env_scheme \<Rightarrow> ecall list \<Rightarrow> bool" where
  "own_member_missing env E \<longleftrightarrow> (\<exists>node ms. clean_listing env E node ms \<and> node \<notin> EtcdMember_Name ` set ms)"

lemma own_member_missing_mono: "own_member_missing env E \<Longrightarrow> prefix E E' \<Longrightarrow> own_member_missing env E'"
  by (auto simp: own_member_missing_def intro: clean_listing_mono)

definition stops_for_cause :: "'r etcd_env_scheme \<Rightarrow> error option \<Rightarrow> hst \<Rightarrow> bool" where
  "stops_for_cause env r s \<longleftrightarrow>
     (r \<noteq> None \<longrightarrow> r = Some (Panic ''nil pointer dereference'') \<and> own_member_missing env (h_etcd s))"

lemma member_verdict_cases:
  assumes "member_verdict node first ms cid = r"
  shows "(r = Inl (Panic ''nil pointer dereference'') \<and> node \<notin> EtcdMember_Name ` set ms) \<or>
    (\<exists>v cid'. r = Inr (v, cid') \<and> (v = VTrue \<longrightarrow>
       (\<exists>member\<in>set ms. EtcdMember_Name member = node \<and> (\<forall>a\<in>set (Alarms member). a = 0))))"
  using assms
  by (auto simp: member_verdict_def member_error_def Let_def filter_empty_conv MemberForName_def find_None_iff
      split: if_splits option.splits)
    (auto simp: find_Some_iff)

definition etcd_nodes_post :: "'r health_env_scheme \<Rightarrow> hst \<Rightarrow> (error + 'b) \<Rightarrow> hst \<Rightarrow> bool" where
  "etcd_nodes_post env s r s' \<longleftrightarrow>
     evidenced (member_evidence env) s s' \<and>
     (\<forall>e. r = Inl e \<longrightarrow> e = Panic ''nil pointer dereference'' \<and> own_member_missing env (h_etcd s'))"

lemma etcd_nodes_post_trans:
  "evidenced (member_evidence env) s s1 \<Longrightarrow> etcd_nodes_post env s1 r s2 \<Longrightarrow> etcd_nodes_post env s r s2"
  by (auto simp: etcd_nodes_post_def intro: members.evidenced_trans)

lemma mark_listed_member:
  fixes env :: "'r health_env_scheme"
  assumes "listed_clean env node s (Some ms) s1" "hosts s k node"
    and "member_verdict node first ms cid = Inr (v, cid')"
  shows "wp (mark_member env k v) (\<lambda>_. evidenced (member_evidence env) s) s1"
proof -
  have s1: "evidenced (member_evidence env) s s1" and c: "clean_listing env (h_etcd s1) node ms"
    using assms(1) by (auto simp: listed_clean_def)
  have "member_evidence env (h_trace s1) (h_etcd s1) m MachineEtcdMemberHealthyCondition"
    if "hosted_by node (k, m)" "Time_IsZero (DeletionTimestamp (Machine_ObjectMeta m))" "v = VTrue" for m
    using that c member_verdict_cases [OF assms(3)]
    by (auto simp: member_evidence_def clean_listing_def elim!: hosted_byE)
  then have "wp (mark_member env k v) (\<lambda>_. evidenced (member_evidence env) s1) s1"
    by (rule members.evidenced_mark_true [OF evidenced_hosts [OF s1 assms(2)]])
  then show ?thesis by (rule wp_mono) (rule members.evidenced_trans [OF s1])
qed

lemma etcd_nodes_backed:
  fixes env :: "'r health_env_scheme"
  assumes "keyed s"
  shows "wp (etcd_nodes env nodes ms cid errs) (etcd_nodes_post env s) s"
  using assms
proof (induction nodes arbitrary: s ms cid errs)
  case Nil
  then show ?case by (simp add: wp_simps etcd_nodes_post_def members.evidenced_refl)
next
  case (Cons node nodes)
  have IH: "wp (etcd_nodes env nodes ms' cid' es) (etcd_nodes_post env s) s1"
    if "evidenced (member_evidence env) s s1" for s1 ms' cid' es
    by (rule wp_mono [OF Cons.IH etcd_nodes_post_trans [OF that]]) (use that Cons.prems in \<open>auto simp: evidenced_keyed\<close>)
  have listed: "wp (case member_verdict (Node_Name node) first cur cid of
        Inl err \<Rightarrow> State_Monad.return (Inl err)
      | Inr (v, cid') \<Rightarrow> do { mark_member env k v; etcd_nodes env nodes (Some first) cid' errs })
      (etcd_nodes_post env s) s1"
    if "listed_clean env (Node_Name node) s (Some cur) s1" "hosts s k (Node_Name node)" for first cur k s1
  proof (cases "member_verdict (Node_Name node) first cur cid")
    case (Inl err)
    then show ?thesis
      using that(1) member_verdict_cases [OF Inl]
      by (auto simp: wp_simps etcd_nodes_post_def listed_clean_def own_member_missing_def)
  next
    case (Inr vc)
    obtain v cid' where vc: "vc = (v, cid')" by (cases vc)
    show ?thesis
      using wp_mono [OF mark_listed_member [OF that Inr [unfolded vc]] IH] by (simp add: Inr vc wp_simps)
  qed
  have node: "wp (getCurrentEtcdMembers env k (Node_Name node)) (\<lambda>r. wp (case r of
        None \<Rightarrow> etcd_nodes env nodes ms cid errs
      | Some cur \<Rightarrow> (let first = (case ms of None \<Rightarrow> cur | Some ms \<Rightarrow> ms)
          in case member_verdict (Node_Name node) first cur cid of
               Inl err \<Rightarrow> State_Monad.return (Inl err)
             | Inr (v, cid') \<Rightarrow> do { mark_member env k v; etcd_nodes env nodes (Some first) cid' errs }))
      (etcd_nodes_post env s)) s"
    if "find (hosted_by (Node_Name node)) (rev (CP_Machines (h_cp s))) = Some (k, machine)"
      "Time_IsZero (DeletionTimestamp (Machine_ObjectMeta machine))" for k machine
    using find_hosts [OF Cons.prems that(1) _ that(2)]
    by (intro wp_mono [OF getCurrentEtcdMembers_clean])
      (auto simp: Let_def listed_clean_def [of _ _ _ None] intro: IH listed split: option.split)
  have deleting: "wp (mark_member env k v) (\<lambda>_. wp (etcd_nodes env nodes ms cid errs) (etcd_nodes_post env s)) s"
    if "v \<noteq> VTrue" for k v
    by (rule wp_mono [OF members.steadyD [OF members.steady_mark [OF that]] IH])
  show ?case
    by (auto simp: wp_simps IH members.evidenced_refl node deleting split: option.split)
qed

lemma compareMachinesAndMembers_steady:
  "chained.steady (evidenced (member_evidence env)) (compareMachinesAndMembers env' ms errs)"
  unfolding compareMachinesAndMembers_def
  by (intro members.steady_intros members.steady_hread members.steady_mark_all) (simp add: member_error_def)

subsection \<open>The passes\<close>

definition pods_pass :: "'r health_env_scheme \<Rightarrow> hst \<Rightarrow> hst \<Rightarrow> bool" where
  "pods_pass env s s' \<longleftrightarrow> (keyed s \<longrightarrow> evidenced (pod_evidence env) s s')"

text \<open>
  C16. One run of \<open>UpdateStaticPodConditions\<close> on machines with distinct keys calls etcd only to read, changes
  nothing of a machine but its conditions, keeps each type of condition unique, and a condition of a
  machine that is true afterwards was true before or was set on evidence: the machine is not being deleted and the pod of the component on
  the node of this very machine was read, was running and was ready.
\<close>

theorem UpdateStaticPodConditions_backed:
  "wp (UpdateStaticPodConditions env) (\<lambda>_. pods_pass env s) s"
proof (cases "keyed s")
  case True
  have finish: "chained.steady (evidenced (pod_evidence env)) (finish_static_pods env nodes all errs)" for nodes errs all
    unfolding finish_static_pods_def
    by (intro pods.steady_intros pods.steady_hread pods.steady_mark_all pods.steady_aggregate) simp
  have ok: "wp (update_nodes env nodes []) (\<lambda>errs. wp (finish_static_pods env nodes all errs) (\<lambda>_. evidenced (pod_evidence env) s)) s1"
    if "evidenced (pod_evidence env) s s1" for nodes all s1
  proof (rule wp_mono [OF update_nodes_backed])
    show "keyed s1" using True that by (simp add: evidenced_keyed)
    show "wp (finish_static_pods env nodes all errs) (\<lambda>_. evidenced (pod_evidence env) s) s2"
      if "evidenced (pod_evidence env) s1 s2" for errs s2
      by (rule pods.steady_then [OF finish]) (rule pods.evidenced_trans [OF \<open>evidenced (pod_evidence env) s s1\<close> that])
  qed
  have failed: "wp (do { mark_all env ks all v; mark_kcp env t w }) (\<lambda>_. evidenced (pod_evidence env) s) s1"
    if "evidenced (pod_evidence env) s s1" "v \<noteq> VTrue" for ks all v t w s1
    by (rule pods.steady_then [OF _ that(1)]) (intro pods.steady_intros pods.steady_mark_all pods.steady_mark_kcp that(2))
  have "wp (UpdateStaticPodConditions env) (\<lambda>_. evidenced (pod_evidence env) s) s"
    unfolding UpdateStaticPodConditions_def wp_bind [of "list_control_plane_nodes env"] Let_def
    by (rule wp_mono [OF pods.steadyD [OF pods.steady_nodes]])
      (auto simp: wp_hread wp_bind [of "hread _"] wp_bind [of "update_nodes _ _ _"] intro!: ok failed split: sum.split)
  then show ?thesis by (rule wp_mono) (simp add: pods_pass_def)
next
  case False
  then show ?thesis by (simp add: pods_pass_def wp_def split: prod.split)
qed

definition etcd_pass :: "'r health_env_scheme \<Rightarrow> hst \<Rightarrow> error option \<Rightarrow> hst \<Rightarrow> bool" where
  "etcd_pass env s r s' \<longleftrightarrow> (keyed s \<longrightarrow> evidenced (member_evidence env) s s' \<and> stops_for_cause env r s')"

lemma updateManagedEtcdConditions_backed:
  assumes "keyed s"
  shows "wp (updateManagedEtcdConditions env) (\<lambda>r s'. evidenced (member_evidence env) s s' \<and> stops_for_cause env r s') s"
    (is "wp _ ?Q s")
proof -
  have "chained.steady (evidenced (member_evidence env)) (finish_etcd env ms errs)" for ms errs
    unfolding finish_etcd_def
    by (intro members.steady_intros compareMachinesAndMembers_steady members.steady_aggregate)
  from members.steady_then [OF this]
  have finish: "wp (do { finish_etcd env ms errs; State_Monad.return None }) ?Q s1"
    if "evidenced (member_evidence env) s s1" for ms errs s1
    using that by (simp add: wp_simps stops_for_cause_def)
  have nodes: "wp (etcd_nodes env nodes None None []) (\<lambda>r. wp (case r of
      Inl err \<Rightarrow> State_Monad.return (Some err) | Inr (ms, errs) \<Rightarrow> do { finish_etcd env ms errs; State_Monad.return None }) ?Q) s1"
    if "evidenced (member_evidence env) s s1" for nodes s1
  proof (rule wp_mono [OF etcd_nodes_backed])
    show "keyed s1" using assms that by (simp add: evidenced_keyed)
    fix r :: "error + (EtcdMember list option \<times> string list)" and s2
    assume "etcd_nodes_post env s1 r s2"
    then have "etcd_nodes_post env s r s2" by (rule etcd_nodes_post_trans [OF that])
    then show "wp (case r of Inl err \<Rightarrow> State_Monad.return (Some err) | Inr (ms, errs) \<Rightarrow> do { finish_etcd env ms errs; State_Monad.return None }) ?Q s2"
      by (cases r) (auto simp: wp_return etcd_nodes_post_def finish, simp add: stops_for_cause_def)
  qed
  have failed: "wp (do { mark_kcp env t w; mark_all env ks all v; State_Monad.return None }) ?Q s1"
    if "evidenced (member_evidence env) s s1" "v \<noteq> VTrue" for ks all v t w s1
  proof -
    have "chained.steady (evidenced (member_evidence env)) (do { mark_kcp env t w; mark_all env ks all v })"
      by (intro members.steady_intros members.steady_mark_all members.steady_mark_kcp that(2))
    from members.steady_then [OF this that(1)] show ?thesis by (simp add: wp_simps stops_for_cause_def)
  qed
  show ?thesis
    unfolding updateManagedEtcdConditions_def wp_bind [of "list_control_plane_nodes env"]
    by (rule wp_mono [OF members.steadyD [OF members.steady_nodes]])
      (auto simp: wp_hread wp_bind [of "hread _"] wp_bind [of "etcd_nodes _ _ _ _ _"] intro!: nodes failed split: sum.split)
qed

text \<open>
  C15. One run of \<open>UpdateEtcdConditions\<close> on machines with distinct keys calls etcd only to read, changes
  nothing of a machine but its conditions, and the condition of a member that is true afterwards was
  true before or was set on evidence: the machine is not being deleted, the etcd of its own node reported a status without
  errors and listed the member of that node, and no alarm of that member is raised. The run
  completes unless some etcd without errors lists members among which the one of its own node is missing,
  and then it stops with a nil pointer dereference.
\<close>

theorem UpdateEtcdConditions_backed:
  "wp (UpdateEtcdConditions env) (etcd_pass env s) s"
proof (cases "keyed s")
  case True
  have "wp (mark_kcp env t v) (\<lambda>_. evidenced (member_evidence env) s) s" for t v
    by (rule members.steadyD [OF members.steady_mark_kcp])
  then show ?thesis
    using updateManagedEtcdConditions_backed [OF True, of env]
    by (simp add: UpdateEtcdConditions_def wp_simps etcd_pass_def [abs_def] True stops_for_cause_def)
next
  case False
  then show ?thesis by (simp add: etcd_pass_def wp_def split: prod.split)
qed

text \<open>Some machine has a condition of one of the types that satisfies \<open>P\<close>.\<close>

definition reports :: "(Condition \<Rightarrow> bool) \<Rightarrow> ConditionType list \<Rightarrow> Machines \<Rightarrow> bool" where
  "reports P ts machines \<longleftrightarrow>
     list_ex (\<lambda>(_, m). list_ex (\<lambda>t. case Get (Machine_Status_Conditions m) t of None \<Rightarrow> False | Some c \<Rightarrow> P c) ts) machines"

lemma names_with_Nil: "names_with P ts machines = [] \<longleftrightarrow> \<not> reports P ts machines"
proof -
  have "sort xs = [] \<longleftrightarrow> xs = []" for xs :: "string list"
    by (metis length_0_conv length_sort)
  then show ?thesis
    by (simp add: names_with_def reports_def filter_empty_conv list_ex_iff case_prod_beta)
qed

text \<open>
  C22. The aggregation reports a control plane as healthy exactly when there is no error of the control plane, no
  machine has a false condition of severity error or warning, and some machine has a true one. Machines
  with a false condition of severity info play no part in it, whereas the comments of the code put them before the
  machines with true conditions.
\<close>

theorem aggregate_True_iff:
  "aggregate_verdict machines ts ocnecpErrors unhealthyReason unknownReason note = Some VTrue \<longleftrightarrow>
     ocnecpErrors = [] \<and> \<not> reports (is_false SeverityError) ts machines \<and>
     \<not> reports (is_false SeverityWarning) ts machines \<and> reports (\<lambda>c. Status c = ConditionTrue) ts machines"
  by (auto simp: aggregate_verdict_def Let_def names_with_Nil)

subsection \<open>A machine without its node\<close>

text \<open>The nodes that a run is given, by the calls before it.\<close>

definition control_plane_nodes :: "'r health_env_scheme \<Rightarrow> hcall list \<Rightarrow> error + Node list" where
  "control_plane_nodes env T =
     (case reply_Nodes env labelNodeRoleOldControlPlane T of
        Inl err \<Rightarrow> Inl err
      | Inr old \<Rightarrow> map_sum id (add_nodes (add_nodes [] old))
          (reply_Nodes env labelNodeRoleControlPlane (T @ [ListNodes labelNodeRoleOldControlPlane])))"

definition has_error :: "string \<Rightarrow> ConditionType \<Rightarrow> hst \<Rightarrow> bool" where
  "has_error k t s \<longleftrightarrow> (\<exists>m c. (k, m) \<in> set (CP_Machines (h_cp s)) \<and> distinct_types (Machine_Status_Conditions m) \<and>
     Get (Machine_Status_Conditions m) t = Some c \<and> is_false SeverityError c)"

definition has_machine :: "string \<Rightarrow> hst \<Rightarrow> bool" where
  "has_machine k s \<longleftrightarrow> (\<exists>m. (k, m) \<in> set (CP_Machines (h_cp s)) \<and> distinct_types (Machine_Status_Conditions m))"

text \<open>Marking a condition with an error keeps the errors there are, and the object of the control plane.\<close>

definition error_step :: "hst \<Rightarrow> hst \<Rightarrow> bool" where
  "error_step s s' \<longleftrightarrow> KCP (h_cp s') = KCP (h_cp s) \<and>
     (\<forall>k. has_machine k s \<longrightarrow> has_machine k s') \<and> (\<forall>k t. has_error k t s \<longrightarrow> has_error k t s')"

interpretation er: chained error_step
  by unfold_locales (simp_all add: error_step_def)

lemma Get_MarkFalse:
  assumes "distinct_types cs"
  shows "\<exists>c. Get (MarkFalse now cs t r sev msg) t = Some c \<and> is_false sev c"
    and "u \<noteq> t \<Longrightarrow> Get (MarkFalse now cs t r sev msg) u = Get cs u"
  using hasSameState_stored [of now cs "FalseCondition t r sev msg"] assms
  by (auto simp: MarkFalse_def Get_Set is_false_def hasSameState_def condition_constructors)

lemma mark_machine_error:
  "wp (mark_machine env k t (VFalse r SeverityError msg)) (\<lambda>_ s'. error_step s s' \<and> (has_machine k s \<longrightarrow> has_error k t s')) s"
proof -
  define s' where "s' = snd (run_state (mark_machine env k t (VFalse r SeverityError msg)) s)"
  define now where "now = hNow env (h_trace s) (h_etcd s)"
  define f where "f m = m\<lparr>Machine_Status_Conditions := MarkFalse now (Machine_Status_Conditions m) t r SeverityError msg\<rparr>" for m :: Machine
  have cp: "CP_Machines (h_cp s') = map (\<lambda>(j, m). (j, if j = k then f m else m)) (CP_Machines (h_cp s))"
    "KCP (h_cp s') = KCP (h_cp s)"
    by (simp_all add: s'_def mark_machine_def on_machine_def f_def now_def case_prod_beta)
  define g where "g j m = (if j = k then f m else m)" for j m
  have mem: "(j, g j m) \<in> set (CP_Machines (h_cp s'))" if "(j, m) \<in> set (CP_Machines (h_cp s))" for j m
    using that by (force simp: cp g_def)
  have d: "distinct_types (Machine_Status_Conditions (g j m))" if "distinct_types (Machine_Status_Conditions m)" for j m
    using that by (simp add: g_def f_def distinct_Mark)
  have has: "has_machine j s'" if "has_machine j s" for j
    using that mem d unfolding has_machine_def by blast
  have err: "has_error j u s'"
    if "(j, m) \<in> set (CP_Machines (h_cp s))" "distinct_types (Machine_Status_Conditions m)"
      "(j = k \<and> u = t) \<or> (\<exists>c. Get (Machine_Status_Conditions m) u = Some c \<and> is_false SeverityError c)" for j m u
  proof -
    have "\<exists>c. Get (Machine_Status_Conditions (g j m)) u = Some c \<and> is_false SeverityError c"
      using that(3) Get_MarkFalse [OF that(2)]
      by (cases "j = k"; cases "u = t") (simp_all add: g_def f_def)
    then show ?thesis using mem [OF that(1)] d [OF that(2)] unfolding has_error_def by blast
  qed
  have "error_step s s' \<and> (has_machine k s \<longrightarrow> has_error k t s')"
    using cp(2) has err unfolding error_step_def has_error_def [of _ _ s] has_machine_def [of k s] by blast
  then show ?thesis by (simp add: wp_def s'_def split_beta)
qed

lemma mark_each_error:
  "wp (mark_each env k ts (VFalse r SeverityError msg))
     (\<lambda>_ s'. error_step s s' \<and> (has_machine k s \<longrightarrow> (\<forall>t\<in>set ts. has_error k t s'))) s"
proof (induction ts arbitrary: s)
  case Nil
  then show ?case by (simp add: wp_simps er.R_refl)
next
  case (Cons t ts)
  have rest: "wp (mark_each env k ts (VFalse r SeverityError msg))
      (\<lambda>_ s'. error_step s s' \<and> (has_machine k s \<longrightarrow> (\<forall>t\<in>set (t # ts). has_error k t s'))) s1"
    if "error_step s s1 \<and> (has_machine k s \<longrightarrow> has_error k t s1)" for s1
    by (rule wp_mono [OF Cons.IH]) (use that er.R_trans in \<open>auto simp: error_step_def\<close>)
  show ?case
    unfolding mark_each.simps wp_bind by (rule wp_mono [OF mark_machine_error]) (rule rest)
qed

lemma mark_all_error:
  "wp (mark_all env ks ts (VFalse r SeverityError msg))
     (\<lambda>_ s'. error_step s s' \<and> (\<forall>k\<in>set ks. has_machine k s \<longrightarrow> (\<forall>t\<in>set ts. has_error k t s'))) s"
proof (induction ks arbitrary: s)
  case Nil
  then show ?case by (simp add: wp_simps er.R_refl)
next
  case (Cons k ks)
  have rest: "wp (mark_all env ks ts (VFalse r SeverityError msg))
      (\<lambda>_ s'. error_step s s' \<and> (\<forall>k\<in>set (k # ks). has_machine k s \<longrightarrow> (\<forall>t\<in>set ts. has_error k t s'))) s1"
    if "error_step s s1 \<and> (has_machine k s \<longrightarrow> (\<forall>t\<in>set ts. has_error k t s1))" for s1
    by (rule wp_mono [OF Cons.IH]) (use that in \<open>auto simp: error_step_def\<close>)
  show ?case
    unfolding mark_all.simps wp_bind by (rule wp_mono [OF mark_each_error]) (rule rest)
qed

lemma list_control_plane_nodes_wp:
  "wp (list_control_plane_nodes env) (\<lambda>r s'. r = control_plane_nodes env (h_trace s) \<and> h_cp s' = h_cp s \<and> h_etcd s' = h_etcd s) s"
  by (auto simp: list_control_plane_nodes_def control_plane_nodes_def wp_simps split: sum.split)

text \<open>The object of the control plane is left alone until the aggregation.\<close>

definition kcp_kept :: "hst \<Rightarrow> hst \<Rightarrow> bool" where
  "kcp_kept s s' \<longleftrightarrow> KCP (h_cp s') = KCP (h_cp s)"

interpretation kk: chained kcp_kept
  by unfold_locales (simp_all add: kcp_kept_def)

lemma kcp_kept_basic:
  "kk.steady (hcall c reply)" "kk.steady (hread f)" "kk.steady (mark_machine env k t v)"
  by (simp_all add: kk.steady_def wp_simps kcp_kept_def wp_def mark_machine_def on_machine_def)

lemma kcp_kept_each: "kk.steady (mark_each env k ts v)"
  by (induction ts) (auto intro: kk.steady_intros kcp_kept_basic)

lemma kcp_kept_pods: "kk.steady (update_pods env k node cs)"
proof (induction cs)
  case (Cons c cs)
  then show ?case
    by (cases c) (auto simp: updateStaticPodCondition_def Let_def intro!: kk.steady_intros kcp_kept_basic)
qed (simp add: kk.steady_return)

lemma kcp_kept_nodes: "kk.steady (update_nodes env nodes errs)"
  by (induction nodes arbitrary: errs)
    (auto simp: Let_def intro!: kk.steady_intros kcp_kept_basic kcp_kept_each kcp_kept_pods)

lemma aggregate_error:
  assumes "has_error k t s" "t \<in> set ts"
  shows "wp (aggregateFromMachinesToKCP env ts errs condition u w note) (\<lambda>_ s'. has_error k t s' \<and>
     (distinct_types (kcp_conditions (KCP (h_cp s))) \<longrightarrow> IsFalse (kcp_conditions (KCP (h_cp s'))) condition)) s"
proof -
  have "reports (is_false SeverityError) ts (CP_Machines (h_cp s))"
    using assms by (force simp: has_error_def reports_def list_ex_iff)
  then obtain msg where "aggregate_verdict (CP_Machines (h_cp s)) ts errs u w note = Some (VFalse u SeverityError msg)"
    by (simp add: aggregate_verdict_def Let_def names_with_Nil)
  then show ?thesis
    using assms(1) by (simp add: aggregateFromMachinesToKCP_def wp_simps wp_def mark_kcp_def has_error_def Mark_status)
qed

lemma update_nodes_keeps:
  assumes "keyed s"
  shows "wp (update_nodes env nodes errs) (\<lambda>_ s'. kcp_kept s s' \<and> evidenced (pod_evidence env) s s') s"
  by (intro wp_conj kk.steadyD [OF kcp_kept_nodes] update_nodes_backed [OF assms])

lemma evidenced_missing:
  assumes "evidenced Ev s s'" "(k, m) \<in> set (CP_Machines (h_cp s))" "missing_node nodes (k, m)"
    and "distinct_types (Machine_Status_Conditions m)"
  shows "k \<in> set (map fst (filter (missing_node nodes) (CP_Machines (h_cp s'))))" "has_machine k s'"
proof -
  obtain i where i: "i < length (CP_Machines (h_cp s))" "CP_Machines (h_cp s) ! i = (k, m)"
    using assms(2) by (auto simp: in_set_conv_nth)
  then have "machine_backed Ev (h_trace s') (h_etcd s') (k, m) (CP_Machines (h_cp s') ! i)"
    "i < length (CP_Machines (h_cp s'))"
    using assms(1) by (auto simp: evidenced_def list_all2_conv_all_nth)
  then obtain cs where "(k, m\<lparr>Machine_Status_Conditions := cs\<rparr>) \<in> set (CP_Machines (h_cp s'))" "distinct_types cs"
    using assms(4) unfolding machine_backed_def conditions_backed_def by (metis fst_conv nth_mem prod.collapse snd_conv)
  moreover have "missing_node nodes (k, m\<lparr>Machine_Status_Conditions := cs\<rparr>)" for cs
    using assms(3) by (simp add: missing_node_def hosted_by_def)
  ultimately show "k \<in> set (map fst (filter (missing_node nodes) (CP_Machines (h_cp s'))))" "has_machine k s'"
    by (force simp: has_machine_def)+
qed

definition error_reported :: "string \<Rightarrow> ConditionType \<Rightarrow> OCNEControlPlane \<Rightarrow> hst \<Rightarrow> bool" where
  "error_reported k t kcp s' \<longleftrightarrow> has_error k t s' \<and>
     (distinct_types (kcp_conditions kcp) \<longrightarrow>
        IsFalse (kcp_conditions (KCP (h_cp s'))) ControlPlaneComponentsHealthyCondition)"

lemma finish_missing:
  assumes "evidenced Ev s s1" "kcp_kept s s1" "(k, m) \<in> set (CP_Machines (h_cp s))" "missing_node nodes (k, m)"
    and "distinct_types (Machine_Status_Conditions m)" "t \<in> set ts"
  shows "wp (finish_static_pods env nodes ts errs) (\<lambda>_. error_reported k t (KCP (h_cp s))) s1"
  unfolding finish_static_pods_def wp_bind wp_hread
proof (rule wp_mono [OF mark_all_error], elim conjE)
  fix s2 assume "error_step s1 s2" "\<forall>k\<in>set (map fst (filter (missing_node nodes) (CP_Machines (h_cp s1)))).
    has_machine k s1 \<longrightarrow> (\<forall>t\<in>set ts. has_error k t s2)"
  then have "has_error k t s2" "KCP (h_cp s2) = KCP (h_cp s)"
    using evidenced_missing [OF assms(1,3,4,5)] assms(2,6) by (auto simp: error_step_def kcp_kept_def)
  then show "wp (aggregateFromMachinesToKCP env ts errs ControlPlaneComponentsHealthyCondition
      ControlPlaneComponentsUnhealthyReason ControlPlaneComponentsUnknownReason ''control plane'')
    (\<lambda>_. error_reported k t (KCP (h_cp s))) s2"
    using aggregate_error [of k t s2 ts] assms(6) by (simp add: error_reported_def [abs_def])
qed

lemma UpdateStaticPodConditions_reports:
  assumes h: "keyed s" "control_plane_nodes env (h_trace s) = Inr nodes" "(k, m) \<in> set (CP_Machines (h_cp s))"
    "distinct_types (Machine_Status_Conditions m)" "missing_node nodes (k, m)"
    "t \<in> set (allMachinePodConditions (h_cp s))"
  shows "wp (UpdateStaticPodConditions env) (\<lambda>_. error_reported k t (KCP (h_cp s))) s"
proof -
  have "wp (update_nodes env nodes []) (\<lambda>errs.
      wp (finish_static_pods env nodes (allMachinePodConditions (h_cp s)) errs) (\<lambda>_. error_reported k t (KCP (h_cp s)))) s1"
    if "h_cp s1 = h_cp s" for s1
  proof (rule wp_mono [OF update_nodes_keeps], goal_cases)
    case 1
    then show ?case using h(1) that by (simp add: keyed_def)
  next
    case (2 errs s2)
    then show ?case using finish_missing [of _ s1 s2 k m] h(3-6) that by auto
  qed
  then show ?thesis
    unfolding UpdateStaticPodConditions_def wp_bind Let_def wp_hread
    by (intro wp_mono [OF list_control_plane_nodes_wp]) (auto simp: h(2) wp_bind)
qed

definition missing_node_reported :: "'r health_env_scheme \<Rightarrow> hst \<Rightarrow> hst \<Rightarrow> bool" where
  "missing_node_reported env s s' \<longleftrightarrow>
     (\<forall>nodes k m t. keyed s \<and> control_plane_nodes env (h_trace s) = Inr nodes \<and> (k, m) \<in> set (CP_Machines (h_cp s)) \<and>
        distinct_types (Machine_Status_Conditions m) \<and> missing_node nodes (k, m) \<and>
        t \<in> set (allMachinePodConditions (h_cp s)) \<longrightarrow> error_reported k t (KCP (h_cp s)) s')"

text \<open>
  C21. When the nodes can be listed, each machine that has a node which is not among them has, after one run of
  \<open>UpdateStaticPodConditions\<close>, a false condition of severity error for every component, and the control plane
  is not reported as healthy. Keys of machines and types of conditions are distinct.
\<close>

theorem UpdateStaticPodConditions_missing_node:
  "wp (UpdateStaticPodConditions env) (\<lambda>_. missing_node_reported env s) s"
  using UpdateStaticPodConditions_reports [of s env]
  by (fastforce simp: missing_node_reported_def wp_def split_beta)

end
