(* ===== verification/Spec2Isabelle.thy ===== *)
theory Spec2Isabelle
  imports Version Conditions BootstrapApi Util ControlPlaneApi Machines FailureDomain ControlPlane Effects Etcd
    InitLock Images Certificates Controller Scale Remediation Ownership Reconcile Passes OcneMeta CloudInit
    Bootstrap BootstrapPasses Webhook Health
begin

text \<open>
  A development for the Cluster API provider for Oracle Cloud Native Environment. The provider has two
  controllers. The bootstrap controller turns an \<open>OCNEConfig\<close> into user data that makes a machine
  initialise or join a cluster with kubeadm. The control plane controller keeps the machines of an
  \<open>OCNEControlPlane\<close> in the wanted number, version and health. Both work on objects of the management
  cluster through an API client; the control plane controller also talks to the workload cluster and to
  its etcd members.

  \<^bold>\<open>Conventions.\<close> A pointer that may be nil is an option, a Go map is an association list with distinct
  keys or, where structs are compared, a finite map, and a slice there is an optional list. A result with
  an error is a sum whose left side is the error, and a panic is an error of its own constructor. Times
  are integers of nanoseconds; the sizes of integers are written out where they matter (\<open>to_int32\<close>,
  \<open>to_int64\<close>, 64-bit words). Field \<open>F\<close> of struct \<open>T\<close> is mostly \<open>T_F\<close>. Code outside the repository is
  a parameter: the record \<open>ext\<close> of \<open>Util\<close> holds the functions of libraries with their documented laws
  \<open>ext_laws\<close>, and the environments of the controllers give the reply to every call as a function of the
  calls made before, so that a theorem for all environments covers every failure and every interference
  by other actors.

  \<^bold>\<open>Libraries of the program.\<close>
  \<^item> \<open>Prelude\<close>: errors, results, times, formatting with \<open>fmt.Sprintf\<close>, sorting and maps of Go.
  \<^item> \<open>Version\<close>: \<open>util/version\<close> and the kubeadm versions of \<open>bootstrap/ocne/types/utils.go\<close>: parsing,
    comparing, supported skew and the choice of the kubeadm API.
  \<^item> \<open>Conditions\<close>: \<open>util/conditions\<close>: getters, setters, merging into a summary, and the three-way patch.
  \<^item> \<open>Util\<close>, \<open>FailureDomain\<close>, \<open>Machines\<close>: owner references, annotations and labels of \<open>util\<close>,
    \<open>util/failuredomains\<close> and \<open>util/collections\<close> with its filters.
  \<^item> \<open>Certificates\<close>: \<open>util/secret\<close>: the certificates of a cluster and their secrets, over a client for secrets that
    is a parameter with the laws \<open>secret_laws\<close>.
  \<^item> \<open>Images\<close>, \<open>OcneMeta\<close>: \<open>util/container\<close>, \<open>internal/util/ocne\<close> and \<open>util/ocne\<close>: image names and
    registries, semantic versions, the metadata of supported versions and the commands that prepare a node.

  \<^bold>\<open>Bootstrap provider.\<close>
  \<^item> \<open>BootstrapApi\<close>: the types of \<open>bootstrap/ocne/api/v1alpha1\<close> and the validating webhook.
  \<^item> \<open>InitLock\<close>: the lock of \<open>bootstrap/ocne/internal/locking\<close> as processes that make one API call per
    step, under every interleaving and failure, with the branch of a reconciliation that locks, unlocks after a
    failure or unlocks to join. Config maps are read from the server, machines, clusters and configurations from a cache that may lag.
    Mutual exclusion is an invariant of the states reached before the cluster is initialized.
  \<^item> \<open>CloudInit\<close>: the user data of \<open>bootstrap/ocne/internal/cloudinit\<close> as functions to strings.
  \<^item> \<open>Bootstrap\<close>: the controller of \<open>bootstrap/ocne/internal/controllers\<close> with its tokens, the owner of
    \<open>bootstrap/util/configowner.go\<close> and the inputs for Ignition, as actions over the state \<open>bst\<close> (the trace
    of calls and the configuration in memory) in an environment \<open>benv\<close>.
  \<^item> \<open>BootstrapPasses\<close>: what a run of that controller does. The locale \<open>bootstrap_steps\<close> has rules for
    relations between states that every step keeps; its four interpretations give that no step locks, that
    no step patches, what backs a configuration that is ready, and that configurations stay well formed.

  \<^bold>\<open>Control plane provider.\<close>
  \<^item> \<open>ControlPlaneApi\<close>, \<open>ControlPlane\<close>: the types of \<open>controlplane/ocne/api/v1alpha1\<close>, and the view of a
    control plane in \<open>controlplane/ocne/internal\<close> with the filters that decide what needs a rollout.
  \<^item> \<open>Webhook\<close>: defaults and validation in \<open>ocne_control_plane_webhook.go\<close>, the template and the scale
    subresource. An update is judged by the paths of a JSON merge patch; the merge by its standard is the
    specification of the library that makes the patch.
  \<^item> \<open>Effects\<close>: actions of the state monad with a trace of calls, weakest preconditions, and the locale
    \<open>chained\<close> with rules for relations between states that all steps keep.
  \<^item> \<open>Etcd\<close>: members, leadership and their reconciliation (\<open>workload_cluster_etcd.go\<close>, \<open>etcd\<close>).
  \<^item> \<open>Health\<close>: the conditions of machines and of the control plane from nodes, static pods and etcd members
    (\<open>workload_cluster_conditions.go\<close>) and the status of the cluster, over the state \<open>hst\<close> (the calls to
    the API server and to etcd, and the control plane). The locale \<open>evidence_laws\<close> has the rules for
    conditions that are set only on evidence; pods and etcd members are its interpretations.
  \<^item> \<open>Controller\<close>, \<open>Scale\<close>, \<open>Remediation\<close>, \<open>Ownership\<close>, \<open>Reconcile\<close>: the files \<open>helpers.go\<close>,
    \<open>scale.go\<close> and \<open>upgrade.go\<close>, \<open>remediation.go\<close>, and \<open>controller.go\<close> and \<open>status.go\<close> of
    \<open>controlplane/ocne/internal/controllers\<close>, over the state \<open>kst\<close> (trace, object, machines,
    configurations).
  \<^item> \<open>Passes\<close>: what a whole reconciliation does. Its predicate \<open>within\<close> counts the calls of a kind that an
    action makes.

  \<^bold>\<open>What is shown.\<close> For the controllers, the order and the guards of what they do: scaling down
  (\<open>scaleDownControlPlane_ordered\<close>), remediation with a healthy majority, rollouts within the surge,
  deletion after the workers, the guards and the single change of machines of a run, creation of the
  three objects of a machine with cleanup and without a lost error, and when a created machine needs a rollout. For the bootstrap
  controller, that it makes the data of the first machine under the lock, patches once and reports only
  data that is stored, completes discovery, and keeps configurations well formed. For the webhooks, that
  an accepted update keeps what is not allowed to change and skips no minor version, that an accepted object can be
  rolled out, and when validation panics. For the lock, mutual exclusion
  until the cluster is initialized, recovery, and the races after a machine is deleted and with a machine that joins. For the health of
  a control plane, that conditions become true only on evidence, that a machine without its node is
  reported, and what the aggregation takes into account. For the libraries, the laws of
  conditions and patches, round trips of versions and names, the choice of failure domains and machines,
  certificates that are generated once, and user data that no content can break out of.

  \<^bold>\<open>Bounds and fuel.\<close> There is no fuel: loops are recursions over lists, and a reconciliation is a finite
  action. A reconciliation is modelled as one run; that it comes back is
  \<open>run_reconcile_comes_back\<close>. Calls to the lock are interleaved without a bound on their number.

  \<^bold>\<open>Not modelled.\<close> Generated deep copies and conversions (the model has values); the kubeadm types of
  older versions and the text of marshalled configurations (parameters); the template of the Container
  Linux Config for Ignition and its translation by a library (a parameter); the updates of config maps, kube-proxy,
  CoreDNS and roles in the workload cluster, the patch helper, kubeconfig and key generation, helm and client construction, and
  the proxy connection to etcd (each is one call of an environment); the JSON encoding of objects (a
  parameter); topology code and runtime extensions of Cluster API that the provider does not register; event filters, logging, metrics, flags and main functions; and
  test support. Texts of formatted errors are abbreviated to their fixed part, and the order of iteration
  over a Go map is the order of its list, except where a statement quantifies over it.
\<close>

end
